(* ===== verification/Intenter_Prelude.thy ===== *)
theory Intenter_Prelude
  imports Main "HOL-Library.List_Lexorder" "HOL-Library.Char_ord" "HOL-Library.Sublist"
    "HOL-Library.Multiset"
begin

text \<open>
  Shared vocabulary of the development: the Go types that every component uses, the functions of
  Go's \<open>strings\<close>, \<open>strconv\<close> and \<open>sort\<close> packages the program calls, and the generic lemmas on keyed
  deduplication and sorting.

  A Go string is a sequence of bytes and is modelled by \<open>string\<close>; \<open><\<close> on strings is Go's bytewise
  order (\<open>List_Lexorder\<close> over \<open>Char_ord\<close>). Case folding and white space follow the ASCII part of the
  Unicode tables, which is what the program's own literals use. A \<open>time.Time\<close> is a number of
  nanoseconds whose zero is Go's zero time, an \<open>int\<close> of the source that never comes near its bounds
  (versions, row ids, counters) is \<open>int\<close>.
\<close>

type_synonym go_time = int

named_theorems go_defs "definitions of the Go library functions"
named_theorems dedupe_simps "laws of keyed deduplication"

section \<open>Package strings\<close>

definition HasPrefix :: "string \<Rightarrow> string \<Rightarrow> bool" where
  "HasPrefix s p = prefix p s"

definition HasSuffix :: "string \<Rightarrow> string \<Rightarrow> bool" where
  "HasSuffix s p = suffix p s"

fun strings_Cut :: "string \<Rightarrow> string \<Rightarrow> (string \<times> string) option" where
  "strings_Cut [] sep = (if sep = [] then Some ([], []) else None)"
| "strings_Cut (c # cs) sep =
     (if prefix sep (c # cs) then Some ([], drop (length sep) (c # cs))
      else map_option (\<lambda>(a, b). (c # a, b)) (strings_Cut cs sep))"

definition strings_Contains :: "string \<Rightarrow> string \<Rightarrow> bool" where
  "strings_Contains s sub = (strings_Cut s sub \<noteq> None)"

lemma strings_Cut_Some:
  "strings_Cut s sep = Some (a, b) \<Longrightarrow> s = a @ sep @ b"
proof (induction s arbitrary: a)
  case Nil
  then show ?case by (simp split: if_splits)
next
  case (Cons c cs)
  then show ?case
    by (auto simp: prefix_def split: if_splits)
qed

function strings_Split :: "string \<Rightarrow> string \<Rightarrow> string list" where
  "strings_Split s sep =
     (if sep = [] then map (\<lambda>c. [c]) s
      else case strings_Cut s sep of
             None \<Rightarrow> [s]
           | Some (a, b) \<Rightarrow> a # strings_Split b sep)"
  by pat_completeness auto
termination
  by (relation "measure (\<lambda>(s, sep). length s)") (auto dest!: strings_Cut_Some)

declare strings_Split.simps [simp del]

fun strings_Join :: "string list \<Rightarrow> string \<Rightarrow> string" where
  "strings_Join [] sep = []"
| "strings_Join [x] sep = x"
| "strings_Join (x # y # ys) sep = x @ sep @ strings_Join (y # ys) sep"

definition is_space :: "char \<Rightarrow> bool" where
  "is_space c = (c \<in> {CHR '' '', CHR 0x09, CHR 0x0A, CHR 0x0B, CHR 0x0C, CHR 0x0D})"

definition TrimLeft_by :: "(char \<Rightarrow> bool) \<Rightarrow> string \<Rightarrow> string" where
  "TrimLeft_by p s = dropWhile p s"

definition TrimRight_by :: "(char \<Rightarrow> bool) \<Rightarrow> string \<Rightarrow> string" where
  "TrimRight_by p s = rev (dropWhile p (rev s))"

definition TrimSpace :: "string \<Rightarrow> string" where
  "TrimSpace s = TrimRight_by is_space (TrimLeft_by is_space s)"

definition TrimPrefix :: "string \<Rightarrow> string \<Rightarrow> string" where
  "TrimPrefix s p = (if HasPrefix s p then drop (length p) s else s)"

definition TrimSuffix :: "string \<Rightarrow> string \<Rightarrow> string" where
  "TrimSuffix s p = (if HasSuffix s p then take (length s - length p) s else s)"

definition CutSuffix :: "string \<Rightarrow> string \<Rightarrow> string option" where
  "CutSuffix s p = (if HasSuffix s p then Some (take (length s - length p) s) else None)"

definition lower_char :: "char \<Rightarrow> char" where
  "lower_char c = (if CHR ''A'' \<le> c \<and> c \<le> CHR ''Z'' then char_of (of_char c + 32 :: nat) else c)"

definition upper_char :: "char \<Rightarrow> char" where
  "upper_char c = (if CHR ''a'' \<le> c \<and> c \<le> CHR ''z'' then char_of (of_char c - 32 :: nat) else c)"

definition ToLower :: "string \<Rightarrow> string" where
  "ToLower s = map lower_char s"

definition ToUpper :: "string \<Rightarrow> string" where
  "ToUpper s = map upper_char s"

definition EqualFold :: "string \<Rightarrow> string \<Rightarrow> bool" where
  "EqualFold a b = (ToLower a = ToLower b)"

definition ReplaceAll :: "string \<Rightarrow> string \<Rightarrow> string \<Rightarrow> string" where
  "ReplaceAll s old new = strings_Join (strings_Split s old) new"

definition ContainsAny :: "string \<Rightarrow> string \<Rightarrow> bool" where
  "ContainsAny s chars = (\<exists>c \<in> set s. c \<in> set chars)"

fun fields_aux :: "string \<Rightarrow> string \<Rightarrow> string list" where
  "fields_aux acc [] = (if acc = [] then [] else [rev acc])"
| "fields_aux acc (c # cs) =
     (if is_space c then (if acc = [] then fields_aux [] cs else rev acc # fields_aux [] cs)
      else fields_aux (c # acc) cs)"

definition strings_Fields :: "string \<Rightarrow> string list" where
  "strings_Fields s = fields_aux [] s"

section \<open>Package strconv\<close>

definition digit_char :: "nat \<Rightarrow> char" where
  "digit_char n = char_of (48 + n)"

fun nat_digits :: "nat \<Rightarrow> string" where
  "nat_digits n = (if n < 10 then [digit_char n] else nat_digits (n div 10) @ [digit_char (n mod 10)])"

declare nat_digits.simps [simp del]

definition Itoa :: "int \<Rightarrow> string" where
  "Itoa i = (if i < 0 then CHR ''-'' # nat_digits (nat (- i)) else nat_digits (nat i))"

definition is_digit :: "char \<Rightarrow> bool" where
  "is_digit c = (CHR ''0'' \<le> c \<and> c \<le> CHR ''9'')"

definition digit_value :: "char \<Rightarrow> nat" where
  "digit_value c = of_char c - 48"

definition digits_value :: "string \<Rightarrow> nat" where
  "digits_value s = foldl (\<lambda>n c. n * 10 + digit_value c) 0 s"

text \<open>\<open>strconv.Atoi\<close>: an optional sign and decimal digits, an error outside the 64-bit range.\<close>

definition Atoi :: "string \<Rightarrow> int option" where
  "Atoi s =
     (let neg = HasPrefix s ''-'';
          ds = (if HasPrefix s ''-'' \<or> HasPrefix s ''+'' then drop 1 s else s);
          v = (if neg then - int (digits_value ds) else int (digits_value ds))
      in if ds \<noteq> [] \<and> list_all is_digit ds \<and> - (2 ^ 63) \<le> v \<and> v < 2 ^ 63 then Some v else None)"

section \<open>Keyed deduplication and sorting\<close>

text \<open>
  The loop with a \<open>seen\<close> map that keeps the first element of every key, as \<open>Envelope\<close>,
  \<open>NetworkTargets\<close>, \<open>DisplayTargets\<close>, \<open>dedupeFindings\<close> and \<open>dedupeEffects\<close> write it.
\<close>

fun dedupe_from :: "('a \<Rightarrow> 'k) \<Rightarrow> 'k list \<Rightarrow> 'a list \<Rightarrow> 'a list" where
  "dedupe_from key seen [] = []"
| "dedupe_from key seen (x # xs) =
     (if key x \<in> set seen then dedupe_from key seen xs
      else x # dedupe_from key (key x # seen) xs)"

abbreviation dedupe_on :: "('a \<Rightarrow> 'k) \<Rightarrow> 'a list \<Rightarrow> 'a list" where
  "dedupe_on key \<equiv> dedupe_from key []"

lemma set_dedupe_from_subset: "set (dedupe_from key seen xs) \<subseteq> set xs"
  by (induction xs arbitrary: seen) auto

lemma keys_dedupe_from: "key ` set (dedupe_from key seen xs) = key ` set xs - set seen"
  by (induction xs arbitrary: seen) auto

lemma distinct_dedupe_from: "distinct (map key (dedupe_from key seen xs))"
proof (induction xs arbitrary: seen)
  case (Cons x xs)
  have "key x \<notin> key ` set (dedupe_from key (key x # seen) xs)"
    by (simp add: keys_dedupe_from)
  with Cons show ?case by simp
qed simp

lemma keys_dedupe_on [dedupe_simps]: "key ` set (dedupe_on key xs) = key ` set xs"
  by (simp add: keys_dedupe_from)

lemma dedupe_on_subset: "x \<in> set (dedupe_on key xs) \<Longrightarrow> x \<in> set xs"
  using set_dedupe_from_subset by fastforce

lemma dedupe_on_covers: "x \<in> set xs \<Longrightarrow> \<exists>y \<in> set (dedupe_on key xs). key y = key x"
  using keys_dedupe_on [of key xs] by (metis image_iff)

lemma dedupe_on_Nil_iff [simp]: "dedupe_on key xs = [] \<longleftrightarrow> xs = []"
  by (cases xs) simp_all

lemma dedupe_from_distinct:
  "distinct (map key xs) \<Longrightarrow> key ` set xs \<inter> set seen = {} \<Longrightarrow> dedupe_from key seen xs = xs"
  by (induction xs arbitrary: seen) auto

lemma dedupe_on_distinct: "distinct (map key xs) \<Longrightarrow> dedupe_on key xs = xs"
  by (simp add: dedupe_from_distinct)

lemma set_dedupe_on_inj: "inj_on key (set xs) \<Longrightarrow> set (dedupe_on key xs) = set xs"
proof (rule subset_antisym)
  assume inj: "inj_on key (set xs)"
  show "set xs \<subseteq> set (dedupe_on key xs)"
  proof
    fix x assume x: "x \<in> set xs"
    then obtain y where "y \<in> set (dedupe_on key xs)" "key y = key x"
      using dedupe_on_covers by metis
    with x inj show "x \<in> set (dedupe_on key xs)"
      by (metis dedupe_on_subset inj_onD)
  qed
qed (rule set_dedupe_from_subset)

lemma map_sort_key: "map f (sort_key f xs) = sort (map f xs)"
proof (rule properties_for_sort [symmetric])
  show "mset (map f (sort_key f xs)) = mset (map f xs)"
    by (metis mset_map mset_sort)
qed simp

lemma sort_eq_if_set_eq:
  "set xs = set ys \<Longrightarrow> distinct xs \<Longrightarrow> distinct ys \<Longrightarrow> sort xs = sort (ys :: 'a :: linorder list)"
  by (simp add: sorted_distinct_set_unique)

text \<open>
  Comparing two key lists by length and membership, as \<open>equalSets\<close> does, is set equality as soon as
  one side has no duplicates.
\<close>

lemma length_subset_set_eq:
  assumes "length xs = length ys" and "set xs \<subseteq> set ys" and "distinct xs"
  shows "set xs = set ys"
proof (rule card_subset_eq)
  have "card (set ys) \<le> length ys" by (rule card_length)
  then show "card (set xs) = card (set ys)"
    using assms by (metis List.finite_set card_mono distinct_card le_antisym)
qed (use assms in auto)

lemma map_sort_key_inj_eq:
  assumes "inj g"
  shows "map g (sort_key g xs) = map g (sort_key g ys) \<longleftrightarrow> mset xs = mset ys"
proof
  assume "map g (sort_key g xs) = map g (sort_key g ys)"
  then have "sort_key g xs = sort_key g ys" using assms by simp
  then show "mset xs = mset ys" by (metis mset_sort)
next
  assume m: "mset xs = mset ys"
  then have "mset (map g xs) = mset (map g ys)" by simp
  then show "map g (sort_key g xs) = map g (sort_key g ys)"
    unfolding map_sort_key by (intro properties_for_sort) simp_all
qed

lemma sort_key_mset_eq: "inj g \<Longrightarrow> mset xs = mset ys \<Longrightarrow> sort_key g xs = sort_key g ys"
  using map_sort_key_inj_eq [of g xs ys] by simp

lemma sort_key_idem: "sort_key f (sort_key f xs) = sort_key f xs"
  by (simp add: sort_key_id_if_sorted)

section \<open>Maps built by a loop over a slice\<close>

text \<open>A Go map filled by a loop: a later entry replaces an earlier one.\<close>

definition map_from :: "('a \<Rightarrow> 'k) \<Rightarrow> ('a \<Rightarrow> 'v) \<Rightarrow> 'a list \<Rightarrow> ('k \<rightharpoonup> 'v)" where
  "map_from key val xs = foldl (\<lambda>m x. m(key x \<mapsto> val x)) Map.empty xs"

lemma foldl_map_upd:
  "foldl (\<lambda>m x. m(key x \<mapsto> val x)) m0 xs = m0 ++ map_of (rev (map (\<lambda>x. (key x, val x)) xs))"
  by (induction xs rule: rev_induct) (auto simp: map_add_def fun_eq_iff)

lemma map_from_map_of: "map_from key val xs = map_of (rev (map (\<lambda>x. (key x, val x)) xs))"
  by (simp add: map_from_def foldl_map_upd)

lemma dom_map_from [simp]: "dom (map_from key val xs) = key ` set xs"
  by (auto simp: map_from_map_of dom_map_of_conv_image_fst image_iff)

lemma map_from_distinct:
  assumes "distinct (map key xs)" and "x \<in> set xs"
  shows "map_from key val xs (key x) = Some (val x)"
proof -
  have "distinct (map fst (rev (map (\<lambda>x. (key x, val x)) xs)))"
    using assms(1) by (simp add: rev_map [symmetric] comp_def)
  then show ?thesis
    using assms(2) by (auto simp: map_from_map_of intro!: map_of_is_SomeI)
qed

lemma map_from_SomeD: "map_from key val xs k = Some v \<Longrightarrow> \<exists>x \<in> set xs. key x = k \<and> val x = v"
  by (auto simp: map_from_map_of dest!: map_of_SomeD)

section \<open>Joined strings and decimal numbers can be read back\<close>

lemma split_at_char:
  "c \<notin> set xs \<Longrightarrow> c \<notin> set ys \<Longrightarrow> xs @ c # us = ys @ c # vs \<longleftrightarrow> xs = ys \<and> us = vs"
proof (induction xs arbitrary: ys)
  case Nil
  then show ?case by (cases ys) auto
next
  case (Cons x xs)
  then show ?case by (cases ys) auto
qed

lemma strings_Join_Cons:
  "strings_Join (x # xs) sep = (if xs = [] then x else x @ sep @ strings_Join xs sep)"
  by (cases xs) simp_all

lemma strings_Join_eq_Nil_iff:
  "\<forall>x \<in> set xs. x \<noteq> [] \<Longrightarrow> strings_Join xs sep = [] \<longleftrightarrow> xs = []"
  by (cases xs) (simp_all add: strings_Join_Cons)

lemma strings_Join_inject:
  assumes "\<forall>x \<in> set xs. x \<noteq> [] \<and> c \<notin> set x" and "\<forall>y \<in> set ys. y \<noteq> [] \<and> c \<notin> set y"
  shows "strings_Join xs [c] = strings_Join ys [c] \<longleftrightarrow> xs = ys"
  using assms
proof (induction xs arbitrary: ys)
  case Nil
  then have "strings_Join ys [c] = [] \<longleftrightarrow> ys = []" by (intro strings_Join_eq_Nil_iff) blast
  then show ?case by (simp add: eq_commute [of "[]"])
next
  case (Cons x xs)
  show ?case
  proof (cases ys)
    case Nil
    with Cons.prems show ?thesis by (simp add: strings_Join_Cons)
  next
    case (Cons y ys')
    note ys = this
    have nxy: "c \<notin> set x" "c \<notin> set y" using Cons.prems ys by auto
    have IH: "strings_Join xs [c] = strings_Join ys' [c] \<longleftrightarrow> xs = ys'"
      using Cons.IH [of ys'] Cons.prems ys by simp
    have no: "x = y @ c # zs \<longleftrightarrow> False" "y = x @ c # zs \<longleftrightarrow> False" for zs
      using nxy by auto
    show ?thesis
      using IH nxy no ys by (auto simp: strings_Join_Cons split_at_char)
  qed
qed

lemma notin_strings_Join: "c \<notin> set sep \<Longrightarrow> \<forall>x \<in> set xs. c \<notin> set x \<Longrightarrow> c \<notin> set (strings_Join xs sep)"
  by (induction xs sep rule: strings_Join.induct) auto

lemma of_char_digit_char: "n < 10 \<Longrightarrow> (of_char (digit_char n) :: nat) = 48 + n"
  by (simp add: digit_char_def)

lemma digits_value_snoc: "digits_value (s @ [c]) = digits_value s * 10 + digit_value c"
  by (simp add: digits_value_def)

lemma digits_value_nat_digits: "digits_value (nat_digits n) = n"
proof (induction n rule: nat_digits.induct)
  case (1 n)
  show ?case
  proof (cases "n < 10")
    case True
    then show ?thesis
      by (simp add: nat_digits.simps [of n] digits_value_def digit_value_def of_char_digit_char)
  next
    case False
    with 1 show ?thesis
      by (simp add: nat_digits.simps [of n] digits_value_snoc digit_value_def of_char_digit_char)
  qed
qed

lemma of_char_nat_digits: "c \<in> set (nat_digits n) \<Longrightarrow> \<exists>k < 10. of_char c = 48 + (k :: nat)"
proof (induction n rule: nat_digits.induct)
  case (1 n)
  have "\<exists>k < 10. of_char (digit_char (n mod 10)) = 48 + (k :: nat)"
    by (rule exI [of _ "n mod 10"]) (simp add: of_char_digit_char)
  with 1 show ?case
    by (auto simp: nat_digits.simps [of n] of_char_digit_char split: if_splits)
qed

lemma nat_digits_not_in: "of_char c < (48 :: nat) \<or> 58 \<le> (of_char c :: nat) \<Longrightarrow> c \<notin> set (nat_digits n)"
  using of_char_nat_digits by fastforce

lemma nat_digits_Nil [simp]: "nat_digits n \<noteq> []"
  by (subst nat_digits.simps) simp

lemma Itoa_Nil [simp]: "Itoa i \<noteq> []"
  by (simp add: Itoa_def)

lemma nat_digits_inject: "nat_digits m = nat_digits n \<longleftrightarrow> m = n"
  by (metis digits_value_nat_digits)

lemma Itoa_inject [simp]: "Itoa i = Itoa j \<longleftrightarrow> i = j"
proof -
  have m: "nat_digits k \<noteq> CHR ''-'' # ys" for k ys
  proof
    assume "nat_digits k = CHR ''-'' # ys"
    then have "CHR ''-'' \<in> set (nat_digits k)" by simp
    then show False by (simp add: nat_digits_not_in)
  qed
  show ?thesis
    by (auto simp: Itoa_def nat_digits_inject m m [symmetric] eq_commute [of "CHR ''-'' # _"] nat_eq_iff)
qed

lemma Itoa_not_in: "of_char c < (45 :: nat) \<or> 58 \<le> (of_char c :: nat) \<Longrightarrow> c \<notin> set (Itoa i)"
  using nat_digits_not_in [of c] by (auto simp: Itoa_def)

end
