(* ===== verification/Action_Enums.thy ===== *)
theory Action_Enums
  imports Intenter_Prelude
begin

text \<open>
  The enumerations of \<^verbatim>\<open>internal/action/enums.go\<close> (and the approval event types of
  \<^verbatim>\<open>approval.go\<close>): one datatype per Go string type, one constructor per constant, and the function
  that gives the constant's text. A type whose zero value \<open>""\<close> occurs in the program has a
  constructor for it (\<open>ScopeNone\<close>, \<open>StatusUnset\<close>, \<open>DialectNone\<close>). Each text function is injective, so
  comparing the constants of Go and the constructors here is the same thing.
\<close>

section \<open>String enumerations\<close>

datatype scope =
  ScopeNone | ScopeSystem | ScopeWorkspaceGenerated | ScopeWorkspace | ScopeHome
  | ScopeOutsideWorkspace

primrec scope_str :: "scope \<Rightarrow> string" where
  "scope_str ScopeNone = []"
| "scope_str ScopeSystem = ''SYSTEM''"
| "scope_str ScopeWorkspaceGenerated = ''WORKSPACE_GENERATED''"
| "scope_str ScopeWorkspace = ''WORKSPACE''"
| "scope_str ScopeHome = ''HOME''"
| "scope_str ScopeOutsideWorkspace = ''OUTSIDE_WORKSPACE''"

lemma scope_str_inject [simp]: "scope_str x = scope_str y \<longleftrightarrow> x = y"
  by (cases x; cases y) simp_all

datatype effect_type =
  EffectRead | EffectWrite | EffectCreate | EffectDelete | EffectExecute | EffectNetwork

primrec effect_type_str :: "effect_type \<Rightarrow> string" where
  "effect_type_str EffectRead = ''READ''"
| "effect_type_str EffectWrite = ''WRITE''"
| "effect_type_str EffectCreate = ''CREATE''"
| "effect_type_str EffectDelete = ''DELETE''"
| "effect_type_str EffectExecute = ''EXECUTE''"
| "effect_type_str EffectNetwork = ''NETWORK''"

lemma effect_type_str_inject [simp]: "effect_type_str x = effect_type_str y \<longleftrightarrow> x = y"
  by (cases x; cases y) simp_all

datatype semantic_op =
  OpFSRead | OpFSCreate | OpFSCopy | OpFSMove | OpFSDelete | OpGitStatus | OpGitDiff | OpGitLog
  | OpGitShow | OpGitBranch | OpGitRevParse | OpGitAdd | OpGitCommit | OpGitCheckout
  | OpGitReset | OpGitPush | OpRunScript | OpRunTests | OpBuild | OpClean | OpBuildToolInfo
  | OpInstallDependencies | OpHTTPRequest | OpShellNavigate | OpNoop | OpUnknown

primrec semantic_op_str :: "semantic_op \<Rightarrow> string" where
  "semantic_op_str OpFSRead = ''FS_READ''"
| "semantic_op_str OpFSCreate = ''FS_CREATE''"
| "semantic_op_str OpFSCopy = ''FS_COPY''"
| "semantic_op_str OpFSMove = ''FS_MOVE''"
| "semantic_op_str OpFSDelete = ''FS_DELETE''"
| "semantic_op_str OpGitStatus = ''GIT_STATUS''"
| "semantic_op_str OpGitDiff = ''GIT_DIFF''"
| "semantic_op_str OpGitLog = ''GIT_LOG''"
| "semantic_op_str OpGitShow = ''GIT_SHOW''"
| "semantic_op_str OpGitBranch = ''GIT_BRANCH''"
| "semantic_op_str OpGitRevParse = ''GIT_REV_PARSE''"
| "semantic_op_str OpGitAdd = ''GIT_ADD''"
| "semantic_op_str OpGitCommit = ''GIT_COMMIT''"
| "semantic_op_str OpGitCheckout = ''GIT_CHECKOUT''"
| "semantic_op_str OpGitReset = ''GIT_RESET''"
| "semantic_op_str OpGitPush = ''GIT_PUSH''"
| "semantic_op_str OpRunScript = ''RUN_SCRIPT''"
| "semantic_op_str OpRunTests = ''RUN_TESTS''"
| "semantic_op_str OpBuild = ''BUILD''"
| "semantic_op_str OpClean = ''CLEAN''"
| "semantic_op_str OpBuildToolInfo = ''BUILD_TOOL_INFO''"
| "semantic_op_str OpInstallDependencies = ''INSTALL_DEPENDENCIES''"
| "semantic_op_str OpHTTPRequest = ''HTTP_REQUEST''"
| "semantic_op_str OpShellNavigate = ''SHELL_NAVIGATE''"
| "semantic_op_str OpNoop = ''NOOP''"
| "semantic_op_str OpUnknown = ''UNKNOWN''"

lemma semantic_op_str_inject [simp]: "semantic_op_str x = semantic_op_str y \<longleftrightarrow> x = y"
  by (cases x; cases y) simp_all

datatype resolution_status =
  StatusUnset | StatusResolved | StatusDeclared | StatusUnresolved | StatusParseFailed
  | StatusContextFailed

primrec resolution_status_str :: "resolution_status \<Rightarrow> string" where
  "resolution_status_str StatusUnset = []"
| "resolution_status_str StatusResolved = ''RESOLVED''"
| "resolution_status_str StatusDeclared = ''DECLARED''"
| "resolution_status_str StatusUnresolved = ''UNRESOLVED''"
| "resolution_status_str StatusParseFailed = ''PARSE_FAILED''"
| "resolution_status_str StatusContextFailed = ''CONTEXT_FAILED''"

lemma resolution_status_str_inject [simp]: "resolution_status_str x = resolution_status_str y \<longleftrightarrow> x = y"
  by (cases x; cases y) simp_all

datatype target_status =
  TargetResolved | TargetAmbiguous

primrec target_status_str :: "target_status \<Rightarrow> string" where
  "target_status_str TargetResolved = ''RESOLVED''"
| "target_status_str TargetAmbiguous = ''AMBIGUOUS''"

lemma target_status_str_inject [simp]: "target_status_str x = target_status_str y \<longleftrightarrow> x = y"
  by (cases x; cases y) simp_all

datatype decision_outcome =
  OutcomeAllow | OutcomeAsk | OutcomeBlock

primrec decision_outcome_str :: "decision_outcome \<Rightarrow> string" where
  "decision_outcome_str OutcomeAllow = ''ALLOW''"
| "decision_outcome_str OutcomeAsk = ''ASK''"
| "decision_outcome_str OutcomeBlock = ''BLOCK''"

lemma decision_outcome_str_inject [simp]: "decision_outcome_str x = decision_outcome_str y \<longleftrightarrow> x = y"
  by (cases x; cases y) simp_all

datatype approval_kind =
  ApprovalExact | ApprovalSemantic

primrec approval_kind_str :: "approval_kind \<Rightarrow> string" where
  "approval_kind_str ApprovalExact = ''EXACT''"
| "approval_kind_str ApprovalSemantic = ''SEMANTIC''"

lemma approval_kind_str_inject [simp]: "approval_kind_str x = approval_kind_str y \<longleftrightarrow> x = y"
  by (cases x; cases y) simp_all

datatype approval_state =
  ApprovalActive | ApprovalDisabled | ApprovalRevoked

primrec approval_state_str :: "approval_state \<Rightarrow> string" where
  "approval_state_str ApprovalActive = ''ACTIVE''"
| "approval_state_str ApprovalDisabled = ''DISABLED''"
| "approval_state_str ApprovalRevoked = ''REVOKED''"

lemma approval_state_str_inject [simp]: "approval_state_str x = approval_state_str y \<longleftrightarrow> x = y"
  by (cases x; cases y) simp_all

datatype approval_origin =
  OriginClaudePrompt | OriginClaudeRule | OriginCLI

primrec approval_origin_str :: "approval_origin \<Rightarrow> string" where
  "approval_origin_str OriginClaudePrompt = ''claude_prompt''"
| "approval_origin_str OriginClaudeRule = ''claude_rule''"
| "approval_origin_str OriginCLI = ''cli''"

lemma approval_origin_str_inject [simp]: "approval_origin_str x = approval_origin_str y \<longleftrightarrow> x = y"
  by (cases x; cases y) simp_all

datatype target_flag =
  FlagWildcard | FlagBroad | FlagTraversal | FlagSymlinkEscape | FlagSensitive | FlagToolCache
  | FlagNetworkPath | FlagTemp

primrec target_flag_str :: "target_flag \<Rightarrow> string" where
  "target_flag_str FlagWildcard = ''wildcard''"
| "target_flag_str FlagBroad = ''broad''"
| "target_flag_str FlagTraversal = ''traversal''"
| "target_flag_str FlagSymlinkEscape = ''symlink_escape''"
| "target_flag_str FlagSensitive = ''sensitive''"
| "target_flag_str FlagToolCache = ''tool_cache''"
| "target_flag_str FlagNetworkPath = ''network_path''"
| "target_flag_str FlagTemp = ''temp''"

lemma target_flag_str_inject [simp]: "target_flag_str x = target_flag_str y \<longleftrightarrow> x = y"
  by (cases x; cases y) simp_all

datatype effect_flag =
  EffectFlagRecursive | EffectFlagForce | EffectFlagWildcard | EffectFlagDiscardsChanges
  | EffectFlagElevated | EffectFlagInlineCredential | EffectFlagInsecureTLS | EffectFlagDelete
  | EffectFlagBroad

primrec effect_flag_str :: "effect_flag \<Rightarrow> string" where
  "effect_flag_str EffectFlagRecursive = ''recursive''"
| "effect_flag_str EffectFlagForce = ''force''"
| "effect_flag_str EffectFlagWildcard = ''wildcard''"
| "effect_flag_str EffectFlagDiscardsChanges = ''discards_changes''"
| "effect_flag_str EffectFlagElevated = ''elevated''"
| "effect_flag_str EffectFlagInlineCredential = ''inline_credential''"
| "effect_flag_str EffectFlagInsecureTLS = ''insecure_tls''"
| "effect_flag_str EffectFlagDelete = ''delete''"
| "effect_flag_str EffectFlagBroad = ''broad''"

lemma effect_flag_str_inject [simp]: "effect_flag_str x = effect_flag_str y \<longleftrightarrow> x = y"
  by (cases x; cases y) simp_all

datatype program_resolution =
  ProgramDeclared | ProgramUnresolved

primrec program_resolution_str :: "program_resolution \<Rightarrow> string" where
  "program_resolution_str ProgramDeclared = ''DECLARED''"
| "program_resolution_str ProgramUnresolved = ''UNRESOLVED''"

lemma program_resolution_str_inject [simp]: "program_resolution_str x = program_resolution_str y \<longleftrightarrow> x = y"
  by (cases x; cases y) simp_all

datatype dialect =
  DialectNone | DialectPosix | DialectPowerShell | DialectCmd

primrec dialect_str :: "dialect \<Rightarrow> string" where
  "dialect_str DialectNone = []"
| "dialect_str DialectPosix = ''posix''"
| "dialect_str DialectPowerShell = ''powershell''"
| "dialect_str DialectCmd = ''cmd''"

lemma dialect_str_inject [simp]: "dialect_str x = dialect_str y \<longleftrightarrow> x = y"
  by (cases x; cases y) simp_all

datatype context_status =
  ContextOK | ContextWorkspaceUndefined | ContextError

primrec context_status_str :: "context_status \<Rightarrow> string" where
  "context_status_str ContextOK = ''OK''"
| "context_status_str ContextWorkspaceUndefined = ''WORKSPACE_UNDEFINED''"
| "context_status_str ContextError = ''ERROR''"

datatype package_manager_kind =
  PMNpm | PMPnpm | PMYarnClassic | PMYarnBerry | PMUnknown

lemma context_status_str_inject [simp]: "context_status_str x = context_status_str y \<longleftrightarrow> x = y"
  by (cases x; cases y) simp_all

datatype adapter_action =
  AdapterAllow | AdapterDeny | AdapterPrompt | AdapterDefer

primrec adapter_action_str :: "adapter_action \<Rightarrow> string" where
  "adapter_action_str AdapterAllow = ''allow''"
| "adapter_action_str AdapterDeny = ''deny''"
| "adapter_action_str AdapterPrompt = ''prompt''"
| "adapter_action_str AdapterDefer = ''defer''"

lemma adapter_action_str_inject [simp]: "adapter_action_str x = adapter_action_str y \<longleftrightarrow> x = y"
  by (cases x; cases y) simp_all

datatype execution_status =
  ExecutionCompleted | ExecutionFailed | ExecutionUnknown

primrec execution_status_str :: "execution_status \<Rightarrow> string" where
  "execution_status_str ExecutionCompleted = ''completed''"
| "execution_status_str ExecutionFailed = ''failed''"
| "execution_status_str ExecutionUnknown = ''unknown''"

lemma execution_status_str_inject [simp]: "execution_status_str x = execution_status_str y \<longleftrightarrow> x = y"
  by (cases x; cases y) simp_all

datatype approval_event_type =
  ApprovalEventCreated | ApprovalEventMatched | ApprovalEventNotMatched | ApprovalEventDisabled
  | ApprovalEventEnabled | ApprovalEventRevoked

primrec approval_event_type_str :: "approval_event_type \<Rightarrow> string" where
  "approval_event_type_str ApprovalEventCreated = ''created''"
| "approval_event_type_str ApprovalEventMatched = ''matched''"
| "approval_event_type_str ApprovalEventNotMatched = ''not_matched''"
| "approval_event_type_str ApprovalEventDisabled = ''disabled''"
| "approval_event_type_str ApprovalEventEnabled = ''enabled''"
| "approval_event_type_str ApprovalEventRevoked = ''revoked''"

lemma approval_event_type_str_inject [simp]: "approval_event_type_str x = approval_event_type_str y \<longleftrightarrow> x = y"
  by (cases x; cases y) simp_all

section \<open>Resolution statuses\<close>

primrec statusRank :: "resolution_status \<Rightarrow> nat" where
  "statusRank StatusUnset = 0"
| "statusRank StatusResolved = 0"
| "statusRank StatusDeclared = 1"
| "statusRank StatusUnresolved = 2"
| "statusRank StatusParseFailed = 3"
| "statusRank StatusContextFailed = 3"

definition WeakerStatus :: "resolution_status \<Rightarrow> resolution_status \<Rightarrow> resolution_status" where
  "WeakerStatus a b = (if statusRank b > statusRank a then b else a)"

definition Approvable :: "resolution_status \<Rightarrow> bool" where
  "Approvable s = (s = StatusResolved \<or> s = StatusDeclared)"

lemma Approvable_simps [simp]:
  "Approvable StatusResolved" "Approvable StatusDeclared" "\<not> Approvable StatusUnresolved"
  "\<not> Approvable StatusParseFailed" "\<not> Approvable StatusContextFailed" "\<not> Approvable StatusUnset"
  by (simp_all add: Approvable_def)

lemma statusRank_WeakerStatus [simp]:
  "statusRank (WeakerStatus a b) = max (statusRank a) (statusRank b)"
  by (auto simp: WeakerStatus_def)

lemma WeakerStatus_assoc: "WeakerStatus (WeakerStatus a b) c = WeakerStatus a (WeakerStatus b c)"
  by (auto simp: WeakerStatus_def)

lemma Approvable_WeakerStatus:
  "a \<noteq> StatusUnset \<Longrightarrow> b \<noteq> StatusUnset \<Longrightarrow>
   Approvable (WeakerStatus a b) \<longleftrightarrow> Approvable a \<and> Approvable b"
  by (cases a; cases b) (simp_all add: WeakerStatus_def Approvable_def)

lemma WeakerStatus_unset_iff:
  "b \<noteq> StatusUnset \<Longrightarrow> a \<noteq> StatusUnset \<Longrightarrow> WeakerStatus a b \<noteq> StatusUnset"
  by (simp add: WeakerStatus_def)

section \<open>Outcomes, classes and adapter actions\<close>

definition Wire :: "decision_outcome \<Rightarrow> string" where
  "Wire o' = ToLower (decision_outcome_str o')"

definition ParseOutcome :: "string \<Rightarrow> decision_outcome option" where
  "ParseOutcome s =
     (let t = ToUpper (TrimSpace s) in
      if t = decision_outcome_str OutcomeAllow then Some OutcomeAllow
      else if t = decision_outcome_str OutcomeAsk then Some OutcomeAsk
      else if t = decision_outcome_str OutcomeBlock then Some OutcomeBlock
      else None)"

datatype decision_class =
    ClassPolicyReadonlyWorkspace | ClassApprovalMatch | ClassRuleImport
  | ClassNoMatchingApproval | ClassApprovalMismatch | ClassPolicyRequiresConfirmation
  | ClassUnresolvedCommand | ClassUnsupportedSyntax | ClassAmbiguousPath
  | ClassContextUnavailable | ClassAgentRuleConflict | ClassEngineError
  | HardRuleClass string

primrec decision_class_str :: "decision_class \<Rightarrow> string" where
  "decision_class_str ClassPolicyReadonlyWorkspace = ''POLICY_READONLY_WORKSPACE''"
| "decision_class_str ClassApprovalMatch = ''APPROVAL_MATCH''"
| "decision_class_str ClassRuleImport = ''RULE_IMPORT''"
| "decision_class_str ClassNoMatchingApproval = ''NO_MATCHING_APPROVAL''"
| "decision_class_str ClassApprovalMismatch = ''APPROVAL_MISMATCH''"
| "decision_class_str ClassPolicyRequiresConfirmation = ''POLICY_REQUIRES_CONFIRMATION''"
| "decision_class_str ClassUnresolvedCommand = ''UNRESOLVED_COMMAND''"
| "decision_class_str ClassUnsupportedSyntax = ''UNSUPPORTED_SYNTAX''"
| "decision_class_str ClassAmbiguousPath = ''AMBIGUOUS_PATH''"
| "decision_class_str ClassContextUnavailable = ''CONTEXT_UNAVAILABLE''"
| "decision_class_str ClassAgentRuleConflict = ''AGENT_RULE_CONFLICT''"
| "decision_class_str ClassEngineError = ''ENGINE_ERROR''"
| "decision_class_str (HardRuleClass ruleID) = ''HARD_RULE_'' @ ruleID"

definition ParseAdapterAction :: "string \<Rightarrow> adapter_action option" where
  "ParseAdapterAction s =
     (let t = ToLower (TrimSpace s) in
      if t = adapter_action_str AdapterAllow then Some AdapterAllow
      else if t = adapter_action_str AdapterDeny then Some AdapterDeny
      else if t = adapter_action_str AdapterPrompt then Some AdapterPrompt
      else if t = adapter_action_str AdapterDefer then Some AdapterDefer
      else None)"

lemma ParseOutcome_Wire: "ParseOutcome (Wire o') = Some o'"
  by (cases o'; hypsubst; code_simp)

lemma ParseAdapterAction_str: "ParseAdapterAction (adapter_action_str a) = Some a"
  by (cases a; hypsubst; code_simp)

end
