(* ===== verification/Action_Model.thy ===== *)
theory Action_Model
  imports Action_Enums
begin

text \<open>
  The data model of \<^verbatim>\<open>internal/action\<close>: targets, effects and their approval envelope
  (\<^verbatim>\<open>target.go\<close>, \<^verbatim>\<open>effect.go\<close>), resolved commands and actions (\<^verbatim>\<open>resolved.go\<close>), approvals
  (\<^verbatim>\<open>approval.go\<close>), the request, context and decision records. The lemmas show that the comparison
  key of an envelope entry identifies the entry, that projections to envelopes and network targets
  are sorted and duplicate free, and that merging fingerprints keeps one sorted entry per key.
\<close>

section \<open>Targets\<close>

record target =
  t_raw :: string
  t_canonical :: string
  t_display :: string
  t_scope :: scope
  t_exists :: bool
  t_is_dir :: bool
  t_is_symlink :: bool
  t_flags :: "target_flag list"
  t_status :: target_status

definition target_HasFlag :: "target \<Rightarrow> target_flag \<Rightarrow> bool" where
  "target_HasFlag t f = (f \<in> set (t_flags t))"

definition target_HasAnyFlag :: "target \<Rightarrow> target_flag list \<Rightarrow> bool" where
  "target_HasAnyFlag t fs = (\<exists>f \<in> set fs. target_HasFlag t f)"

fun append_missing :: "'a list \<Rightarrow> 'a list \<Rightarrow> 'a list" where
  "append_missing old [] = old"
| "append_missing old (f # fs) =
     append_missing (if f \<in> set old then old else old @ [f]) fs"

definition target_AddFlags :: "target \<Rightarrow> target_flag list \<Rightarrow> target" where
  "target_AddFlags t fs = t\<lparr>t_flags := sort_key target_flag_str (append_missing (t_flags t) fs)\<rparr>"

definition Ambiguous :: "target \<Rightarrow> bool" where
  "Ambiguous t = (t_status t = TargetAmbiguous)"

text \<open>\<open>Ambiguous\<close> on a nil target pointer answers false.\<close>

definition target_Ambiguous :: "target option \<Rightarrow> bool" where
  "target_Ambiguous t = (case t of None \<Rightarrow> False | Some t' \<Rightarrow> Ambiguous t')"

lemma set_append_missing [simp]: "set (append_missing old fs) = set old \<union> set fs"
  by (induction fs arbitrary: old) auto

lemma distinct_append_missing: "distinct old \<Longrightarrow> distinct (append_missing old fs)"
  by (induction fs arbitrary: old) auto

lemma target_AddFlags_flags [simp]:
  "set (t_flags (target_AddFlags t fs)) = set (t_flags t) \<union> set fs"
  by (simp add: target_AddFlags_def)

lemma target_AddFlags_frame [simp]:
  "t_raw (target_AddFlags t fs) = t_raw t" "t_canonical (target_AddFlags t fs) = t_canonical t"
  "t_display (target_AddFlags t fs) = t_display t" "t_scope (target_AddFlags t fs) = t_scope t"
  "t_exists (target_AddFlags t fs) = t_exists t" "t_is_dir (target_AddFlags t fs) = t_is_dir t"
  "t_is_symlink (target_AddFlags t fs) = t_is_symlink t" "t_status (target_AddFlags t fs) = t_status t"
  by (simp_all add: target_AddFlags_def)

lemma target_HasFlag_AddFlags [simp]:
  "target_HasFlag (target_AddFlags t fs) f \<longleftrightarrow> target_HasFlag t f \<or> f \<in> set fs"
  by (auto simp: target_HasFlag_def)

section \<open>Effects\<close>

record network_target =
  n_host :: string
  n_port :: int
  n_scheme :: string
  n_method :: string
  n_declared_kind :: string

record program_ref =
  p_name :: string
  p_resolution :: program_resolution
  p_elevated :: bool
  p_streamed :: bool

record effect =
  e_type :: effect_type
  e_target :: "target option"
  e_network :: "network_target option"
  e_program :: "program_ref option"
  e_flags :: "effect_flag list"

definition portString :: "int \<Rightarrow> string" where
  "portString port = (if port = 0 then [] else Itoa port)"

definition NetworkTarget_Key :: "network_target \<Rightarrow> string" where
  "NetworkTarget_Key n =
     (if n_declared_kind n \<noteq> [] \<and> n_host n = [] then ''declared:'' @ n_declared_kind n
      else strings_Join [n_scheme n, n_host n, portString (n_port n), n_method n, n_declared_kind n] ''|'')"

definition NetworkTarget_String :: "network_target \<Rightarrow> string" where
  "NetworkTarget_String n =
     (if n_host n = [] then ''declared:'' @ n_declared_kind n
      else let out = n_host n;
               out = (if n_scheme n \<noteq> [] then n_scheme n @ ''://'' @ out else out);
               out = (if n_port n \<noteq> 0 then out @ '':'' @ portString (n_port n) else out)
           in if n_method n \<noteq> [] then n_method n @ '' '' @ out else out)"

definition effect_HasFlag :: "effect \<Rightarrow> effect_flag \<Rightarrow> bool" where
  "effect_HasFlag e f = (f \<in> set (e_flags e))"

definition effect_HasAnyFlag :: "effect \<Rightarrow> effect_flag list \<Rightarrow> bool" where
  "effect_HasAnyFlag e fs = (\<exists>f \<in> set fs. effect_HasFlag e f)"

definition effect_AddFlags :: "effect \<Rightarrow> effect_flag list \<Rightarrow> effect" where
  "effect_AddFlags e fs = e\<lparr>e_flags := sort_key effect_flag_str (append_missing (e_flags e) fs)\<rparr>"

lemma effect_AddFlags_flags [simp]:
  "set (e_flags (effect_AddFlags e fs)) = set (e_flags e) \<union> set fs"
  by (simp add: effect_AddFlags_def)

lemma effect_AddFlags_frame [simp]:
  "e_type (effect_AddFlags e fs) = e_type e" "e_target (effect_AddFlags e fs) = e_target e"
  "e_network (effect_AddFlags e fs) = e_network e" "e_program (effect_AddFlags e fs) = e_program e"
  by (simp_all add: effect_AddFlags_def)

section \<open>The approval envelope\<close>

record envelope_entry =
  ee_type :: effect_type
  ee_scope :: scope
  ee_flags :: "effect_flag list"
  ee_target_flags :: "target_flag list"
  ee_program :: "program_resolution option"

definition EnvelopeEntry_Key :: "envelope_entry \<Rightarrow> string" where
  "EnvelopeEntry_Key e =
     (let parts = map effect_flag_str (sort_key effect_flag_str (ee_flags e));
          targetParts = map target_flag_str (sort_key target_flag_str (ee_target_flags e));
          key = effect_type_str (ee_type e) @ ''/'' @ scope_str (ee_scope e);
          key = (case ee_program e of None \<Rightarrow> key | Some p \<Rightarrow> key @ ''/'' @ program_resolution_str p)
      in key @ ''{'' @ strings_Join parts '','' @ ''}['' @ strings_Join targetParts '','' @ '']'')"

definition EnvelopeEntry_String :: "envelope_entry \<Rightarrow> string" where
  "EnvelopeEntry_String e =
     (let out = effect_type_str (ee_type e);
          out = (if ee_flags e \<noteq> []
                 then out @ ''('' @ strings_Join (sort (map effect_flag_str (ee_flags e))) '','' @ '')''
                 else out);
          out = (case ee_program e of None \<Rightarrow> out
                 | Some p \<Rightarrow> out @ ''['' @ program_resolution_str p @ '']'')
      in if ee_scope e \<noteq> ScopeNone then out @ '' '' @ scope_str (ee_scope e) else out)"

definition effect_EnvelopeEntry :: "effect \<Rightarrow> envelope_entry" where
  "effect_EnvelopeEntry e =
     \<lparr>ee_type = e_type e,
      ee_scope = (case e_target e of None \<Rightarrow> ScopeNone | Some t \<Rightarrow> t_scope t),
      ee_flags = sort_key effect_flag_str (e_flags e),
      ee_target_flags = sort_key target_flag_str
        (case e_target e of None \<Rightarrow> [] | Some t \<Rightarrow> t_flags t),
      ee_program = map_option p_resolution (e_program e)\<rparr>"

definition Envelope :: "effect list \<Rightarrow> envelope_entry list" where
  "Envelope effects =
     sort_key EnvelopeEntry_Key (dedupe_on EnvelopeEntry_Key (map effect_EnvelopeEntry effects))"

definition NetworkTargets :: "effect list \<Rightarrow> network_target list" where
  "NetworkTargets effects =
     sort_key NetworkTarget_Key
       (dedupe_on NetworkTarget_Key (List.map_filter e_network effects))"

section \<open>Resolved commands and actions\<close>

record fingerprint =
  f_key :: string
  f_value :: string
  f_description :: string

record git_detail =
  g_remote :: string
  g_branch :: string
  g_branch_known :: bool

datatype resolved_command = ResolvedCommand
  (rc_executable: string) (rc_semantic_op: semantic_op) (rc_targets: "target list")
  (rc_effects: "effect list") (rc_status: resolution_status) (rc_status_reason: string)
  (rc_fingerprints: "fingerprint list") (rc_resolved_from: "string list")
  (rc_children: "resolved_command list") (rc_raw_text: string) (rc_git: "git_detail option")

lemma rc_children_size [termination_simp]: "x \<in> set (rc_children c) \<Longrightarrow> size x < size c"
  by (cases c) (fastforce dest: size_list_estimation' [where f = size, OF _ order_refl])

record resolved_action =
  ra_raw_command :: string
  ra_dialect :: dialect
  ra_project_id :: string
  ra_commands :: "resolved_command list"
  ra_semantic_ops :: "semantic_op list"
  ra_effects :: "effect list"
  ra_fingerprints :: "fingerprint list"
  ra_status :: resolution_status
  ra_status_reason :: string
  ra_action_key :: string
  ra_explanation :: "string list"
  ra_unsupported :: "string list"
  ra_incomplete :: bool
  ra_incomplete_reason :: string

definition MarkIncomplete :: "resolved_action \<Rightarrow> string \<Rightarrow> resolved_action" where
  "MarkIncomplete a reason =
     (if \<not> ra_incomplete a then a\<lparr>ra_incomplete_reason := reason, ra_incomplete := True\<rparr>
      else a\<lparr>ra_incomplete := True\<rparr>)"

definition Targets :: "resolved_action \<Rightarrow> target list" where
  "Targets a = concat (map rc_targets (ra_commands a))"

definition HasAmbiguousTarget :: "resolved_action \<Rightarrow> bool" where
  "HasAmbiguousTarget a =
     ((\<exists>e \<in> set (ra_effects a). target_Ambiguous (e_target e)) \<or>
      (\<exists>c \<in> set (ra_commands a).
         (\<exists>t \<in> set (rc_targets c). Ambiguous t) \<or>
         (\<exists>e \<in> set (rc_effects c). target_Ambiguous (e_target e))))"

definition DisplayTargets :: "resolved_action \<Rightarrow> string list" where
  "DisplayTargets a =
     sort (dedupe_on (\<lambda>d. d) (filter (\<lambda>d. d \<noteq> []) (map t_display (Targets a))))"

definition action_Envelope :: "resolved_action \<Rightarrow> envelope_entry list" where
  "action_Envelope a = Envelope (ra_effects a)"

definition action_Network :: "resolved_action \<Rightarrow> network_target list" where
  "action_Network a = NetworkTargets (ra_effects a)"

definition FingerprintMap :: "resolved_action \<Rightarrow> (string \<rightharpoonup> string)" where
  "FingerprintMap a = map_from f_key f_value (ra_fingerprints a)"

fun merge_missing :: "fingerprint list \<Rightarrow> fingerprint list \<Rightarrow> fingerprint list" where
  "merge_missing into [] = into"
| "merge_missing into (f # fs) =
     merge_missing (if f_key f = [] \<or> f_key f \<in> f_key ` set into then into else into @ [f]) fs"

definition MergeFingerprints :: "fingerprint list \<Rightarrow> fingerprint list \<Rightarrow> fingerprint list" where
  "MergeFingerprints into add = sort_key f_key (merge_missing into add)"

section \<open>Approvals\<close>

record approval_condition =
  c_kind :: string
  c_key :: string
  c_value :: string

definition ConditionFingerprint :: string where
  "ConditionFingerprint = ''fingerprint''"

record approval =
  a_id :: int
  a_project_id :: string
  a_kind :: approval_kind
  a_semantic_ops :: "semantic_op list"
  a_envelope :: "envelope_entry list"
  a_targets :: "string list"
  a_network :: "network_target list"
  a_conditions :: "approval_condition list"
  a_engine_version :: int
  a_origin :: approval_origin
  a_origin_ref :: string
  a_created_from_event_id :: "int option"
  a_created_from_raw_command :: string
  a_created_by_agent :: string
  a_state :: approval_state
  a_note :: string
  a_created_at :: go_time
  a_last_used_at :: "go_time option"
  a_use_count :: int
  a_disabled_at :: "go_time option"
  a_revoked_at :: "go_time option"

definition fingerprint_conditions :: "approval \<Rightarrow> approval_condition list" where
  "fingerprint_conditions a = filter (\<lambda>c. c_kind c = ConditionFingerprint) (a_conditions a)"

definition Fingerprints :: "approval \<Rightarrow> (string \<rightharpoonup> string)" where
  "Fingerprints a = map_from c_key c_value (fingerprint_conditions a)"

definition FingerprintKeys :: "approval \<Rightarrow> string list" where
  "FingerprintKeys a = sort (map c_key (fingerprint_conditions a))"

definition EnvelopeKeys :: "approval \<Rightarrow> string list" where
  "EnvelopeKeys a = sort (map EnvelopeEntry_Key (a_envelope a))"

definition NetworkKeys :: "approval \<Rightarrow> string list" where
  "NetworkKeys a = sort (map NetworkTarget_Key (a_network a))"

definition Active :: "approval \<Rightarrow> bool" where
  "Active a = (a_state a = ApprovalActive)"

definition Approval_Summary :: "approval \<Rightarrow> string" where
  "Approval_Summary a =
     (let summary = strings_Join (map EnvelopeEntry_String (a_envelope a)) '', '';
          summary = (if a_targets a \<noteq> [] then summary @ '' '' @ strings_Join (a_targets a) '' '' else summary);
          summary = foldl (\<lambda>s n. s @ '' '' @ NetworkTarget_String n) summary (a_network a)
      in TrimSpace summary)"

definition OpsString :: "approval \<Rightarrow> string" where
  "OpsString a = strings_Join (map semantic_op_str (a_semantic_ops a)) ''>''"

record approval_event =
  ae_id :: int
  ae_approval_id :: int
  ae_type :: approval_event_type
  ae_audit_event_id :: "int option"
  ae_at :: go_time

record project =
  pr_id :: string
  pr_root_path :: string
  pr_remote_url :: string
  pr_first_seen_at :: go_time
  pr_last_seen_at :: go_time

record rule_import =
  ri_id :: int
  ri_project_id :: string
  ri_agent :: string
  ri_rule_key :: string
  ri_raw_command :: string
  ri_approval_id :: int
  ri_imported_at :: go_time

section \<open>Requests, contexts and decisions\<close>

record agent_consent =
  co_kind :: string
  co_rule_keys :: "string list"
  co_exact :: bool

definition ConsentKindPersistentRule :: string where
  "ConsentKindPersistentRule = ''persistent_rule''"

definition Usable :: "agent_consent option \<Rightarrow> bool" where
  "Usable c = (case c of None \<Rightarrow> False
     | Some c' \<Rightarrow> co_kind c' = ConsentKindPersistentRule \<and> co_rule_keys c' \<noteq> [])"

definition MaxRawCommandBytes :: int where
  "MaxRawCommandBytes = 64 * 1024"

record action_request =
  rq_agent :: string
  rq_agent_version :: string
  rq_session_id :: string
  rq_tool_use_id :: string
  rq_tool :: string
  rq_dialect :: dialect
  rq_raw_command :: string
  rq_raw_command_truncated :: bool
  rq_cwd :: string
  rq_project_hint :: string
  rq_agent_consent :: "agent_consent option"
  rq_adapter_context :: "(string \<times> string) list"
  rq_received_at :: go_time

record git_info =
  gi_git_dir :: string
  gi_default_branch :: string
  gi_current_branch :: string
  gi_remotes :: "string \<rightharpoonup> string"
  gi_remote_urls :: "string \<rightharpoonup> string"
  gi_hooks_dir :: string
  gi_hooks_present :: "string list"

definition HasHook :: "git_info option \<Rightarrow> string \<Rightarrow> bool" where
  "HasHook g name = (case g of None \<Rightarrow> False | Some g' \<Rightarrow> name \<in> set (gi_hooks_present g'))"

record package_manager_info =
  pm_kind :: package_manager_kind
  pm_script_shell :: string
  pm_script_shell_source :: string
  pm_yarn_path :: string
  pm_pnpm_file :: string

definition no_package_manager :: package_manager_info where
  "no_package_manager =
     \<lparr>pm_kind = PMUnknown, pm_script_shell = [], pm_script_shell_source = [], pm_yarn_path = [], pm_pnpm_file = []\<rparr>"

record request_context =
  cx_workspace_root :: string
  cx_project_id :: string
  cx_home_dir :: string
  cx_temp_dir :: string
  cx_platform :: string
  cx_generated_roots :: "string list"
  cx_git :: "git_info option"
  cx_package_manager :: package_manager_info
  cx_status :: context_status
  cx_status_reason :: string

definition Context_OK :: "request_context option \<Rightarrow> bool" where
  "Context_OK c = (case c of None \<Rightarrow> False | Some c' \<Rightarrow> cx_status c' = ContextOK)"

record mismatch_report =
  mr_approval_id :: int
  mr_differences :: "string list"

record decision =
  d_outcome :: decision_outcome
  d_class :: decision_class
  d_reason :: string
  d_approval_id :: "int option"
  d_hard_rule :: string
  d_mismatch_reports :: "mismatch_report list"
  d_engine_version :: int

record evaluation_result =
  er_audit_event_id :: "int option"
  er_decision :: decision_outcome
  er_class :: decision_class
  er_reason :: string
  er_approval_id :: "int option"
  er_hard_rule :: string
  er_mismatch_reports :: "mismatch_report list"
  er_resolution_status :: resolution_status
  er_explanation :: "string list"
  er_user_message :: string
  er_imported_approval_id :: "int option"

definition RelatedApprovalIDs :: "evaluation_result \<Rightarrow> int list" where
  "RelatedApprovalIDs r = map mr_approval_id (er_mismatch_reports r)"

definition IsAllow :: "evaluation_result \<Rightarrow> bool" where
  "IsAllow r = (er_decision r = OutcomeAllow)"

section \<open>The key of an envelope entry identifies the entry\<close>

text \<open>
  Two entries are the same permission when they agree on type, scope and program and carry the same
  flags, whatever their order.
\<close>

definition same_entry :: "envelope_entry \<Rightarrow> envelope_entry \<Rightarrow> bool" where
  "same_entry e e' =
     (ee_type e = ee_type e' \<and> ee_scope e = ee_scope e' \<and> ee_program e = ee_program e' \<and>
      mset (ee_flags e) = mset (ee_flags e') \<and> mset (ee_target_flags e) = mset (ee_target_flags e'))"

definition normal_entry :: "envelope_entry \<Rightarrow> bool" where
  "normal_entry e = (sort_key effect_flag_str (ee_flags e) = ee_flags e \<and>
     sort_key target_flag_str (ee_target_flags e) = ee_target_flags e)"

lemma effect_flag_str_chars:
  "effect_flag_str f \<noteq> [] \<and> CHR '','' \<notin> set (effect_flag_str f) \<and> CHR ''}'' \<notin> set (effect_flag_str f)"
  by (cases f) simp_all

lemma target_flag_str_chars:
  "target_flag_str f \<noteq> [] \<and> CHR '','' \<notin> set (target_flag_str f) \<and> CHR '']'' \<notin> set (target_flag_str f)"
  by (cases f) simp_all

lemma effect_type_str_chars: "CHR ''/'' \<notin> set (effect_type_str t)"
  by (cases t) simp_all

definition key_head :: "scope \<Rightarrow> program_resolution option \<Rightarrow> string" where
  "key_head s p =
     scope_str s @ (case p of None \<Rightarrow> [] | Some q \<Rightarrow> ''/'' @ program_resolution_str q)"

lemma key_head_no_brace: "CHR ''{'' \<notin> set (key_head s p)"
  by (cases s; cases p; simp add: key_head_def; cases "the p"; simp)

lemma key_head_inject: "key_head s p = key_head s' p' \<longleftrightarrow> s = s' \<and> p = p'"
proof -
  have "p = None \<or> p = Some ProgramDeclared \<or> p = Some ProgramUnresolved" for p
    by (metis option.exhaust program_resolution.exhaust)
  from this [of p] this [of p'] show ?thesis
    by (elim disjE; cases s; cases s'; simp add: key_head_def)
qed

lemma EnvelopeEntry_Key_alt:
  "EnvelopeEntry_Key e =
     effect_type_str (ee_type e) @ CHR ''/'' # key_head (ee_scope e) (ee_program e) @
     CHR ''{'' # strings_Join (map effect_flag_str (sort_key effect_flag_str (ee_flags e))) '','' @
     CHR ''}'' # CHR ''['' #
     strings_Join (map target_flag_str (sort_key target_flag_str (ee_target_flags e))) '','' @ '']''"
  by (simp add: EnvelopeEntry_Key_def key_head_def split: option.split)

lemma EnvelopeEntry_Key_eq_iff:
  "EnvelopeEntry_Key e = EnvelopeEntry_Key e' \<longleftrightarrow> same_entry e e'"
proof -
  have fl: "CHR ''}'' \<notin> set (strings_Join (map effect_flag_str xs) '','')" for xs
    by (rule notin_strings_Join) (auto simp: effect_flag_str_chars)
  have ej: "strings_Join (map effect_flag_str xs) '','' = strings_Join (map effect_flag_str ys) '','' \<longleftrightarrow>
      map effect_flag_str xs = map effect_flag_str ys" for xs ys
    by (rule strings_Join_inject) (auto simp: effect_flag_str_chars)
  have tj: "strings_Join (map target_flag_str xs) '','' = strings_Join (map target_flag_str ys) '','' \<longleftrightarrow>
      map target_flag_str xs = map target_flag_str ys" for xs ys
    by (rule strings_Join_inject) (auto simp: target_flag_str_chars)
  have inj: "inj effect_flag_str" "inj target_flag_str" by (auto intro: injI)
  show ?thesis
    unfolding EnvelopeEntry_Key_alt same_entry_def
    by (simp add: split_at_char effect_type_str_chars key_head_no_brace fl key_head_inject ej tj
        map_sort_key_inj_eq [OF inj(1)] map_sort_key_inj_eq [OF inj(2)])
qed

section \<open>Projections of an action\<close>

lemma effect_EnvelopeEntry_normal: "normal_entry (effect_EnvelopeEntry e)"
  by (simp add: normal_entry_def effect_EnvelopeEntry_def sort_key_idem)

lemma EnvelopeEntry_Key_inject:
  assumes "normal_entry e" and "normal_entry e'"
  shows "EnvelopeEntry_Key e = EnvelopeEntry_Key e' \<longleftrightarrow> e = e'"
proof
  assume "EnvelopeEntry_Key e = EnvelopeEntry_Key e'"
  then have s: "same_entry e e'" by (simp add: EnvelopeEntry_Key_eq_iff)
  have "ee_flags e = ee_flags e'"
    using assms s sort_key_mset_eq [of effect_flag_str "ee_flags e" "ee_flags e'"]
    by (auto simp: normal_entry_def same_entry_def inj_def)
  moreover have "ee_target_flags e = ee_target_flags e'"
    using assms s sort_key_mset_eq [of target_flag_str "ee_target_flags e" "ee_target_flags e'"]
    by (auto simp: normal_entry_def same_entry_def inj_def)
  ultimately show "e = e'"
    using s by (simp add: same_entry_def)
qed simp

lemma set_Envelope: "set (Envelope effects) = effect_EnvelopeEntry ` set effects"
proof -
  have "inj_on EnvelopeEntry_Key (set (map effect_EnvelopeEntry effects))"
    by (auto simp: inj_on_def EnvelopeEntry_Key_inject effect_EnvelopeEntry_normal)
  then show ?thesis
    by (simp add: Envelope_def set_dedupe_on_inj)
qed

lemma keys_Envelope: "EnvelopeEntry_Key ` set (Envelope effects) = (EnvelopeEntry_Key \<circ> effect_EnvelopeEntry) ` set effects"
  by (simp add: set_Envelope image_comp)

lemma distinct_keys_Envelope: "distinct (map EnvelopeEntry_Key (Envelope effects))"
  by (simp add: Envelope_def map_sort_key distinct_dedupe_from)

lemma set_NetworkTargets_keys:
  "NetworkTarget_Key ` set (NetworkTargets effects) =
   {NetworkTarget_Key n | n e. e \<in> set effects \<and> e_network e = Some n}"
  by (simp add: NetworkTargets_def keys_dedupe_on) (auto simp: map_filter_def image_iff, force)

lemma distinct_keys_NetworkTargets: "distinct (map NetworkTarget_Key (NetworkTargets effects))"
  by (simp add: NetworkTargets_def map_sort_key distinct_dedupe_from)

lemma distinct_DisplayTargets: "distinct (DisplayTargets a)"
proof -
  have "distinct (map (\<lambda>d. d) (dedupe_on (\<lambda>d. d) ds))" for ds :: "string list"
    by (rule distinct_dedupe_from)
  then show ?thesis by (simp add: DisplayTargets_def)
qed

lemma set_DisplayTargets: "set (DisplayTargets a) = t_display ` set (Targets a) - {[]}"
  by (auto simp: DisplayTargets_def set_dedupe_on_inj)

lemma distinct_merge_missing:
  "distinct (map f_key into) \<Longrightarrow> distinct (map f_key (merge_missing into add))"
  by (induction add arbitrary: into) auto

lemma keys_merge_missing:
  "f_key ` set (merge_missing into add) = f_key ` set into \<union> (f_key ` set add - {[]})"
  by (induction add arbitrary: into) auto

lemma merge_missing_keeps: "f \<in> set into \<Longrightarrow> f \<in> set (merge_missing into add)"
  by (induction add arbitrary: into) auto

lemma MergeFingerprints_distinct:
  "distinct (map f_key into) \<Longrightarrow> distinct (map f_key (MergeFingerprints into add))"
  by (simp add: MergeFingerprints_def map_sort_key distinct_merge_missing)

lemma MergeFingerprints_keys:
  "f_key ` set (MergeFingerprints into add) = f_key ` set into \<union> (f_key ` set add - {[]})"
  by (simp add: MergeFingerprints_def keys_merge_missing)

lemma MergeFingerprints_keeps: "f \<in> set into \<Longrightarrow> f \<in> set (MergeFingerprints into add)"
  by (simp add: MergeFingerprints_def merge_missing_keeps)

lemma MergeFingerprints_sorted: "sorted (map f_key (MergeFingerprints into add))"
  by (simp add: MergeFingerprints_def)

end
