(* ===== verification/Filepath.thy ===== *)
theory Filepath
  imports Intenter_Prelude
begin

text \<open>
  Go's \<open>path/filepath\<close> on a Unix host, as far as the program uses it: \<open>Clean\<close>, \<open>Join\<close>, \<open>Dir\<close>,
  \<open>Base\<close>, \<open>IsAbs\<close>, \<open>Rel\<close> and the shell pattern matcher \<open>Match\<close>. A cleaned rooted path is its list of
  components; the lemmas move between the two, so that a prefix test on strings becomes a prefix test
  on components.
\<close>

section \<open>Lexical cleaning\<close>

fun split_slash :: "string \<Rightarrow> string list" where
  "split_slash [] = [[]]"
| "split_slash (c # cs) =
     (if c = CHR ''/'' then [] # split_slash cs
      else (case split_slash cs of [] \<Rightarrow> [[c]] | x # xs \<Rightarrow> (c # x) # xs))"

fun clean_comps :: "bool \<Rightarrow> string list \<Rightarrow> string list \<Rightarrow> string list" where
  "clean_comps rooted st [] = rev st"
| "clean_comps rooted st (c # cs) =
     (if c = [] \<or> c = ''.'' then clean_comps rooted st cs
      else if c = ''..'' then
        (case st of
           [] \<Rightarrow> clean_comps rooted (if rooted then [] else [''..'']) cs
         | t # ts \<Rightarrow> clean_comps rooted (if t = ''..'' then ''..'' # st else ts) cs)
      else clean_comps rooted (c # st) cs)"

definition IsAbs :: "string \<Rightarrow> bool" where
  "IsAbs path = HasPrefix path ''/''"

definition Clean_comps :: "string \<Rightarrow> string list" where
  "Clean_comps path = clean_comps (IsAbs path) [] (split_slash path)"

definition Clean :: "string \<Rightarrow> string" where
  "Clean path =
     (if path = [] then ''.''
      else let out = strings_Join (Clean_comps path) ''/'' in
           if IsAbs path then ''/'' @ out else if out = [] then ''.'' else out)"

definition filepath_Join :: "string list \<Rightarrow> string" where
  "filepath_Join elems =
     (let es = dropWhile (\<lambda>e. e = []) elems in
      if es = [] then [] else Clean (strings_Join es ''/''))"

definition after_last_slash :: "string \<Rightarrow> string" where
  "after_last_slash path = rev (takeWhile (\<lambda>c. c \<noteq> CHR ''/'') (rev path))"

definition upto_last_slash :: "string \<Rightarrow> string" where
  "upto_last_slash path = rev (dropWhile (\<lambda>c. c \<noteq> CHR ''/'') (rev path))"

definition Dir :: "string \<Rightarrow> string" where
  "Dir path = Clean (upto_last_slash path)"

definition Base :: "string \<Rightarrow> string" where
  "Base path =
     (if path = [] then ''.''
      else let stripped = TrimRight_by (\<lambda>c. c = CHR ''/'') path in
           if stripped = [] then ''/'' else after_last_slash stripped)"

fun strip_common :: "'a list \<Rightarrow> 'a list \<Rightarrow> 'a list \<times> 'a list" where
  "strip_common (x # xs) (y # ys) = (if x = y then strip_common xs ys else (x # xs, y # ys))"
| "strip_common xs ys = (xs, ys)"

definition Rel :: "string \<Rightarrow> string \<Rightarrow> string option" where
  "Rel basepath targpath =
     (if Clean targpath = Clean basepath then Some ''.''
      else if IsAbs (Clean basepath) \<noteq> IsAbs (Clean targpath) then None
      else (case strip_common (Clean_comps basepath) (Clean_comps targpath) of
              (rb, rt) \<Rightarrow>
                if rb \<noteq> [] \<and> hd rb = ''..'' then None
                else Some (strings_Join (replicate (length rb) ''..'' @ rt) ''/'')))"

section \<open>Shell patterns\<close>

datatype glob_token =
    GStar
  | GAny
  | GClass bool "(char \<times> char) list"
  | GChar char

text \<open>One possibly escaped character of a class; a closing bracket or a dash must be escaped.\<close>

fun get_esc :: "string \<Rightarrow> (char \<times> string) option" where
  "get_esc [] = None"
| "get_esc (c # cs) =
     (if c = CHR ''-'' \<or> c = CHR '']'' then None
      else if c = CHR 0x5C then (case cs of [] \<Rightarrow> None | d # ds \<Rightarrow> if ds = [] then None else Some (d, ds))
      else if cs = [] then None else Some (c, cs))"

lemma get_esc_length: "get_esc s = Some (c, r) \<Longrightarrow> length r < length s"
  by (cases s) (auto split: if_splits list.splits)

declare get_esc.simps [simp del]

function class_ranges :: "(char \<times> char) list \<Rightarrow> string \<Rightarrow> ((char \<times> char) list \<times> string) option" where
  "class_ranges acc s =
     (case s of
        [] \<Rightarrow> None
      | c # cs \<Rightarrow>
          if c = CHR '']'' \<and> acc \<noteq> [] then Some (rev acc, cs)
          else (case get_esc s of
                  None \<Rightarrow> None
                | Some (lo, r) \<Rightarrow>
                    (case r of
                       [] \<Rightarrow> None
                     | d # ds \<Rightarrow>
                         if d = CHR ''-'' then
                           (case get_esc ds of
                              None \<Rightarrow> None
                            | Some (hi, r') \<Rightarrow> class_ranges ((lo, hi) # acc) r')
                         else class_ranges ((lo, lo) # acc) r)))"
  by pat_completeness auto
termination
  by (relation "measure (\<lambda>(acc, s). length s)") (auto dest!: get_esc_length)

declare class_ranges.simps [simp del]

lemma class_ranges_length: "class_ranges acc s = Some (rs, r) \<Longrightarrow> length r < length s"
proof (induction acc s arbitrary: rs r rule: class_ranges.induct)
  case (1 acc s)
  note prems = "1.prems" [unfolded class_ranges.simps [of acc s]]
  show ?case
  proof (cases s)
    case Nil
    with prems show ?thesis by simp
  next
    case (Cons c cs)
    note s = this
    show ?thesis
    proof (cases "c = CHR '']'' \<and> acc \<noteq> []")
      case True
      with prems s show ?thesis by simp
    next
      case False
      with prems s obtain lo d ds where esc: "get_esc s = Some (lo, d # ds)"
        by (auto split: option.splits list.splits)
      then have shorter: "length (d # ds) < length s" by (rule get_esc_length)
      show ?thesis
      proof (cases "d = CHR ''-''")
        case True
        with prems s False esc obtain hi r' where hi: "get_esc ds = Some (hi, r')"
          and rec: "class_ranges ((lo, hi) # acc) r' = Some (rs, r)"
          by (auto split: option.splits)
        from "1.IH"(1) [OF s False esc refl refl True hi refl rec] get_esc_length [OF hi] shorter
        show ?thesis by simp
      next
        case dash: False
        with prems s False esc have rec: "class_ranges ((lo, lo) # acc) (d # ds) = Some (rs, r)"
          by (auto split: option.splits)
        from "1.IH"(2) [OF s False esc refl refl dash rec] shorter show ?thesis by simp
      qed
    qed
  qed
qed

function glob_tokens :: "string \<Rightarrow> glob_token list option" where
  "glob_tokens s =
     (case s of
        [] \<Rightarrow> Some []
      | c # cs \<Rightarrow>
          if c = CHR ''*'' then map_option ((#) GStar) (glob_tokens cs)
          else if c = CHR ''?'' then map_option ((#) GAny) (glob_tokens cs)
          else if c = CHR ''['' then
            (let neg = HasPrefix cs ''^'' in
             case class_ranges [] (if neg then drop 1 cs else cs) of
               None \<Rightarrow> None
             | Some (rs, r) \<Rightarrow> map_option ((#) (GClass neg rs)) (glob_tokens r))
          else if c = CHR 0x5C then
            (case cs of [] \<Rightarrow> None | d # ds \<Rightarrow> map_option ((#) (GChar d)) (glob_tokens ds))
          else map_option ((#) (GChar c)) (glob_tokens cs))"
  by pat_completeness auto
termination
  by (relation "measure length") (auto dest!: class_ranges_length split: if_splits)

declare glob_tokens.simps [simp del]

definition in_class :: "bool \<Rightarrow> (char \<times> char) list \<Rightarrow> char \<Rightarrow> bool" where
  "in_class neg rs c = ((\<exists>(lo, hi) \<in> set rs. lo \<le> c \<and> c \<le> hi) \<noteq> neg)"

fun glob_match :: "glob_token list \<Rightarrow> string \<Rightarrow> bool" where
  "glob_match [] s = (s = [])"
| "glob_match (GStar # ts) [] = glob_match ts []"
| "glob_match (GStar # ts) (c # cs) =
     (glob_match ts (c # cs) \<or> (c \<noteq> CHR ''/'' \<and> glob_match (GStar # ts) cs))"
| "glob_match (GAny # ts) s = (case s of [] \<Rightarrow> False | c # cs \<Rightarrow> c \<noteq> CHR ''/'' \<and> glob_match ts cs)"
| "glob_match (GClass neg rs # ts) s = (case s of [] \<Rightarrow> False | c # cs \<Rightarrow> in_class neg rs c \<and> glob_match ts cs)"
| "glob_match (GChar d # ts) s = (case s of [] \<Rightarrow> False | c # cs \<Rightarrow> c = d \<and> glob_match ts cs)"

text \<open>\<open>Match\<close> answers \<open>None\<close> for a malformed pattern (\<open>ErrBadPattern\<close>).\<close>

definition filepath_Match :: "string \<Rightarrow> string \<Rightarrow> bool option" where
  "filepath_Match pattern name = map_option (\<lambda>ts. glob_match ts name) (glob_tokens pattern)"

section \<open>Components of cleaned paths\<close>

definition plain_comp :: "string \<Rightarrow> bool" where
  "plain_comp c = (c \<noteq> [] \<and> c \<noteq> ''.'' \<and> CHR ''/'' \<notin> set c)"

lemma split_slash_not_Nil [simp]: "split_slash s \<noteq> []"
  by (induction s) (auto split: list.splits)

lemma split_slash_no_slash: "x \<in> set (split_slash s) \<Longrightarrow> CHR ''/'' \<notin> set x"
  by (induction s arbitrary: x) (auto split: list.splits if_splits)

lemma split_slash_append: "split_slash (a @ CHR ''/'' # b) = split_slash a @ split_slash b"
  by (induction a) (auto split: list.splits)

lemma split_slash_single: "CHR ''/'' \<notin> set s \<Longrightarrow> split_slash s = [s]"
  by (induction s) auto

lemma split_slash_Join:
  "cs \<noteq> [] \<Longrightarrow> \<forall>c \<in> set cs. CHR ''/'' \<notin> set c \<Longrightarrow> split_slash (strings_Join cs ''/'') = cs"
proof (induction cs)
  case (Cons c cs)
  then show ?case
    by (cases "cs = []") (auto simp: strings_Join_Cons split_slash_single split_slash_append)
qed simp

text \<open>
  What the stack of \<open>clean_comps\<close> looks like, last component first: plain components, and \<open>..\<close> only
  below all others and never in a rooted path.
\<close>

definition stack_ok :: "bool \<Rightarrow> string list \<Rightarrow> bool" where
  "stack_ok rooted st =
     (\<exists>ds k. st = ds @ replicate k ''..'' \<and> (\<forall>d \<in> set ds. plain_comp d \<and> d \<noteq> ''..'') \<and> (rooted \<longrightarrow> k = 0))"

lemma stack_ok_Nil: "stack_ok rooted []"
  unfolding stack_ok_def by (rule exI [of _ "[]"], rule exI [of _ 0]) simp

lemma stack_ok_push: "stack_ok rooted st \<Longrightarrow> plain_comp c \<Longrightarrow> c \<noteq> ''..'' \<Longrightarrow> stack_ok rooted (c # st)"
  unfolding stack_ok_def by (metis append_Cons set_ConsD)

lemma stack_ok_dotdot: "stack_ok False (''..'' # st) \<Longrightarrow> stack_ok False (''..'' # ''..'' # st)"
proof -
  assume "stack_ok False (''..'' # st)"
  then obtain ds k where "''..'' # st = ds @ replicate k ''..''" and "\<forall>d \<in> set ds. d \<noteq> ''..''"
    by (auto simp: stack_ok_def)
  then have "''..'' # st = replicate k ''..''" by (cases ds) auto
  then have "''..'' # ''..'' # st = [] @ replicate (Suc k) ''..''" by simp
  then show ?thesis unfolding stack_ok_def by (intro exI [of _ "[]"] exI [of _ "Suc k"]) simp
qed

lemma stack_ok_pop: "stack_ok rooted (t # ts) \<Longrightarrow> stack_ok rooted ts"
proof -
  assume "stack_ok rooted (t # ts)"
  then obtain ds k where eq: "t # ts = ds @ replicate k ''..''"
    and ds: "\<forall>d \<in> set ds. plain_comp d \<and> d \<noteq> ''..''" and r: "rooted \<longrightarrow> k = 0"
    by (auto simp: stack_ok_def)
  show ?thesis
  proof (cases ds)
    case Nil
    then obtain j where "k = Suc j" and "ts = [] @ replicate j ''..''" using eq by (cases k) auto
    with r show ?thesis unfolding stack_ok_def by (intro exI [of _ "[]"] exI [of _ j]) auto
  next
    case (Cons d ds')
    with eq ds r show ?thesis
      unfolding stack_ok_def by (intro exI [of _ ds'] exI [of _ k]) auto
  qed
qed

lemma stack_ok_rooted_top: "stack_ok True (t # ts) \<Longrightarrow> t \<noteq> ''..''"
  by (auto simp: stack_ok_def Cons_eq_append_conv)

lemma stack_ok_single_dotdot: "stack_ok False [''..'']"
  unfolding stack_ok_def by (intro exI [of _ "[]"] exI [of _ 1]) auto

lemma clean_comps_ok:
  "stack_ok rooted st \<Longrightarrow> \<forall>c \<in> set cs. CHR ''/'' \<notin> set c \<Longrightarrow> stack_ok rooted (rev (clean_comps rooted st cs))"
proof (induction rooted st cs rule: clean_comps.induct)
  case (1 rooted st)
  then show ?case by simp
next
  case (2 rooted st c cs)
  consider "c = [] \<or> c = ''.''" | "c = ''..''" | "plain_comp c" "c \<noteq> ''..''"
    using "2.prems" by (auto simp: plain_comp_def)
  then show ?case
  proof cases
    case 1
    with 2 show ?thesis by auto
  next
    case 2
    show ?thesis
    proof (cases st)
      case Nil
      with 2 "2.IH"(2) "2.prems" show ?thesis
        by (cases rooted) (auto simp: stack_ok_single_dotdot stack_ok_Nil)
    next
      case (Cons t ts)
      then have "stack_ok rooted (if t = ''..'' then ''..'' # st else ts)"
        using "2.prems"(1) stack_ok_pop stack_ok_dotdot stack_ok_rooted_top by (cases rooted) auto
      with Cons 2 "2.IH"(3) "2.prems" show ?thesis by auto
    qed
  next
    case 3
    with "2.IH"(4) "2.prems" show ?thesis by (auto simp: plain_comp_def stack_ok_push)
  qed
qed

lemma clean_comps_dotdots:
  "clean_comps False (replicate j ''..'') (replicate k ''..'' @ ds) =
   clean_comps False (replicate (k + j) ''..'') ds"
proof (induction k arbitrary: j)
  case (Suc k)
  from Suc [of "Suc j"] show ?case by (cases j) auto
qed simp

lemma clean_comps_plain:
  "\<forall>d \<in> set ds. plain_comp d \<and> d \<noteq> ''..'' \<Longrightarrow> clean_comps rooted st ds = rev st @ ds"
  by (induction ds arbitrary: st) (auto simp: plain_comp_def)

lemma clean_comps_id:
  assumes "stack_ok rooted (rev cs)"
  shows "clean_comps rooted [] cs = cs"
proof -
  from assms obtain ds k where eq: "rev cs = ds @ replicate k ''..''"
    and ds: "\<forall>d \<in> set ds. plain_comp d \<and> d \<noteq> ''..''" and r: "rooted \<longrightarrow> k = 0"
    by (auto simp: stack_ok_def)
  then have cs: "cs = replicate k ''..'' @ rev ds" by (metis rev_append rev_replicate rev_rev_ident)
  show ?thesis
  proof (cases rooted)
    case True
    with r ds cs show ?thesis by (simp add: clean_comps_plain)
  next
    case False
    with ds cs clean_comps_dotdots [of 0 k "rev ds"] show ?thesis
      by (simp add: clean_comps_plain)
  qed
qed

lemma Clean_comps_ok: "stack_ok (IsAbs p) (rev (Clean_comps p))"
  unfolding Clean_comps_def by (rule clean_comps_ok) (auto simp: stack_ok_Nil dest: split_slash_no_slash)

lemma stack_ok_no_slash: "stack_ok rooted st \<Longrightarrow> c \<in> set st \<Longrightarrow> c \<noteq> [] \<and> CHR ''/'' \<notin> set c"
proof -
  assume "stack_ok rooted st" and "c \<in> set st"
  then have "plain_comp c \<or> c = ''..''" by (auto simp: stack_ok_def)
  then show ?thesis by (auto simp: plain_comp_def)
qed

lemma Clean_comps_no_slash: "c \<in> set (Clean_comps p) \<Longrightarrow> c \<noteq> [] \<and> CHR ''/'' \<notin> set c"
  using stack_ok_no_slash [OF Clean_comps_ok [of p], of c] by simp

lemma Clean_comps_rooted: "IsAbs p \<Longrightarrow> c \<in> set (Clean_comps p) \<Longrightarrow> plain_comp c \<and> c \<noteq> ''..''"
  using Clean_comps_ok [of p] by (auto simp: stack_ok_def)

lemma Clean_abs: "IsAbs p \<Longrightarrow> Clean p = CHR ''/'' # strings_Join (Clean_comps p) ''/''"
  by (auto simp: Clean_def Let_def IsAbs_def HasPrefix_def)

lemma IsAbs_Cons [simp]: "IsAbs (CHR ''/'' # s)"
  by (simp add: IsAbs_def HasPrefix_def)

lemma Clean_comps_Cons_slash: "Clean_comps (CHR ''/'' # s) = clean_comps True [] (split_slash s)"
  by (simp add: Clean_comps_def)

lemma clean_comps_empty: "clean_comps rooted st [[]] = rev st"
  by simp

lemma Clean_comps_of_comps:
  assumes "\<forall>c \<in> set cs. plain_comp c \<and> c \<noteq> ''..''"
  shows "Clean_comps (CHR ''/'' # strings_Join cs ''/'') = cs"
proof (cases "cs = []")
  case False
  with assms have "split_slash (strings_Join cs ''/'') = cs"
    by (intro split_slash_Join) (auto simp: plain_comp_def)
  with assms show ?thesis by (simp add: Clean_comps_Cons_slash clean_comps_plain)
qed (simp add: Clean_comps_Cons_slash)

lemma Clean_comps_Clean: "IsAbs p \<Longrightarrow> Clean_comps (Clean p) = Clean_comps p"
  by (simp add: Clean_abs Clean_comps_of_comps Clean_comps_rooted)

lemma IsAbs_Clean: "IsAbs p \<Longrightarrow> IsAbs (Clean p)"
  by (simp add: Clean_abs)

lemma Clean_eq_iff: "IsAbs p \<Longrightarrow> IsAbs q \<Longrightarrow> Clean p = Clean q \<longleftrightarrow> Clean_comps p = Clean_comps q"
  by (metis Clean_abs Clean_comps_Clean)
section \<open>Climbing to the parent directory ends\<close>

definition comps_weight :: "string list \<Rightarrow> nat" where
  "comps_weight cs = sum_list (map (\<lambda>c. Suc (length c)) cs)"

lemma comps_weight_simps [simp]:
  "comps_weight [] = 0" "comps_weight (c # cs) = Suc (length c) + comps_weight cs"
  "comps_weight (cs @ ds) = comps_weight cs + comps_weight ds" "comps_weight (rev cs) = comps_weight cs"
  by (simp_all add: comps_weight_def rev_map [symmetric])

lemma comps_weight_split_slash: "comps_weight (split_slash s) = Suc (length s)"
  by (induction s) (auto split: list.splits)

lemma comps_weight_clean: "comps_weight (clean_comps rooted st cs) \<le> comps_weight st + comps_weight cs"
  by (induction rooted st cs rule: clean_comps.induct) (auto split: list.splits)

lemma clean_comps_snoc_empty: "clean_comps rooted st (cs @ [[]]) = clean_comps rooted st cs"
  by (induction rooted st cs rule: clean_comps.induct) (auto split: list.splits)

lemma length_strings_Join_slash: "cs \<noteq> [] \<Longrightarrow> Suc (length (strings_Join cs ''/'')) = comps_weight cs"
  by (induction cs "''/''" rule: strings_Join.induct) auto

lemma comps_weight_Clean_comps_slash:
  "comps_weight (Clean_comps (s @ ''/'')) \<le> (if IsAbs s then length s else Suc (length s))"
proof -
  have split: "split_slash (s @ ''/'') = split_slash s @ [[]]"
    using split_slash_append [of s "[]"] by simp
  have "Clean_comps (s @ ''/'') = clean_comps (IsAbs (s @ ''/'')) [] (split_slash s)"
    unfolding Clean_comps_def split by (rule clean_comps_snoc_empty)
  moreover have "comps_weight (clean_comps b [] (split_slash s)) \<le> (if IsAbs s then length s else Suc (length s))" for b
  proof (cases "IsAbs s")
    case True
    then obtain s' where "s = CHR ''/'' # s'" by (auto simp: IsAbs_def HasPrefix_def prefix_def)
    then show ?thesis
      using comps_weight_clean [of b "[]" "split_slash s'"] True by (simp add: comps_weight_split_slash)
  next
    case False
    then show ?thesis
      using comps_weight_clean [of b "[]" "split_slash s"] by (simp add: comps_weight_split_slash)
  qed
  ultimately show ?thesis by metis
qed

lemma length_Clean_slash: "s \<noteq> [] \<Longrightarrow> length (Clean (s @ ''/'')) < length (s @ ''/'')"
proof -
  assume s: "s \<noteq> []"
  let ?cs = "Clean_comps (s @ ''/'')"
  have w: "comps_weight ?cs \<le> (if IsAbs s then length s else Suc (length s))"
    by (rule comps_weight_Clean_comps_slash)
  have abs: "IsAbs (s @ ''/'') = IsAbs s"
    using s by (cases s) (auto simp: IsAbs_def HasPrefix_def)
  show ?thesis
  proof (cases "?cs = []")
    case True
    with s show ?thesis by (simp add: Clean_def Let_def)
  next
    case False
    then have "Suc (length (strings_Join ?cs ''/'')) = comps_weight ?cs"
      by (rule length_strings_Join_slash)
    with w abs s show ?thesis
      by (auto simp: Clean_def Let_def split: if_splits)
  qed
qed

definition climb_measure :: "string \<Rightarrow> nat" where
  "climb_measure p = (if p = ''.'' \<or> p = ''/'' then 0 else Suc (length p))"

lemma upto_last_slash_cases:
  obtains (none) "upto_last_slash p = []"
  | (some) s where "upto_last_slash p = s @ ''/''" and "length s < length p"
proof (cases "upto_last_slash p")
  case Nil
  then show ?thesis by (rule none)
next
  case (Cons c cs)
  let ?r = "dropWhile (\<lambda>c. c \<noteq> CHR ''/'') (rev p)"
  have ne: "?r \<noteq> []" using Cons by (auto simp: upto_last_slash_def)
  then have "hd ?r = CHR ''/''" using hd_dropWhile [of "\<lambda>c. c \<noteq> CHR ''/''" "rev p"] by auto
  then have r: "?r = CHR ''/'' # tl ?r" using ne by (metis list.collapse)
  have "length ?r \<le> length p" using length_dropWhile_le [of _ "rev p"] by simp
  with r have "length (tl ?r) < length p" using ne by (cases ?r) auto
  moreover have "upto_last_slash p = rev (tl ?r) @ ''/''"
    unfolding upto_last_slash_def by (subst r) simp
  ultimately show ?thesis using some [of "rev (tl ?r)"] by simp
qed

lemma Dir_climbs: "Dir p \<noteq> p \<Longrightarrow> climb_measure (Dir p) < climb_measure p"
proof -
  assume neq: "Dir p \<noteq> p"
  have root: "Dir ''/'' = ''/''" by code_simp
  have dot: "Dir ''.'' = ''.''" by code_simp
  have p: "p \<noteq> ''.''" "p \<noteq> ''/''" using neq root dot by auto
  show ?thesis
  proof (cases p rule: upto_last_slash_cases)
    case none
    with p show ?thesis by (simp add: Dir_def Clean_def climb_measure_def)
  next
    case (some s)
    show ?thesis
    proof (cases "s = []")
      case True
      have "Clean ''/'' = ''/''" by code_simp
      with some True p show ?thesis by (simp add: Dir_def climb_measure_def)
    next
      case False
      from length_Clean_slash [OF False] some p show ?thesis
        by (auto simp: Dir_def climb_measure_def)
    qed
  qed
qed
section \<open>Parents of clean rooted paths\<close>

abbreviation path_of :: "string list \<Rightarrow> string" where
  "path_of cs \<equiv> CHR ''/'' # strings_Join cs ''/''"

lemma strings_Join_snoc:
  "ds \<noteq> [] \<Longrightarrow> strings_Join (ds @ [e]) sep = strings_Join ds sep @ sep @ e"
  by (induction ds) (auto simp: strings_Join_Cons)

lemma upto_last_slash_append:
  "CHR ''/'' \<notin> set e \<Longrightarrow> upto_last_slash (s @ CHR ''/'' # e) = s @ ''/''"
proof -
  assume e: "CHR ''/'' \<notin> set e"
  have "dropWhile (\<lambda>c. c \<noteq> CHR ''/'') (rev e @ CHR ''/'' # rev s) = CHR ''/'' # rev s"
    using e by (subst dropWhile_append2) auto
  then show ?thesis by (simp add: upto_last_slash_def)
qed

lemma Dir_path_of:
  assumes "\<forall>c \<in> set cs. plain_comp c \<and> c \<noteq> ''..''"
  shows "Dir (path_of cs) = path_of (butlast cs)"
proof (cases cs rule: rev_cases)
  case Nil
  have "Dir ''/'' = ''/''" by code_simp
  with Nil show ?thesis by simp
next
  case (snoc ds e)
  have e: "CHR ''/'' \<notin> set e" using assms snoc by (auto simp: plain_comp_def)
  show ?thesis
  proof (cases "ds = []")
    case True
    have "upto_last_slash (path_of cs) = ''/''"
      using upto_last_slash_append [OF e, of "[]"] snoc True by simp
    moreover have "Clean ''/'' = ''/''" by code_simp
    ultimately show ?thesis using snoc True by (simp add: Dir_def)
  next
    case False
    have up: "upto_last_slash (path_of cs) = CHR ''/'' # strings_Join ds ''/'' @ ''/''"
      using upto_last_slash_append [OF e, of "CHR ''/'' # strings_Join ds ''/''"] snoc False
      by (simp add: strings_Join_snoc)
    have "split_slash (strings_Join ds ''/'' @ ''/'') = ds @ [[]]"
      using split_slash_append [of "strings_Join ds ''/''" "[]"] split_slash_Join [OF False] assms snoc
      by (simp add: plain_comp_def)
    then have "Clean_comps (CHR ''/'' # strings_Join ds ''/'' @ ''/'') = ds"
      using assms snoc by (simp add: Clean_comps_Cons_slash clean_comps_snoc_empty clean_comps_plain)
    then show ?thesis
      using up snoc by (simp add: Dir_def Clean_abs)
  qed
qed

lemma Clean_path_of: "\<forall>c \<in> set cs. plain_comp c \<and> c \<noteq> ''..'' \<Longrightarrow> Clean (path_of cs) = path_of cs"
  by (simp add: Clean_abs Clean_comps_of_comps)

lemma strip_common_append [simp]: "strip_common cs (cs @ ds) = ([], ds)"
  by (induction cs) (cases ds, simp_all)

lemma Rel_below:
  assumes "IsAbs root" and "IsAbs p" and "Clean_comps p = Clean_comps root @ ds" and "ds \<noteq> []"
  shows "Rel root p = Some (strings_Join ds ''/'')"
  using assms by (simp add: Rel_def IsAbs_Clean Clean_eq_iff)

end
