(* ===== verification/Path_Rules.thy ===== *)
theory Path_Rules
  imports Filepath
begin

text \<open>
  \<^verbatim>\<open>internal/platform/pathrules.go\<close> with the Linux tables of \<^verbatim>\<open>pathrules_linux.go\<close>: which locations are
  system, temporary, credential-bearing or tool caches, and the path comparisons scope classification
  and the hard rules share. The file system enters through \<open>EvalSymlinks\<close>, a parameter. The
  main lemma is a refinement: on absolute paths \<open>Under\<close> is the prefix test on path components, up
  to the platform's case rule.
\<close>

section \<open>The rules and their comparisons\<close>

record path_rules =
  CaseInsensitive :: bool
  SystemRoots :: "string list"
  TempRoots :: "string list"
  StandardHomeDirs :: "string list"
  SensitiveDirs :: "string list"
  SensitiveNames :: "string list"
  ToolCacheDirs :: "string list"

definition EqualPath :: "path_rules \<Rightarrow> string \<Rightarrow> string \<Rightarrow> bool" where
  "EqualPath r a b =
     (if CaseInsensitive r then EqualFold (Clean a) (Clean b) else Clean a = Clean b)"

definition Under :: "path_rules \<Rightarrow> string \<Rightarrow> string \<Rightarrow> bool" where
  "Under r path root =
     (let path = Clean path; root = Clean root in
      if EqualPath r path root then True
      else let prefx = (if \<not> HasSuffix root ''/'' then root @ ''/'' else root) in
           if CaseInsensitive r then HasPrefix (ToLower path) (ToLower prefx)
           else HasPrefix path prefx)"

definition StrictlyUnder :: "path_rules \<Rightarrow> string \<Rightarrow> string \<Rightarrow> bool" where
  "StrictlyUnder r path root = (Under r path root \<and> \<not> EqualPath r path root)"

definition matchGlob :: "path_rules \<Rightarrow> string \<Rightarrow> string \<Rightarrow> bool" where
  "matchGlob r pattern path =
     (if CaseInsensitive r then filepath_Match (ToLower pattern) (ToLower path) = Some True
      else filepath_Match pattern path = Some True)"

definition matchOne :: "path_rules \<Rightarrow> string \<Rightarrow> string \<Rightarrow> bool" where
  "matchOne r pattern path =
     (let pattern = Clean pattern; path = Clean path in
      case CutSuffix pattern ''/**'' of
        Some base \<Rightarrow> Under r path base
      | None \<Rightarrow> if ContainsAny pattern ''*?['' then matchGlob r pattern path
                else EqualPath r pattern path)"

definition PathRules_Match :: "path_rules \<Rightarrow> string list \<Rightarrow> string \<Rightarrow> bool" where
  "PathRules_Match r patterns path = (\<exists>pattern \<in> set patterns. matchOne r pattern path)"

definition IsTemp :: "path_rules \<Rightarrow> string \<Rightarrow> bool" where
  "IsTemp r path = (\<exists>root \<in> set (TempRoots r). Under r path root)"

definition IsTempRoot :: "path_rules \<Rightarrow> string \<Rightarrow> bool" where
  "IsTempRoot r path = (\<exists>root \<in> set (TempRoots r). EqualPath r path root)"

text \<open>\<open>isDriveRoot\<close> is constantly false on Linux.\<close>

definition IsRoot :: "string \<Rightarrow> bool" where
  "IsRoot path = (Clean path = ''/'')"

definition IsSystem :: "path_rules \<Rightarrow> string \<Rightarrow> bool" where
  "IsSystem r path =
     (if IsTemp r path then False
      else if IsRoot path then True
      else \<exists>root \<in> set (SystemRoots r). \<not> IsRoot root \<and> Under r path root)"

definition matchName :: "path_rules \<Rightarrow> string \<Rightarrow> string \<Rightarrow> bool" where
  "matchName r pattern name =
     (if CaseInsensitive r then filepath_Match (ToLower pattern) (ToLower name) = Some True
      else filepath_Match pattern name = Some True)"

definition IsSensitive :: "path_rules \<Rightarrow> string \<Rightarrow> bool" where
  "IsSensitive r path =
     (PathRules_Match r (SensitiveDirs r) path \<or>
      (\<exists>pattern \<in> set (SensitiveNames r). matchName r pattern (Base path)))"

definition IsToolCache :: "path_rules \<Rightarrow> string \<Rightarrow> bool" where
  "IsToolCache r path = PathRules_Match r (ToolCacheDirs r) path"

definition IsStandardHomeDir :: "path_rules \<Rightarrow> string \<Rightarrow> string \<Rightarrow> bool" where
  "IsStandardHomeDir r path home =
     (\<exists>name \<in> set (StandardHomeDirs r). EqualPath r path (filepath_Join [home, name]))"

section \<open>The tables\<close>

definition sensitiveNamePatterns :: "string list" where
  "sensitiveNamePatterns =
     [''id_rsa*'', ''id_ed25519*'', ''id_ecdsa*'', ''id_dsa*'',
      ''*.pem'', ''*.key'', ''*.p12'', ''*.pfx'', ''*.jks'', ''*.keystore'',
      ''.env'', ''.env.*'', ''*.kdbx'',
      ''credentials.json'', ''service-account*.json'',
      ''.netrc'', ''_netrc'', ''.git-credentials'', ''.npmrc'', ''.pypirc'']"

definition homeSensitiveDirs :: "string list" where
  "homeSensitiveDirs =
     [''.ssh'', ''.aws'', ''.gnupg'', ''.kube'', ''.azure'', ''.claude'', ''.anthropic'',
      ''config/gh'', ''config/gcloud'']"

definition homeSensitiveFiles :: "string list" where
  "homeSensitiveFiles =
     [''.docker/config.json'', ''.netrc'', ''_netrc'', ''.npmrc'', ''.yarnrc'', ''.yarnrc.yml'',
      ''.pypirc'', ''.gitconfig'', ''.git-credentials'']"

definition homePersistenceFiles :: "string list" where
  "homePersistenceFiles =
     [''.bashrc'', ''.bash_profile'', ''.bash_login'', ''.profile'', ''.bash_logout'',
      ''.zshrc'', ''.zshenv'', ''.zprofile'', ''.zlogin'', ''.zlogout'',
      ''.kshrc'', ''.cshrc'', ''.tcshrc'', ''.login'', ''.logout'',
      ''.config/fish/config.fish'', ''.pam_environment'']"

definition homePersistenceDirs :: "string list" where
  "homePersistenceDirs =
     [''.config/fish/conf.d'', ''.config/environment.d'',
      ''.config/autostart'', ''.config/systemd/user'']"

definition homeToolCacheDirs :: "string list" where
  "homeToolCacheDirs = [''.gradle'', ''.m2'', ''.npm'', ''.yarn'', ''.pnpm-store'', ''.cache'']"

definition standardHomeDirNames :: "string list" where
  "standardHomeDirNames =
     [''Desktop'', ''Documents'', ''Downloads'', ''Pictures'', ''Music'', ''Movies'', ''Videos'',
      ''.ssh'', ''.config'']"

definition osSystemRoots :: "string list" where
  "osSystemRoots =
     [''/'', ''/bin'', ''/sbin'', ''/usr'', ''/etc'', ''/var'', ''/lib'', ''/lib32'', ''/lib64'',
      ''/boot'', ''/dev'', ''/proc'', ''/sys'', ''/opt'', ''/root'', ''/srv'', ''/snap'']"

definition osTempRoots :: "string \<Rightarrow> string list" where
  "osTempRoots temp =
     [''/tmp'', ''/var/tmp''] @ (if temp \<noteq> [] then [Clean temp] else [])"

definition recursivePattern :: "string \<Rightarrow> string" where
  "recursivePattern dir = Clean dir @ ''/'' @ ''**''"

definition resolvePath :: "(string \<Rightarrow> string option) \<Rightarrow> string \<Rightarrow> string" where
  "resolvePath EvalSymlinks path =
     (case EvalSymlinks path of None \<Rightarrow> [] | Some resolved \<Rightarrow> Clean resolved)"

definition withResolvedVariants :: "(string \<Rightarrow> string option) \<Rightarrow> string list \<Rightarrow> string list" where
  "withResolvedVariants EvalSymlinks paths =
     dedupe_on (\<lambda>v. v)
       (filter (\<lambda>v. v \<noteq> []) (concat (map (\<lambda>p. [Clean p, resolvePath EvalSymlinks p]) paths)))"

definition buildPathRules :: "(string \<Rightarrow> string option) \<Rightarrow> string \<Rightarrow> string \<Rightarrow> path_rules" where
  "buildPathRules EvalSymlinks home temp =
     \<lparr>CaseInsensitive = False,
      SystemRoots = osSystemRoots,
      TempRoots = withResolvedVariants EvalSymlinks (osTempRoots temp),
      StandardHomeDirs = standardHomeDirNames,
      SensitiveDirs =
        map (\<lambda>dir. recursivePattern (filepath_Join [home, dir])) homeSensitiveDirs @
        map (\<lambda>file. filepath_Join [home, file]) homeSensitiveFiles @
        map (\<lambda>file. filepath_Join [home, file]) homePersistenceFiles @
        map (\<lambda>dir. recursivePattern (filepath_Join [home, dir])) homePersistenceDirs,
      SensitiveNames = sensitiveNamePatterns,
      ToolCacheDirs = map (\<lambda>dir. recursivePattern (filepath_Join [home, dir])) homeToolCacheDirs\<rparr>"

definition WithSensitive :: "path_rules \<Rightarrow> string list \<Rightarrow> path_rules" where
  "WithSensitive r patterns =
     r\<lparr>SensitiveDirs := SensitiveDirs r @ map Clean (filter (\<lambda>p. TrimSpace p \<noteq> []) patterns)\<rparr>"

section \<open>Under is a prefix test on components\<close>

definition fold_case :: "path_rules \<Rightarrow> string \<Rightarrow> string" where
  "fold_case r s = (if CaseInsensitive r then ToLower s else s)"

definition path_comps :: "path_rules \<Rightarrow> string \<Rightarrow> string list" where
  "path_comps r p = map (fold_case r) (Clean_comps p)"

lemma lower_char_eq_slash [simp]: "lower_char c = CHR ''/'' \<longleftrightarrow> c = CHR ''/''"
proof (cases "CHR ''A'' \<le> c \<and> c \<le> CHR ''Z''")
  case True
  then have "65 \<le> (of_char c :: nat)" "(of_char c :: nat) \<le> 90"
    by (simp_all add: less_eq_char_def)
  then have "(of_char (lower_char c) :: nat) \<noteq> 47" and "(of_char c :: nat) \<noteq> 47"
    using True by (simp_all add: lower_char_def)
  then show ?thesis by auto
qed (auto simp: lower_char_def)

lemma fold_case_append: "fold_case r (a @ b) = fold_case r a @ fold_case r b"
  by (simp add: fold_case_def ToLower_def)

lemma lower_char_slash [simp]: "lower_char CHR ''/'' = CHR ''/''"
  by simp

lemma fold_case_slash [simp]: "fold_case r (CHR ''/'' # s) = CHR ''/'' # fold_case r s"
  by (simp add: fold_case_def ToLower_def)

lemma fold_case_Nil [simp]: "fold_case r [] = []"
  by (simp add: fold_case_def ToLower_def)

lemma fold_case_no_slash [simp]: "CHR ''/'' \<in> set (fold_case r s) \<longleftrightarrow> CHR ''/'' \<in> set s"
  by (auto simp: fold_case_def ToLower_def image_iff eq_commute [of "CHR ''/''"])

lemma fold_case_eq_Nil [simp]: "fold_case r s = [] \<longleftrightarrow> s = []"
  by (simp add: fold_case_def ToLower_def)

lemma fold_case_Join:
  "fold_case r (strings_Join cs ''/'') = strings_Join (map (fold_case r) cs) ''/''"
  by (induction cs "''/''" rule: strings_Join.induct) (simp_all add: fold_case_append)

lemma strings_Join_slash_inject:
  assumes "\<forall>c \<in> set cs. c \<noteq> [] \<and> CHR ''/'' \<notin> set c" and "\<forall>c \<in> set ds. c \<noteq> [] \<and> CHR ''/'' \<notin> set c"
  shows "strings_Join cs ''/'' = strings_Join ds ''/'' \<longleftrightarrow> cs = ds"
  by (rule strings_Join_inject) (use assms in auto)

lemma prefix_Join_slash:
  assumes "\<forall>c \<in> set cs. c \<noteq> [] \<and> CHR ''/'' \<notin> set c"
    and "\<forall>c \<in> set ds. c \<noteq> [] \<and> CHR ''/'' \<notin> set c" and "ds \<noteq> []"
  shows "prefix (strings_Join ds ''/'' @ ''/'') (strings_Join cs ''/'') \<longleftrightarrow> strict_prefix ds cs"
proof
  assume "prefix (strings_Join ds ''/'' @ ''/'') (strings_Join cs ''/'')"
  then obtain rest where eq: "strings_Join cs ''/'' = strings_Join ds ''/'' @ CHR ''/'' # rest"
    by (auto simp: prefix_def)
  then have "cs \<noteq> []" by auto
  with eq assms have "cs = ds @ split_slash rest"
    by (metis split_slash_Join split_slash_append)
  then show "strict_prefix ds cs" by (simp add: strict_prefix_def)
next
  assume "strict_prefix ds cs"
  then obtain e es where cs: "cs = ds @ e # es" by (auto elim!: strict_prefixE')
  have "strings_Join (ds @ e # es) ''/'' = strings_Join ds ''/'' @ ''/'' @ strings_Join (e # es) ''/''"
    using assms(3) by (induction ds) (simp_all add: strings_Join_Cons)
  with cs show "prefix (strings_Join ds ''/'' @ ''/'') (strings_Join cs ''/'')"
    by (simp add: prefix_def)
qed

lemma path_comps_no_slash: "c \<in> set (path_comps r p) \<Longrightarrow> c \<noteq> [] \<and> CHR ''/'' \<notin> set c"
  using Clean_comps_no_slash by (auto simp: path_comps_def)

lemma fold_case_Clean: "IsAbs p \<Longrightarrow> fold_case r (Clean p) = CHR ''/'' # strings_Join (path_comps r p) ''/''"
  by (simp add: Clean_abs fold_case_Join path_comps_def)

lemma Clean_idem_abs: "IsAbs p \<Longrightarrow> Clean (Clean p) = Clean p"
  by (metis Clean_abs Clean_comps_Clean IsAbs_Clean)

lemma EqualPath_comps:
  assumes "IsAbs p" and "IsAbs q"
  shows "EqualPath r p q \<longleftrightarrow> path_comps r p = path_comps r q"
proof -
  have "EqualPath r p q \<longleftrightarrow> fold_case r (Clean p) = fold_case r (Clean q)"
    by (simp add: EqualPath_def fold_case_def EqualFold_def)
  also have "\<dots> \<longleftrightarrow> path_comps r p = path_comps r q"
    using assms path_comps_no_slash by (simp add: fold_case_Clean strings_Join_slash_inject)
  finally show ?thesis .
qed

lemma Clean_ends_slash: "IsAbs p \<Longrightarrow> HasSuffix (Clean p) ''/'' \<longleftrightarrow> Clean_comps p = []"
proof -
  assume p: "IsAbs p"
  have "\<not> suffix ''/'' (CHR ''/'' # strings_Join cs ''/'')"
    if "cs \<noteq> []" "\<forall>c \<in> set cs. c \<noteq> [] \<and> CHR ''/'' \<notin> set c" for cs
    using that
  proof (induction cs)
    case (Cons c cs)
    show ?case
    proof (cases "cs = []")
      case True
      with Cons.prems show ?thesis
        by (auto simp: suffix_def Cons_eq_append_conv)
    next
      case False
      with Cons have "\<not> suffix ''/'' (strings_Join cs ''/'')"
        by (auto simp: suffix_def Cons_eq_append_conv)
      moreover have "strings_Join cs ''/'' \<noteq> []"
        using False Cons.prems by (simp add: strings_Join_eq_Nil_iff)
      ultimately show ?thesis
        using False by (auto simp: strings_Join_Cons suffix_def Cons_eq_append_conv append_eq_append_conv2
            append_eq_Cons_conv)
    qed
  qed simp
  from this [of "Clean_comps p"] p Clean_comps_no_slash show ?thesis
    by (cases "Clean_comps p = []") (auto simp: HasSuffix_def Clean_abs)
qed

lemma Under_comps:
  assumes p: "IsAbs p" and q: "IsAbs q"
  shows "Under r p q \<longleftrightarrow> prefix (path_comps r q) (path_comps r p)"
proof -
  let ?prefx = "if \<not> HasSuffix (Clean q) ''/'' then Clean q @ ''/'' else Clean q"
  have "Under r p q \<longleftrightarrow> EqualPath r (Clean p) (Clean q) \<or> prefix (fold_case r ?prefx) (fold_case r (Clean p))"
    by (simp add: Under_def Let_def fold_case_def HasPrefix_def)
  also have "EqualPath r (Clean p) (Clean q) \<longleftrightarrow> path_comps r p = path_comps r q"
    using EqualPath_comps [OF p q, of r] Clean_idem_abs [OF p] Clean_idem_abs [OF q]
    by (simp add: EqualPath_def split: if_splits)
  also have "prefix (fold_case r ?prefx) (fold_case r (Clean p)) \<longleftrightarrow>
      path_comps r q = [] \<or> strict_prefix (path_comps r q) (path_comps r p)"
  proof (cases "Clean_comps q = []")
    case True
    then show ?thesis
      using Clean_ends_slash [OF q] p q by (simp add: fold_case_Clean) (simp add: path_comps_def)
  next
    case False
    then have ne: "path_comps r q \<noteq> []" by (simp add: path_comps_def)
    have "fold_case r ?prefx = CHR ''/'' # strings_Join (path_comps r q) ''/'' @ ''/''"
      using False Clean_ends_slash [OF q] q by (simp add: fold_case_append fold_case_Clean)
    with ne show ?thesis
      using prefix_Join_slash [of "path_comps r p" "path_comps r q"] path_comps_no_slash p
      by (auto simp: fold_case_Clean)
  qed
  finally show ?thesis by (auto simp: strict_prefix_def)
qed

section \<open>The interface of path containment\<close>

text \<open>
  What the clients of \<open>Under\<close> rely on: on the paths they handle (absolute ones) it is a preorder
  whose kernel is \<open>EqualPath\<close>, and the directories that contain one path form a chain.
\<close>

locale path_containment =
  fixes valid :: "'p \<Rightarrow> bool"
    and under :: "'p \<Rightarrow> 'p \<Rightarrow> bool"
    and equal :: "'p \<Rightarrow> 'p \<Rightarrow> bool"
  assumes under_refl: "valid p \<Longrightarrow> under p p"
    and under_trans: "valid p \<Longrightarrow> valid q \<Longrightarrow> valid w \<Longrightarrow> under p q \<Longrightarrow> under q w \<Longrightarrow> under p w"
    and under_antisym: "valid p \<Longrightarrow> valid q \<Longrightarrow> under p q \<Longrightarrow> under q p \<Longrightarrow> equal p q"
    and equal_under: "valid p \<Longrightarrow> valid q \<Longrightarrow> equal p q \<Longrightarrow> under p q \<and> under q p"
    and under_chain: "valid p \<Longrightarrow> valid q \<Longrightarrow> valid w \<Longrightarrow> under p q \<Longrightarrow> under p w \<Longrightarrow> under q w \<or> under w q"
begin

lemma equal_trans:
  "valid p \<Longrightarrow> valid q \<Longrightarrow> valid w \<Longrightarrow> equal p q \<Longrightarrow> equal q w \<Longrightarrow> equal p w"
  by (meson equal_under under_antisym under_trans)

lemma separate_roots:
  assumes "valid q" and "valid w" and "\<not> under q w" and "\<not> under w q"
  shows "valid p \<Longrightarrow> under p q \<Longrightarrow> \<not> under p w"
  using assms under_chain by blast

lemma outside_mono:
  "valid p \<Longrightarrow> valid q \<Longrightarrow> valid w \<Longrightarrow> under p q \<Longrightarrow> \<not> under p w \<Longrightarrow> \<not> under q w"
  using under_trans by blast

end

interpretation unix_paths: path_containment IsAbs "Under r" "EqualPath r" for r
  by unfold_locales
    (auto simp: Under_comps EqualPath_comps intro: prefix_order.antisym prefix_order.trans
      dest: prefix_same_cases)

end
