(* ===== verification/Config.thy ===== *)
theory Config
  imports Intenter_Prelude
begin

text \<open>
  \<^verbatim>\<open>internal/config/config.go\<close>: the effective configuration, its defaults and the set of protected
  branches that hard rule R7 reads.
\<close>

section \<open>The configuration\<close>

record daemon_config =
  LazyStart :: bool
  RequestTimeoutMS :: int

record policy_config =
  AllowReadonlyWorkspace :: bool
  ProtectedBranches :: "string list"
  SensitivePathsExtra :: "string list"

record claude_config =
  SettingsPath :: string
  HookTimeoutSeconds :: int
  HookConfigChange :: bool

record updates_config =
  Check :: bool
  CheckInterval :: string
  RemindInterval :: string
  PromptTimeout :: string
  Channel :: string
  StartupHook :: bool

record config =
  LogLevel :: string
  Daemon :: daemon_config
  Policy :: policy_config
  GeneratedDirsExtra :: "string list"
  Claude :: claude_config
  StoreResponseSummary :: bool
  Updates :: updates_config
  Path :: string
  Warnings :: "string list"

definition ChannelStable :: string where
  "ChannelStable = ''stable''"

definition ChannelPrerelease :: string where
  "ChannelPrerelease = ''prerelease''"

definition Default :: config where
  "Default =
     \<lparr>LogLevel = ''info'',
      Daemon = \<lparr>LazyStart = True, RequestTimeoutMS = 5000\<rparr>,
      Policy = \<lparr>AllowReadonlyWorkspace = True, ProtectedBranches = [''main'', ''master''],
                SensitivePathsExtra = []\<rparr>,
      GeneratedDirsExtra = [],
      Claude = \<lparr>SettingsPath = [], HookTimeoutSeconds = 10, HookConfigChange = False\<rparr>,
      StoreResponseSummary = True,
      Updates = \<lparr>Check = True, CheckInterval = ''24h'', RemindInterval = ''24h'',
                 PromptTimeout = ''30s'', Channel = ChannelStable, StartupHook = True\<rparr>,
      Path = [], Warnings = []\<rparr>"

definition ProtectedBranchSet :: "config \<Rightarrow> string set" where
  "ProtectedBranchSet c = set (filter (\<lambda>b. b \<noteq> []) (map TrimSpace (ProtectedBranches (Policy c))))"

end
