(* ===== verification/Hard_Rules.thy ===== *)
theory Hard_Rules
  imports Action_Model Path_Rules Config
begin

text \<open>
  The safety floor of \<^verbatim>\<open>internal/policy/hard_rules.go\<close>: rules R1 to R13 over everything that was
  parsed and resolved, and how their findings combine. \<open>net.ParseIP\<close>, which R11 uses, is modelled
  for the addresses it accepts.
\<close>

section \<open>Outcomes and findings\<close>

datatype hard_outcome = HardPass | HardAskAlways | HardBlock

primrec outcomeRank :: "hard_outcome \<Rightarrow> nat" where
  "outcomeRank HardPass = 0"
| "outcomeRank HardAskAlways = 1"
| "outcomeRank HardBlock = 2"

primrec hard_outcome_str :: "hard_outcome \<Rightarrow> string" where
  "hard_outcome_str HardPass = ''PASS''"
| "hard_outcome_str HardAskAlways = ''ASK_ALWAYS''"
| "hard_outcome_str HardBlock = ''BLOCK''"

definition Stronger :: "hard_outcome \<Rightarrow> hard_outcome \<Rightarrow> hard_outcome" where
  "Stronger a b = (if outcomeRank b > outcomeRank a then b else a)"

record finding =
  fd_rule :: string
  fd_outcome :: hard_outcome
  fd_reason :: string

abbreviation Finding :: "string \<Rightarrow> hard_outcome \<Rightarrow> string \<Rightarrow> finding" where
  "Finding rule out reason \<equiv> \<lparr>fd_rule = rule, fd_outcome = out, fd_reason = reason\<rparr>"

definition Findings_Outcome :: "finding list \<Rightarrow> hard_outcome" where
  "Findings_Outcome f = foldl (\<lambda>strongest fd. Stronger strongest (fd_outcome fd)) HardPass f"

fun strongest_step :: "finding option \<Rightarrow> finding \<Rightarrow> finding option" where
  "strongest_step None fd = Some fd"
| "strongest_step (Some best) fd =
     (if outcomeRank (fd_outcome fd) > outcomeRank (fd_outcome best) then Some fd
      else if outcomeRank (fd_outcome fd) = outcomeRank (fd_outcome best) \<and> fd_rule fd < fd_rule best
      then Some fd else Some best)"

definition Strongest :: "finding list \<Rightarrow> finding option" where
  "Strongest f = foldl strongest_step None f"

definition Reasons :: "finding list \<Rightarrow> string list" where
  "Reasons f = map (\<lambda>fd. fd_rule fd @ '': '' @ fd_reason fd) f"

record policy_input =
  pi_action :: "resolved_action option"
  pi_context :: "request_context option"
  pi_config :: config
  pi_rules :: path_rules
  pi_agent :: string

section \<open>Addresses\<close>

definition ipv4_field :: "string \<Rightarrow> nat option" where
  "ipv4_field s =
     (if s = [] \<or> \<not> list_all is_digit s \<or> (1 < length s \<and> hd s = CHR ''0'') then None
      else case Atoi s of None \<Rightarrow> None | Some v \<Rightarrow> if v \<le> 255 then Some (nat v) else None)"

fun ipv4_fields :: "string list \<Rightarrow> nat list option" where
  "ipv4_fields [] = Some []"
| "ipv4_fields (f # fs) =
     (case ipv4_field f of None \<Rightarrow> None
      | Some v \<Rightarrow> map_option ((#) v) (ipv4_fields fs))"

definition parseIPv4 :: "string \<Rightarrow> nat list option" where
  "parseIPv4 s =
     (let fs = strings_Split s ''.'' in if length fs = 4 then ipv4_fields fs else None)"

definition hex_value :: "char \<Rightarrow> nat option" where
  "hex_value c =
     (if is_digit c then Some (of_char c - 48)
      else if CHR ''a'' \<le> c \<and> c \<le> CHR ''f'' then Some (of_char c - 87)
      else if CHR ''A'' \<le> c \<and> c \<le> CHR ''F'' then Some (of_char c - 55)
      else None)"

definition hex_number :: "string \<Rightarrow> nat" where
  "hex_number s = foldl (\<lambda>acc c. 16 * acc + the (hex_value c)) 0 s"

text \<open>
  The loop of \<open>netip.parseIPv6\<close>: the bytes read so far, the position of the ellipsis and the text
  that is left; every round reads two or four of the sixteen bytes, so eight rounds are enough.
\<close>

fun parseIPv6_loop :: "nat \<Rightarrow> nat list \<Rightarrow> nat option \<Rightarrow> string \<Rightarrow> (nat list \<times> nat option \<times> string) option" where
  "parseIPv6_loop 0 ip ellipsis s = Some (ip, ellipsis, s)"
| "parseIPv6_loop (Suc n) ip ellipsis s =
     (if 16 \<le> length ip then Some (ip, ellipsis, s)
      else let digits = takeWhile (\<lambda>c. hex_value c \<noteq> None) s; rest = drop (length digits) s in
      if digits = [] \<or> 4 < length digits then None
      else if rest \<noteq> [] \<and> hd rest = CHR ''.'' then
        (if ellipsis = None \<and> length ip \<noteq> 12 then None
         else if 16 < length ip + 4 then None
         else case parseIPv4 s of None \<Rightarrow> None | Some v4 \<Rightarrow> Some (ip @ v4, ellipsis, []))
      else let ip = ip @ [hex_number digits div 256, hex_number digits mod 256] in
        case rest of
          [] \<Rightarrow> Some (ip, ellipsis, [])
        | c # s \<Rightarrow>
            if c \<noteq> CHR '':'' \<or> s = [] then None
            else if hd s = CHR '':'' then
              (if ellipsis \<noteq> None then None
               else if tl s = [] then Some (ip, Some (length ip), [])
               else parseIPv6_loop n ip (Some (length ip)) (tl s))
            else parseIPv6_loop n ip ellipsis s)"

definition parseIPv6 :: "string \<Rightarrow> nat list option" where
  "parseIPv6 s =
     (if s = ''::'' then Some (replicate 16 0)
      else case (if HasPrefix s ''::'' then parseIPv6_loop 8 [] (Some 0) (drop 2 s)
                 else parseIPv6_loop 8 [] None s) of
             None \<Rightarrow> None
           | Some (ip, ellipsis, rest) \<Rightarrow>
               if rest \<noteq> [] then None
               else if length ip < 16 then
                 (case ellipsis of None \<Rightarrow> None
                  | Some e \<Rightarrow> Some (take e ip @ replicate (16 - length ip) 0 @ drop e ip))
               else if ellipsis \<noteq> None then None else Some ip)"

text \<open>The sixteen bytes of an address; a zone is refused, an IPv4 address is mapped.\<close>

definition ParseIP :: "string \<Rightarrow> nat list option" where
  "ParseIP s =
     (let marks = filter (\<lambda>c. c = CHR ''.'' \<or> c = CHR '':'' \<or> c = CHR ''%'') s in
      if CHR ''%'' \<in> set s then None
      else case marks of
             [] \<Rightarrow> None
           | m # _ \<Rightarrow>
               if m = CHR ''.'' then map_option (\<lambda>v4. replicate 10 0 @ [255, 255] @ v4) (parseIPv4 s)
               else parseIPv6 s)"

definition To4 :: "nat list \<Rightarrow> nat list option" where
  "To4 ip = (if take 12 ip = replicate 10 0 @ [255, 255] then Some (drop 12 ip) else None)"

definition IsLoopback :: "nat list \<Rightarrow> bool" where
  "IsLoopback ip =
     (case To4 ip of Some v4 \<Rightarrow> hd v4 = 127 | None \<Rightarrow> ip = replicate 15 0 @ [1])"

definition IsUnspecified :: "nat list \<Rightarrow> bool" where
  "IsUnspecified ip = (To4 ip = Some [0, 0, 0, 0] \<or> ip = replicate 16 0)"

definition isLocalhost :: "string \<Rightarrow> bool" where
  "isLocalhost host =
     (let trim = (\<lambda>c. c = CHR ''['' \<or> c = CHR '']'');
          host = ToLower (TrimRight_by trim (TrimLeft_by trim host))
      in if host = [] \<or> host = ''localhost'' \<or> HasSuffix host ''.localhost'' then True
         else case ParseIP host of
                Some ip \<Rightarrow> IsLoopback ip \<or> IsUnspecified ip
              | None \<Rightarrow> False)"

section \<open>Rules on one effect\<close>

definition ruleR1 :: "effect \<Rightarrow> target \<Rightarrow> finding option" where
  "ruleR1 effect target =
     (if t_scope target \<noteq> ScopeSystem then None
      else if e_type effect = EffectDelete then
        Some (Finding ''R1'' HardBlock
          (''deleting '' @ t_display target @ '', which is part of the operating system''))
      else if e_type effect = EffectWrite \<or> e_type effect = EffectCreate then
        Some (Finding ''R1'' HardBlock
          (''writing to '' @ t_display target @ '', which is part of the operating system''))
      else None)"

definition ruleR2 :: "effect \<Rightarrow> target \<Rightarrow> finding option" where
  "ruleR2 effect target =
     (let found = (\<lambda>reason. Some (Finding ''R2'' HardBlock
                     (reason @ '' '' @ t_display target @ '', which is in your home directory'')))
      in if effect_HasFlag effect EffectFlagRecursive then found ''recursively deleting''
         else if effect_HasFlag effect EffectFlagWildcard \<or> target_HasFlag target FlagWildcard
           then found ''deleting everything matching''
         else if target_HasFlag target FlagBroad then found ''deleting''
         else if target_HasFlag target FlagSensitive then found ''deleting''
         else None)"

definition ruleR3 :: "effect \<Rightarrow> target \<Rightarrow> finding option" where
  "ruleR3 effect target =
     (let broad = (effect_HasFlag effect EffectFlagRecursive \<or> effect_HasFlag effect EffectFlagWildcard \<or>
                   target_HasFlag target FlagWildcard \<or> t_is_dir target)
      in if \<not> broad then None
         else if target_HasFlag target FlagTemp \<and> \<not> target_HasFlag target FlagBroad then None
         else if target_HasFlag target FlagTemp then
           Some (Finding ''R3'' HardBlock
             (''deleting '' @ t_display target @ '', the temporary directory itself''))
         else Some (Finding ''R3'' HardBlock
             (''deleting '' @ t_display target @ '', which is outside this project'')))"

definition ruleR4 :: "target \<Rightarrow> finding" where
  "ruleR4 target =
     Finding ''R4'' HardAskAlways (''deleting '' @ t_display target @ '', which is outside this project'')"

definition ruleR5 :: "effect \<Rightarrow> target \<Rightarrow> finding option" where
  "ruleR5 effect target =
     (let tail = '', which holds credentials or Intenter'' @ [CHR 0x27] @ ''s own configuration''
      in if \<not> target_HasFlag target FlagSensitive then None
         else if e_type effect = EffectRead then
           Some (Finding ''R5'' HardAskAlways (''reading '' @ t_display target @ tail))
         else if e_type effect = EffectWrite \<or> e_type effect = EffectCreate \<or> e_type effect = EffectDelete then
           Some (Finding ''R5'' HardBlock (''changing '' @ t_display target @ tail))
         else None)"

definition ruleR6 :: "target \<Rightarrow> finding option" where
  "ruleR6 target =
     (if target_HasFlag target FlagSymlinkEscape then
        Some (Finding ''R6'' HardAskAlways
          (t_raw target @ '' is a link that points outside this project, to '' @ t_display target))
      else if target_HasFlag target FlagTraversal then
        Some (Finding ''R6'' HardAskAlways
          (t_raw target @ '' leaves this project and resolves to '' @ t_display target))
      else None)"

definition ruleR10 :: "effect \<Rightarrow> finding option" where
  "ruleR10 effect =
     (if effect_HasFlag effect EffectFlagElevated then
        Some (Finding ''R10'' HardAskAlways ''the command runs with elevated privileges'')
      else if effect_HasFlag effect EffectFlagInlineCredential then
        Some (Finding ''R10'' HardAskAlways ''the command carries a credential in its arguments'')
      else None)"

definition ruleR11 :: "effect \<Rightarrow> finding option" where
  "ruleR11 effect =
     (if e_type effect \<noteq> EffectNetwork \<or> \<not> effect_HasFlag effect EffectFlagInsecureTLS then None
      else case e_network effect of
             None \<Rightarrow> None
           | Some n \<Rightarrow>
               if isLocalhost (n_host n) then None
               else Some (Finding ''R11'' HardAskAlways
                      (''contacting '' @ n_host n @ '' with certificate verification disabled'')))"

definition ruleR12 :: "effect \<Rightarrow> finding option" where
  "ruleR12 effect =
     (case e_program effect of
        None \<Rightarrow> None
      | Some p \<Rightarrow>
          if e_type effect \<noteq> EffectExecute then None
          else if \<not> p_streamed p \<or> p_resolution p \<noteq> ProgramUnresolved then None
          else Some (Finding ''R12'' HardAskAlways
                 (p_name p @ '' executes content piped into it from another command'')))"

definition opt_list :: "'a option \<Rightarrow> 'a list" where
  "opt_list x = (case x of None \<Rightarrow> [] | Some y \<Rightarrow> [y])"

definition effectRules :: "effect \<Rightarrow> finding list" where
  "effectRules effect =
     (let findings = opt_list (ruleR10 effect) @ opt_list (ruleR11 effect) @ opt_list (ruleR12 effect)
      in case e_target effect of
           None \<Rightarrow> findings
         | Some target \<Rightarrow>
             let findings = findings @ opt_list (ruleR1 effect target) @ opt_list (ruleR5 effect target)
                              @ opt_list (ruleR6 target)
             in if e_type effect = EffectDelete then
                  (case t_scope target of
                     ScopeHome \<Rightarrow>
                       (case ruleR2 effect target of
                          Some finding \<Rightarrow> findings @ [finding] | None \<Rightarrow> findings @ [ruleR4 target])
                   | ScopeOutsideWorkspace \<Rightarrow>
                       (case ruleR3 effect target of
                          Some finding \<Rightarrow> findings @ [finding] | None \<Rightarrow> findings @ [ruleR4 target])
                   | _ \<Rightarrow> findings)
                else findings)"

section \<open>Rules on commands and on the whole action\<close>

definition isProtectedBranch :: "string \<Rightarrow> policy_input \<Rightarrow> bool" where
  "isProtectedBranch branch inp =
     (if branch = [] then True
      else if branch \<in> ProtectedBranchSet (pi_config inp) then True
      else case pi_context inp of
             None \<Rightarrow> False
           | Some ctx \<Rightarrow> (case cx_git ctx of None \<Rightarrow> False | Some g \<Rightarrow> gi_default_branch g = branch))"

definition ruleR7 :: "resolved_command \<Rightarrow> policy_input \<Rightarrow> finding option" where
  "ruleR7 command inp =
     (if rc_semantic_op command \<noteq> OpGitPush then None
      else
        let forced = (\<exists>e \<in> set (rc_effects command). effect_HasFlag e EffectFlagForce);
            deletes = (\<exists>e \<in> set (rc_effects command). effect_HasFlag e EffectFlagDelete);
            broad = (\<exists>e \<in> set (rc_effects command). effect_HasFlag e EffectFlagBroad);
            (branch, known) = (case rc_git command of
                                 None \<Rightarrow> ([], False) | Some g \<Rightarrow> (g_branch g, g_branch_known g))
        in if deletes then Some (Finding ''R7'' HardAskAlways ''the push deletes a branch on the remote'')
           else if broad then
             Some (Finding ''R7'' HardAskAlways ''the push updates every branch or tag at once'')
           else if \<not> forced then None
           else if \<not> known then
             Some (Finding ''R7'' HardAskAlways
               ''the push rewrites history on a branch Intenter could not determine'')
           else if isProtectedBranch branch inp then
             Some (Finding ''R7'' HardAskAlways
               (''the push rewrites history on '' @ branch @ '', a protected branch''))
           else None)"

definition ruleR8 :: "resolved_command \<Rightarrow> finding option" where
  "ruleR8 command =
     (if rc_semantic_op command \<noteq> OpGitCheckout \<and> rc_semantic_op command \<noteq> OpGitReset then None
      else if \<exists>e \<in> set (rc_effects command). effect_HasFlag e EffectFlagDiscardsChanges then
        Some (Finding ''R8'' HardAskAlways ''the command discards uncommitted changes'')
      else None)"

fun commandRules :: "policy_input \<Rightarrow> resolved_command \<Rightarrow> finding list" where
  "commandRules inp command =
     opt_list (ruleR7 command inp) @ opt_list (ruleR8 command) @
     concat (map (commandRules inp) (rc_children command))"

declare commandRules.simps [simp del]

definition samePath :: "policy_input \<Rightarrow> string \<Rightarrow> string \<Rightarrow> bool" where
  "samePath inp a b = (if a = [] \<or> b = [] then False else EqualPath (pi_rules inp) a b)"

definition workspaceDeleteRule :: "policy_input \<Rightarrow> string \<Rightarrow> effect \<Rightarrow> finding option" where
  "workspaceDeleteRule inp root effect =
     (case e_target effect of
        None \<Rightarrow> None
      | Some target \<Rightarrow>
          if e_type effect \<noteq> EffectDelete then None
          else if samePath inp (t_canonical target) root then
            Some (Finding ''R9'' HardAskAlways (''deleting '' @ t_display target @ '', the project root itself''))
          else if samePath inp (t_canonical target) (filepath_Join [root, ''.git'']) then
            Some (Finding ''R9'' HardAskAlways
              (''deleting '' @ t_display target @ '', the project'' @ [CHR 0x27] @ ''s git directory''))
          else None)"

definition workspaceDeleteRules :: "policy_input \<Rightarrow> resolved_action \<Rightarrow> finding list" where
  "workspaceDeleteRules inp a =
     (case pi_context inp of
        None \<Rightarrow> []
      | Some ctx \<Rightarrow>
          if cx_workspace_root ctx = [] then []
          else concat (map (\<lambda>effect. opt_list (workspaceDeleteRule inp (cx_workspace_root ctx) effect))
                         (ra_effects a)))"

definition ruleR13 :: "resolved_action \<Rightarrow> finding option" where
  "ruleR13 a =
     (if \<not> ra_incomplete a then None
      else Some (Finding ''R13'' HardAskAlways
             (if ra_incomplete_reason a = [] then ''part of the command line could not be examined''
              else ra_incomplete_reason a)))"

definition ruleOrder :: "string \<Rightarrow> nat" where
  "ruleOrder rule =
     foldl (\<lambda>number c. number * 10 + (of_char c - 48)) 0 (takeWhile is_digit (drop 1 rule))"

definition finding_key :: "finding \<Rightarrow> string" where
  "finding_key fd = fd_rule fd @ ''|'' @ hard_outcome_str (fd_outcome fd) @ ''|'' @ fd_reason fd"

text \<open>
  The stable sort compares rule numbers first and the reasons of one rule next: sorting by reason and
  then, stably, by number. Distinct rules have distinct numbers.
\<close>

definition dedupeFindings :: "finding list \<Rightarrow> finding list" where
  "dedupeFindings findings =
     sort_key (\<lambda>fd. ruleOrder (fd_rule fd)) (sort_key fd_reason (dedupe_on finding_key findings))"

definition HardRules :: "policy_input \<Rightarrow> finding list" where
  "HardRules inp =
     (case pi_action inp of
        None \<Rightarrow> []
      | Some a \<Rightarrow>
          dedupeFindings
            (concat (map effectRules (ra_effects a)) @
             concat (map (commandRules inp) (ra_commands a)) @
             workspaceDeleteRules inp a @
             opt_list (ruleR13 a)))"

section \<open>How findings combine\<close>

lemma Findings_Outcome_ge:
  "k \<le> outcomeRank (Findings_Outcome f) \<longleftrightarrow> k = 0 \<or> (\<exists>fd \<in> set f. k \<le> outcomeRank (fd_outcome fd))"
proof -
  have "k \<le> outcomeRank (foldl (\<lambda>s fd. Stronger s (fd_outcome fd)) o' f) \<longleftrightarrow>
      k \<le> outcomeRank o' \<or> (\<exists>fd \<in> set f. k \<le> outcomeRank (fd_outcome fd))" for o'
    by (induction f arbitrary: o') (auto simp: Stronger_def)
  then show ?thesis by (auto simp: Findings_Outcome_def)
qed

lemma outcomeRank_inject [simp]: "outcomeRank a = outcomeRank b \<longleftrightarrow> a = b"
  by (cases a; cases b) simp_all

lemma outcomeRank_block: "2 \<le> outcomeRank o' \<longleftrightarrow> o' = HardBlock"
  by (cases o') simp_all

lemma outcomeRank_pass: "Suc 0 \<le> outcomeRank o' \<longleftrightarrow> o' \<noteq> HardPass"
  by (cases o') simp_all

lemma Findings_Outcome_block:
  "Findings_Outcome f = HardBlock \<longleftrightarrow> (\<exists>fd \<in> set f. fd_outcome fd = HardBlock)"
  using Findings_Outcome_ge [of 2 f] by (simp add: outcomeRank_block)

lemma Findings_Outcome_pass:
  "Findings_Outcome f = HardPass \<longleftrightarrow> (\<forall>fd \<in> set f. fd_outcome fd = HardPass)"
  using Findings_Outcome_ge [of "Suc 0" f] by (auto simp: outcomeRank_pass)

definition strongest_of :: "finding list \<Rightarrow> finding \<Rightarrow> bool" where
  "strongest_of f b =
     (b \<in> set f \<and> (\<forall>fd \<in> set f. outcomeRank (fd_outcome fd) \<le> outcomeRank (fd_outcome b) \<and>
        (fd_outcome fd = fd_outcome b \<longrightarrow> fd_rule b \<le> fd_rule fd)))"

lemma strongest_fold:
  "\<exists>b'. foldl strongest_step (Some b) f = Some b' \<and> strongest_of (b # f) b'"
proof (induction f rule: rev_induct)
  case Nil
  then show ?case by (simp add: strongest_of_def)
next
  case (snoc x f)
  then obtain b' where b': "foldl strongest_step (Some b) f = Some b'" "strongest_of (b # f) b'" by blast
  obtain c where c: "strongest_step (Some b') x = Some c"
    by (cases "strongest_step (Some b') x") (simp_all split: if_splits)
  then have "strongest_of [b', x] c"
    by (auto simp: strongest_of_def split: if_splits)
  then have "strongest_of (b # f @ [x]) c"
    using b'(2) by (auto simp: strongest_of_def intro: order_trans)
  with b' c show ?case by simp
qed

lemma Strongest_of: "f \<noteq> [] \<Longrightarrow> \<exists>b. Strongest f = Some b \<and> strongest_of f b"
  using strongest_fold [of "hd f" "tl f"] by (cases f) (simp_all add: Strongest_def)

lemma Strongest_None [simp]: "Strongest f = None \<longleftrightarrow> f = []"
  using Strongest_of [of f] by (cases f) (auto simp: Strongest_def)

lemma Strongest_SomeD: "Strongest f = Some b \<Longrightarrow> strongest_of f b"
  using Strongest_of [of f] Strongest_None [of f] by fastforce

lemma Strongest_Outcome: "Strongest f = Some b \<Longrightarrow> fd_outcome b = Findings_Outcome f"
proof -
  assume "Strongest f = Some b"
  then have b: "strongest_of f b" by (rule Strongest_SomeD)
  then have "outcomeRank (fd_outcome b) \<le> outcomeRank (Findings_Outcome f)"
    by (auto simp: Findings_Outcome_ge strongest_of_def)
  moreover have "outcomeRank (Findings_Outcome f) \<le> outcomeRank (fd_outcome b)"
    using b Findings_Outcome_ge [of "outcomeRank (Findings_Outcome f)" f]
    by (auto simp: strongest_of_def intro: order_trans)
  ultimately show ?thesis using outcomeRank_inject by fastforce
qed

section \<open>What the rules find\<close>

definition raw_findings :: "policy_input \<Rightarrow> resolved_action \<Rightarrow> finding list" where
  "raw_findings inp a =
     concat (map effectRules (ra_effects a)) @ concat (map (commandRules inp) (ra_commands a)) @
     workspaceDeleteRules inp a @ opt_list (ruleR13 a)"

lemma set_opt_list [simp]: "set (opt_list x) = set_option x"
  by (cases x) (simp_all add: opt_list_def)

lemmas effect_rule_defs = ruleR1_def ruleR2_def ruleR3_def ruleR4_def ruleR5_def ruleR6_def
  ruleR10_def ruleR11_def ruleR12_def

lemma set_effectRules:
  "set (effectRules e) =
     set_option (ruleR10 e) \<union> set_option (ruleR11 e) \<union> set_option (ruleR12 e) \<union>
     (case e_target e of
        None \<Rightarrow> {}
      | Some t \<Rightarrow> set_option (ruleR1 e t) \<union> set_option (ruleR5 e t) \<union> set_option (ruleR6 t) \<union>
          (if e_type e = EffectDelete \<and> t_scope t = ScopeHome
           then (case ruleR2 e t of Some fd \<Rightarrow> {fd} | None \<Rightarrow> {ruleR4 t})
           else if e_type e = EffectDelete \<and> t_scope t = ScopeOutsideWorkspace
           then (case ruleR3 e t of Some fd \<Rightarrow> {fd} | None \<Rightarrow> {ruleR4 t})
           else {}))"
  by (simp add: effectRules_def Let_def split: option.split scope.split) auto

lemma commandRules_ask: "fd \<in> set (commandRules inp c) \<Longrightarrow> fd_outcome fd = HardAskAlways \<and> CHR ''|'' \<notin> set (fd_rule fd)"
proof (induction inp c rule: commandRules.induct)
  case (1 inp c)
  then show ?case
    by (subst (asm) commandRules.simps)
      (auto simp: ruleR7_def ruleR8_def Let_def split: if_splits option.splits prod.splits)
qed

lemma workspaceDeleteRule_ask:
  "workspaceDeleteRule inp root e = Some fd \<Longrightarrow> fd_outcome fd = HardAskAlways \<and> CHR ''|'' \<notin> set (fd_rule fd)"
  by (auto simp: workspaceDeleteRule_def split: if_splits option.splits)

lemma set_workspaceDeleteRules:
  "set (workspaceDeleteRules inp a) =
     (case pi_context inp of
        None \<Rightarrow> {}
      | Some ctx \<Rightarrow> if cx_workspace_root ctx = [] then {}
          else \<Union>e \<in> set (ra_effects a). set_option (workspaceDeleteRule inp (cx_workspace_root ctx) e))"
  by (cases "pi_context inp") (simp_all add: workspaceDeleteRules_def)

lemma workspaceDeleteRules_ask:
  "fd \<in> set (workspaceDeleteRules inp a) \<Longrightarrow> fd_outcome fd = HardAskAlways \<and> CHR ''|'' \<notin> set (fd_rule fd)"
  using workspaceDeleteRule_ask by (fastforce simp: set_workspaceDeleteRules split: option.splits if_splits)

lemma ruleR13_ask: "ruleR13 a = Some fd \<Longrightarrow> fd_outcome fd = HardAskAlways \<and> CHR ''|'' \<notin> set (fd_rule fd)"
  by (auto simp: ruleR13_def split: if_splits)

definition proper :: "finding \<Rightarrow> bool" where
  "proper fd = (fd_outcome fd \<noteq> HardPass \<and> CHR ''|'' \<notin> set (fd_rule fd))"

lemma effect_rules_proper:
  "ruleR1 e t = Some fd \<Longrightarrow> proper fd" "ruleR2 e t = Some fd \<Longrightarrow> proper fd"
  "ruleR3 e t = Some fd \<Longrightarrow> proper fd" "proper (ruleR4 t)"
  "ruleR5 e t = Some fd \<Longrightarrow> proper fd" "ruleR6 t = Some fd \<Longrightarrow> proper fd"
  "ruleR10 e = Some fd \<Longrightarrow> proper fd" "ruleR11 e = Some fd \<Longrightarrow> proper fd"
  "ruleR12 e = Some fd \<Longrightarrow> proper fd"
  by (force simp: effect_rule_defs proper_def Let_def split: if_splits option.splits)+

lemma effectRules_proper: "fd \<in> set (effectRules e) \<Longrightarrow> proper fd"
  by (auto simp: set_effectRules effect_rules_proper split: if_splits option.splits)

lemma raw_findings_proper: "fd \<in> set (raw_findings inp a) \<Longrightarrow> proper fd"
proof -
  have ask: "fd_outcome fd = HardAskAlways \<and> CHR ''|'' \<notin> set (fd_rule fd) \<Longrightarrow> proper fd"
    by (simp add: proper_def)
  assume "fd \<in> set (raw_findings inp a)"
  then consider e where "fd \<in> set (effectRules e)" | c where "fd \<in> set (commandRules inp c)"
    | "fd \<in> set (workspaceDeleteRules inp a)" | "ruleR13 a = Some fd"
    by (auto simp: raw_findings_def)
  then show ?thesis
    by cases (blast intro: effectRules_proper ask [OF commandRules_ask] ask [OF workspaceDeleteRules_ask]
      ask [OF ruleR13_ask])+
qed

lemma finding_key_inject:
  assumes "CHR ''|'' \<notin> set (fd_rule x)" and "CHR ''|'' \<notin> set (fd_rule y)"
  shows "finding_key x = finding_key y \<longleftrightarrow> x = y"
proof -
  have "CHR ''|'' \<notin> set (hard_outcome_str o')" for o' by (cases o') simp_all
  moreover have "hard_outcome_str o' = hard_outcome_str o'' \<longleftrightarrow> o' = o''" for o' o''
    by (cases o'; cases o'') simp_all
  ultimately show ?thesis
    using assms by (auto simp: finding_key_def split_at_char)
qed

lemma set_dedupeFindings:
  "\<forall>fd \<in> set fs. CHR ''|'' \<notin> set (fd_rule fd) \<Longrightarrow> set (dedupeFindings fs) = set fs"
  by (simp add: dedupeFindings_def) (rule set_dedupe_on_inj, auto simp: inj_on_def finding_key_inject)

lemma set_HardRules: "pi_action inp = Some a \<Longrightarrow> set (HardRules inp) = set (raw_findings inp a)"
  using raw_findings_proper [of _ inp a] by (simp add: HardRules_def raw_findings_def set_dedupeFindings proper_def)

lemma HardRules_not_pass: "fd \<in> set (HardRules inp) \<Longrightarrow> fd_outcome fd \<noteq> HardPass"
  using set_HardRules [of inp] raw_findings_proper [of fd inp]
  by (cases "pi_action inp") (auto simp: HardRules_def [of inp] proper_def)

text \<open>What R1, R2, R3 and R5 stop, stated on the effect alone.\<close>

definition changes :: "effect \<Rightarrow> bool" where
  "changes e = (e_type e \<in> {EffectWrite, EffectCreate, EffectDelete})"

definition wide_delete :: "effect \<Rightarrow> target \<Rightarrow> bool" where
  "wide_delete e t = (effect_HasFlag e EffectFlagRecursive \<or> effect_HasFlag e EffectFlagWildcard \<or>
     target_HasFlag t FlagWildcard)"

definition blocked_effect :: "effect \<Rightarrow> bool" where
  "blocked_effect e =
     (\<exists>t. e_target e = Some t \<and>
        (changes e \<and> t_scope t = ScopeSystem \<or>
         changes e \<and> target_HasFlag t FlagSensitive \<or>
         e_type e = EffectDelete \<and> t_scope t = ScopeHome \<and>
           (wide_delete e t \<or> target_HasFlag t FlagBroad) \<or>
         e_type e = EffectDelete \<and> t_scope t = ScopeOutsideWorkspace \<and>
           (wide_delete e t \<or> t_is_dir t) \<and> (target_HasFlag t FlagTemp \<longrightarrow> target_HasFlag t FlagBroad)))"

lemma effectRules_block:
  "(\<exists>fd \<in> set (effectRules e). fd_outcome fd = HardBlock) \<longleftrightarrow> blocked_effect e"
proof (cases "e_target e")
  case None
  then show ?thesis
    by (auto simp: set_effectRules blocked_effect_def effect_rule_defs split: if_splits option.splits)
next
  case (Some t)
  then show ?thesis
    by (cases "e_type e"; cases "t_scope t")
      (auto simp: set_effectRules blocked_effect_def effect_rule_defs changes_def wide_delete_def Let_def
        split: if_splits option.splits)
qed

lemma HardRules_block_iff:
  assumes "pi_action inp = Some a"
  shows "Findings_Outcome (HardRules inp) = HardBlock \<longleftrightarrow> (\<exists>e \<in> set (ra_effects a). blocked_effect e)"
proof -
  have "Findings_Outcome (HardRules inp) = HardBlock \<longleftrightarrow>
      (\<exists>fd \<in> set (raw_findings inp a). fd_outcome fd = HardBlock)"
    using assms by (simp add: Findings_Outcome_block set_HardRules)
  also have "\<dots> \<longleftrightarrow> (\<exists>e \<in> set (ra_effects a). \<exists>fd \<in> set (effectRules e). fd_outcome fd = HardBlock)"
    by (auto simp: raw_findings_def dest: commandRules_ask workspaceDeleteRules_ask ruleR13_ask)
  finally show ?thesis by (simp add: effectRules_block)
qed

lemma HardRules_passes: "Findings_Outcome (HardRules inp) = HardPass \<longleftrightarrow> HardRules inp = []"
  using HardRules_not_pass [of _ inp] by (cases "HardRules inp") (auto simp: Findings_Outcome_pass)

lemma delete_outside_found:
  assumes "pi_action inp = Some a" and "e \<in> set (ra_effects a)" and "e_type e = EffectDelete"
    and "e_target e = Some t" and "t_scope t \<in> {ScopeSystem, ScopeHome, ScopeOutsideWorkspace}"
  shows "HardRules inp \<noteq> []"
proof -
  have "set (effectRules e) \<noteq> {}"
    using assms(3-5) by (auto simp: set_effectRules ruleR1_def split: option.splits)
  then have "set (raw_findings inp a) \<noteq> {}" using assms(2) by (auto simp: raw_findings_def)
  then show ?thesis using set_HardRules [OF assms(1)] by auto
qed

lemma sensitive_found:
  assumes "pi_action inp = Some a" and "e \<in> set (ra_effects a)" and "e_target e = Some t"
    and "e_type e \<in> {EffectRead, EffectWrite, EffectCreate, EffectDelete}"
    and "target_HasFlag t FlagSensitive"
  shows "HardRules inp \<noteq> []"
proof -
  have "set_option (ruleR5 e t) \<noteq> {}" using assms(4,5) by (auto simp: ruleR5_def Let_def)
  then have "set (effectRules e) \<noteq> {}" using assms(3) by (auto simp: set_effectRules)
  then have "set (raw_findings inp a) \<noteq> {}" using assms(2) by (auto simp: raw_findings_def)
  then show ?thesis using set_HardRules [OF assms(1)] by auto
qed

lemma incomplete_found: "pi_action inp = Some a \<Longrightarrow> ra_incomplete a \<Longrightarrow> HardRules inp \<noteq> []"
proof -
  assume a: "pi_action inp = Some a" "ra_incomplete a"
  then have "set (raw_findings inp a) \<noteq> {}" by (simp add: raw_findings_def ruleR13_def)
  then show ?thesis using set_HardRules [OF a(1)] by auto
qed

text \<open>More effects and more commands only add findings.\<close>

lemma ruleR7_action_irrelevant: "ruleR7 c (inp\<lparr>pi_action := x\<rparr>) = ruleR7 c inp"
proof -
  have "isProtectedBranch b (inp\<lparr>pi_action := x\<rparr>) = isProtectedBranch b inp" for b
    by (simp add: isProtectedBranch_def)
  then show ?thesis by (simp only: ruleR7_def)
qed

lemma HardRules_mono:
  assumes a: "pi_action inp = Some a" and b: "pi_action inp' = Some b"
    and "set (ra_effects a) \<subseteq> set (ra_effects b)" and "set (ra_commands a) \<subseteq> set (ra_commands b)"
    and "ra_incomplete b = ra_incomplete a" and "ra_incomplete_reason b = ra_incomplete_reason a"
    and same: "inp' = inp\<lparr>pi_action := Some b\<rparr>"
  shows "set (HardRules inp) \<subseteq> set (HardRules inp')"
proof -
  have cmd: "commandRules (inp\<lparr>pi_action := x\<rparr>) c = commandRules inp c" for c x
    by (induction inp c rule: commandRules.induct)
      (subst (1 2) commandRules.simps, simp add: ruleR7_action_irrelevant cong: map_cong)
  have "set (workspaceDeleteRules inp a) \<subseteq> set (workspaceDeleteRules inp' b)"
  proof -
    have "samePath inp' p q = samePath inp p q" for p q using same by (simp add: samePath_def)
    then have "workspaceDeleteRule inp' root e = workspaceDeleteRule inp root e" for root e
      by (simp only: workspaceDeleteRule_def)
    then show ?thesis using assms(3) same by (auto simp: set_workspaceDeleteRules split: option.splits)
  qed
  moreover have "ruleR13 b = ruleR13 a" using assms(5,6) by (simp add: ruleR13_def)
  ultimately have "set (raw_findings inp a) \<subseteq> set (raw_findings inp' b)"
    using assms(3,4) same cmd by (auto simp: raw_findings_def)
  with a b show ?thesis by (simp add: set_HardRules)
qed

end
