(* ===== verification/Policy_Engine.thy ===== *)
theory Policy_Engine
  imports Hard_Rules
begin

text \<open>
  The decision order of \<^verbatim>\<open>internal/policy\<close>: the baseline (\<^verbatim>\<open>baseline.go\<close>), the engine with its
  three collaborators (\<^verbatim>\<open>engine.go\<close>) and the explanation of a decision (\<^verbatim>\<open>explain.go\<close>). The Go
  interfaces \<open>ApprovalMatcher\<close>, \<open>ConsentImporter\<close> and \<open>MismatchExplainer\<close> are fields of the engine: a
  nil collaborator is \<open>None\<close>, a call takes the store and returns an error or a result with the store
  it leaves. What the engine relies on is the locale \<open>policy_collaborators\<close>.
\<close>

section \<open>The baseline\<close>

definition baselineDisqualifyingFlags :: "target_flag list" where
  "baselineDisqualifyingFlags = [FlagSensitive, FlagTraversal, FlagSymlinkEscape, FlagNetworkPath]"

definition allNoop :: "resolved_action \<Rightarrow> bool" where
  "allNoop a = (ra_commands a \<noteq> [] \<and> (\<forall>c \<in> set (ra_commands a). rc_semantic_op c = OpNoop))"

definition baseline_effect :: "effect \<Rightarrow> bool" where
  "baseline_effect effect =
     (if e_type effect \<noteq> EffectRead then False
      else case e_target effect of
             None \<Rightarrow> False
           | Some target \<Rightarrow>
               if Ambiguous target then False
               else if t_scope target \<noteq> ScopeWorkspace \<and> t_scope target \<noteq> ScopeWorkspaceGenerated then False
               else \<not> target_HasAnyFlag target baselineDisqualifyingFlags)"

definition BaselineReadOnlyWorkspace :: "policy_input \<Rightarrow> bool" where
  "BaselineReadOnlyWorkspace inp =
     (if \<not> AllowReadonlyWorkspace (Policy (pi_config inp)) then False
      else case pi_action inp of
             None \<Rightarrow> False
           | Some a \<Rightarrow>
               if ra_status a \<noteq> StatusResolved then False
               else if \<not> Context_OK (pi_context inp) then False
               else if ra_effects a = [] then allNoop a
               else \<forall>effect \<in> set (ra_effects a). baseline_effect effect)"

section \<open>The engine\<close>

record match_outcome =
  mo_approval_id :: int
  mo_matched :: bool
  mo_mismatches :: "mismatch_report list"

definition no_match :: match_outcome where
  "no_match = \<lparr>mo_approval_id = 0, mo_matched = False, mo_mismatches = []\<rparr>"

record 's engine =
  en_approvals :: "(policy_input \<Rightarrow> 's \<Rightarrow> (string + match_outcome) \<times> 's) option"
  en_consent :: "(policy_input \<Rightarrow> agent_consent option \<Rightarrow> 's \<Rightarrow> (string + match_outcome) \<times> 's) option"
  en_explainer :: "(policy_input \<Rightarrow> 's \<Rightarrow> string + mismatch_report list) option"
  en_version :: int

text \<open>A matcher that can explain mismatches serves as the explainer too: the third argument.\<close>

definition NewEngine ::
    "(policy_input \<Rightarrow> 's \<Rightarrow> (string + match_outcome) \<times> 's) option \<Rightarrow>
     (policy_input \<Rightarrow> agent_consent option \<Rightarrow> 's \<Rightarrow> (string + match_outcome) \<times> 's) option \<Rightarrow>
     (policy_input \<Rightarrow> 's \<Rightarrow> string + mismatch_report list) option \<Rightarrow> int \<Rightarrow> 's engine" where
  "NewEngine approvals consent explainer engineVersion =
     \<lparr>en_approvals = approvals, en_consent = consent,
      en_explainer = (case approvals of None \<Rightarrow> None | Some _ \<Rightarrow> explainer), en_version = engineVersion\<rparr>"

definition plain_decision ::
    "'s engine \<Rightarrow> decision_outcome \<Rightarrow> decision_class \<Rightarrow> string \<Rightarrow> decision" where
  "plain_decision e outcome cls reason =
     \<lparr>d_outcome = outcome, d_class = cls, d_reason = reason, d_approval_id = None, d_hard_rule = [],
      d_mismatch_reports = [], d_engine_version = en_version e\<rparr>"

definition engineError :: "'s engine \<Rightarrow> string \<Rightarrow> decision" where
  "engineError e reason = plain_decision e OutcomeAsk ClassEngineError reason"

definition hardOutcome :: "'s engine \<Rightarrow> finding list \<Rightarrow> decision option" where
  "hardOutcome e findings =
     (case Strongest findings of
        None \<Rightarrow> None
      | Some strongest \<Rightarrow>
          if fd_outcome strongest = HardPass then None
          else if fd_outcome strongest = HardBlock then
            Some ((plain_decision e OutcomeBlock (HardRuleClass (fd_rule strongest)) (fd_reason strongest))
                    \<lparr>d_hard_rule := fd_rule strongest\<rparr>)
          else Some ((plain_decision e OutcomeAsk ClassPolicyRequiresConfirmation (fd_reason strongest))
                    \<lparr>d_hard_rule := fd_rule strongest\<rparr>))"

definition statusReason :: "resolved_action \<Rightarrow> string \<Rightarrow> string" where
  "statusReason a fallback = (if ra_status_reason a \<noteq> [] then ra_status_reason a else fallback)"

definition uncertain :: "'s engine \<Rightarrow> resolved_action \<Rightarrow> decision option" where
  "uncertain e a =
     (let ask = (\<lambda>cls reason. Some (plain_decision e OutcomeAsk cls reason)) in
      case ra_status a of
        StatusParseFailed \<Rightarrow>
          ask ClassUnsupportedSyntax
            (statusReason a ''the command uses shell syntax Intenter does not interpret'')
      | StatusContextFailed \<Rightarrow>
          ask ClassContextUnavailable (statusReason a ''no project could be determined for this command'')
      | StatusUnresolved \<Rightarrow>
          ask ClassUnresolvedCommand (statusReason a ''Intenter cannot tell what this command would do'')
      | _ \<Rightarrow>
          if HasAmbiguousTarget a then
            ask ClassAmbiguousPath
              ''the command's target depends on a variable Intenter cannot expand''
          else None)"

definition withMismatchExplanation :: "'s engine \<Rightarrow> policy_input \<Rightarrow> 's \<Rightarrow> decision \<Rightarrow> decision" where
  "withMismatchExplanation e inp s decision =
     (case en_explainer e of
        None \<Rightarrow> decision
      | Some mismatches \<Rightarrow>
          if d_outcome decision = OutcomeAllow \<or> d_mismatch_reports decision \<noteq> [] then decision
          else case mismatches inp s of
                 Inl err \<Rightarrow> decision
               | Inr reports \<Rightarrow>
                   if reports = [] then decision else decision\<lparr>d_mismatch_reports := reports\<rparr>)"

definition engine_match :: "'s engine \<Rightarrow> policy_input \<Rightarrow> 's \<Rightarrow> (string + match_outcome) \<times> 's" where
  "engine_match e inp s =
     (case en_approvals e of None \<Rightarrow> (Inr no_match, s) | Some match \<Rightarrow> match inp s)"

definition mismatchReason :: "mismatch_report list \<Rightarrow> string" where
  "mismatchReason reports =
     (case reports of
        [] \<Rightarrow> []
      | first # _ \<Rightarrow>
          ''approval '' @ Itoa (mr_approval_id first) @ '' no longer covers this action'' @
          (case mr_differences first of [] \<Rightarrow> [] | d # _ \<Rightarrow> '': '' @ d))"

text \<open>Step 7: ask, naming the approval that stopped matching when there is one.\<close>

definition ask_decision :: "'s engine \<Rightarrow> match_outcome \<Rightarrow> decision" where
  "ask_decision e match =
     (if mo_mismatches match \<noteq> [] then
        (plain_decision e OutcomeAsk ClassApprovalMismatch (mismatchReason (mo_mismatches match)))
          \<lparr>d_mismatch_reports := mo_mismatches match\<rparr>
      else plain_decision e OutcomeAsk ClassNoMatchingApproval
             ''this action has not been approved for this project yet'')"

definition EvaluateDetailed ::
    "'s engine \<Rightarrow> policy_input \<Rightarrow> agent_consent option \<Rightarrow> 's \<Rightarrow> (decision \<times> finding list) \<times> 's" where
  "EvaluateDetailed e inp consent s =
     (case pi_action inp of
        None \<Rightarrow> ((engineError e ''there was nothing to evaluate'', []), s)
      | Some a \<Rightarrow>
     (let findings = HardRules inp in
      case hardOutcome e findings of
        Some decided \<Rightarrow> ((withMismatchExplanation e inp s decided, findings), s)
      | None \<Rightarrow>
     (case uncertain e a of
        Some decided \<Rightarrow> ((withMismatchExplanation e inp s decided, findings), s)
      | None \<Rightarrow>
      if BaselineReadOnlyWorkspace inp then
        ((plain_decision e OutcomeAllow ClassPolicyReadonlyWorkspace
            ''reads only files inside this project'', findings), s)
      else
     (case engine_match e inp s of
        (Inl err, s1) \<Rightarrow>
          ((engineError e (''the approval store could not be read: '' @ err), findings), s1)
      | (Inr match, s1) \<Rightarrow>
      if mo_matched match then
        (((plain_decision e OutcomeAllow ClassApprovalMatch
             (''approval '' @ Itoa (mo_approval_id match) @ '' covers this action''))
            \<lparr>d_approval_id := Some (mo_approval_id match)\<rparr>, findings), s1)
      else if \<not> Usable consent then ((ask_decision e match, findings), s1)
      else
     (case en_consent e of
        None \<Rightarrow> ((ask_decision e match, findings), s1)
      | Some import \<Rightarrow>
     (case import inp consent s1 of
        (Inl err, s2) \<Rightarrow> ((engineError e (''the consent import failed: '' @ err), findings), s2)
      | (Inr imported, s2) \<Rightarrow>
      if mo_matched imported then
        (((plain_decision e OutcomeAllow ClassRuleImport
             ''your agent already holds persistent permission for this action'')
            \<lparr>d_approval_id := Some (mo_approval_id imported)\<rparr>, findings), s2)
      else ((ask_decision e match, findings), s2)))))))"

definition Evaluate ::
    "'s engine \<Rightarrow> policy_input \<Rightarrow> agent_consent option \<Rightarrow> 's \<Rightarrow> decision \<times> 's" where
  "Evaluate e inp consent s =
     (case EvaluateDetailed e inp consent s of ((decision, _), s') \<Rightarrow> (decision, s'))"

section \<open>Explanations\<close>

definition decisionLine :: "decision \<Rightarrow> string" where
  "decisionLine d =
     (if d_hard_rule d \<noteq> [] \<and> d_outcome d = OutcomeBlock then
        ''blocked by safety rule '' @ d_hard_rule d @ '': '' @ d_reason d
      else if d_hard_rule d \<noteq> [] then
        ''confirmation required by safety rule '' @ d_hard_rule d @ '': '' @ d_reason d
      else case d_approval_id d of
             Some i \<Rightarrow>
               if d_class d = ClassRuleImport then
                 ''allowed by imported approval '' @ Itoa i @ '': '' @ d_reason d
               else ''allowed by approval '' @ Itoa i
           | None \<Rightarrow>
               if d_outcome d = OutcomeAllow then ''allowed: '' @ d_reason d
               else ''asking: '' @ d_reason d)"

definition joinList :: "string list \<Rightarrow> string" where
  "joinList values = strings_Join values '', ''"

definition Explain :: "policy_input \<Rightarrow> decision \<Rightarrow> finding list \<Rightarrow> string list" where
  "Explain inp d findings =
     (case pi_action inp of
        None \<Rightarrow> []
      | Some a \<Rightarrow> ra_explanation a @
          (if ra_unsupported a \<noteq> [] then [''not interpreted: '' @ joinList (ra_unsupported a)] else [])) @
     Reasons findings @ [decisionLine d] @
     concat (map (\<lambda>report. map (\<lambda>difference. ''approval '' @ Itoa (mr_approval_id report) @ '': '' @ difference)
                             (mr_differences report)) (d_mismatch_reports d))"

definition UserMessage :: "decision \<Rightarrow> string" where
  "UserMessage d =
     (case d_outcome d of
        OutcomeBlock \<Rightarrow> ''Intenter blocked this command: '' @ d_reason d
      | OutcomeAllow \<Rightarrow> []
      | OutcomeAsk \<Rightarrow> ''Intenter: '' @ d_reason d)"

section \<open>The order of the steps\<close>

lemma plain_decision_simps [simp]:
  "d_outcome (plain_decision e out cls r) = out" "d_class (plain_decision e out cls r) = cls"
  "d_approval_id (plain_decision e out cls r) = None" "d_hard_rule (plain_decision e out cls r) = []"
  "d_mismatch_reports (plain_decision e out cls r) = []" "d_reason (plain_decision e out cls r) = r"
  "d_engine_version (plain_decision e out cls r) = en_version e"
  by (simp_all add: plain_decision_def)

lemma engineError_simps [simp]:
  "d_outcome (engineError e r) = OutcomeAsk" "d_class (engineError e r) = ClassEngineError"
  by (simp_all add: engineError_def)

lemma ask_decision_simps [simp]:
  "d_outcome (ask_decision e m) = OutcomeAsk" "d_hard_rule (ask_decision e m) = []"
  "d_approval_id (ask_decision e m) = None"
  by (simp_all add: ask_decision_def)

lemma withMismatchExplanation_simps [simp]:
  "d_outcome (withMismatchExplanation e inp s d) = d_outcome d"
  "d_class (withMismatchExplanation e inp s d) = d_class d"
  "d_hard_rule (withMismatchExplanation e inp s d) = d_hard_rule d"
  "d_reason (withMismatchExplanation e inp s d) = d_reason d"
  "d_approval_id (withMismatchExplanation e inp s d) = d_approval_id d"
  by (simp_all add: withMismatchExplanation_def split: option.split sum.split)

lemma hardOutcome_None_iff: "hardOutcome e f = None \<longleftrightarrow> Findings_Outcome f = HardPass"
proof (cases "Strongest f")
  case None
  then have "f = []" by simp
  then show ?thesis by (simp add: hardOutcome_def Findings_Outcome_def Strongest_def)
next
  case (Some b)
  with Strongest_Outcome [OF Some] show ?thesis by (auto simp: hardOutcome_def)
qed

lemma hardOutcome_SomeD:
  "hardOutcome e f = Some d \<Longrightarrow>
   d_outcome d = (if Findings_Outcome f = HardBlock then OutcomeBlock else OutcomeAsk) \<and>
   (\<exists>b. Strongest f = Some b \<and> d_hard_rule d = fd_rule b \<and> d_reason d = fd_reason b)"
  using Strongest_Outcome [of f] by (auto simp: hardOutcome_def split: option.splits if_splits)

lemma uncertain_SomeD: "uncertain e a = Some d \<Longrightarrow> d_outcome d = OutcomeAsk \<and> d_hard_rule d = []"
  by (auto simp: uncertain_def Let_def split: resolution_status.splits if_splits)

lemma uncertain_None_iff:
  "uncertain e a = None \<longleftrightarrow>
   ra_status a \<notin> {StatusParseFailed, StatusContextFailed, StatusUnresolved} \<and> \<not> HasAmbiguousTarget a"
  by (cases "ra_status a") (simp_all add: uncertain_def Let_def)

lemma HardRules_None_action: "pi_action inp = None \<Longrightarrow> HardRules inp = []"
  by (simp add: HardRules_def)

text \<open>What the engine answers once neither the safety floor nor step 3 decided.\<close>

lemma EvaluateDetailed_decided:
  assumes "pi_action inp = Some a" and "hardOutcome e (HardRules inp) = Some d"
  shows "EvaluateDetailed e inp consent s = ((withMismatchExplanation e inp s d, HardRules inp), s)"
  using assms by (simp add: EvaluateDetailed_def)

lemma EvaluateDetailed_uncertain:
  assumes "pi_action inp = Some a" and "hardOutcome e (HardRules inp) = None" and "uncertain e a = Some d"
  shows "EvaluateDetailed e inp consent s = ((withMismatchExplanation e inp s d, HardRules inp), s)"
  using assms by (simp add: EvaluateDetailed_def)

lemma EvaluateDetailed_outcome_block:
  "d_outcome (fst (fst (EvaluateDetailed e inp consent s))) = OutcomeBlock \<longleftrightarrow>
   Findings_Outcome (HardRules inp) = HardBlock"
proof (cases "pi_action inp")
  case None
  then show ?thesis
    by (simp add: EvaluateDetailed_def HardRules_None_action Findings_Outcome_def)
next
  case (Some a)
  show ?thesis
  proof (cases "hardOutcome e (HardRules inp)")
    case (Some d)
    with \<open>pi_action inp = Some a\<close> hardOutcome_SomeD [OF Some] show ?thesis
      by (simp add: EvaluateDetailed_decided)
  next
    case None
    then have "Findings_Outcome (HardRules inp) = HardPass" by (simp add: hardOutcome_None_iff)
    moreover have "d_outcome (fst (fst (EvaluateDetailed e inp consent s))) \<noteq> OutcomeBlock"
      using \<open>pi_action inp = Some a\<close> None
      by (auto simp: EvaluateDetailed_def Let_def dest: uncertain_SomeD split: option.split sum.split prod.split)
    ultimately show ?thesis by simp
  qed
qed

lemma EvaluateDetailed_outcome_allow:
  assumes "d_outcome (fst (fst (EvaluateDetailed e inp consent s))) = OutcomeAllow"
  obtains (passed) a where "pi_action inp = Some a" "HardRules inp = []" "uncertain e a = None"
proof (cases "pi_action inp")
  case None
  with assms show ?thesis by (simp add: EvaluateDetailed_def)
next
  case (Some a)
  have h: "hardOutcome e (HardRules inp) = None"
  proof (cases "hardOutcome e (HardRules inp)")
    case (Some d)
    with assms hardOutcome_SomeD [OF Some] \<open>pi_action inp = Some a\<close> show ?thesis
      by (simp add: EvaluateDetailed_decided split: if_splits)
  qed
  have "uncertain e a = None"
  proof (cases "uncertain e a")
    case (Some d)
    with assms h uncertain_SomeD [OF Some] \<open>pi_action inp = Some a\<close> show ?thesis
      by (simp add: EvaluateDetailed_uncertain)
  qed
  with Some h show ?thesis
    by (intro passed) (simp_all add: hardOutcome_None_iff HardRules_passes)
qed

lemma EvaluateDetailed_findings: "snd (fst (EvaluateDetailed e inp consent s)) = HardRules inp"
  by (auto simp: EvaluateDetailed_def HardRules_None_action Let_def
      split: option.split sum.split prod.split)

lemma Evaluate_eq:
  "Evaluate e inp consent s =
     (fst (fst (EvaluateDetailed e inp consent s)), snd (EvaluateDetailed e inp consent s))"
  by (simp add: Evaluate_def split: prod.split)

lemma EvaluateDetailed_match_error:
  assumes "pi_action inp = Some a" and "HardRules inp = []" and "uncertain e a = None"
    and "\<not> BaselineReadOnlyWorkspace inp" and "engine_match e inp s = (Inl err, s1)"
  shows "d_class (fst (Evaluate e inp consent s)) = ClassEngineError"
  using assms by (simp add: Evaluate_def EvaluateDetailed_def hardOutcome_def Strongest_def)

lemma engine_names_rule:
  assumes "pi_action inp = Some a" and "HardRules inp \<noteq> []"
  shows "d_outcome (fst (Evaluate e inp consent s)) \<noteq> OutcomeAllow \<and>
         (\<exists>fd \<in> set (HardRules inp). d_hard_rule (fst (Evaluate e inp consent s)) = fd_rule fd)"
proof -
  have "hardOutcome e (HardRules inp) \<noteq> None"
    using assms(2) by (simp add: hardOutcome_None_iff HardRules_passes)
  then obtain d where d: "hardOutcome e (HardRules inp) = Some d" by blast
  from hardOutcome_SomeD [OF d] obtain b where "Strongest (HardRules inp) = Some b" "d_hard_rule d = fd_rule b"
    "d_outcome d \<noteq> OutcomeAllow" by (auto split: if_splits)
  then show ?thesis
    using EvaluateDetailed_decided [OF assms(1) d] Strongest_SomeD [of "HardRules inp" b]
    by (auto simp: Evaluate_eq strongest_of_def)
qed

section \<open>The interface of the engine's collaborators\<close>

text \<open>
  \<open>covers s i a\<close> is what the store promises: approval \<open>i\<close> of store \<open>s\<close> covers action \<open>a\<close>. On a store
  that satisfies its invariant, a matcher that answers matched names an approval that covers the
  action in the store it read; an importer that answers matched leaves a store in which the approval
  it names covers it. Both keep the invariant, and neither writes when it does not match.
\<close>

locale policy_collaborators =
  fixes match :: "policy_input \<Rightarrow> 's \<Rightarrow> (string + match_outcome) \<times> 's"
    and import :: "policy_input \<Rightarrow> agent_consent option \<Rightarrow> 's \<Rightarrow> (string + match_outcome) \<times> 's"
    and mismatches :: "policy_input \<Rightarrow> 's \<Rightarrow> string + mismatch_report list"
    and inv :: "'s \<Rightarrow> bool"
    and covers :: "'s \<Rightarrow> int \<Rightarrow> resolved_action \<Rightarrow> bool"
  assumes match_covers:
      "inv s \<Longrightarrow> match inp s = (Inr m, s') \<Longrightarrow> mo_matched m \<Longrightarrow>
       \<exists>a. pi_action inp = Some a \<and> covers s (mo_approval_id m) a"
    and import_covers:
      "inv s \<Longrightarrow> import inp c s = (Inr m, s') \<Longrightarrow> mo_matched m \<Longrightarrow>
       \<exists>a. pi_action inp = Some a \<and> covers s' (mo_approval_id m) a"
    and match_frame: "match inp s = (Inr m, s') \<Longrightarrow> \<not> mo_matched m \<Longrightarrow> s' = s"
    and import_frame: "import inp c s = (Inr m, s') \<Longrightarrow> \<not> mo_matched m \<Longrightarrow> s' = s"
    and match_inv: "inv s \<Longrightarrow> match inp s = (r, s') \<Longrightarrow> inv s'"
    and import_inv: "inv s \<Longrightarrow> import inp c s = (r, s') \<Longrightarrow> inv s'"
begin

abbreviation std_engine :: "int \<Rightarrow> 's engine" where
  "std_engine v \<equiv> NewEngine (Some match) (Some import) (Some mismatches) v"

lemma allow_justified:
  assumes inv: "inv s" and ev0: "Evaluate (std_engine v) inp consent s = (d, s')"
    and out: "d_outcome d = OutcomeAllow"
  shows "\<exists>a. pi_action inp = Some a \<and> HardRules inp = [] \<and>
     (BaselineReadOnlyWorkspace inp \<and> s' = s \<and> d_approval_id d = None \<or>
      (\<exists>i. d_approval_id d = Some i \<and> covers s i a) \<or>
      (\<exists>i. d_approval_id d = Some i \<and> Usable consent \<and> covers s' i a))"
proof -
  let ?e = "std_engine v"
  have allow: "d_outcome (fst (fst (EvaluateDetailed ?e inp consent s))) = OutcomeAllow"
    using ev0 out by (simp add: Evaluate_eq)
  then obtain a where a: "pi_action inp = Some a" "HardRules inp = []" "uncertain ?e a = None"
    by (rule EvaluateDetailed_outcome_allow)
  then have h: "hardOutcome ?e (HardRules inp) = None"
    by (simp add: hardOutcome_None_iff Findings_Outcome_def)
  note ev = ev0 [unfolded Evaluate_def EvaluateDetailed_def Let_def a(1) h a(3) option.case]
  obtain r s1 where m: "match inp s = (r, s1)" by fastforce
  obtain r2 s2 where im: "import inp consent s1 = (r2, s2)" by fastforce
  have inv1: "inv s1" using match_inv [OF inv m] .
  show ?thesis
  proof (cases "BaselineReadOnlyWorkspace inp")
    case True
    with ev a show ?thesis by auto
  next
    case False
    show ?thesis
      using ev False m im a out match_covers [OF inv] import_covers [OF inv1]
      by (fastforce simp: engine_match_def NewEngine_def split: sum.splits if_splits)
  qed
qed

lemma evaluate_inv:
  assumes inv: "inv s" and ev: "Evaluate (std_engine v) inp consent s = (d, s')"
  shows "inv s'"
proof (cases "pi_action inp")
  case None
  with assms show ?thesis by (auto simp: Evaluate_def EvaluateDetailed_def)
next
  case (Some a)
  obtain r s1 where m: "match inp s = (r, s1)" by fastforce
  obtain r2 s2 where im: "import inp consent s1 = (r2, s2)" by fastforce
  have inv1: "inv s1" using match_inv [OF inv m] .
  have inv2: "inv s2" using import_inv [OF inv1 im] .
  show ?thesis
    using ev Some m im inv inv1 inv2
    by (auto simp: Evaluate_def EvaluateDetailed_def Let_def engine_match_def NewEngine_def
        split: option.splits sum.splits if_splits)
qed

lemma ask_leaves_store:
  assumes "Evaluate (std_engine v) inp consent s = (d, s')" and "d_outcome d \<noteq> OutcomeAllow"
    and "d_class d \<noteq> ClassEngineError"
  shows "s' = s"
proof (cases "pi_action inp")
  case None
  with assms show ?thesis by (auto simp: Evaluate_def EvaluateDetailed_def)
next
  case (Some a)
  obtain r s1 where m: "match inp s = (r, s1)" by fastforce
  obtain r2 s2 where im: "import inp consent s1 = (r2, s2)" by fastforce
  show ?thesis
    using assms Some m im
    by (auto simp: Evaluate_def EvaluateDetailed_def Let_def engine_match_def NewEngine_def
        split: option.splits sum.splits if_splits dest: match_frame import_frame)
qed

end

end
