(* ===== verification/Storage.thy ===== *)
theory Storage
  imports Action_Model "HOL-Library.AList"
begin

text \<open>
  The repositories of \<^verbatim>\<open>internal/storage\<close> the approval logic writes through: approvals and their
  conditions (\<^verbatim>\<open>approvals.go\<close>, \<^verbatim>\<open>conditions.go\<close>), the event history (\<^verbatim>\<open>approval_events.go\<close>), rule
  imports (\<^verbatim>\<open>imports.go\<close>), projects (\<^verbatim>\<open>projects.go\<close>) and installation facts (\<^verbatim>\<open>meta.go\<close>). A table is
  the list of its rows in insertion order, a statement is a function from the store to an error or a
  result and the new store; the constraints are those of \<^verbatim>\<open>migrations/0001_initial.sql\<close>. A row id is
  the largest one plus one, as SQLite assigns it. A database that refuses a statement for a reason of
  its own is \<open>st_failing\<close>, the statements that fail.
\<close>

section \<open>Tables\<close>

datatype db_op =
    DbInsertApproval | DbSelectApproval | DbListApprovals | DbListConditions | DbSetState | DbRecordUse
  | DbInsertEvent | DbListEvents | DbInsertImport | DbSelectImport | DbUpsertProject | DbSelectProject
  | DbInsertAudit | DbSelectAudit | DbUpdateAudit | DbMeta

datatype storage_error =
    ErrNotFound string | ErrRevoked int | ErrConstraint string | ErrDatabase db_op

record audit_event =
  au_id :: int
  au_at :: go_time
  au_agent :: string
  au_agent_version :: string
  au_session_id :: string
  au_tool_use_id :: string
  au_hook_event :: string
  au_project_id :: string
  au_cwd :: string
  au_tool :: string
  au_dialect :: dialect
  au_raw_command :: string
  au_resolved :: "resolved_action option"
  au_resolution_status :: resolution_status
  au_decision :: decision_outcome
  au_class :: decision_class
  au_reason :: string
  au_hard_rule :: string
  au_matched_approval_id :: "int option"
  au_related_approval_ids :: "int list"
  au_mismatch_report :: "mismatch_report list"
  au_imported_approval_id :: "int option"
  au_adapter_action :: "adapter_action option"
  au_adapter_context :: "(string \<times> string) list"
  au_prompt_shown :: bool
  au_permission_suggestions :: "string list"
  au_execution_status :: "execution_status option"
  au_execution_at :: "go_time option"
  au_response_summary :: string
  au_engine_version :: int
  au_dry_run :: bool
  au_explanation :: "string list"

record store =
  st_projects :: "project list"
  st_approvals :: "approval list"
  st_conditions :: "(int \<times> approval_condition) list"
  st_events :: "approval_event list"
  st_imports :: "rule_import list"
  st_audit :: "audit_event list"
  st_meta :: "(string \<times> string) list"
  st_failing :: "db_op list"

definition emptyStore :: store where
  "emptyStore = \<lparr>st_projects = [], st_approvals = [], st_conditions = [], st_events = [], st_imports = [],
     st_audit = [], st_meta = [], st_failing = []\<rparr>"

definition db_op_str :: "db_op \<Rightarrow> string" where
  "db_op_str op =
     (case op of
        DbInsertApproval \<Rightarrow> ''insert approval'' | DbSelectApproval \<Rightarrow> ''read approval''
      | DbListApprovals \<Rightarrow> ''list approvals'' | DbListConditions \<Rightarrow> ''list approval conditions''
      | DbSetState \<Rightarrow> ''set approval state'' | DbRecordUse \<Rightarrow> ''record approval use''
      | DbInsertEvent \<Rightarrow> ''insert approval event'' | DbListEvents \<Rightarrow> ''list approval events''
      | DbInsertImport \<Rightarrow> ''insert rule import'' | DbSelectImport \<Rightarrow> ''check rule import''
      | DbUpsertProject \<Rightarrow> ''upsert project'' | DbSelectProject \<Rightarrow> ''get project''
      | DbInsertAudit \<Rightarrow> ''insert audit event'' | DbSelectAudit \<Rightarrow> ''list audit events''
      | DbUpdateAudit \<Rightarrow> ''update audit event'' | DbMeta \<Rightarrow> ''set meta'')"

definition storage_error_str :: "storage_error \<Rightarrow> string" where
  "storage_error_str err =
     (case err of
        ErrNotFound what \<Rightarrow> what @ '': storage: not found''
      | ErrRevoked i \<Rightarrow> ''storage: approval '' @ Itoa i @ '' is revoked; revocation is permanent''
      | ErrConstraint what \<Rightarrow> ''storage: '' @ what
      | ErrDatabase op \<Rightarrow> ''storage: '' @ db_op_str op)"

definition next_id :: "int list \<Rightarrow> int" where
  "next_id ids = 1 + foldl max 0 ids"

definition stamp :: "go_time \<Rightarrow> go_time \<Rightarrow> go_time" where
  "stamp now at = (if at = 0 then now else at)"

section \<open>Conditions\<close>

definition conditions_of :: "store \<Rightarrow> int \<Rightarrow> approval_condition list" where
  "conditions_of st i = sort_key c_key (map snd (filter (\<lambda>(j, c). j = i) (st_conditions st)))"

definition Conditions_ListByApproval :: "store \<Rightarrow> int \<Rightarrow> storage_error + approval_condition list" where
  "Conditions_ListByApproval st i =
     (if DbListConditions \<in> set (st_failing st) then Inl (ErrDatabase DbListConditions)
      else Inr (conditions_of st i))"

definition Conditions_ListByApprovals ::
    "store \<Rightarrow> int list \<Rightarrow> storage_error + (int \<Rightarrow> approval_condition list)" where
  "Conditions_ListByApprovals st ids =
     (if ids = [] then Inr (\<lambda>_. [])
      else if DbListConditions \<in> set (st_failing st) then Inl (ErrDatabase DbListConditions)
      else Inr (\<lambda>i. if i \<in> set ids then conditions_of st i else []))"

definition FindApprovalIDsByFingerprintKeys ::
    "store \<Rightarrow> string \<Rightarrow> string list \<Rightarrow> storage_error + int list" where
  "FindApprovalIDsByFingerprintKeys st projectID keys =
     (if keys = [] then Inr []
      else if DbListConditions \<in> set (st_failing st) then Inl (ErrDatabase DbListConditions)
      else Inr (sort (remdups
             (map fst (filter (\<lambda>(i, c). c_key c \<in> set keys \<and>
                (\<exists>a \<in> set (st_approvals st). a_id a = i \<and> a_project_id a = projectID)) (st_conditions st))))))"

section \<open>Approvals\<close>

record approval_filter =
  af_project_id :: string
  af_include_inactive :: bool
  af_limit :: int

definition project_exists :: "store \<Rightarrow> string \<Rightarrow> bool" where
  "project_exists st i = (\<exists>p \<in> set (st_projects st). pr_id p = i)"

definition approval_exists :: "store \<Rightarrow> int \<Rightarrow> bool" where
  "approval_exists st i = (\<exists>a \<in> set (st_approvals st). a_id a = i)"

definition append_event ::
    "store \<Rightarrow> int \<Rightarrow> approval_event_type \<Rightarrow> int option \<Rightarrow> go_time \<Rightarrow> store" where
  "append_event st i ty auditID at =
     st\<lparr>st_events := st_events st @
       [\<lparr>ae_id = next_id (map ae_id (st_events st)), ae_approval_id = i, ae_type = ty,
         ae_audit_event_id = auditID, ae_at = at\<rparr>]\<rparr>"

definition approval_row :: "go_time \<Rightarrow> int \<Rightarrow> approval \<Rightarrow> approval" where
  "approval_row createdAt i a =
     a\<lparr>a_id := i, a_targets := (if a_kind a = ApprovalExact then a_targets a else []),
       a_created_at := createdAt, a_conditions := []\<rparr>"

definition Approvals_Insert ::
    "go_time \<Rightarrow> approval \<Rightarrow> store \<Rightarrow> (storage_error + int) \<times> store" where
  "Approvals_Insert now a st =
     (let createdAt = stamp now (a_created_at a);
          i = next_id (map a_id (st_approvals st))
      in if DbInsertApproval \<in> set (st_failing st) then (Inl (ErrDatabase DbInsertApproval), st)
         else if \<not> project_exists st (a_project_id a) then (Inl (ErrConstraint ''insert approval''), st)
         else if \<not> distinct (map (\<lambda>c. (c_kind c, c_key c)) (a_conditions a))
           then (Inl (ErrConstraint ''insert approval condition''), st)
         else (Inr i, append_event
                (st\<lparr>st_approvals := st_approvals st @ [approval_row createdAt i a],
                    st_conditions := st_conditions st @ map (\<lambda>c. (i, c)) (a_conditions a)\<rparr>)
                i ApprovalEventCreated (a_created_from_event_id a) createdAt))"

definition find_approval :: "store \<Rightarrow> int \<Rightarrow> approval option" where
  "find_approval st i = find (\<lambda>a. a_id a = i) (st_approvals st)"

definition Approvals_Get :: "store \<Rightarrow> int \<Rightarrow> storage_error + approval" where
  "Approvals_Get st i =
     (if DbSelectApproval \<in> set (st_failing st) then Inl (ErrDatabase DbSelectApproval)
      else case find_approval st i of
             None \<Rightarrow> Inl (ErrNotFound (''approval '' @ Itoa i))
           | Some a \<Rightarrow>
               (case Conditions_ListByApproval st i of
                  Inl err \<Rightarrow> Inl err
                | Inr conditions \<Rightarrow> Inr (a\<lparr>a_conditions := conditions\<rparr>)))"

definition kind_rank :: "approval \<Rightarrow> nat" where
  "kind_rank a = (if a_kind a = ApprovalExact then 0 else 1)"

text \<open>Ordering by kind and then by id: by id first, then stably by kind.\<close>

definition match_order :: "approval list \<Rightarrow> approval list" where
  "match_order as = sort_key kind_rank (sort_key a_id as)"

definition Approvals_List :: "store \<Rightarrow> approval_filter \<Rightarrow> storage_error + approval list" where
  "Approvals_List st f =
     (if DbListApprovals \<in> set (st_failing st) then Inl (ErrDatabase DbListApprovals)
      else
        let rows = match_order (filter (\<lambda>a. (af_project_id f = [] \<or> a_project_id a = af_project_id f) \<and>
                                           (af_include_inactive f \<or> a_state a = ApprovalActive))
                                 (st_approvals st));
            out = (if af_limit f > 0 then take (nat (af_limit f)) rows else rows)
        in case Conditions_ListByApprovals st (map a_id out) of
             Inl err \<Rightarrow> Inl err
           | Inr conditions \<Rightarrow> Inr (map (\<lambda>a. a\<lparr>a_conditions := conditions (a_id a)\<rparr>) out))"

definition update_approval :: "int \<Rightarrow> (approval \<Rightarrow> approval) \<Rightarrow> store \<Rightarrow> store" where
  "update_approval i f st =
     st\<lparr>st_approvals := map (\<lambda>a. if a_id a = i then f a else a) (st_approvals st)\<rparr>"

definition state_event :: "approval_state \<Rightarrow> approval_event_type" where
  "state_event state =
     (case state of
        ApprovalActive \<Rightarrow> ApprovalEventEnabled
      | ApprovalDisabled \<Rightarrow> ApprovalEventDisabled
      | ApprovalRevoked \<Rightarrow> ApprovalEventRevoked)"

definition set_state_row :: "approval_state \<Rightarrow> go_time \<Rightarrow> approval \<Rightarrow> approval" where
  "set_state_row state at a =
     (case state of
        ApprovalActive \<Rightarrow> a\<lparr>a_state := state, a_disabled_at := None\<rparr>
      | ApprovalDisabled \<Rightarrow> a\<lparr>a_state := state, a_disabled_at := Some at\<rparr>
      | ApprovalRevoked \<Rightarrow> a\<lparr>a_state := state, a_revoked_at := Some at\<rparr>)"

definition Approvals_SetState ::
    "go_time \<Rightarrow> int \<Rightarrow> approval_state \<Rightarrow> go_time \<Rightarrow> store \<Rightarrow> (storage_error + unit) \<times> store" where
  "Approvals_SetState now i state at st =
     (let at = stamp now at in
      if DbSetState \<in> set (st_failing st) then (Inl (ErrDatabase DbSetState), st)
      else case find_approval st i of
             None \<Rightarrow> (Inl (ErrNotFound (''approval '' @ Itoa i)), st)
           | Some a \<Rightarrow>
               if a_state a = ApprovalRevoked then (Inl (ErrRevoked i), st)
               else (Inr (), append_event (update_approval i (set_state_row state at) st)
                               i (state_event state) None at))"

definition Approvals_RecordUse ::
    "go_time \<Rightarrow> int \<Rightarrow> go_time \<Rightarrow> store \<Rightarrow> (storage_error + unit) \<times> store" where
  "Approvals_RecordUse now i at st =
     (let at = stamp now at in
      if DbRecordUse \<in> set (st_failing st) then (Inl (ErrDatabase DbRecordUse), st)
      else if \<not> approval_exists st i then (Inl (ErrNotFound (''approval '' @ Itoa i)), st)
      else (Inr (), update_approval i (\<lambda>a. a\<lparr>a_use_count := a_use_count a + 1, a_last_used_at := Some at\<rparr>) st))"

definition Approvals_CountByState :: "store \<Rightarrow> storage_error + (approval_state \<Rightarrow> nat)" where
  "Approvals_CountByState st =
     (if DbListApprovals \<in> set (st_failing st) then Inl (ErrDatabase DbListApprovals)
      else Inr (\<lambda>state. length (filter (\<lambda>a. a_state a = state) (st_approvals st))))"

section \<open>Events\<close>

definition ApprovalEvents_Insert ::
    "go_time \<Rightarrow> approval_event \<Rightarrow> store \<Rightarrow> (storage_error + int) \<times> store" where
  "ApprovalEvents_Insert now ev st =
     (let i = next_id (map ae_id (st_events st)) in
      if DbInsertEvent \<in> set (st_failing st) then (Inl (ErrDatabase DbInsertEvent), st)
      else if \<not> approval_exists st (ae_approval_id ev) then (Inl (ErrConstraint ''insert approval event''), st)
      else (Inr i, append_event st (ae_approval_id ev) (ae_type ev) (ae_audit_event_id ev)
                     (stamp now (ae_at ev))))"

text \<open>Newest first: by descending id and then, stably, by descending time.\<close>

definition ApprovalEvents_ListByApproval :: "store \<Rightarrow> int \<Rightarrow> int \<Rightarrow> storage_error + approval_event list" where
  "ApprovalEvents_ListByApproval st i limit =
     (let limit = (if limit \<le> 0 then 10 else limit) in
      if DbListEvents \<in> set (st_failing st) then Inl (ErrDatabase DbListEvents)
      else Inr (take (nat limit) (sort_key (\<lambda>e. - ae_at e) (sort_key (\<lambda>e. - ae_id e)
                  (filter (\<lambda>e. ae_approval_id e = i) (st_events st))))))"

section \<open>Rule imports\<close>

definition import_key :: "rule_import \<Rightarrow> string \<times> string \<times> string \<times> string" where
  "import_key r = (ri_project_id r, ri_agent r, ri_rule_key r, ri_raw_command r)"

definition Imports_InsertOnce :: "go_time \<Rightarrow> rule_import \<Rightarrow> store \<Rightarrow> (storage_error + bool) \<times> store" where
  "Imports_InsertOnce now r st =
     (let row = r\<lparr>ri_id := next_id (map ri_id (st_imports st)), ri_imported_at := stamp now (ri_imported_at r)\<rparr> in
      if DbInsertImport \<in> set (st_failing st) then (Inl (ErrDatabase DbInsertImport), st)
      else if import_key r \<in> import_key ` set (st_imports st) then (Inr False, st)
      else if \<not> approval_exists st (ri_approval_id r) then (Inl (ErrConstraint ''insert rule import''), st)
      else (Inr True, st\<lparr>st_imports := st_imports st @ [row]\<rparr>))"

definition Imports_Exists :: "store \<Rightarrow> string \<Rightarrow> string \<Rightarrow> string \<Rightarrow> string \<Rightarrow> storage_error + bool" where
  "Imports_Exists st projectID agent ruleKey rawCommand =
     (if DbSelectImport \<in> set (st_failing st) then Inl (ErrDatabase DbSelectImport)
      else Inr ((projectID, agent, ruleKey, rawCommand) \<in> import_key ` set (st_imports st)))"

fun Imports_AnyExists :: "store \<Rightarrow> string \<Rightarrow> string \<Rightarrow> string list \<Rightarrow> string \<Rightarrow> storage_error + bool" where
  "Imports_AnyExists st projectID agent [] rawCommand = Inr False"
| "Imports_AnyExists st projectID agent (key # keys) rawCommand =
     (case Imports_Exists st projectID agent key rawCommand of
        Inl err \<Rightarrow> Inl err
      | Inr exists \<Rightarrow> if exists then Inr True else Imports_AnyExists st projectID agent keys rawCommand)"

definition Imports_ListByApproval :: "store \<Rightarrow> int \<Rightarrow> storage_error + rule_import list" where
  "Imports_ListByApproval st i =
     (if DbSelectImport \<in> set (st_failing st) then Inl (ErrDatabase DbSelectImport)
      else Inr (sort_key ri_id (filter (\<lambda>r. ri_approval_id r = i) (st_imports st))))"

section \<open>Projects and installation facts\<close>

definition Projects_Upsert :: "go_time \<Rightarrow> project \<Rightarrow> store \<Rightarrow> (storage_error + unit) \<times> store" where
  "Projects_Upsert clock p st =
     (let now = stamp clock (pr_last_seen_at p);
          first = (if pr_first_seen_at p = 0 then now else pr_first_seen_at p);
          refresh = (\<lambda>q. q\<lparr>pr_root_path := pr_root_path p,
                           pr_remote_url := (if pr_remote_url p \<noteq> [] then pr_remote_url p else pr_remote_url q),
                           pr_last_seen_at := now\<rparr>)
      in if DbUpsertProject \<in> set (st_failing st) then (Inl (ErrDatabase DbUpsertProject), st)
         else if project_exists st (pr_id p) then
           (Inr (), st\<lparr>st_projects := map (\<lambda>q. if pr_id q = pr_id p then refresh q else q) (st_projects st)\<rparr>)
         else (Inr (), st\<lparr>st_projects := st_projects st @ [p\<lparr>pr_first_seen_at := first, pr_last_seen_at := now\<rparr>]\<rparr>))"

definition Projects_Get :: "store \<Rightarrow> string \<Rightarrow> storage_error + project" where
  "Projects_Get st i =
     (if DbSelectProject \<in> set (st_failing st) then Inl (ErrDatabase DbSelectProject)
      else case find (\<lambda>p. pr_id p = i) (st_projects st) of
             None \<Rightarrow> Inl (ErrNotFound (''project '' @ i)) | Some p \<Rightarrow> Inr p)"

definition Projects_FindByRoot :: "store \<Rightarrow> string \<Rightarrow> storage_error + project" where
  "Projects_FindByRoot st root =
     (if DbSelectProject \<in> set (st_failing st) then Inl (ErrDatabase DbSelectProject)
      else case find (\<lambda>p. pr_root_path p = root) (st_projects st) of
             None \<Rightarrow> Inl (ErrNotFound (''project at '' @ root))
           | Some p \<Rightarrow> Projects_Get st (pr_id p))"

definition Projects_List :: "store \<Rightarrow> storage_error + project list" where
  "Projects_List st =
     (if DbSelectProject \<in> set (st_failing st) then Inl (ErrDatabase DbSelectProject)
      else Inr (sort_key (\<lambda>p. - pr_last_seen_at p) (st_projects st)))"

definition Meta_Set :: "string \<Rightarrow> string \<Rightarrow> store \<Rightarrow> (storage_error + unit) \<times> store" where
  "Meta_Set key value st =
     (if DbMeta \<in> set (st_failing st) then (Inl (ErrDatabase DbMeta), st)
      else (Inr (), st\<lparr>st_meta := AList.update key value (st_meta st)\<rparr>))"

definition Meta_Get :: "store \<Rightarrow> string \<Rightarrow> storage_error + string" where
  "Meta_Get st key =
     (if DbMeta \<in> set (st_failing st) then Inl (ErrDatabase DbMeta)
      else case map_of (st_meta st) key of
             None \<Rightarrow> Inl (ErrNotFound (''meta '' @ key)) | Some v \<Rightarrow> Inr v)"

section \<open>The history of a store\<close>

text \<open>
  One step is one successful or refused write statement. There is no statement that deletes an
  approval, a condition, an event or an import, and a step relation over all of them shows what that
  means for the rows.
\<close>

inductive store_step :: "store \<Rightarrow> store \<Rightarrow> bool" where
  step_insert: "Approvals_Insert now a st = (r, st') \<Longrightarrow> store_step st st'"
| step_state: "Approvals_SetState now i state at st = (r', st') \<Longrightarrow> store_step st st'"
| step_use: "Approvals_RecordUse now i at st = (r', st') \<Longrightarrow> store_step st st'"
| step_event: "ApprovalEvents_Insert now ev st = (r, st') \<Longrightarrow> store_step st st'"
| step_import: "Imports_InsertOnce now im st = (b, st') \<Longrightarrow> store_step st st'"
| step_project: "Projects_Upsert now p st = (r', st') \<Longrightarrow> store_step st st'"
| step_meta: "Meta_Set key value st = (r', st') \<Longrightarrow> store_step st st'"

definition store_ok :: "store \<Rightarrow> bool" where
  "store_ok st =
     (distinct (map a_id (st_approvals st)) \<and> (\<forall>a \<in> set (st_approvals st). 0 < a_id a) \<and>
      (\<forall>a \<in> set (st_approvals st). project_exists st (a_project_id a)) \<and>
      distinct (map (\<lambda>(i, c). (i, c_kind c, c_key c)) (st_conditions st)) \<and>
      (\<forall>(i, c) \<in> set (st_conditions st). approval_exists st i) \<and>
      (\<forall>e \<in> set (st_events st). approval_exists st (ae_approval_id e)) \<and>
      (\<forall>a \<in> set (st_approvals st). \<exists>e \<in> set (st_events st).
          ae_approval_id e = a_id a \<and> ae_type e = ApprovalEventCreated) \<and>
      distinct (map import_key (st_imports st)) \<and>
      (\<forall>r \<in> set (st_imports st). approval_exists st (ri_approval_id r)))"

lemma foldl_max_ge: "x \<in> set ids \<or> x \<le> m \<Longrightarrow> x \<le> foldl max (m :: int) ids"
proof (induction ids arbitrary: m)
  case (Cons y ids)
  from Cons.prems have "x \<in> set ids \<or> x \<le> max m y" by auto
  from Cons.IH [OF this] show ?case by simp
qed simp

lemma next_id_fresh: "i \<in> set ids \<Longrightarrow> i < next_id ids"
  using foldl_max_ge [of i ids 0] by (simp add: next_id_def)

lemma next_id_pos: "0 < next_id ids"
  using foldl_max_ge [of 0 ids 0] by (simp add: next_id_def)

lemma next_id_notin: "next_id ids \<notin> set ids"
  using next_id_fresh by fastforce

text \<open>The part of an approval that says what it permits and where it came from.\<close>

definition grant :: "approval \<Rightarrow> approval" where
  "grant a = a\<lparr>a_state := ApprovalActive, a_last_used_at := None, a_use_count := 0,
               a_disabled_at := None, a_revoked_at := None\<rparr>"

definition keeps :: "approval \<Rightarrow> approval \<Rightarrow> bool" where
  "keeps a a' = (grant a' = grant a \<and> a_use_count a \<le> a_use_count a' \<and>
     (a_state a = ApprovalRevoked \<longrightarrow> a_state a' = ApprovalRevoked))"

text \<open>
  What every write keeps: no row of an approval is removed or changes what it permits, the uses only
  grow, a revoked approval stays revoked, and the other tables only grow at their end.
\<close>

definition grows :: "store \<Rightarrow> store \<Rightarrow> bool" where
  "grows st st' =
     ((\<exists>as bs. st_approvals st' = as @ bs \<and> list_all2 keeps (st_approvals st) as) \<and>
      (\<exists>cs. st_conditions st' = st_conditions st @ cs \<and> (\<forall>(i, c) \<in> set cs. \<not> approval_exists st i)) \<and>
      prefix (st_events st) (st_events st') \<and> prefix (st_imports st) (st_imports st') \<and>
      (\<forall>i. project_exists st i \<longrightarrow> project_exists st' i))"

lemma grant_sels [simp]:
  "a_id (grant a) = a_id a" "a_project_id (grant a) = a_project_id a" "a_kind (grant a) = a_kind a"
  "a_semantic_ops (grant a) = a_semantic_ops a" "a_envelope (grant a) = a_envelope a"
  "a_targets (grant a) = a_targets a" "a_network (grant a) = a_network a"
  "a_engine_version (grant a) = a_engine_version a"
  by (simp_all add: grant_def)

lemma keeps_id: "keeps a a' \<Longrightarrow> a_id a' = a_id a"
  unfolding keeps_def by (metis grant_sels(1))

lemma keeps_project: "keeps a a' \<Longrightarrow> a_project_id a' = a_project_id a"
  unfolding keeps_def by (metis grant_sels(2))

lemma keeps_refl: "keeps a a"
  by (simp add: keeps_def)

lemma keeps_trans: "keeps a b \<Longrightarrow> keeps b c \<Longrightarrow> keeps a c"
  by (auto simp: keeps_def)

lemma list_all2_keeps_ids: "list_all2 keeps as bs \<Longrightarrow> map a_id bs = map a_id as"
  by (induction rule: list_all2_induct) (simp_all add: keeps_id)

lemma growsE:
  assumes "grows st st'"
  obtains as bs cs where "st_approvals st' = as @ bs" "list_all2 keeps (st_approvals st) as"
    "st_conditions st' = st_conditions st @ cs" "\<forall>(i, c) \<in> set cs. \<not> approval_exists st i"
    "prefix (st_events st) (st_events st')" "prefix (st_imports st) (st_imports st')"
    "\<forall>i. project_exists st i \<longrightarrow> project_exists st' i"
  using assms unfolding grows_def by blast

lemma grows_exists: "grows st st' \<Longrightarrow> approval_exists st i \<Longrightarrow> approval_exists st' i"
proof (elim growsE)
  fix as bs
  assume "approval_exists st i" "st_approvals st' = as @ bs" "list_all2 keeps (st_approvals st) as"
  moreover from this have "set (map a_id as) = set (map a_id (st_approvals st))"
    by (metis list_all2_keeps_ids)
  ultimately have "i \<in> set (map a_id (as @ bs))" by (auto simp: approval_exists_def)
  with \<open>st_approvals st' = as @ bs\<close> show ?thesis by (auto simp: approval_exists_def)
qed

lemma grows_refl: "grows st st"
proof -
  have "list_all2 keeps (st_approvals st) (st_approvals st)" by (intro list_all2_refl keeps_refl)
  then show ?thesis unfolding grows_def by (auto intro: exI [of _ "st_approvals st"])
qed

lemma grows_trans:
  assumes ab: "grows st st'" and bc: "grows st' st''"
  shows "grows st st''"
  using ab
proof (rule growsE)
  fix as bs cs
  assume 1: "st_approvals st' = as @ bs" "list_all2 keeps (st_approvals st) as"
    "st_conditions st' = st_conditions st @ cs" "\<forall>(i, c) \<in> set cs. \<not> approval_exists st i"
    "prefix (st_events st) (st_events st')" "prefix (st_imports st) (st_imports st')"
    "\<forall>i. project_exists st i \<longrightarrow> project_exists st' i"
  from bc show ?thesis
  proof (rule growsE)
    fix as' bs' cs'
    assume 2: "st_approvals st'' = as' @ bs'" "list_all2 keeps (st_approvals st') as'"
      "st_conditions st'' = st_conditions st' @ cs'" "\<forall>(i, c) \<in> set cs'. \<not> approval_exists st' i"
      "prefix (st_events st') (st_events st'')" "prefix (st_imports st') (st_imports st'')"
      "\<forall>i. project_exists st' i \<longrightarrow> project_exists st'' i"
    from 1(1) 2(2) obtain us vs where uv: "as' = us @ vs" "list_all2 keeps as us"
      by (auto simp: list_all2_append1)
    have k: "list_all2 keeps (st_approvals st) us"
      by (rule list_all2_trans [OF _ 1(2) uv(2)]) (rule keeps_trans)
    have new: "\<forall>(i, c) \<in> set (cs @ cs'). \<not> approval_exists st i"
      using 1(4) 2(4) grows_exists [OF ab] by auto
    show ?thesis
      unfolding grows_def
    proof (intro conjI)
      show "\<exists>as bs. st_approvals st'' = as @ bs \<and> list_all2 keeps (st_approvals st) as"
        using k 2(1) uv(1) by (intro exI [of _ us] exI [of _ "vs @ bs'"]) simp
      show "\<exists>cs. st_conditions st'' = st_conditions st @ cs \<and> (\<forall>(i, c) \<in> set cs. \<not> approval_exists st i)"
        using new 1(3) 2(3) by (intro exI [of _ "cs @ cs'"]) simp
    qed (use 1 2 prefix_order.trans in blast)+
  qed
qed

lemma append_event_sels [simp]:
  "st_approvals (append_event st i ty au at) = st_approvals st"
  "st_conditions (append_event st i ty au at) = st_conditions st"
  "st_imports (append_event st i ty au at) = st_imports st"
  "st_projects (append_event st i ty au at) = st_projects st"
  "project_exists (append_event st i ty au at) = project_exists st"
  "approval_exists (append_event st i ty au at) = approval_exists st"
  by (simp_all add: append_event_def project_exists_def [abs_def] approval_exists_def [abs_def])

lemma project_exists_alt: "project_exists st i \<longleftrightarrow> i \<in> pr_id ` set (st_projects st)"
  by (auto simp: project_exists_def)

lemma approval_exists_alt: "approval_exists st i \<longleftrightarrow> i \<in> a_id ` set (st_approvals st)"
  by (auto simp: approval_exists_def)

lemma grows_append_event: "grows st st' \<Longrightarrow> grows st (append_event st' i ty au at)"
  by (auto simp: grows_def append_event_def project_exists_def)

lemma grows_update:
  assumes "\<And>a. a \<in> set (st_approvals st) \<Longrightarrow> a_id a = i \<Longrightarrow> keeps a (f a)"
  shows "grows st (update_approval i f st)"
proof -
  have "list_all2 keeps (st_approvals st) (map (\<lambda>a. if a_id a = i then f a else a) (st_approvals st))"
    using assms by (auto simp: list_all2_conv_all_nth keeps_refl)
  then show ?thesis
    by (auto simp: grows_def update_approval_def project_exists_def
        intro: exI [of _ "map (\<lambda>a. if a_id a = i then f a else a) (st_approvals st)"])
qed

lemma find_approval_SomeD: "find_approval st i = Some a \<Longrightarrow> a \<in> set (st_approvals st) \<and> a_id a = i"
  by (auto simp: find_approval_def find_Some_iff)

lemma distinct_ids_eq:
  "distinct (map a_id xs) \<Longrightarrow> a \<in> set xs \<Longrightarrow> b \<in> set xs \<Longrightarrow> a_id a = a_id b \<Longrightarrow> a = b"
  by (simp add: distinct_map inj_on_def)

lemma keeps_set_state: "a_state a \<noteq> ApprovalRevoked \<Longrightarrow> keeps a (set_state_row state at a)"
  by (cases state) (simp_all add: keeps_def set_state_row_def grant_def)

lemma Insert_cases:
  assumes "Approvals_Insert now a st = (r, st')"
  obtains (refused) e where "r = Inl e" "st' = st"
    | (stored) i where "r = Inr i" "i = next_id (map a_id (st_approvals st))"
      "project_exists st (a_project_id a)"
      "distinct (map (\<lambda>c. (c_kind c, c_key c)) (a_conditions a))"
      "st' = append_event (st\<lparr>st_approvals := st_approvals st @
          [approval_row (stamp now (a_created_at a)) i a],
          st_conditions := st_conditions st @ map (\<lambda>c. (i, c)) (a_conditions a)\<rparr>) i
          ApprovalEventCreated (a_created_from_event_id a) (stamp now (a_created_at a))"
proof (cases "DbInsertApproval \<in> set (st_failing st) \<or> \<not> project_exists st (a_project_id a) \<or>
    \<not> distinct (map (\<lambda>c. (c_kind c, c_key c)) (a_conditions a))")
  case True
  with assms have "(\<exists>e. r = Inl e) \<and> st' = st"
    unfolding Approvals_Insert_def Let_def by (elim disjE) (auto split: if_splits)
  with refused show ?thesis by blast
next
  case False
  with assms show ?thesis
    unfolding Approvals_Insert_def Let_def by (intro stored) auto
qed

lemma grows_Insert:
  assumes "Approvals_Insert now a st = (r, st')"
  shows "grows st st'"
  using assms
proof (cases rule: Insert_cases)
  case refused
  then show ?thesis by (simp add: grows_refl)
next
  case (stored i)
  have "\<not> approval_exists st i"
    using stored(2) next_id_notin [of "map a_id (st_approvals st)"]
    by (simp add: approval_exists_def image_iff) metis
  moreover have "list_all2 keeps (st_approvals st) (st_approvals st)" by (intro list_all2_refl keeps_refl)
  ultimately show ?thesis
    unfolding stored(5) by (intro grows_append_event) (auto simp: grows_def project_exists_def)
qed

lemma grows_SetState:
  assumes "store_ok st" and "Approvals_SetState now i state at st = (r, st')"
  shows "grows st st'"
proof -
  have "distinct (map a_id (st_approvals st))" using assms(1) by (simp add: store_ok_def)
  then have step: "grows st (update_approval i (set_state_row state t) st)"
    if "find_approval st i = Some b" "a_state b \<noteq> ApprovalRevoked" for b t
    using that distinct_ids_eq [of "st_approvals st" _ b]
    by (intro grows_update) (metis find_approval_SomeD keeps_set_state)
  show ?thesis
  proof (cases "\<exists>b. find_approval st i = Some b \<and> a_state b \<noteq> ApprovalRevoked \<and> DbSetState \<notin> set (st_failing st)")
    case True
    with assms(2) have "st' = append_event (update_approval i (set_state_row state (stamp now at)) st)
        i (state_event state) None (stamp now at)"
      by (auto simp: Approvals_SetState_def Let_def)
    with True step show ?thesis by (auto intro: grows_append_event)
  next
    case False
    with assms(2) have "st' = st"
      by (auto simp: Approvals_SetState_def Let_def split: if_splits option.splits)
    then show ?thesis by (simp add: grows_refl)
  qed
qed

lemma grows_RecordUse: "Approvals_RecordUse now i at st = (r, st') \<Longrightarrow> grows st st'"
  by (auto simp: Approvals_RecordUse_def Let_def grows_refl keeps_def grant_def intro!: grows_update
      split: if_splits)

lemma grows_other:
  "ApprovalEvents_Insert now ev st = (r, st') \<Longrightarrow> grows st st'"
  "Imports_InsertOnce now im st = (b, st') \<Longrightarrow> grows st st'"
  "Projects_Upsert now p st = (u, st') \<Longrightarrow> grows st st'"
  "Meta_Set key value st = (u, st') \<Longrightarrow> grows st st'"
proof -
  have *: "list_all2 keeps (st_approvals st) (st_approvals st)" by (intro list_all2_refl keeps_refl)
  show "ApprovalEvents_Insert now ev st = (r, st') \<Longrightarrow> grows st st'"
    by (auto simp: ApprovalEvents_Insert_def Let_def grows_refl intro!: grows_append_event split: if_splits)
  show "Imports_InsertOnce now im st = (b, st') \<Longrightarrow> grows st st'"
    using * by (auto simp: Imports_InsertOnce_def Let_def grows_refl split: if_splits)
      (auto simp: grows_def project_exists_def)
  have up: "project_exists (st\<lparr>st_projects := map (\<lambda>q. if pr_id q = k then f q else q) (st_projects st)\<rparr>)
      = project_exists st" if "\<And>q. pr_id (f q) = pr_id q" for k f
  proof -
    have "pr_id ` set (map (\<lambda>q. if pr_id q = k then f q else q) (st_projects st)) = pr_id ` set (st_projects st)"
      unfolding set_map image_image by (rule image_cong) (simp_all add: that)
    then show ?thesis by (intro ext) (simp only: project_exists_alt store.select_convs store.update_convs, simp)
  qed
  show "Projects_Upsert now p st = (u, st') \<Longrightarrow> grows st st'"
  proof (cases "DbUpsertProject \<in> set (st_failing st) \<or> \<not> project_exists st (pr_id p)")
    case True
    assume "Projects_Upsert now p st = (u, st')"
    with True * show ?thesis
      by (auto simp: Projects_Upsert_def Let_def grows_refl split: if_splits) (auto simp: grows_def project_exists_def)
  next
    case False
    assume "Projects_Upsert now p st = (u, st')"
    with False * show ?thesis
      by (auto simp: Projects_Upsert_def Let_def grows_def up intro: exI [of _ "st_approvals st"])
  qed
  show "Meta_Set key value st = (u, st') \<Longrightarrow> grows st st'"
    using * by (auto simp: Meta_Set_def Let_def grows_refl split: if_splits)
      (auto simp: grows_def project_exists_def)
qed

lemma step_grows: "store_step st st' \<Longrightarrow> store_ok st \<Longrightarrow> grows st st'"
  by (induction rule: store_step.induct)
    (simp_all add: grows_Insert grows_SetState grows_RecordUse grows_other)

section \<open>The invariant of the store\<close>

lemma store_okD:
  assumes "store_ok st"
  shows store_ok_ids: "distinct (map a_id (st_approvals st))"
    and store_ok_pos: "a \<in> set (st_approvals st) \<Longrightarrow> 0 < a_id a"
    and store_ok_project: "a \<in> set (st_approvals st) \<Longrightarrow> project_exists st (a_project_id a)"
    and store_ok_created: "a \<in> set (st_approvals st) \<Longrightarrow>
      \<exists>e \<in> set (st_events st). ae_approval_id e = a_id a \<and> ae_type e = ApprovalEventCreated"
    and store_ok_imports: "distinct (map import_key (st_imports st))"
  using assms by (simp_all add: store_ok_def)

lemma list_all2_in_set2: "list_all2 P xs ys \<Longrightarrow> y \<in> set ys \<Longrightarrow> \<exists>x \<in> set xs. P x y"
  by (induction rule: list_all2_induct) auto

lemma list_all2_in_set1: "list_all2 P xs ys \<Longrightarrow> x \<in> set xs \<Longrightarrow> \<exists>y \<in> set ys. P x y"
  by (induction rule: list_all2_induct) auto

lemma store_ok_empty: "store_ok emptyStore"
  by (simp add: store_ok_def emptyStore_def)

text \<open>A write that only grows the store and changes no table that an invariant speaks of in another way.\<close>

lemma store_okI:
  assumes ok: "store_ok st" and g: "grows st st'"
    and approvals: "length (st_approvals st') = length (st_approvals st)"
    and conditions: "st_conditions st' = st_conditions st"
    and events: "\<forall>e \<in> set (st_events st') - set (st_events st). approval_exists st (ae_approval_id e)"
    and imps: "distinct (map import_key (st_imports st'))"
      "\<forall>r \<in> set (st_imports st') - set (st_imports st). approval_exists st (ri_approval_id r)"
  shows "store_ok st'"
  using g
proof (rule growsE)
  fix as bs cs
  assume as: "st_approvals st' = as @ bs" "list_all2 keeps (st_approvals st) as"
    and ev: "prefix (st_events st) (st_events st')" and im: "prefix (st_imports st) (st_imports st')"
    and pr: "\<forall>i. project_exists st i \<longrightarrow> project_exists st' i"
  have bs: "bs = []" using as approvals by (auto dest: list_all2_lengthD)
  have ids: "map a_id (st_approvals st') = map a_id (st_approvals st)"
    using as bs list_all2_keeps_ids by simp
  have ex: "approval_exists st' i = approval_exists st i" for i
    using ids by (metis approval_exists_alt list.set_map)
  have orig: "\<exists>a \<in> set (st_approvals st). keeps a b" if "b \<in> set (st_approvals st')" for b
    using that as bs by (auto dest: list_all2_in_set2)
  show ?thesis
    unfolding store_ok_def
  proof (intro conjI)
    show "distinct (map a_id (st_approvals st'))" using ids ok by (simp add: store_ok_def)
    show "\<forall>a \<in> set (st_approvals st'). 0 < a_id a"
      using orig store_ok_pos [OF ok] keeps_id by fastforce
    show "\<forall>a \<in> set (st_approvals st'). project_exists st' (a_project_id a)"
      using orig store_ok_project [OF ok] pr keeps_project by fastforce
    show "distinct (map (\<lambda>(i, c). (i, c_kind c, c_key c)) (st_conditions st'))"
      using conditions ok by (simp add: store_ok_def)
    show "\<forall>(i, c) \<in> set (st_conditions st'). approval_exists st' i"
      using conditions ok ex by (simp add: store_ok_def)
    show "\<forall>e \<in> set (st_events st'). approval_exists st' (ae_approval_id e)"
      using events ok ex by (auto simp: store_ok_def)
    show "\<forall>a \<in> set (st_approvals st'). \<exists>e \<in> set (st_events st'). ae_approval_id e = a_id a \<and> ae_type e = ApprovalEventCreated"
    proof
      fix b assume "b \<in> set (st_approvals st')"
      then obtain a where a: "a \<in> set (st_approvals st)" "keeps a b" using orig by blast
      then obtain e where "e \<in> set (st_events st)" "ae_approval_id e = a_id a" "ae_type e = ApprovalEventCreated"
        using store_ok_created [OF ok] by blast
      with set_mono_prefix [OF ev] keeps_id [OF a(2)]
      show "\<exists>e \<in> set (st_events st'). ae_approval_id e = a_id b \<and> ae_type e = ApprovalEventCreated" by auto
    qed
    show "distinct (map import_key (st_imports st'))" by (rule imps(1))
    show "\<forall>r \<in> set (st_imports st'). approval_exists st' (ri_approval_id r)"
      using imps(2) ok ex by (auto simp: store_ok_def)
  qed
qed

lemma Insert_ok:
  assumes ok: "store_ok st" and ins: "Approvals_Insert now a st = (r, st')"
  shows "store_ok st'"
  using ins
proof (cases rule: Insert_cases)
  case refused
  with ok show ?thesis by simp
next
  case (stored i)
  have new: "i \<notin> a_id ` set (st_approvals st)" "0 < i"
    using next_id_notin [of "map a_id (st_approvals st)"] next_id_pos stored(2) by auto
  have old: "j \<noteq> i" if "(j, c) \<in> set (st_conditions st)" for j c
    using ok that new by (auto simp: store_ok_def approval_exists_alt)
  have row: "a_id (approval_row t i a) = i" "a_project_id (approval_row t i a) = a_project_id a" for t
    by (simp_all add: approval_row_def)
  have conds: "distinct (map (\<lambda>(j, c). (j, c_kind c, c_key c)) (map (Pair i) (a_conditions a)))"
    using stored(4) by (auto simp: distinct_map inj_on_def o_def split: prod.splits)
  have "distinct (map (\<lambda>(j, c). (j, c_kind c, c_key c)) (st_conditions st @ map (Pair i) (a_conditions a)))"
    using ok conds old by (fastforce simp: store_ok_def)
  then show ?thesis
    using ok new row stored(3)
    by (auto simp: store_ok_def stored(5) append_event_def approval_exists_alt project_exists_alt)
qed

lemma SetState_ok:
  assumes ok: "store_ok st" and set: "Approvals_SetState now i state at st = (r, st')"
  shows "store_ok st'"
proof (rule store_okI [OF ok grows_SetState [OF ok set]])
  show "length (st_approvals st') = length (st_approvals st)" "st_conditions st' = st_conditions st"
    "\<forall>e \<in> set (st_events st') - set (st_events st). approval_exists st (ae_approval_id e)"
    using set by (auto simp: Approvals_SetState_def Let_def update_approval_def append_event_def
        approval_exists_def split: if_splits option.splits dest!: find_approval_SomeD)
  have "st_imports st' = st_imports st"
    using set by (auto simp: Approvals_SetState_def Let_def update_approval_def split: if_splits option.splits)
  then show "distinct (map import_key (st_imports st'))"
    "\<forall>r \<in> set (st_imports st') - set (st_imports st). approval_exists st (ri_approval_id r)"
    using ok by (simp_all add: store_ok_def)
qed

lemma RecordUse_ok:
  assumes ok: "store_ok st" and set: "Approvals_RecordUse now i at st = (r, st')"
  shows "store_ok st'"
  by (rule store_okI [OF ok grows_RecordUse [OF set]])
    (use ok set in \<open>auto simp: Approvals_RecordUse_def Let_def update_approval_def store_ok_def split: if_splits\<close>)

lemma Event_ok:
  assumes ok: "store_ok st" and ev: "ApprovalEvents_Insert now e st = (r, st')"
  shows "store_ok st'"
  by (rule store_okI [OF ok grows_other(1) [OF ev]])
    (use ok ev in \<open>auto simp: ApprovalEvents_Insert_def Let_def append_event_def store_ok_def split: if_splits\<close>)

lemma Import_ok:
  assumes ok: "store_ok st" and im: "Imports_InsertOnce now k st = (r, st')"
  shows "store_ok st'"
proof (rule store_okI [OF ok grows_other(2) [OF im]])
  have "import_key (k\<lparr>ri_id := j, ri_imported_at := t\<rparr>) = import_key k" for j t by (simp add: import_key_def)
  then show "distinct (map import_key (st_imports st'))"
    using ok im by (auto simp: Imports_InsertOnce_def Let_def store_ok_def split: if_splits)
qed (use im in \<open>auto simp: Imports_InsertOnce_def Let_def split: if_splits\<close>)

lemma Project_ok:
  assumes ok: "store_ok st" and p: "Projects_Upsert now p st = (r, st')"
  shows "store_ok st'"
  by (rule store_okI [OF ok grows_other(3) [OF p]])
    (use ok p in \<open>auto simp: Projects_Upsert_def Let_def store_ok_def split: if_splits\<close>)

lemma Meta_ok:
  assumes ok: "store_ok st" and p: "Meta_Set key value st = (r, st')"
  shows "store_ok st'"
  by (rule store_okI [OF ok grows_other(4) [OF p]])
    (use ok p in \<open>auto simp: Meta_Set_def Let_def store_ok_def split: if_splits\<close>)

lemma step_ok: "store_step st st' \<Longrightarrow> store_ok st \<Longrightarrow> store_ok st'"
  by (induction rule: store_step.induct)
    (blast intro: Insert_ok SetState_ok RecordUse_ok Event_ok Import_ok Project_ok Meta_ok)+

lemma steps_ok_grows: "store_step\<^sup>*\<^sup>* st st' \<Longrightarrow> store_ok st \<Longrightarrow> store_ok st' \<and> grows st st'"
  by (induction rule: rtranclp_induct) (auto intro: grows_refl step_ok grows_trans [OF _ step_grows])

section \<open>What is stored about one approval\<close>

text \<open>An approval as the matcher sees it: its row with its conditions.\<close>

definition loaded :: "store \<Rightarrow> int \<Rightarrow> approval option" where
  "loaded st i = map_option (\<lambda>a. a\<lparr>a_conditions := conditions_of st i\<rparr>) (find_approval st i)"

lemma find_approval_iff:
  assumes "store_ok st"
  shows "find_approval st i = Some a \<longleftrightarrow> a \<in> set (st_approvals st) \<and> a_id a = i"
proof
  assume a: "a \<in> set (st_approvals st) \<and> a_id a = i"
  then obtain b where b: "find_approval st i = Some b"
    by (cases "find_approval st i") (auto simp: find_approval_def find_None_iff)
  then have "b = a"
    using a find_approval_SomeD [OF b] distinct_ids_eq [OF store_ok_ids [OF assms]] by simp
  with b show "find_approval st i = Some a" by simp
qed (rule find_approval_SomeD)

lemma grant_conditions: "grant (a\<lparr>a_conditions := x\<rparr>) = (grant a)\<lparr>a_conditions := x\<rparr>"
  by (simp add: grant_def)

lemma keeps_conditions: "keeps b b' \<Longrightarrow> keeps (b\<lparr>a_conditions := x\<rparr>) (b'\<lparr>a_conditions := x\<rparr>)"
  unfolding keeps_def grant_conditions by simp

lemma grows_loaded:
  assumes ok: "store_ok st" "store_ok st'" and g: "grows st st'" and l: "loaded st i = Some a"
  shows "\<exists>a'. loaded st' i = Some a' \<and> keeps a a'"
  using g
proof (rule growsE)
  fix as bs cs
  assume as: "st_approvals st' = as @ bs" "list_all2 keeps (st_approvals st) as"
    and cs: "st_conditions st' = st_conditions st @ cs" "\<forall>(i, c) \<in> set cs. \<not> approval_exists st i"
  obtain b where b: "find_approval st i = Some b" "a = b\<lparr>a_conditions := conditions_of st i\<rparr>"
    using l by (auto simp: loaded_def)
  then obtain b' where b': "b' \<in> set as" "keeps b b'"
    using as(2) find_approval_SomeD list_all2_in_set1 by metis
  then have "find_approval st' i = Some b'"
    using as(1) b(1) keeps_id find_approval_SomeD by (fastforce simp: find_approval_iff [OF ok(2)])
  moreover have "approval_exists st i"
    using b find_approval_SomeD by (auto simp: approval_exists_def)
  then have "conditions_of st' i = conditions_of st i"
  proof -
    assume "approval_exists st i"
    with cs(2) have "filter (\<lambda>(j, c). j = i) cs = []" by (auto simp: filter_empty_conv)
    with cs(1) show ?thesis by (simp add: conditions_of_def)
  qed
  ultimately show ?thesis using b(2) keeps_conditions [OF b'(2)] by (simp add: loaded_def)
qed

lemma Insert_loaded:
  assumes ok: "store_ok st" and ins: "Approvals_Insert now a st = (Inr i, st')"
  shows "loaded st' i = Some (a\<lparr>a_id := i, a_targets := (if a_kind a = ApprovalExact then a_targets a else []),
       a_created_at := stamp now (a_created_at a), a_conditions := sort_key c_key (a_conditions a)\<rparr>)"
  using ins
proof (cases rule: Insert_cases)
  case (stored j)
  have ok': "store_ok st'" by (rule Insert_ok [OF ok ins])
  have "filter (\<lambda>(j, c). j = i) (st_conditions st) = []"
    using ok stored(1,2) next_id_notin [of "map a_id (st_approvals st)"]
    by (fastforce simp: store_ok_def filter_empty_conv approval_exists_alt)
  moreover have "map snd (filter (\<lambda>(j, c). j = i) (map (Pair i) cs)) = cs" for cs :: "approval_condition list"
    by (induction cs) auto
  ultimately have "conditions_of st' i = sort_key c_key (a_conditions a)"
    using stored(1) by (simp add: conditions_of_def stored(5))
  moreover have "find_approval st' i = Some (approval_row (stamp now (a_created_at a)) i a)"
    using stored(1) by (simp add: find_approval_iff [OF ok']) (simp add: stored(5) approval_row_def)
  ultimately show ?thesis by (simp add: loaded_def approval_row_def)
qed simp

end
