(* ===== verification/Approval_Match.thy ===== *)
theory Approval_Match
  imports Policy_Engine Storage
begin

text \<open>
  Matching of \<^verbatim>\<open>internal/approval\<close>: the comparisons of \<^verbatim>\<open>model.go\<close>, the field-wise rules and the
  matcher of \<^verbatim>\<open>match.go\<close>, and the mismatch reports of \<^verbatim>\<open>mismatch.go\<close>. The lemmas give the rules a
  declarative form (\<open>covers_action\<close>) over the envelope entries themselves, relate the reports to the
  rules, and characterise which approval the matcher picks.
\<close>

section \<open>Comparisons\<close>

definition EngineCompatible :: "int \<Rightarrow> int \<Rightarrow> bool" where
  "EngineCompatible approvalVersion engineVersion = (approvalVersion = engineVersion)"

definition conditionsFor :: "fingerprint list \<Rightarrow> approval_condition list" where
  "conditionsFor fingerprints =
     sort_key c_key (map (\<lambda>f. \<lparr>c_kind = ConditionFingerprint, c_key = f_key f, c_value = f_value f\<rparr>) fingerprints)"

definition keySet :: "string list \<Rightarrow> string set" where
  "keySet keys = set keys"

definition equalSets :: "string list \<Rightarrow> string list \<Rightarrow> bool" where
  "equalSets a b = (if length a \<noteq> length b then False else \<forall>key \<in> set a. key \<in> keySet b)"

definition subsetOf :: "string list \<Rightarrow> string list \<Rightarrow> bool" where
  "subsetOf a b = (\<forall>key \<in> set a. key \<in> keySet b)"

definition envelopeKeys :: "resolved_action \<Rightarrow> string list" where
  "envelopeKeys act = sort (map EnvelopeEntry_Key (action_Envelope act))"

definition networkKeys :: "resolved_action \<Rightarrow> string list" where
  "networkKeys act = sort (map NetworkTarget_Key (action_Network act))"

fun opsEqual :: "semantic_op list \<Rightarrow> semantic_op list \<Rightarrow> bool" where
  "opsEqual [] [] = True"
| "opsEqual (a # as) (b # bs) = (a = b \<and> opsEqual as bs)"
| "opsEqual _ _ = False"

definition opsIntersect :: "semantic_op list \<Rightarrow> semantic_op list \<Rightarrow> bool" where
  "opsIntersect a b = (\<exists>op \<in> set b. op \<in> set a)"

section \<open>The rules\<close>

text \<open>
  \<open>None\<close> is a match, \<open>Some\<close> names the first rule that failed. Go visits the fingerprints of the
  approval in no particular order; here it is the order of their keys.
\<close>

definition Matches :: "approval \<Rightarrow> resolved_action \<Rightarrow> int \<Rightarrow> string option" where
  "Matches approval act engineVersion =
     (if \<not> EngineCompatible (a_engine_version approval) engineVersion then Some ''engine''
      else if \<not> Active approval \<or> a_project_id approval \<noteq> ra_project_id act then Some ''candidate''
      else if \<not> opsEqual (a_semantic_ops approval) (ra_semantic_ops act) then Some ''semantic_ops''
      else case find (\<lambda>key. FingerprintMap act key \<noteq> Fingerprints approval key) (FingerprintKeys approval) of
        Some key \<Rightarrow> Some (''fingerprint:'' @ key)
      | None \<Rightarrow>
          let semantic = (a_kind approval = ApprovalSemantic) in
          if (if semantic then \<not> subsetOf (envelopeKeys act) (EnvelopeKeys approval)
              else \<not> equalSets (envelopeKeys act) (EnvelopeKeys approval)) then Some ''effects''
          else if (if semantic then \<not> subsetOf (networkKeys act) (NetworkKeys approval)
              else \<not> equalSets (networkKeys act) (NetworkKeys approval)) then Some ''network''
          else if \<not> semantic \<and> \<not> equalSets (DisplayTargets act) (a_targets approval) then Some ''targets''
          else None)"

section \<open>Mismatch reports\<close>

definition opsString :: "semantic_op list \<Rightarrow> string" where
  "opsString ops = strings_Join (map semantic_op_str ops) ''>''"

definition fingerprintDifferences :: "approval \<Rightarrow> resolved_action \<Rightarrow> string list" where
  "fingerprintDifferences approval act =
     concat (map (\<lambda>key.
       case FingerprintMap act key of
         None \<Rightarrow> [key @ '' is no longer part of this action'']
       | Some stored \<Rightarrow>
           if Some stored \<noteq> Fingerprints approval key then [key @ '' changed''] else [])
       (FingerprintKeys approval))"

definition targetScopes :: "resolved_action \<Rightarrow> (string \<rightharpoonup> scope)" where
  "targetScopes act = map_from t_display t_scope (filter (\<lambda>t. t_display t \<noteq> []) (Targets act))"

definition scope_text :: "(string \<rightharpoonup> scope) \<Rightarrow> string \<Rightarrow> string" where
  "scope_text scopes display = scope_str (case scopes display of None \<Rightarrow> ScopeNone | Some s \<Rightarrow> s)"

definition targetDifferences :: "approval \<Rightarrow> resolved_action \<Rightarrow> string list" where
  "targetDifferences approval act =
     (if a_kind approval \<noteq> ApprovalExact then []
      else
        let scopes = targetScopes act;
            added = filter (\<lambda>d. d \<notin> keySet (a_targets approval)) (DisplayTargets act);
            removed = filter (\<lambda>d. d \<notin> keySet (DisplayTargets act)) (a_targets approval)
        in case (added, removed) of
             ([], []) \<Rightarrow> []
           | ([new], [old]) \<Rightarrow>
               [''target '' @ old @ '' -> '' @ new @ '' ('' @ scope_text scopes new @ '')'']
           | _ \<Rightarrow>
               map (\<lambda>d. ''new target '' @ d @ '' ('' @ scope_text scopes d @ '')'') added @
               map (\<lambda>d. ''target '' @ d @ '' is no longer touched'') removed)"

definition all_effect_types :: "effect_type list" where
  "all_effect_types = [EffectRead, EffectWrite, EffectCreate, EffectDelete, EffectExecute, EffectNetwork]"

definition scopesByEffectType :: "envelope_entry list \<Rightarrow> effect_type \<Rightarrow> scope list" where
  "scopesByEffectType envelope ty =
     dedupe_on (\<lambda>s. s) (map ee_scope (filter (\<lambda>e. ee_type e = ty \<and> ee_scope e \<noteq> ScopeNone) envelope))"

definition scopeDifferences :: "approval \<Rightarrow> resolved_action \<Rightarrow> string list" where
  "scopeDifferences approval act =
     sort (concat (map (\<lambda>ty.
       case (scopesByEffectType (a_envelope approval) ty, scopesByEffectType (action_Envelope act) ty) of
         ([was], [now]) \<Rightarrow>
           if was = now then []
           else [''scope '' @ scope_str was @ '' -> '' @ scope_str now @ '' ('' @ effect_type_str ty @ '')'']
       | _ \<Rightarrow> []) all_effect_types))"

definition envelopeDifferences :: "approval \<Rightarrow> resolved_action \<Rightarrow> string list" where
  "envelopeDifferences approval act =
     sort (map (\<lambda>entry. ''new effect '' @ EnvelopeEntry_String entry)
             (filter (\<lambda>entry. EnvelopeEntry_Key entry \<notin> keySet (EnvelopeKeys approval)) (action_Envelope act)) @
           (if a_kind approval = ApprovalExact then
              map (\<lambda>entry. ''effect '' @ EnvelopeEntry_String entry @ '' no longer happens'')
                (filter (\<lambda>entry. EnvelopeEntry_Key entry \<notin> keySet (envelopeKeys act)) (a_envelope approval))
            else []))"

definition networkDifferences :: "approval \<Rightarrow> resolved_action \<Rightarrow> string list" where
  "networkDifferences approval act =
     sort (map (\<lambda>target. ''new network target '' @ NetworkTarget_String target)
             (filter (\<lambda>target. NetworkTarget_Key target \<notin> keySet (NetworkKeys approval)) (action_Network act)))"

definition Differences :: "approval \<Rightarrow> resolved_action \<Rightarrow> int \<Rightarrow> string list" where
  "Differences approval act engineVersion =
     (if \<not> EngineCompatible (a_engine_version approval) engineVersion
      then [''created by engine version '' @ Itoa (a_engine_version approval) @ '', this is version '' @
            Itoa engineVersion] else []) @
     (if a_state approval \<noteq> ApprovalActive
      then [''the approval is '' @ ToLower (approval_state_str (a_state approval))] else []) @
     (if \<not> opsEqual (a_semantic_ops approval) (ra_semantic_ops act)
      then [''operation '' @ OpsString approval @ '' -> '' @ opsString (ra_semantic_ops act)] else []) @
     fingerprintDifferences approval act @ targetDifferences approval act @
     scopeDifferences approval act @ envelopeDifferences approval act @ networkDifferences approval act"

definition related :: "approval \<Rightarrow> resolved_action \<Rightarrow> bool" where
  "related approval act =
     (a_created_from_raw_command approval \<noteq> [] \<and> a_created_from_raw_command approval = ra_raw_command act \<or>
      opsIntersect (a_semantic_ops approval) (ra_semantic_ops act) \<or>
      (\<exists>key \<in> set (FingerprintKeys approval). FingerprintMap act key \<noteq> None))"

definition MaxMismatchReports :: nat where
  "MaxMismatchReports = 5"

definition MismatchReports :: "approval list \<Rightarrow> resolved_action \<Rightarrow> int \<Rightarrow> mismatch_report list" where
  "MismatchReports candidates act engineVersion =
     take MaxMismatchReports
       (filter (\<lambda>r. mr_differences r \<noteq> [])
         (map (\<lambda>a. \<lparr>mr_approval_id = a_id a, mr_differences = Differences a act engineVersion\<rparr>)
           (filter (\<lambda>a. related a act) candidates)))"

section \<open>The matcher\<close>

definition candidates :: "store \<Rightarrow> string \<Rightarrow> string + approval list" where
  "candidates st projectID =
     (case Approvals_List st \<lparr>af_project_id = projectID, af_include_inactive = True, af_limit = 0\<rparr> of
        Inl err \<Rightarrow> Inl (''approval: list: '' @ storage_error_str err)
      | Inr approvals \<Rightarrow>
          (case Conditions_ListByApprovals st (map a_id approvals) of
             Inl err \<Rightarrow> Inl (''approval: conditions: '' @ storage_error_str err)
           | Inr conditions \<Rightarrow>
               Inr (match_order (map (\<lambda>a. a\<lparr>a_conditions := conditions (a_id a)\<rparr>) approvals))))"

definition recordUse :: "go_time \<Rightarrow> int \<Rightarrow> store \<Rightarrow> (string + unit) \<times> store" where
  "recordUse now i st =
     (case Approvals_RecordUse now i now st of
        (Inl err, st1) \<Rightarrow> (Inl (''approval: record use: '' @ storage_error_str err), st1)
      | (Inr _, st1) \<Rightarrow>
          (case ApprovalEvents_Insert now
                  \<lparr>ae_id = 0, ae_approval_id = i, ae_type = ApprovalEventMatched, ae_audit_event_id = None,
                   ae_at = now\<rparr> st1 of
             (Inl err, st2) \<Rightarrow> (Inl (''approval: record match event: '' @ storage_error_str err), st2)
           | (Inr _, st2) \<Rightarrow> (Inr (), st2)))"

definition Match ::
    "int \<Rightarrow> go_time \<Rightarrow> policy_input \<Rightarrow> store \<Rightarrow> (string + match_outcome) \<times> store" where
  "Match engineVersion now inp st =
     (case pi_action inp of
        None \<Rightarrow> (Inr no_match, st)
      | Some act \<Rightarrow>
          if ra_project_id act = [] then (Inr no_match, st)
          else if \<not> Approvable (ra_status act) \<or> HasAmbiguousTarget act then (Inr no_match, st)
          else
            (case candidates st (ra_project_id act) of
               Inl err \<Rightarrow> (Inl err, st)
             | Inr cands \<Rightarrow>
                 (case find (\<lambda>c. Matches c act engineVersion = None) cands of
                    Some candidate \<Rightarrow>
                      (case recordUse now (a_id candidate) st of
                         (Inl err, st') \<Rightarrow> (Inl err, st')
                       | (Inr _, st') \<Rightarrow>
                           (Inr \<lparr>mo_approval_id = a_id candidate, mo_matched = True, mo_mismatches = []\<rparr>, st'))
                  | None \<Rightarrow>
                      (Inr (no_match\<lparr>mo_mismatches := MismatchReports cands act engineVersion\<rparr>), st))))"

definition Mismatches :: "int \<Rightarrow> policy_input \<Rightarrow> store \<Rightarrow> string + mismatch_report list" where
  "Mismatches engineVersion inp st =
     (case pi_action inp of
        None \<Rightarrow> Inr []
      | Some act \<Rightarrow>
          if ra_project_id act = [] then Inr []
          else case candidates st (ra_project_id act) of
                 Inl err \<Rightarrow> Inl err
               | Inr cands \<Rightarrow> Inr (MismatchReports cands act engineVersion))"

section \<open>What a match means\<close>

lemma opsEqual_iff [simp]: "opsEqual a b \<longleftrightarrow> a = b"
  by (induction a b rule: opsEqual.induct) simp_all

lemma equalSets_iff:
  assumes "distinct a"
  shows "equalSets a b \<longleftrightarrow> set a = set b \<and> distinct b"
proof
  assume eq: "equalSets a b"
  then have l: "length a = length b" and "set a \<subseteq> set b"
    by (auto simp: equalSets_def keySet_def split: if_splits)
  then have s: "set a = set b" using assms by (rule length_subset_set_eq)
  then have "card (set b) = length b" using l assms distinct_card by metis
  with s show "set a = set b \<and> distinct b" by (simp add: card_distinct)
next
  assume "set a = set b \<and> distinct b"
  moreover from this have "length a = length b" using assms distinct_card by metis
  ultimately show "equalSets a b" by (simp add: equalSets_def keySet_def)
qed

lemma subsetOf_iff: "subsetOf a b \<longleftrightarrow> set a \<subseteq> set b"
  by (auto simp: subsetOf_def keySet_def)

definition effect_permitted :: "approval \<Rightarrow> effect \<Rightarrow> bool" where
  "effect_permitted a e = (\<exists>entry \<in> set (a_envelope a). same_entry (effect_EnvelopeEntry e) entry)"

definition host_permitted :: "approval \<Rightarrow> effect \<Rightarrow> bool" where
  "host_permitted a e =
     (\<forall>n. e_network e = Some n \<longrightarrow> NetworkTarget_Key n \<in> NetworkTarget_Key ` set (a_network a))"

text \<open>An EXACT approval also pins what must happen: no entry, host or path of it may be missing.\<close>

definition pinned :: "approval \<Rightarrow> resolved_action \<Rightarrow> bool" where
  "pinned a act =
     ((\<forall>entry \<in> set (a_envelope a). \<exists>e \<in> set (ra_effects act). same_entry (effect_EnvelopeEntry e) entry) \<and>
      distinct (map EnvelopeEntry_Key (a_envelope a)) \<and>
      (\<forall>n \<in> set (a_network a). \<exists>e \<in> set (ra_effects act). \<exists>m. e_network e = Some m \<and>
         NetworkTarget_Key m = NetworkTarget_Key n) \<and>
      distinct (map NetworkTarget_Key (a_network a)) \<and>
      set (a_targets a) = t_display ` set (Targets act) - {[]} \<and> distinct (a_targets a))"

definition covers_action :: "approval \<Rightarrow> resolved_action \<Rightarrow> int \<Rightarrow> bool" where
  "covers_action a act v =
     (a_engine_version a = v \<and> a_state a = ApprovalActive \<and> a_project_id a = ra_project_id act \<and>
      a_semantic_ops a = ra_semantic_ops act \<and>
      (\<forall>c \<in> set (fingerprint_conditions a). FingerprintMap act (c_key c) = Fingerprints a (c_key c)) \<and>
      (\<forall>e \<in> set (ra_effects act). effect_permitted a e \<and> host_permitted a e) \<and>
      (a_kind a = ApprovalExact \<longrightarrow> pinned a act))"

lemma set_envelopeKeys: "set (envelopeKeys act) = EnvelopeEntry_Key ` effect_EnvelopeEntry ` set (ra_effects act)"
  by (simp add: envelopeKeys_def action_Envelope_def set_Envelope)

lemma set_networkKeys:
  "set (networkKeys act) = {NetworkTarget_Key n | n e. e \<in> set (ra_effects act) \<and> e_network e = Some n}"
  by (simp add: networkKeys_def action_Network_def set_NetworkTargets_keys)

lemma distinct_envelopeKeys: "distinct (envelopeKeys act)"
  by (simp add: envelopeKeys_def action_Envelope_def distinct_keys_Envelope)

lemma distinct_networkKeys: "distinct (networkKeys act)"
  by (simp add: networkKeys_def action_Network_def distinct_keys_NetworkTargets)

lemma effects_permitted_iff:
  "subsetOf (envelopeKeys act) (EnvelopeKeys a) \<longleftrightarrow> (\<forall>e \<in> set (ra_effects act). effect_permitted a e)"
  unfolding effect_permitted_def EnvelopeEntry_Key_eq_iff [symmetric]
  by (auto simp: subsetOf_iff set_envelopeKeys EnvelopeKeys_def)

lemma hosts_permitted_iff:
  "subsetOf (networkKeys act) (NetworkKeys a) \<longleftrightarrow> (\<forall>e \<in> set (ra_effects act). host_permitted a e)"
  by (auto simp: subsetOf_iff set_networkKeys NetworkKeys_def host_permitted_def)

lemma image_subset_witness: "f ` A \<subseteq> h ` B \<longleftrightarrow> (\<forall>x \<in> A. \<exists>y \<in> B. h y = f x)"
  by (auto simp: image_subset_iff image_iff eq_commute)

lemma equalSets_split:
  assumes "distinct xs"
  shows "equalSets xs ys \<longleftrightarrow> subsetOf xs ys \<and> set ys \<subseteq> set xs \<and> distinct ys"
  using assms by (auto simp: equalSets_iff subsetOf_iff)

lemma effects_pinned_iff:
  "equalSets (envelopeKeys act) (EnvelopeKeys a) \<longleftrightarrow>
     (\<forall>e \<in> set (ra_effects act). effect_permitted a e) \<and>
     (\<forall>entry \<in> set (a_envelope a). \<exists>e \<in> set (ra_effects act). same_entry (effect_EnvelopeEntry e) entry) \<and>
     distinct (map EnvelopeEntry_Key (a_envelope a))"
proof -
  have "set (EnvelopeKeys a) \<subseteq> set (envelopeKeys act) \<longleftrightarrow>
      (\<forall>entry \<in> set (a_envelope a). \<exists>e \<in> set (ra_effects act). same_entry (effect_EnvelopeEntry e) entry)"
    by (simp add: set_envelopeKeys EnvelopeKeys_def image_image image_subset_witness EnvelopeEntry_Key_eq_iff)
  moreover have "distinct (EnvelopeKeys a) \<longleftrightarrow> distinct (map EnvelopeEntry_Key (a_envelope a))"
    by (simp add: EnvelopeKeys_def)
  ultimately show ?thesis
    by (simp only: equalSets_split [OF distinct_envelopeKeys] effects_permitted_iff)
qed

lemma hosts_pinned_iff:
  "equalSets (networkKeys act) (NetworkKeys a) \<longleftrightarrow>
     (\<forall>e \<in> set (ra_effects act). host_permitted a e) \<and>
     (\<forall>n \<in> set (a_network a). \<exists>e \<in> set (ra_effects act). \<exists>m. e_network e = Some m \<and>
         NetworkTarget_Key m = NetworkTarget_Key n) \<and>
     distinct (map NetworkTarget_Key (a_network a))"
proof -
  have keys: "set (networkKeys act) = NetworkTarget_Key ` {n. \<exists>e \<in> set (ra_effects act). e_network e = Some n}"
    unfolding set_networkKeys by blast
  have "set (NetworkKeys a) \<subseteq> set (networkKeys act) \<longleftrightarrow>
      (\<forall>n \<in> set (a_network a). \<exists>e \<in> set (ra_effects act). \<exists>m. e_network e = Some m \<and>
         NetworkTarget_Key m = NetworkTarget_Key n)"
    unfolding keys NetworkKeys_def set_sort set_map image_subset_witness by blast
  moreover have "distinct (NetworkKeys a) \<longleftrightarrow> distinct (map NetworkTarget_Key (a_network a))"
    by (simp add: NetworkKeys_def)
  ultimately show ?thesis
    by (simp only: equalSets_split [OF distinct_networkKeys] hosts_permitted_iff)
qed

lemma find_fingerprint_None:
  "find (\<lambda>key. FingerprintMap act key \<noteq> Fingerprints a key) (FingerprintKeys a) = None \<longleftrightarrow>
   (\<forall>c \<in> set (fingerprint_conditions a). FingerprintMap act (c_key c) = Fingerprints a (c_key c))"
  by (auto simp: find_None_iff FingerprintKeys_def)

lemma kind_cases: "a_kind a \<noteq> ApprovalSemantic \<longleftrightarrow> a_kind a = ApprovalExact"
  by (cases "a_kind a") simp_all

lemma Matches_None_iff: "Matches a act v = None \<longleftrightarrow> covers_action a act v"
proof -
  have "Matches a act v = None \<longleftrightarrow>
      a_engine_version a = v \<and> a_state a = ApprovalActive \<and> a_project_id a = ra_project_id act \<and>
      a_semantic_ops a = ra_semantic_ops act \<and>
      find (\<lambda>key. FingerprintMap act key \<noteq> Fingerprints a key) (FingerprintKeys a) = None \<and>
      (if a_kind a = ApprovalSemantic
       then subsetOf (envelopeKeys act) (EnvelopeKeys a) \<and> subsetOf (networkKeys act) (NetworkKeys a)
       else equalSets (envelopeKeys act) (EnvelopeKeys a) \<and> equalSets (networkKeys act) (NetworkKeys a) \<and>
            equalSets (DisplayTargets act) (a_targets a))"
    unfolding Matches_def by (auto simp: EngineCompatible_def Active_def Let_def split: option.splits if_splits)
  then show ?thesis
    by (cases "a_kind a")
      (auto simp: covers_action_def find_fingerprint_None effects_permitted_iff hosts_permitted_iff
        effects_pinned_iff hosts_pinned_iff equalSets_iff distinct_DisplayTargets set_DisplayTargets pinned_def)
qed

section \<open>The reports agree with the rules\<close>

lemma concat_map_Nil_iff: "concat (map f xs) = [] \<longleftrightarrow> (\<forall>x \<in> set xs. f x = [])"
  by (induction xs) auto

lemma sort_eq_Nil_iff [simp]: "sort xs = [] \<longleftrightarrow> xs = []"
  by (metis length_0_conv length_sort)

lemma fingerprintDifferences_Nil:
  "fingerprintDifferences a act = [] \<longleftrightarrow>
   (\<forall>c \<in> set (fingerprint_conditions a). FingerprintMap act (c_key c) = Fingerprints a (c_key c))"
proof -
  have dom: "Fingerprints a (c_key c) \<noteq> None" if "c \<in> set (fingerprint_conditions a)" for c
    using that dom_map_from [of c_key c_value "fingerprint_conditions a"]
    by (auto simp: Fingerprints_def dom_def)
  show ?thesis
    unfolding fingerprintDifferences_def concat_map_Nil_iff
    using dom by (auto simp: FingerprintKeys_def split: option.splits) (metis option.distinct(1))+
qed

lemma targetDifferences_Nil:
  "targetDifferences a act = [] \<longleftrightarrow>
   (a_kind a = ApprovalExact \<longrightarrow> set (a_targets a) = set (DisplayTargets act))"
proof -
  let ?added = "filter (\<lambda>d. d \<notin> keySet (a_targets a)) (DisplayTargets act)"
  let ?removed = "filter (\<lambda>d. d \<notin> keySet (DisplayTargets act)) (a_targets a)"
  have "set (a_targets a) = set (DisplayTargets act) \<longleftrightarrow> ?added = [] \<and> ?removed = []"
    by (auto simp: filter_empty_conv keySet_def)
  then show ?thesis
    by (auto simp: targetDifferences_def Let_def split: list.splits)
qed

lemma envelopeDifferences_Nil:
  "envelopeDifferences a act = [] \<longleftrightarrow>
   set (envelopeKeys act) \<subseteq> set (EnvelopeKeys a) \<and>
   (a_kind a = ApprovalExact \<longrightarrow> set (EnvelopeKeys a) \<subseteq> set (envelopeKeys act))"
  by (auto simp: envelopeDifferences_def filter_empty_conv keySet_def EnvelopeKeys_def envelopeKeys_def
      subset_iff split: if_splits)

lemma networkDifferences_Nil:
  "networkDifferences a act = [] \<longleftrightarrow> set (networkKeys act) \<subseteq> set (NetworkKeys a)"
  by (auto simp: networkDifferences_def filter_empty_conv keySet_def NetworkKeys_def networkKeys_def subset_iff)

lemma scopeDifferences_Nil:
  assumes "set (envelopeKeys act) \<subseteq> set (EnvelopeKeys a)"
  shows "scopeDifferences a act = []"
proof -
  have entries: "\<exists>e \<in> set (a_envelope a). same_entry e e'" if "e' \<in> set (action_Envelope act)" for e'
    using that assms
    by (auto simp: EnvelopeKeys_def envelopeKeys_def EnvelopeEntry_Key_eq_iff [symmetric] image_subset_witness)
  have "set (scopesByEffectType (action_Envelope act) ty) \<subseteq> set (scopesByEffectType (a_envelope a) ty)" for ty
  proof
    fix x
    assume "x \<in> set (scopesByEffectType (action_Envelope act) ty)"
    then obtain e' where e': "e' \<in> set (action_Envelope act)" "ee_type e' = ty" "ee_scope e' = x" "x \<noteq> ScopeNone"
      by (auto simp: scopesByEffectType_def set_dedupe_on_inj)
    with entries obtain e where "e \<in> set (a_envelope a)" "ee_type e = ty" "ee_scope e = x"
      by (metis same_entry_def)
    with e'(4) show "x \<in> set (scopesByEffectType (a_envelope a) ty)"
      by (auto simp: scopesByEffectType_def set_dedupe_on_inj)
  qed
  then have "was = now" if "scopesByEffectType (a_envelope a) ty = [was]"
      "scopesByEffectType (action_Envelope act) ty = [now]" for ty was now
    using that by (metis list.set(1) list.set(2) subset_singletonD insert_not_empty singleton_inject)
  then show ?thesis
    by (auto simp: scopeDifferences_def concat_map_Nil_iff split: list.splits)
qed

lemma Differences_Nil:
  "Differences a act v = [] \<longleftrightarrow>
     a_engine_version a = v \<and> a_state a = ApprovalActive \<and> a_semantic_ops a = ra_semantic_ops act \<and>
     (\<forall>c \<in> set (fingerprint_conditions a). FingerprintMap act (c_key c) = Fingerprints a (c_key c)) \<and>
     (a_kind a = ApprovalExact \<longrightarrow> set (a_targets a) = set (DisplayTargets act)) \<and>
     set (envelopeKeys act) \<subseteq> set (EnvelopeKeys a) \<and>
     (a_kind a = ApprovalExact \<longrightarrow> set (EnvelopeKeys a) \<subseteq> set (envelopeKeys act)) \<and>
     set (networkKeys act) \<subseteq> set (NetworkKeys a)"
  using scopeDifferences_Nil [of act a]
  unfolding Differences_def append_is_Nil_conv fingerprintDifferences_Nil targetDifferences_Nil
    envelopeDifferences_Nil networkDifferences_Nil
  by (simp add: EngineCompatible_def) blast

lemma Matches_keys:
  "Matches a act v = None \<longleftrightarrow>
     a_engine_version a = v \<and> a_state a = ApprovalActive \<and> a_project_id a = ra_project_id act \<and>
     a_semantic_ops a = ra_semantic_ops act \<and>
     (\<forall>c \<in> set (fingerprint_conditions a). FingerprintMap act (c_key c) = Fingerprints a (c_key c)) \<and>
     set (envelopeKeys act) \<subseteq> set (EnvelopeKeys a) \<and> set (networkKeys act) \<subseteq> set (NetworkKeys a) \<and>
     (a_kind a = ApprovalExact \<longrightarrow>
        set (EnvelopeKeys a) \<subseteq> set (envelopeKeys act) \<and> distinct (EnvelopeKeys a) \<and>
        set (NetworkKeys a) \<subseteq> set (networkKeys act) \<and> distinct (NetworkKeys a) \<and>
        set (a_targets a) = set (DisplayTargets act) \<and> distinct (a_targets a))"
proof -
  have e: "(\<forall>e \<in> set (ra_effects act). effect_permitted a e) \<longleftrightarrow> set (envelopeKeys act) \<subseteq> set (EnvelopeKeys a)"
    and n: "(\<forall>e \<in> set (ra_effects act). host_permitted a e) \<longleftrightarrow> set (networkKeys act) \<subseteq> set (NetworkKeys a)"
    by (simp_all only: effects_permitted_iff [symmetric] hosts_permitted_iff [symmetric] subsetOf_iff)
  have p: "pinned a act \<longleftrightarrow> set (EnvelopeKeys a) \<subseteq> set (envelopeKeys act) \<and> distinct (EnvelopeKeys a) \<and>
        set (NetworkKeys a) \<subseteq> set (networkKeys act) \<and> distinct (NetworkKeys a) \<and>
        set (a_targets a) = set (DisplayTargets act) \<and> distinct (a_targets a)"
    if "set (envelopeKeys act) \<subseteq> set (EnvelopeKeys a)" "set (networkKeys act) \<subseteq> set (NetworkKeys a)"
    using that effects_pinned_iff [of act a] hosts_pinned_iff [of act a] e n
    unfolding pinned_def equalSets_split [OF distinct_envelopeKeys] equalSets_split [OF distinct_networkKeys]
      subsetOf_iff set_DisplayTargets by blast
  show ?thesis
    unfolding Matches_None_iff covers_action_def ball_conj_distrib e n using p by blast
qed

text \<open>
  For the kinds of change the report can name, it is empty exactly when the rules match. The
  hypothesis on the hosts of an EXACT approval is needed: the report names added hosts only.
\<close>

lemma Differences_Matches:
  assumes "a_project_id a = ra_project_id act"
    and "a_kind a = ApprovalExact \<longrightarrow> distinct (EnvelopeKeys a) \<and> distinct (NetworkKeys a) \<and>
      distinct (a_targets a) \<and> set (NetworkKeys a) \<subseteq> set (networkKeys act)"
  shows "Differences a act v = [] \<longleftrightarrow> Matches a act v = None"
  using assms unfolding Differences_Nil Matches_keys by blast

lemma Matches_no_differences: "Matches a act v = None \<Longrightarrow> Differences a act v = []"
  unfolding Differences_Nil Matches_keys by blast

section \<open>Which approval the matcher picks\<close>

lemma find_approval_None: "find_approval st i = None \<longleftrightarrow> \<not> approval_exists st i"
  by (auto simp: find_approval_def find_None_iff approval_exists_def)

text \<open>The order of \<^verbatim>\<open>ORDER BY kind, id\<close>: EXACT first, then ascending id.\<close>

definition earlier :: "approval \<Rightarrow> approval \<Rightarrow> bool" where
  "earlier a b = (kind_rank a < kind_rank b \<or> kind_rank a = kind_rank b \<and> a_id a \<le> a_id b)"

lemma set_match_order [simp]: "set (match_order as) = set as"
  by (simp add: match_order_def)

lemma sorted_wrt_earlier:
  assumes "sorted (map kind_rank xs)" and "\<And>k. sorted (map a_id (filter (\<lambda>a. kind_rank a = k) xs))"
  shows "sorted_wrt earlier xs"
  using assms
proof (induction xs)
  case (Cons x xs)
  have "sorted (map a_id (filter (\<lambda>a. kind_rank a = k) xs))" for k
    using Cons.prems(2) [of k] by (simp split: if_splits)
  then have "sorted_wrt earlier xs" using Cons by simp
  moreover have "earlier x y" if "y \<in> set xs" for y
    using that Cons.prems(1) Cons.prems(2) [of "kind_rank x"] by (force simp: earlier_def)
  ultimately show ?case by simp
qed simp

lemma sorted_match_order: "sorted_wrt earlier (match_order as)"
proof (rule sorted_wrt_earlier)
  show "sorted (map a_id (filter (\<lambda>a. kind_rank a = k) (match_order as)))" for k
    unfolding match_order_def sort_key_stable
    by (metis sorted_filter sorted_sort_key)
qed (simp add: match_order_def)

lemma load_conditions:
  assumes "Conditions_ListByApprovals st (map a_id xs) = Inr f"
  shows "map (\<lambda>a. a\<lparr>a_conditions := f (a_id a)\<rparr>) xs =
         map (\<lambda>a. a\<lparr>a_conditions := conditions_of st (a_id a)\<rparr>) xs"
  using assms by (auto simp: Conditions_ListByApprovals_def split: if_splits)

lemma candidates_eq:
  assumes c: "candidates st p = Inr cs" and p: "p \<noteq> []"
  shows "cs = match_order (map (\<lambda>a. a\<lparr>a_conditions := conditions_of st (a_id a)\<rparr>)
                (match_order (filter (\<lambda>a. a_project_id a = p) (st_approvals st))))"
proof -
  let ?load = "\<lambda>a. a\<lparr>a_conditions := conditions_of st (a_id a)\<rparr>"
  let ?rows = "match_order (filter (\<lambda>a. a_project_id a = p) (st_approvals st))"
  obtain rows f where rows: "Approvals_List st \<lparr>af_project_id = p, af_include_inactive = True, af_limit = 0\<rparr> = Inr rows"
    and f: "Conditions_ListByApprovals st (map a_id rows) = Inr f"
    and cs: "cs = match_order (map (\<lambda>a. a\<lparr>a_conditions := f (a_id a)\<rparr>) rows)"
    using c by (auto simp: candidates_def split: sum.splits)
  obtain g where g: "Conditions_ListByApprovals st (map a_id ?rows) = Inr g"
    and rg: "rows = map (\<lambda>a. a\<lparr>a_conditions := g (a_id a)\<rparr>) ?rows"
    using rows p by (auto simp: Approvals_List_def Let_def split: sum.splits if_splits)
  have "rows = map ?load ?rows" unfolding rg by (rule load_conditions [OF g])
  then show ?thesis
    unfolding cs load_conditions [OF f] by (simp add: comp_def)
qed

lemma candidates_iff:
  assumes ok: "store_ok st" and c: "candidates st p = Inr cs" and p: "p \<noteq> []"
  shows "c \<in> set cs \<longleftrightarrow> (\<exists>i. loaded st i = Some c) \<and> a_project_id c = p"
proof -
  have "set cs = (\<lambda>a. a\<lparr>a_conditions := conditions_of st (a_id a)\<rparr>) ` {a \<in> set (st_approvals st). a_project_id a = p}"
    unfolding candidates_eq [OF c p] by auto
  then show ?thesis
    by (auto simp: loaded_def find_approval_iff [OF ok])
qed

lemma loaded_id: "loaded st i = Some c \<Longrightarrow> a_id c = i"
  by (auto simp: loaded_def dest: find_approval_SomeD)

lemma sorted_find_first:
  assumes "sorted_wrt R xs" and "find P xs = Some x" and "y \<in> set xs" and "P y" and "R x x"
  shows "R x y"
proof -
  obtain i where i: "i < length xs" "P (xs ! i)" "x = xs ! i" "\<forall>j < i. \<not> P (xs ! j)"
    using assms(2) by (auto simp: find_Some_iff)
  obtain j where j: "j < length xs" "y = xs ! j" using assms(3) by (auto simp: in_set_conv_nth)
  with i assms(4) have "i \<le> j" by (meson leI)
  then show ?thesis
    using i j assms(1,5) by (cases "i = j") (auto simp: sorted_wrt_iff_nth_less)
qed

definition stored_cover :: "int \<Rightarrow> store \<Rightarrow> int \<Rightarrow> resolved_action \<Rightarrow> bool" where
  "stored_cover v st i act = (\<exists>a. loaded st i = Some a \<and> covers_action a act v)"

lemma Match_matchedD:
  assumes ok: "store_ok st" and m: "Match v now inp st = (Inr m, st')" and matched: "mo_matched m"
  obtains act c where "pi_action inp = Some act" "ra_project_id act \<noteq> []" "Approvable (ra_status act)"
    "\<not> HasAmbiguousTarget act" "loaded st (mo_approval_id m) = Some c" "covers_action c act v"
    "\<And>j b. loaded st j = Some b \<Longrightarrow> covers_action b act v \<Longrightarrow> earlier c b"
    "recordUse now (mo_approval_id m) st = (Inr (), st')"
proof -
  obtain act cs c where act: "pi_action inp = Some act" "ra_project_id act \<noteq> []" "Approvable (ra_status act)"
      "\<not> HasAmbiguousTarget act"
    and cs: "candidates st (ra_project_id act) = Inr cs"
    and c: "find (\<lambda>c. Matches c act v = None) cs = Some c"
    and use: "recordUse now (a_id c) st = (Inr (), st')" and i: "mo_approval_id m = a_id c"
    using m matched by (auto simp: Match_def no_match_def split: option.splits sum.splits if_splits prod.splits)
  have mem: "c \<in> set cs" "covers_action c act v"
    using c by (auto simp: find_Some_iff Matches_None_iff)
  then have l: "loaded st (a_id c) = Some c"
    using candidates_iff [OF ok cs act(2)] loaded_id by metis
  have first: "earlier c b" if "loaded st j = Some b" "covers_action b act v" for j b
  proof -
    have "b \<in> set cs"
      using that candidates_iff [OF ok cs act(2)] by (auto simp: covers_action_def)
    then show ?thesis
      using sorted_find_first [OF sorted_match_order c [unfolded candidates_eq [OF cs act(2)]]]
        candidates_eq [OF cs act(2)] that(2) by (auto simp: Matches_None_iff earlier_def)
  qed
  show thesis by (rule that [OF act]) (use l mem use i first in auto)
qed

lemma Match_unmatchedD:
  assumes "Match v now inp st = (Inr m, st')" and "\<not> mo_matched m"
  shows "st' = st"
  using assms by (auto simp: Match_def no_match_def split: option.splits sum.splits if_splits prod.splits)

lemma approval_exists_update:
  assumes "\<And>a. a_id (f a) = a_id a"
  shows "approval_exists (update_approval i f st) j = approval_exists st j"
proof -
  have "a_id ` set (map (\<lambda>a. if a_id a = i then f a else a) (st_approvals st)) = a_id ` set (st_approvals st)"
    unfolding set_map image_image by (rule image_cong) (simp_all add: assms)
  then show ?thesis by (simp only: approval_exists_alt update_approval_def store.select_convs store.update_convs) simp
qed

lemma recordUse_works:
  assumes "st_failing st = []" and "approval_exists st i"
  shows "\<exists>st'. recordUse now i st = (Inr (), st')"
proof -
  let ?f = "\<lambda>a. a\<lparr>a_use_count := a_use_count a + 1, a_last_used_at := Some (stamp now now)\<rparr>"
  have "Approvals_RecordUse now i now st = (Inr (), update_approval i ?f st)"
    using assms by (simp add: Approvals_RecordUse_def Let_def)
  moreover have "st_failing (update_approval i ?f st) = []" using assms(1) by (simp add: update_approval_def)
  moreover have "approval_exists (update_approval i ?f st) i"
    using assms(2) by (simp add: approval_exists_update)
  ultimately show ?thesis by (simp add: recordUse_def ApprovalEvents_Insert_def Let_def)
qed

lemma candidates_works:
  assumes "st_failing st = []"
  shows "\<exists>cs. candidates st p = Inr cs"
proof -
  have c: "\<exists>f. Conditions_ListByApprovals st ids = Inr f" for ids
    using assms by (simp add: Conditions_ListByApprovals_def)
  have "\<exists>rows. Approvals_List st flt = Inr rows" for flt
    using assms c by (simp add: Approvals_List_def Let_def) (metis (no_types, lifting) sum.case(2))
  then obtain rows where r: "Approvals_List st \<lparr>af_project_id = p, af_include_inactive = True, af_limit = 0\<rparr> = Inr rows"
    by blast
  obtain f where f: "Conditions_ListByApprovals st (map a_id rows) = Inr f" using c by blast
  show ?thesis by (simp add: candidates_def r f)
qed

lemma Match_complete:
  assumes ok: "store_ok st" and act: "pi_action inp = Some act" "ra_project_id act \<noteq> []"
    "Approvable (ra_status act)" "\<not> HasAmbiguousTarget act"
    and cover: "loaded st i = Some a" "covers_action a act v"
    and works: "st_failing st = []"
  shows "\<exists>m st'. Match v now inp st = (Inr m, st') \<and> mo_matched m"
proof -
  obtain cs where cs: "candidates st (ra_project_id act) = Inr cs"
    using candidates_works [OF works] by blast
  have "a_project_id a = ra_project_id act" using cover(2) by (simp add: covers_action_def)
  with cover(1) have "a \<in> set cs" using candidates_iff [OF ok cs act(2)] by blast
  moreover have "Matches a act v = None" using cover(2) by (simp add: Matches_None_iff)
  ultimately have "find (\<lambda>c. Matches c act v = None) cs \<noteq> None"
    unfolding find_None_iff by blast
  then obtain c where c: "find (\<lambda>c. Matches c act v = None) cs = Some c" by blast
  then have "c \<in> set cs" by (metis find_Some_iff nth_mem)
  then obtain j where j: "loaded st j = Some c" using candidates_iff [OF ok cs act(2)] by blast
  then have "approval_exists st (a_id c)"
    using loaded_id [OF j] find_approval_None [of st j] by (cases "find_approval st j") (simp_all add: loaded_def)
  then obtain st' where u: "recordUse now (a_id c) st = (Inr (), st')" using recordUse_works [OF works] by blast
  show ?thesis using act cs c u by (simp add: Match_def)
qed

end
