(* ===== verification/Approval_Create.thy ===== *)
theory Approval_Create
  imports Approval_Match
begin

text \<open>
  How approvals come to be: \<^verbatim>\<open>internal/approval/create.go\<close> and \<^verbatim>\<open>import.go\<close>. The theory provides the
  collaborators of the policy engine and discharges their contract for the store.
\<close>

section \<open>Creation\<close>

text \<open>A kind of \<open>None\<close> is Go's empty kind, which means EXACT.\<close>

record create_request =
  cr_action :: "resolved_action option"
  cr_policy :: policy_input
  cr_kind :: "approval_kind option"
  cr_origin :: approval_origin
  cr_origin_ref :: string
  cr_source_event_id :: "int option"
  cr_agent :: string
  cr_note :: string
  cr_engine_version :: int
  cr_now :: go_time

definition ErrNotApprovable :: string where
  "ErrNotApprovable = ''approval: the action cannot be approved''"

definition Validate :: "create_request \<Rightarrow> string option" where
  "Validate request =
     (let err = (\<lambda>reason. Some (ErrNotApprovable @ '': '' @ reason)) in
      case cr_action request of
        None \<Rightarrow> err ''there is no resolved action to approve''
      | Some act \<Rightarrow>
          if \<not> Approvable (ra_status act) then
            err (''its status is '' @ resolution_status_str (ra_status act) @ '' ('' @ ra_status_reason act @ '')'')
          else if HasAmbiguousTarget act then
            err ''one of its targets depends on a variable Intenter cannot expand''
          else if ra_project_id act = [] then err ''it is not associated with a project''
          else if ra_effects act = [] then err ''it has no effects to approve''
          else
            let findings = HardRules (cr_policy request) in
            if Findings_Outcome findings \<noteq> HardPass then
              err (case Strongest findings of
                     None \<Rightarrow> ''safety rule  always requires confirmation ()''
                   | Some strongest \<Rightarrow> ''safety rule '' @ fd_rule strongest @
                       '' always requires confirmation ('' @ fd_reason strongest @ '')'')
            else None)"

definition Build :: "go_time \<Rightarrow> create_request \<Rightarrow> string + approval" where
  "Build clock request =
     (case Validate request of
        Some err \<Rightarrow> Inl err
      | None \<Rightarrow>
          let kind = (case cr_kind request of None \<Rightarrow> ApprovalExact | Some k \<Rightarrow> k);
              createdAt = stamp clock (cr_now request);
              act = the (cr_action request)
          in Inr \<lparr>a_id = 0, a_project_id = ra_project_id act, a_kind = kind,
               a_semantic_ops = ra_semantic_ops act, a_envelope = action_Envelope act,
               a_targets = (if kind = ApprovalExact then DisplayTargets act else []),
               a_network = action_Network act, a_conditions = conditionsFor (ra_fingerprints act),
               a_engine_version = cr_engine_version request, a_origin = cr_origin request,
               a_origin_ref = cr_origin_ref request, a_created_from_event_id = cr_source_event_id request,
               a_created_from_raw_command = ra_raw_command act, a_created_by_agent = cr_agent request,
               a_state = ApprovalActive, a_note = cr_note request, a_created_at = createdAt,
               a_last_used_at = None, a_use_count = 0, a_disabled_at = None, a_revoked_at = None\<rparr>)"

definition Create :: "go_time \<Rightarrow> create_request \<Rightarrow> store \<Rightarrow> (string + approval) \<times> store" where
  "Create clock request st =
     (case Build clock request of
        Inl err \<Rightarrow> (Inl err, st)
      | Inr approval \<Rightarrow>
          (case Approvals_Insert clock approval st of
             (Inl err, st') \<Rightarrow> (Inl (''approval: store: '' @ storage_error_str err), st')
           | (Inr i, st') \<Rightarrow> (Inr (approval\<lparr>a_id := i\<rparr>), st')))"

section \<open>Import of consent\<close>

definition agentName :: "policy_input \<Rightarrow> string" where
  "agentName inp = (if pi_agent inp \<noteq> [] then pi_agent inp else ''claude'')"

definition normalizedRuleKeys :: "string list \<Rightarrow> string list" where
  "normalizedRuleKeys keys = sort (dedupe_on (\<lambda>k. k) (filter (\<lambda>k. k \<noteq> []) (map TrimSpace keys)))"

fun recordImports :: "go_time \<Rightarrow> rule_import \<Rightarrow> string list \<Rightarrow> store \<Rightarrow> (string + unit) \<times> store" where
  "recordImports now record' [] st = (Inr (), st)"
| "recordImports now record' (key # keys) st =
     (case Imports_InsertOnce now (record'\<lparr>ri_rule_key := key\<rparr>) st of
        (Inl err, st') \<Rightarrow> (Inl (''approval: record import: '' @ storage_error_str err), st')
      | (Inr _, st') \<Rightarrow> recordImports now record' keys st')"

definition import_request :: "int \<Rightarrow> go_time \<Rightarrow> policy_input \<Rightarrow> resolved_action \<Rightarrow> string list \<Rightarrow> create_request" where
  "import_request engineVersion now inp act ruleKeys =
     \<lparr>cr_action = Some act, cr_policy = inp, cr_kind = Some ApprovalExact, cr_origin = OriginClaudeRule,
      cr_origin_ref = strings_Join ruleKeys '','', cr_source_event_id = None, cr_agent = agentName inp,
      cr_note = [], cr_engine_version = engineVersion, cr_now = now\<rparr>"

definition Import ::
    "int \<Rightarrow> go_time \<Rightarrow> policy_input \<Rightarrow> agent_consent option \<Rightarrow> store \<Rightarrow> (string + match_outcome) \<times> store" where
  "Import engineVersion now inp consent st =
     (if \<not> Usable consent then (Inr no_match, st)
      else case pi_action inp of
        None \<Rightarrow> (Inr no_match, st)
      | Some act \<Rightarrow>
          if ra_project_id act = [] then (Inr no_match, st)
          else
            let agent = agentName inp;
                ruleKeys = normalizedRuleKeys (co_rule_keys (the consent));
                request = import_request engineVersion now inp act ruleKeys
            in case Imports_AnyExists st (ra_project_id act) agent ruleKeys (ra_raw_command act) of
                 Inl err \<Rightarrow> (Inl (''approval: import lookup: '' @ storage_error_str err), st)
               | Inr imported \<Rightarrow>
                   if imported then (Inr no_match, st)
                   else if Validate request \<noteq> None then (Inr no_match, st)
                   else
                     (case Create now request st of
                        (Inl err, st1) \<Rightarrow> (Inl err, st1)
                      | (Inr created, st1) \<Rightarrow>
                          (case recordImports now
                                  \<lparr>ri_id = 0, ri_project_id = ra_project_id act, ri_agent = agent,
                                   ri_rule_key = [], ri_raw_command = ra_raw_command act,
                                   ri_approval_id = a_id created, ri_imported_at = now\<rparr> ruleKeys st1 of
                             (Inl err, st2) \<Rightarrow> (Inl err, st2)
                           | (Inr _, st2) \<Rightarrow>
                               (Inr \<lparr>mo_approval_id = a_id created, mo_matched = True, mo_mismatches = []\<rparr>,
                                st2))))"

definition ImportForExecution ::
    "int \<Rightarrow> go_time \<Rightarrow> policy_input \<Rightarrow> agent_consent option \<Rightarrow> decision \<Rightarrow> store \<Rightarrow>
     (string + match_outcome) \<times> store" where
  "ImportForExecution engineVersion now inp consent d st =
     (if d_outcome d \<noteq> OutcomeAsk \<or> d_class d \<noteq> ClassNoMatchingApproval then (Inr no_match, st)
      else Import engineVersion now inp consent st)"

section \<open>What is built covers what it was built from\<close>

lemma Validate_NoneD:
  assumes "Validate request = None"
  obtains act where "cr_action request = Some act" "Approvable (ra_status act)" "\<not> HasAmbiguousTarget act"
    "ra_project_id act \<noteq> []" "ra_effects act \<noteq> []" "HardRules (cr_policy request) = []"
  using assms by (auto simp: Validate_def Let_def HardRules_passes split: option.splits if_splits)

lemma fingerprint_conditions_conditionsFor:
  "filter (\<lambda>c. c_kind c = ConditionFingerprint) (conditionsFor fps) = conditionsFor fps"
  by (rule filter_True) (auto simp: conditionsFor_def)

lemma c_key_conditionsFor: "c_key ` set (conditionsFor fps) = f_key ` set fps"
  by (auto simp: conditionsFor_def image_iff)

lemma distinct_conditionsFor: "distinct (map c_key (conditionsFor fps)) \<longleftrightarrow> distinct (map f_key fps)"
proof -
  have "mset (map c_key (conditionsFor fps)) = mset (map f_key fps)"
    by (simp add: conditionsFor_def multiset.map_comp comp_def)
  then show ?thesis by (metis mset_eq_imp_distinct_iff)
qed

lemma map_from_conditionsFor:
  assumes "distinct (map f_key fps)" and "k \<in> f_key ` set fps"
  shows "map_from c_key c_value (conditionsFor fps) k = map_from f_key f_value fps k"
proof -
  from assms(2) obtain f where f: "f \<in> set fps" "k = f_key f" by blast
  let ?c = "\<lparr>c_kind = ConditionFingerprint, c_key = f_key f, c_value = f_value f\<rparr>"
  have "?c \<in> set (conditionsFor fps)" using f by (auto simp: conditionsFor_def)
  then have "map_from c_key c_value (conditionsFor fps) (c_key ?c) = Some (c_value ?c)"
    using assms(1) by (intro map_from_distinct) (simp_all add: distinct_conditionsFor)
  moreover have "map_from f_key f_value fps (f_key f) = Some (f_value f)"
    using assms(1) f by (intro map_from_distinct) simp_all
  ultimately show ?thesis using f by simp
qed

lemma same_entry_refl [simp]: "same_entry e e"
  by (simp add: same_entry_def)

text \<open>An approval with the fields of the action, whatever its id, its uses and the order of its conditions.\<close>

lemma covers_of_fields:
  assumes "a_engine_version a = v" "a_state a = ApprovalActive" "a_project_id a = ra_project_id act"
    "a_semantic_ops a = ra_semantic_ops act" "a_envelope a = action_Envelope act"
    "a_network a = action_Network act"
    "a_kind a = ApprovalExact \<Longrightarrow> a_targets a = DisplayTargets act"
    and cond: "a_conditions a = sort_key c_key (conditionsFor (ra_fingerprints act))"
    and fps: "distinct (map f_key (ra_fingerprints act))"
  shows "covers_action a act v"
proof -
  have "sort_key c_key (conditionsFor fs) = conditionsFor fs" for fs
    by (simp add: conditionsFor_def sort_key_idem)
  then have fc: "fingerprint_conditions a = conditionsFor (ra_fingerprints act)"
    using cond by (simp add: fingerprint_conditions_def fingerprint_conditions_conditionsFor)
  have keys: "EnvelopeKeys a = envelopeKeys act" "NetworkKeys a = networkKeys act"
    using assms by (simp_all add: EnvelopeKeys_def envelopeKeys_def NetworkKeys_def networkKeys_def)
  have "\<forall>c \<in> set (fingerprint_conditions a). FingerprintMap act (c_key c) = Fingerprints a (c_key c)"
  proof
    fix c
    assume "c \<in> set (fingerprint_conditions a)"
    then have "c_key c \<in> f_key ` set (ra_fingerprints act)"
      using fc c_key_conditionsFor by (metis image_eqI)
    then show "FingerprintMap act (c_key c) = Fingerprints a (c_key c)"
      using fc fps by (simp add: Fingerprints_def FingerprintMap_def map_from_conditionsFor)
  qed
  then have "Matches a act v = None"
    unfolding Matches_keys keys
    using assms(1-4,7) distinct_envelopeKeys distinct_networkKeys distinct_DisplayTargets by simp
  then show ?thesis by (simp add: Matches_None_iff)
qed

lemma Build_fields:
  assumes "Build clock request = Inr a" and "cr_action request = Some act"
  shows "a_engine_version a = cr_engine_version request" "a_state a = ApprovalActive"
    "a_project_id a = ra_project_id act" "a_semantic_ops a = ra_semantic_ops act"
    "a_envelope a = action_Envelope act" "a_network a = action_Network act"
    "a_kind a = ApprovalExact \<Longrightarrow> a_targets a = DisplayTargets act"
    "a_conditions a = conditionsFor (ra_fingerprints act)" "Validate request = None"
    "a_kind a = (case cr_kind request of None \<Rightarrow> ApprovalExact | Some k \<Rightarrow> k)"
    "a_created_at a = stamp clock (cr_now request)"
  using assms by (auto simp: Build_def Let_def split: option.splits)

lemma Build_covers:
  assumes b: "Build clock request = Inr a" and act: "cr_action request = Some act"
    and fps: "distinct (map f_key (ra_fingerprints act))"
  shows "covers_action a act (cr_engine_version request)"
proof (rule covers_of_fields [OF Build_fields(1-7) [OF b act]])
  show "a_conditions a = sort_key c_key (conditionsFor (ra_fingerprints act))"
    using Build_fields(8) [OF b act] by (simp add: conditionsFor_def sort_key_idem)
qed (use fps in simp_all)

lemma Create_InrD:
  assumes "Create clock request st = (Inr a, st')"
  obtains b i where "Build clock request = Inr b" "Approvals_Insert clock b st = (Inr i, st')"
    "a = b\<lparr>a_id := i\<rparr>"
  using assms by (auto simp: Create_def split: sum.splits prod.splits)

lemma Create_stored:
  assumes ok: "store_ok st" and c: "Create clock request st = (Inr a, st')"
    and act: "cr_action request = Some act"
  shows "stored_cover (cr_engine_version request) st' (a_id a) act"
proof -
  obtain b i where b: "Build clock request = Inr b" and ins: "Approvals_Insert clock b st = (Inr i, st')"
    and a: "a = b\<lparr>a_id := i\<rparr>"
    using c by (rule Create_InrD)
  note fields = Build_fields [OF b act]
  have "distinct (map (\<lambda>c. (c_kind c, c_key c)) (a_conditions b))"
    using ins by (cases rule: Insert_cases) simp_all
  moreover have "c_kind c = ConditionFingerprint" if "c \<in> set (a_conditions b)" for c
    using that fields(8) by (auto simp: conditionsFor_def)
  ultimately have "distinct (map c_key (a_conditions b))"
    by (fastforce simp: distinct_map inj_on_def)
  then have fps: "distinct (map f_key (ra_fingerprints act))"
    using fields(8) by (simp add: distinct_conditionsFor)
  define row where "row = b\<lparr>a_id := i, a_targets := (if a_kind b = ApprovalExact then a_targets b else []),
       a_created_at := stamp clock (a_created_at b), a_conditions := sort_key c_key (a_conditions b)\<rparr>"
  have "loaded st' i = Some row" unfolding row_def by (rule Insert_loaded [OF ok ins])
  moreover have "covers_action row act (cr_engine_version request)"
    by (rule covers_of_fields) (use fields fps in \<open>simp_all add: row_def\<close>)
  ultimately show ?thesis using a by (auto simp: stored_cover_def)
qed

lemma Create_frame: "Create clock request st = (Inl err, st') \<Longrightarrow> st' = st"
  by (auto simp: Create_def split: sum.splits prod.splits elim: Insert_cases)

lemma Create_ok: "store_ok st \<Longrightarrow> Create clock request st = (r, st') \<Longrightarrow> store_ok st'"
  by (auto simp: Create_def split: sum.splits prod.splits dest: Insert_ok)

lemma InsertOnce_sels:
  assumes "Imports_InsertOnce now r st = (x, st')"
  shows "st_approvals st' = st_approvals st" "st_conditions st' = st_conditions st"
    "st_events st' = st_events st"
  using assms by (auto simp: Imports_InsertOnce_def Let_def split: if_splits)

lemma recordImports_sels:
  assumes "recordImports now r keys st = (x, st')"
  shows "st_approvals st' = st_approvals st \<and> st_conditions st' = st_conditions st"
  using assms
  by (induction now r keys st rule: recordImports.induct)
    (auto simp: InsertOnce_sels split: sum.splits prod.splits dest: InsertOnce_sels)

lemma recordImports_loaded:
  assumes "recordImports now r keys st = (x, st')"
  shows "loaded st' i = loaded st i"
  using recordImports_sels [OF assms] by (simp add: loaded_def conditions_of_def find_approval_def)

lemma recordImports_ok:
  "recordImports now r keys st = (x, st') \<Longrightarrow> store_ok st \<Longrightarrow> store_ok st'"
  by (induction now r keys st rule: recordImports.induct)
    (auto split: sum.splits prod.splits dest: Import_ok)

lemma recordImports_keys:
  assumes "recordImports now r keys st = (Inr u, st')" and "k \<in> set keys"
  shows "import_key (r\<lparr>ri_rule_key := k\<rparr>) \<in> import_key ` set (st_imports st')"
  using assms
proof (induction now r keys st rule: recordImports.induct)
  case (2 now r key keys st)
  obtain b st1 where one: "Imports_InsertOnce now (r\<lparr>ri_rule_key := key\<rparr>) st = (Inr b, st1)"
    and rest: "recordImports now r keys st1 = (Inr u, st')"
    using "2.prems"(1) by (auto split: sum.splits prod.splits)
  have here: "import_key (r\<lparr>ri_rule_key := key\<rparr>) \<in> import_key ` set (st_imports st1)"
    using one by (auto simp: Imports_InsertOnce_def Let_def import_key_def image_iff split: if_splits)
  have mono: "set (st_imports st2) \<subseteq> set (st_imports st3)" if "recordImports now r ks st2 = (y, st3)" for ks st2 st3 y
    using that
    by (induction now r ks st2 rule: recordImports.induct)
      (auto simp: Imports_InsertOnce_def Let_def split: sum.splits prod.splits if_splits)
  show ?case
  proof (cases "k \<in> set keys")
    case True
    show ?thesis using "2.IH" [OF one [symmetric] refl rest True] .
  next
    case False
    then show ?thesis using here mono [OF rest] "2.prems"(2) by auto
  qed
qed simp

section \<open>The importer keeps its contract\<close>

lemma Import_matchedD:
  assumes "Import v now inp consent st = (Inr m, st')" and "mo_matched m"
  obtains act created st1 c where "pi_action inp = Some act" "consent = Some c" "Usable consent"
    "ra_project_id act \<noteq> []"
    "Imports_AnyExists st (ra_project_id act) (agentName inp) (normalizedRuleKeys (co_rule_keys c))
       (ra_raw_command act) = Inr False"
    "Validate (import_request v now inp act (normalizedRuleKeys (co_rule_keys c))) = None"
    "Create now (import_request v now inp act (normalizedRuleKeys (co_rule_keys c))) st = (Inr created, st1)"
    "recordImports now \<lparr>ri_id = 0, ri_project_id = ra_project_id act, ri_agent = agentName inp,
       ri_rule_key = [], ri_raw_command = ra_raw_command act, ri_approval_id = a_id created,
       ri_imported_at = now\<rparr> (normalizedRuleKeys (co_rule_keys c)) st1 = (Inr (), st')"
    "mo_approval_id m = a_id created"
proof (cases consent)
  case None
  with assms show ?thesis by (auto simp: Import_def Usable_def no_match_def)
next
  case (Some c)
  show ?thesis
    using assms that Some
    by (auto simp: Import_def Let_def no_match_def split: option.splits sum.splits prod.splits if_splits)
qed

lemma Import_unmatchedD:
  assumes "Import v now inp consent st = (Inr m, st')" and "\<not> mo_matched m"
  shows "st' = st"
  using assms
  by (auto simp: Import_def Let_def split: option.splits sum.splits prod.splits if_splits)

lemma Import_ok':
  assumes "store_ok st" and "Import v now inp consent st = (r, st')"
  shows "store_ok st'"
  using assms
  by (auto simp: Import_def Let_def split: option.splits sum.splits prod.splits if_splits
      dest: Create_ok recordImports_ok)

lemma recordUse_ok: "store_ok st \<Longrightarrow> recordUse now i st = (r, st') \<Longrightarrow> store_ok st'"
  by (auto simp: recordUse_def split: sum.splits prod.splits dest: RecordUse_ok Event_ok)

lemma Match_ok:
  assumes "store_ok st" and "Match v now inp st = (r, st')"
  shows "store_ok st'"
  using assms by (auto simp: Match_def split: option.splits sum.splits prod.splits if_splits dest: recordUse_ok)

lemma Import_covers:
  assumes ok: "store_ok st" and im: "Import v now inp consent st = (Inr m, st')" and matched: "mo_matched m"
  shows "\<exists>act. pi_action inp = Some act \<and> stored_cover v st' (mo_approval_id m) act"
  using im matched
proof (cases rule: Import_matchedD)
  case (1 act created st1 c)
  have "stored_cover v st1 (a_id created) act"
    using Create_stored [OF ok 1(7), of act] by (simp add: import_request_def)
  then show ?thesis
    using 1(1,9) recordImports_loaded [OF 1(8)] by (simp add: stored_cover_def)
qed

interpretation stored: policy_collaborators "Match v now" "Import v now" "Mismatches v" store_ok "stored_cover v"
  for v now
proof unfold_locales
  fix inp st m st'
  assume "store_ok st" "Match v now inp st = (Inr m, st')" "mo_matched m"
  then show "\<exists>a. pi_action inp = Some a \<and> stored_cover v st (mo_approval_id m) a"
    by (rule Match_matchedD) (auto simp: stored_cover_def)
qed (blast intro: Import_covers Match_unmatchedD Import_unmatchedD Match_ok Import_ok')+

end
