(* ===== verification/Scope.thy ===== *)
theory Scope
  imports Action_Model Path_Rules
begin

text \<open>
  \<^verbatim>\<open>internal/scope\<close> on a Unix host: turning one word of a command into a classified target
  (\<^verbatim>\<open>normalize.go\<close>), the scope and the flags of a canonical path (\<^verbatim>\<open>classify.go\<close>) and the generated
  roots of a workspace (\<^verbatim>\<open>generated.go\<close>). The file system is the parameter \<open>host_fs\<close>, one function
  per call of the operating system the code makes; it does not change during one normalization.
\<close>

section \<open>The file system and the context\<close>

record file_info =
  fi_is_symlink :: bool
  fi_is_dir :: bool

record host_fs =
  EvalSymlinks :: "string \<Rightarrow> string option"
  Lstat :: "string \<Rightarrow> file_info option"
  Stat :: "string \<Rightarrow> file_info option"
  Glob :: "string \<Rightarrow> string list option"
  ReadDir :: "string \<Rightarrow> (string \<times> bool) list option"

record scope_context =
  sc_Rules :: path_rules
  sc_Home :: string
  sc_Workspace :: string
  sc_TempDir :: string
  sc_GeneratedExtra :: "string list"

record scope_input =
  in_Raw :: string
  in_Text :: string
  in_Cwd :: string
  in_Ambiguous :: bool
  in_Glob :: bool
  in_WindowsStyle :: bool

section \<open>Generated roots\<close>

definition fileExists :: "host_fs \<Rightarrow> string \<Rightarrow> bool" where
  "fileExists fs path = (case Stat fs path of None \<Rightarrow> False | Some info \<Rightarrow> \<not> fi_is_dir info)"

definition nodeGeneratedDirs :: "string list" where
  "nodeGeneratedDirs =
     [''node_modules'', ''dist'', ''build'', ''coverage'', ''.next'', ''.nuxt'', ''.turbo'',
      ''.cache'', ''.parcel-cache'', ''storybook-static'']"

definition gradleMarkers :: "string list" where
  "gradleMarkers = [''build.gradle'', ''build.gradle.kts'', ''settings.gradle'', ''settings.gradle.kts'']"

definition computeGeneratedRoot :: "host_fs \<Rightarrow> scope_context \<Rightarrow> string \<Rightarrow> bool" where
  "computeGeneratedRoot fs c dir =
     (if EqualPath (sc_Rules c) dir (sc_Workspace c) then False
      else let name = Base dir; parent = Dir dir in
        if \<exists>extra \<in> set (sc_GeneratedExtra c). extra \<noteq> [] \<and>
             EqualPath (sc_Rules c) dir
               (Clean (if IsAbs extra then extra else filepath_Join [sc_Workspace c, extra])) then True
        else if name \<in> set nodeGeneratedDirs \<and> fileExists fs (filepath_Join [parent, ''package.json'']) then True
        else if name = ''build'' \<and>
             ((\<exists>marker \<in> set gradleMarkers. fileExists fs (filepath_Join [parent, marker])) \<or>
              EqualPath (sc_Rules c) parent (filepath_Join [sc_Workspace c, ''buildSrc''])) then True
        else if EqualPath (sc_Rules c) dir (filepath_Join [sc_Workspace c, ''.gradle'']) then True
        else name = ''target'' \<and> fileExists fs (filepath_Join [parent, ''pom.xml'']))"

text \<open>The memo table is threaded explicitly: the answer and the table with the answer added.\<close>

definition isGeneratedRoot ::
    "host_fs \<Rightarrow> scope_context \<Rightarrow> (string \<rightharpoonup> bool) \<Rightarrow> string \<Rightarrow> bool \<times> (string \<rightharpoonup> bool)" where
  "isGeneratedRoot fs c cache dir =
     (case cache dir of
        Some cached \<Rightarrow> (cached, cache)
      | None \<Rightarrow> let result = computeGeneratedRoot fs c dir in (result, cache(dir \<mapsto> result)))"

function underGeneratedFrom ::
    "host_fs \<Rightarrow> scope_context \<Rightarrow> (string \<rightharpoonup> bool) \<Rightarrow> string \<Rightarrow> bool \<times> (string \<rightharpoonup> bool)" where
  "underGeneratedFrom fs c cache current =
     (case isGeneratedRoot fs c cache current of
        (hit, cache') \<Rightarrow>
          if hit then (True, cache')
          else if EqualPath (sc_Rules c) current (sc_Workspace c) then (False, cache')
          else if Dir current = current \<or> \<not> Under (sc_Rules c) (Dir current) (sc_Workspace c)
            then (False, cache')
          else underGeneratedFrom fs c cache' (Dir current))"
  by pat_completeness auto
termination
  by (relation "measure (\<lambda>(fs, c, cache, current). climb_measure current)") (auto simp: Dir_climbs)

declare underGeneratedFrom.simps [simp del]

definition UnderGeneratedRoot ::
    "host_fs \<Rightarrow> scope_context \<Rightarrow> (string \<rightharpoonup> bool) \<Rightarrow> string \<Rightarrow> bool \<times> (string \<rightharpoonup> bool)" where
  "UnderGeneratedRoot fs c cache path =
     (if sc_Workspace c = [] \<or> \<not> Under (sc_Rules c) path (sc_Workspace c) then (False, cache)
      else underGeneratedFrom fs c cache (Clean path))"

section \<open>Classification\<close>

definition underWorkspace :: "scope_context \<Rightarrow> string \<Rightarrow> bool" where
  "underWorkspace c path = (sc_Workspace c \<noteq> [] \<and> Under (sc_Rules c) path (sc_Workspace c))"

definition scopeOf :: "host_fs \<Rightarrow> scope_context \<Rightarrow> string \<Rightarrow> scope" where
  "scopeOf fs c path =
     (if IsSystem (sc_Rules c) path then ScopeSystem
      else if underWorkspace c path then
        (if fst (UnderGeneratedRoot fs c Map.empty path) then ScopeWorkspaceGenerated else ScopeWorkspace)
      else if sc_Home c \<noteq> [] \<and> Under (sc_Rules c) path (sc_Home c) then ScopeHome
      else ScopeOutsideWorkspace)"

definition isBroad :: "scope_context \<Rightarrow> string \<Rightarrow> bool" where
  "isBroad c path =
     (IsRoot path \<or>
      (sc_Workspace c \<noteq> [] \<and> EqualPath (sc_Rules c) path (sc_Workspace c)) \<or>
      (sc_Home c \<noteq> [] \<and> EqualPath (sc_Rules c) path (sc_Home c)) \<or>
      (sc_Home c \<noteq> [] \<and> IsStandardHomeDir (sc_Rules c) path (sc_Home c)) \<or>
      IsTempRoot (sc_Rules c) path \<or>
      (\<exists>root \<in> set (SystemRoots (sc_Rules c)). EqualPath (sc_Rules c) path root))"

definition classify :: "host_fs \<Rightarrow> scope_context \<Rightarrow> target \<Rightarrow> target" where
  "classify fs c target =
     (let path = t_canonical target in
      if path = [] then target\<lparr>t_scope := ScopeOutsideWorkspace\<rparr>
      else
        let target = target\<lparr>t_scope := scopeOf fs c path\<rparr>;
            target = (if IsTemp (sc_Rules c) path then target_AddFlags target [FlagTemp] else target);
            target = (if IsSensitive (sc_Rules c) path then target_AddFlags target [FlagSensitive] else target);
            target = (if IsToolCache (sc_Rules c) path then target_AddFlags target [FlagToolCache] else target)
        in if isBroad c path then target_AddFlags target [FlagBroad] else target)"

section \<open>Normalization\<close>

text \<open>\<open>isRooted\<close> is constantly false and \<open>anchorRooted\<close> unreachable where the separator is a slash.\<close>

definition isAbsolutePath :: "string \<Rightarrow> bool \<Rightarrow> bool" where
  "isAbsolutePath path windowsStyle =
     (if IsAbs path then True
      else if \<not> windowsStyle then False
      else if 2 \<le> length path \<and> path ! 1 = CHR '':'' then True
      else HasPrefix path [CHR 0x5C, CHR 0x5C])"

definition absolutize :: "string \<Rightarrow> string \<Rightarrow> string" where
  "absolutize path cwd =
     (if path = [] then cwd
      else if isAbsolutePath path True then path
      else if cwd = [] then path
      else filepath_Join [cwd, path])"

definition escapesWorkspace :: "scope_context \<Rightarrow> string \<Rightarrow> string \<Rightarrow> bool \<Rightarrow> bool" where
  "escapesWorkspace c original cleaned relativeInput =
     (if sc_Workspace c = [] then False
      else if \<not> strings_Contains original ''..'' then False
      else if \<not> relativeInput \<and> \<not> Under (sc_Rules c) (Clean original) (sc_Workspace c) then False
      else \<not> Under (sc_Rules c) cleaned (sc_Workspace c))"

function canonicalizeFrom :: "host_fs \<Rightarrow> string \<Rightarrow> string \<Rightarrow> string \<Rightarrow> string" where
  "canonicalizeFrom fs path current remainder =
     (case EvalSymlinks fs current of
        Some resolved \<Rightarrow>
          if remainder = [] then Clean resolved else Clean (filepath_Join [resolved, remainder])
      | None \<Rightarrow>
          if Dir current = current then Clean path
          else canonicalizeFrom fs path (Dir current) (filepath_Join [Base current, remainder]))"
  by pat_completeness auto
termination
  by (relation "measure (\<lambda>(fs, path, current, remainder). climb_measure current)") (auto simp: Dir_climbs)

declare canonicalizeFrom.simps [simp del]

definition canonicalize :: "host_fs \<Rightarrow> string \<Rightarrow> string" where
  "canonicalize fs path = (if path = [] then path else canonicalizeFrom fs path path [])"

definition stat :: "host_fs \<Rightarrow> target \<Rightarrow> target" where
  "stat fs target =
     (if t_canonical target = [] then target
      else case Lstat fs (t_canonical target) of
             None \<Rightarrow> target
           | Some info \<Rightarrow>
               let target = target\<lparr>t_exists := True, t_is_symlink := fi_is_symlink info,
                                   t_is_dir := fi_is_dir info\<rparr>
               in if fi_is_symlink info then
                    (case Stat fs (t_canonical target) of
                       None \<Rightarrow> target
                     | Some resolved \<Rightarrow> target\<lparr>t_is_dir := fi_is_dir resolved\<rparr>)
                  else target)"

definition displayBase :: "scope_context \<Rightarrow> string \<Rightarrow> string" where
  "displayBase c canonical =
     (let home = (if sc_Home c \<noteq> [] \<and> Under (sc_Rules c) canonical (sc_Home c) then
                    (if EqualPath (sc_Rules c) canonical (sc_Home c) then ''~''
                     else case Rel (sc_Home c) canonical of
                            Some rel \<Rightarrow> ''~/'' @ rel | None \<Rightarrow> canonical)
                  else canonical)
      in if canonical = [] then []
         else if sc_Workspace c \<noteq> [] \<and> Under (sc_Rules c) canonical (sc_Workspace c) then
           (if EqualPath (sc_Rules c) canonical (sc_Workspace c) then ''.''
            else case Rel (sc_Workspace c) canonical of
                   Some rel \<Rightarrow> ''./'' @ rel | None \<Rightarrow> home)
         else home)"

definition display :: "scope_context \<Rightarrow> string \<Rightarrow> string \<Rightarrow> string" where
  "display c canonical globSuffix =
     (let base = displayBase c canonical in
      if globSuffix = [] then base
      else if HasSuffix base ''/'' then base @ globSuffix
      else base @ ''/'' @ globSuffix)"

definition splitGlob :: "string \<Rightarrow> bool \<Rightarrow> string \<times> string" where
  "splitGlob text isGlob =
     (if \<not> isGlob then (text, [])
      else if \<not> ContainsAny text ''*?['' then (text, [])
      else let before = takeWhile (\<lambda>c. c \<notin> set ''*?['') text;
               tail_rev = takeWhile (\<lambda>c. c \<noteq> CHR ''/'' \<and> c \<noteq> CHR 0x5C) (rev before);
               cut = length before - length tail_rev
           in if cut = 0 then (''.'', text) else (take cut text, drop cut text))"

definition msysToWindows :: "string \<Rightarrow> string option" where
  "msysToWindows text =
     (if length text < 3 \<or> text ! 0 \<noteq> CHR ''/'' \<or> text ! 2 \<noteq> CHR ''/'' then None
      else let drive = text ! 1 in
           if (CHR ''a'' \<le> drive \<and> drive \<le> CHR ''z'') \<or> (CHR ''A'' \<le> drive \<and> drive \<le> CHR ''Z'')
           then Some (ToUpper [drive] @ '':'' @ ''/'' @ drop 3 text)
           else None)"

definition normalizeWindowsStyle :: "string \<Rightarrow> string \<times> bool" where
  "normalizeWindowsStyle text =
     (if HasPrefix text [CHR 0x5C, CHR 0x5C] \<or> HasPrefix text ''//'' then (text, True)
      else case msysToWindows text of
             Some converted \<Rightarrow> (converted, False)
           | None \<Rightarrow> (ReplaceAll text [CHR 0x5C] ''/'', False))"

definition Normalize :: "host_fs \<Rightarrow> scope_context \<Rightarrow> scope_input \<Rightarrow> target" where
  "Normalize fs c inp =
     (let target = \<lparr>t_raw = in_Raw inp, t_canonical = [], t_display = [], t_scope = ScopeNone,
                    t_exists = False, t_is_dir = False, t_is_symlink = False, t_flags = [],
                    t_status = (if in_Ambiguous inp then TargetAmbiguous else TargetResolved)\<rparr>;
          text = (if in_Text inp = [] then in_Raw inp else in_Text inp);
          (text, networkPath) = (if in_WindowsStyle inp then normalizeWindowsStyle text else (text, False));
          (literal, globSuffix) = splitGlob text (in_Glob inp);
          absolute = absolutize literal (in_Cwd inp);
          cleaned = Clean absolute;
          relativeInput = (\<not> isAbsolutePath literal (in_WindowsStyle inp));
          target = (if escapesWorkspace c literal cleaned relativeInput
                    then target_AddFlags target [FlagTraversal] else target);
          canonical = canonicalize fs cleaned;
          target = (if sc_Workspace c \<noteq> [] \<and> Under (sc_Rules c) cleaned (sc_Workspace c) \<and>
                       \<not> Under (sc_Rules c) canonical (sc_Workspace c)
                    then target_AddFlags target [FlagSymlinkEscape] else target);
          target = stat fs (target\<lparr>t_canonical := canonical\<rparr>);
          target = (if in_Glob inp then target_AddFlags target [FlagWildcard] else target);
          target = (if networkPath then target_AddFlags target [FlagNetworkPath] else target);
          target = classify fs c target
      in target\<lparr>t_display := display c canonical globSuffix\<rparr>)"

definition maxGlobMatches :: nat where
  "maxGlobMatches = 256"

definition escapedTarget :: "host_fs \<Rightarrow> scope_context \<Rightarrow> string \<Rightarrow> string \<Rightarrow> target" where
  "escapedTarget fs c match canonical =
     (let escaped = \<lparr>t_raw = match, t_canonical = canonical, t_display = [], t_scope = ScopeNone,
                     t_exists = False, t_is_dir = False, t_is_symlink = False, t_flags = [],
                     t_status = TargetResolved\<rparr>;
          escaped = classify fs c (stat fs (target_AddFlags escaped [FlagSymlinkEscape]))
      in escaped\<lparr>t_display := display c canonical []\<rparr>)"

definition escapingMatches :: "host_fs \<Rightarrow> scope_context \<Rightarrow> scope_input \<Rightarrow> target \<Rightarrow> target list" where
  "escapingMatches fs c inp primary =
     (let text = (if in_Text inp = [] then in_Raw inp else in_Text inp);
          text = (if in_WindowsStyle inp then fst (normalizeWindowsStyle text) else text)
      in case Glob fs (absolutize text (in_Cwd inp)) of
           None \<Rightarrow> []
         | Some matches \<Rightarrow>
             if matches = [] \<or> maxGlobMatches < length matches then []
             else map (\<lambda>match. escapedTarget fs c match (canonicalize fs (Clean match)))
                    (filter (\<lambda>match. \<not> Under (sc_Rules c) (canonicalize fs (Clean match)) (t_canonical primary))
                      matches))"

definition NormalizeWord :: "host_fs \<Rightarrow> scope_context \<Rightarrow> scope_input \<Rightarrow> target list" where
  "NormalizeWord fs c inp =
     (let primary = Normalize fs c inp in
      if \<not> in_Glob inp \<or> t_status primary = TargetAmbiguous then [primary]
      else primary # escapingMatches fs c inp primary)"

definition canonicalPath :: "host_fs \<Rightarrow> string \<Rightarrow> string" where
  "canonicalPath fs path =
     (if path = [] then []
      else case EvalSymlinks fs path of Some resolved \<Rightarrow> Clean resolved | None \<Rightarrow> Clean path)"

definition NewContext ::
    "host_fs \<Rightarrow> path_rules \<Rightarrow> string \<Rightarrow> string \<Rightarrow> string \<Rightarrow> string list \<Rightarrow> scope_context" where
  "NewContext fs rules home workspace tempDir generatedExtra =
     \<lparr>sc_Rules = rules, sc_Home = canonicalPath fs home, sc_Workspace = canonicalPath fs workspace,
      sc_TempDir = canonicalPath fs tempDir, sc_GeneratedExtra = generatedExtra\<rparr>"

definition SelfProtectionPaths :: "string \<Rightarrow> string \<Rightarrow> string \<Rightarrow> string list \<Rightarrow> string list" where
  "SelfProtectionPaths dataDir configDir runtimeDir claudeSettings =
     [recursivePattern dataDir, recursivePattern configDir, recursivePattern runtimeDir] @
     map Clean (filter (\<lambda>s. s \<noteq> []) claudeSettings)"

text \<open>The scan for reporting stops three levels below the workspace.\<close>

fun collectGeneratedRoots :: "host_fs \<Rightarrow> scope_context \<Rightarrow> nat \<Rightarrow> string \<Rightarrow> string list" where
  "collectGeneratedRoots fs c levels dir =
     (case ReadDir fs dir of
        None \<Rightarrow> []
      | Some entries \<Rightarrow>
          concat (map (\<lambda>(name, isDir).
            let child = filepath_Join [dir, name] in
            if \<not> isDir then []
            else if computeGeneratedRoot fs c child then
              (if Under (sc_Rules c) (canonicalize fs child) (sc_Workspace c)
               then [canonicalize fs child] else [])
            else (case levels of 0 \<Rightarrow> [] | Suc l \<Rightarrow> collectGeneratedRoots fs c l child)) entries))"

definition maxGeneratedScanDepth :: nat where
  "maxGeneratedScanDepth = 3"

definition GeneratedRoots :: "host_fs \<Rightarrow> scope_context \<Rightarrow> string list" where
  "GeneratedRoots fs c =
     (if sc_Workspace c = [] then []
      else collectGeneratedRoots fs c maxGeneratedScanDepth (sc_Workspace c))"

section \<open>Generated roots: the memoised climb finds an ancestor\<close>

definition cache_ok :: "host_fs \<Rightarrow> scope_context \<Rightarrow> (string \<rightharpoonup> bool) \<Rightarrow> bool" where
  "cache_ok fs c cache = (\<forall>dir b. cache dir = Some b \<longrightarrow> b = computeGeneratedRoot fs c dir)"

lemma isGeneratedRoot_ok:
  assumes "cache_ok fs c cache"
  shows "fst (isGeneratedRoot fs c cache dir) = computeGeneratedRoot fs c dir"
    and "cache_ok fs c (snd (isGeneratedRoot fs c cache dir))"
  using assms by (auto simp: isGeneratedRoot_def cache_ok_def Let_def split: option.splits)

lemma underGeneratedFrom_ok:
  "cache_ok fs c cache \<Longrightarrow> cache_ok fs c (snd (underGeneratedFrom fs c cache p))"
proof (induction fs c cache p rule: underGeneratedFrom.induct)
  case (1 fs c cache p)
  obtain hit cache' where g: "isGeneratedRoot fs c cache p = (hit, cache')" by fastforce
  have ok: "cache_ok fs c cache'" using isGeneratedRoot_ok(2) [OF "1.prems", of p] g by simp
  show ?case
    using "1.IH" [OF g [symmetric]] ok g
    by (subst underGeneratedFrom.simps) auto
qed

text \<open>The directories between a path and the workspace root, the path included.\<close>

definition generated_ancestor :: "host_fs \<Rightarrow> scope_context \<Rightarrow> string list \<Rightarrow> bool" where
  "generated_ancestor fs c cs =
     (\<exists>ds. prefix ds cs \<and> Under (sc_Rules c) (path_of ds) (sc_Workspace c) \<and>
           computeGeneratedRoot fs c (path_of ds))"

lemma generated_ancestor_unfold:
  assumes "Under (sc_Rules c) (path_of cs) (sc_Workspace c)"
  shows "generated_ancestor fs c cs \<longleftrightarrow>
     computeGeneratedRoot fs c (path_of cs) \<or> (cs \<noteq> [] \<and> generated_ancestor fs c (butlast cs))"
proof (cases cs rule: rev_cases)
  case Nil
  with assms show ?thesis by (simp add: generated_ancestor_def)
next
  case (snoc ds e)
  with assms show ?thesis by (auto simp: generated_ancestor_def)
qed

lemma underGeneratedFrom_spec:
  assumes W: "IsAbs (sc_Workspace c)"
  shows "cache_ok fs c cache \<Longrightarrow> \<forall>d \<in> set cs. plain_comp d \<and> d \<noteq> ''..'' \<Longrightarrow>
    Under (sc_Rules c) (path_of cs) (sc_Workspace c) \<Longrightarrow>
    fst (underGeneratedFrom fs c cache (path_of cs)) = generated_ancestor fs c cs"
proof (induction cs arbitrary: cache rule: rev_induct)
  case Nil
  have "Dir ''/'' = ''/''" by code_simp
  with Nil isGeneratedRoot_ok(1) [OF Nil.prems(1), of "''/''"] show ?case
    by (subst underGeneratedFrom.simps)
      (auto simp: generated_ancestor_def split: prod.splits)
next
  case (snoc e cs)
  let ?p = "path_of (cs @ [e])"
  obtain hit cache' where g: "isGeneratedRoot fs c cache ?p = (hit, cache')" by fastforce
  have hit: "hit = computeGeneratedRoot fs c ?p" and ok: "cache_ok fs c cache'"
    using isGeneratedRoot_ok [OF snoc.prems(1), of ?p] g by simp_all
  have dir: "Dir ?p = path_of cs" using Dir_path_of [OF snoc.prems(2)] by simp
  have abs: "IsAbs ?p" "IsAbs (path_of cs)" by simp_all
  have comps: "path_comps (sc_Rules c) ?p = path_comps (sc_Rules c) (path_of cs) @ [fold_case (sc_Rules c) e]"
    using snoc.prems(2) by (simp add: path_comps_def Clean_comps_of_comps)
  then have neq: "path_of cs \<noteq> ?p" by (metis append_self_conv not_Cons_self2)
  have unf: "generated_ancestor fs c (cs @ [e]) \<longleftrightarrow> hit \<or> generated_ancestor fs c cs"
    using generated_ancestor_unfold [OF snoc.prems(3), of fs] hit by simp
  show ?case
  proof (cases "Under (sc_Rules c) (path_of cs) (sc_Workspace c)")
    case True
    have ne: "\<not> EqualPath (sc_Rules c) ?p (sc_Workspace c)"
    proof
      assume "EqualPath (sc_Rules c) ?p (sc_Workspace c)"
      then have "prefix (path_comps (sc_Rules c) (path_of cs) @ [fold_case (sc_Rules c) e])
          (path_comps (sc_Rules c) (path_of cs))"
        using True comps by (simp add: EqualPath_comps [OF abs(1) W] Under_comps [OF abs(2) W])
      then show False by (auto dest: prefix_length_le)
    qed
    have "fst (underGeneratedFrom fs c cache' (path_of cs)) = generated_ancestor fs c cs"
      using snoc.IH [OF ok _ True] snoc.prems(2) by simp
    with True ne neq dir g unf show ?thesis
      by (subst underGeneratedFrom.simps) simp
  next
    case False
    have "\<not> generated_ancestor fs c cs"
    proof
      assume "generated_ancestor fs c cs"
      then obtain ds where ds: "prefix ds cs" "Under (sc_Rules c) (path_of ds) (sc_Workspace c)"
        by (auto simp: generated_ancestor_def)
      then have "\<forall>d \<in> set ds. plain_comp d \<and> d \<noteq> ''..''"
        using snoc.prems(2) by (auto dest: set_mono_prefix)
      then have "path_comps (sc_Rules c) (path_of ds) = map (fold_case (sc_Rules c)) ds"
        "path_comps (sc_Rules c) (path_of cs) = map (fold_case (sc_Rules c)) cs"
        using snoc.prems(2) by (simp_all add: path_comps_def Clean_comps_of_comps)
      then have "Under (sc_Rules c) (path_of cs) (path_of ds)"
        using ds(1) by (simp add: Under_comps prefix_def) auto
      with ds(2) False W show False
        by (meson IsAbs_Cons unix_paths.under_trans)
    qed
    with False dir g unf show ?thesis
      by (subst underGeneratedFrom.simps) simp
  qed
qed

lemma UnderGeneratedRoot_correct:
  assumes "IsAbs (sc_Workspace c)" and "IsAbs p" and "cache_ok fs c cache"
  shows "fst (UnderGeneratedRoot fs c cache p) \<longleftrightarrow>
     Under (sc_Rules c) p (sc_Workspace c) \<and> generated_ancestor fs c (Clean_comps p)"
proof -
  have u: "Under (sc_Rules c) (Clean p) (sc_Workspace c) = Under (sc_Rules c) p (sc_Workspace c)"
    using assms by (simp add: Under_comps IsAbs_Clean path_comps_def Clean_comps_Clean)
  have ne: "sc_Workspace c \<noteq> []" using assms(1) by (auto simp: IsAbs_def HasPrefix_def)
  show ?thesis
    using underGeneratedFrom_spec [OF assms(1,3), of "Clean_comps p"] u ne assms(2)
    by (auto simp: UnderGeneratedRoot_def Clean_abs dest: Clean_comps_rooted)
qed

section \<open>What is displayed identifies the path\<close>

definition below :: "string \<Rightarrow> string \<Rightarrow> string list option" where
  "below root p =
     (if root \<noteq> [] \<and> prefix (Clean_comps root) (Clean_comps p)
      then Some (drop (length (Clean_comps root)) (Clean_comps p)) else None)"

definition shown :: "string \<Rightarrow> string list \<Rightarrow> string" where
  "shown mark ds = (if ds = [] then mark else mark @ ''/'' @ strings_Join ds ''/'')"

lemma path_comps_case_sensitive: "\<not> CaseInsensitive r \<Longrightarrow> path_comps r p = Clean_comps p"
  by (simp add: path_comps_def fold_case_def [abs_def])

lemma displayBase_shown:
  assumes cs: "\<not> CaseInsensitive (sc_Rules c)" and p: "IsAbs p"
    and W: "sc_Workspace c \<noteq> [] \<longrightarrow> IsAbs (sc_Workspace c)" and H: "sc_Home c \<noteq> [] \<longrightarrow> IsAbs (sc_Home c)"
  shows "displayBase c p =
     (case below (sc_Workspace c) p of Some ds \<Rightarrow> shown ''.'' ds
      | None \<Rightarrow> (case below (sc_Home c) p of Some ds \<Rightarrow> shown ''~'' ds | None \<Rightarrow> p))"
proof -
  have root: "(if root \<noteq> [] \<and> Under (sc_Rules c) p root then
         (if EqualPath (sc_Rules c) p root then mark
          else case Rel root p of Some rel \<Rightarrow> (mark @ ''/'') @ rel | None \<Rightarrow> other)
       else other) = (case below root p of Some ds \<Rightarrow> shown mark ds | None \<Rightarrow> other)"
    if "root \<noteq> [] \<longrightarrow> IsAbs root" for root mark other
  proof (cases "root \<noteq> [] \<and> prefix (Clean_comps root) (Clean_comps p)")
    case True
    then obtain ds where ds: "Clean_comps p = Clean_comps root @ ds" by (auto simp: prefix_def)
    with True that cs p Rel_below [OF _ p ds] show ?thesis
      by (auto simp: below_def shown_def Under_comps EqualPath_comps path_comps_case_sensitive)
  next
    case False
    with that cs p show ?thesis
      by (auto simp: below_def Under_comps path_comps_case_sensitive)
  qed
  let ?home = "if sc_Home c \<noteq> [] \<and> Under (sc_Rules c) p (sc_Home c) then
         (if EqualPath (sc_Rules c) p (sc_Home c) then ''~''
          else case Rel (sc_Home c) p of Some rel \<Rightarrow> ''~/'' @ rel | None \<Rightarrow> p)
       else p"
  have "p \<noteq> []" using p by (auto simp: IsAbs_def HasPrefix_def)
  then have "displayBase c p = (if sc_Workspace c \<noteq> [] \<and> Under (sc_Rules c) p (sc_Workspace c) then
         (if EqualPath (sc_Rules c) p (sc_Workspace c) then ''.''
          else case Rel (sc_Workspace c) p of Some rel \<Rightarrow> ''./'' @ rel | None \<Rightarrow> ?home)
       else ?home)"
    by (simp add: displayBase_def Let_def)
  also have "\<dots> = (case below (sc_Workspace c) p of Some ds \<Rightarrow> shown ''.'' ds | None \<Rightarrow> ?home)"
    using root [OF W, of "''.''"] by (simp only: append_Cons append_Nil)
  also have "?home = (case below (sc_Home c) p of Some ds \<Rightarrow> shown ''~'' ds | None \<Rightarrow> p)"
    using root [OF H, of "''~''"] by (simp only: append_Cons append_Nil)
  finally show ?thesis .
qed

lemma below_SomeD: "below root p = Some ds \<Longrightarrow> Clean_comps p = Clean_comps root @ ds"
  by (auto simp: below_def prefix_def split: if_splits)

lemma shown_inject:
  assumes "\<forall>d \<in> set ds. d \<noteq> [] \<and> CHR ''/'' \<notin> set d" and "\<forall>d \<in> set es. d \<noteq> [] \<and> CHR ''/'' \<notin> set d"
  shows "shown mark ds = shown mark es \<longleftrightarrow> ds = es"
  using strings_Join_slash_inject [OF assms] by (auto simp: shown_def)

lemma shown_hd: "mark \<noteq> [] \<Longrightarrow> shown mark ds \<noteq> [] \<and> hd (shown mark ds) = hd mark"
  by (simp add: shown_def)

lemma displayBase_inject:
  assumes "\<not> CaseInsensitive (sc_Rules c)"
    and "sc_Workspace c \<noteq> [] \<longrightarrow> IsAbs (sc_Workspace c)" and "sc_Home c \<noteq> [] \<longrightarrow> IsAbs (sc_Home c)"
    and p: "IsAbs p" "Clean p = p" and q: "IsAbs q" "Clean q = q"
    and eq: "displayBase c p = displayBase c q"
  shows "p = q"
proof -
  note sp = displayBase_shown [OF assms(1) p(1) assms(2,3)]
  note sq = displayBase_shown [OF assms(1) q(1) assms(2,3)]
  have comps: "Clean_comps p = Clean_comps q \<Longrightarrow> p = q" using p q by (metis Clean_eq_iff)
  have hd: "hd p = CHR ''/''" "hd q = CHR ''/''" using p(1) q(1) by (auto simp: IsAbs_def HasPrefix_def prefix_def)
  have inj: "ds = es" if "below root p = Some ds" "below root q = Some es" "shown mark ds = shown mark es"
    for root mark ds es
  proof -
    from that(1,2) have "set ds \<subseteq> set (Clean_comps p)" "set es \<subseteq> set (Clean_comps q)"
      by (auto dest!: below_SomeD)
    then have "\<forall>d \<in> set ds. d \<noteq> [] \<and> CHR ''/'' \<notin> set d" "\<forall>d \<in> set es. d \<noteq> [] \<and> CHR ''/'' \<notin> set d"
      using Clean_comps_no_slash by blast+
    from shown_inject [OF this] that(3) show ?thesis by simp
  qed
  have s: "hd (shown ''.'' ds) = CHR ''.''" "hd (shown ''~'' ds) = CHR ''~''" for ds
    by (simp_all add: shown_def)
  show ?thesis
  proof (cases "below (sc_Workspace c) p"; cases "below (sc_Workspace c) q")
    fix ds es
    assume b: "below (sc_Workspace c) p = Some ds" "below (sc_Workspace c) q = Some es"
    then show ?thesis using inj [OF b] eq sp sq comps b [THEN below_SomeD] by simp
  next
    assume b: "below (sc_Workspace c) p = None" "below (sc_Workspace c) q = None"
    show ?thesis
    proof (cases "below (sc_Home c) p"; cases "below (sc_Home c) q")
      fix ds es
      assume h: "below (sc_Home c) p = Some ds" "below (sc_Home c) q = Some es"
      then show ?thesis using b inj [OF h] eq sp sq comps h [THEN below_SomeD] by simp
    qed (use b eq sp sq s hd in \<open>auto dest: arg_cong [where f = hd]\<close>)
  qed (use eq sp sq s hd in \<open>auto dest: arg_cong [where f = hd] split: option.splits\<close>)
qed

end
