(* ===== verification/Samples.thy ===== *)
theory Samples
  imports Approval_Create Scope
begin

text \<open>
  Concrete values for the witnesses: a project on a case-sensitive host, a build directory and the
  action \<^verbatim>\<open>rm -rf dist\<close>, reads inside and outside the project, and a store with one approval.
\<close>

text \<open>The engine over the store, as the daemon builds it.\<close>

abbreviation stored_engine :: "int \<Rightarrow> go_time \<Rightarrow> store engine" where
  "stored_engine v now \<equiv> NewEngine (Some (Match v now)) (Some (Import v now)) (Some (Mismatches v)) v"

definition sample_rules :: path_rules where
  "sample_rules =
     \<lparr>CaseInsensitive = False, SystemRoots = [''/etc'', ''/usr''], TempRoots = [''/tmp''],
      StandardHomeDirs = [''Documents''], SensitiveDirs = [''/home/u/.ssh/**''],
      SensitiveNames = [''.env''], ToolCacheDirs = [''/home/u/.npm/**'']\<rparr>"

definition sample_target :: "string \<Rightarrow> string \<Rightarrow> scope \<Rightarrow> target_flag list \<Rightarrow> target" where
  "sample_target canonical disp sc flags =
     \<lparr>t_raw = disp, t_canonical = canonical, t_display = disp, t_scope = sc, t_exists = True,
      t_is_dir = False, t_is_symlink = False, t_flags = flags, t_status = TargetResolved\<rparr>"

definition dist_target :: target where
  "dist_target = sample_target ''/w/dist'' ''./dist'' ScopeWorkspaceGenerated []"

definition home_target :: target where
  "home_target = sample_target ''/home/u/old'' ''~/old'' ScopeHome []"

definition file_effect :: "effect_type \<Rightarrow> target \<Rightarrow> effect_flag list \<Rightarrow> effect" where
  "file_effect ty t flags =
     \<lparr>e_type = ty, e_target = Some t, e_network = None, e_program = None, e_flags = flags\<rparr>"

definition sample_command :: "semantic_op \<Rightarrow> target \<Rightarrow> effect \<Rightarrow> string \<Rightarrow> resolved_command" where
  "sample_command op t e raw = ResolvedCommand [] op [t] [e] StatusResolved [] [] [] [] raw None"

definition sample_action :: "semantic_op \<Rightarrow> target \<Rightarrow> effect \<Rightarrow> string \<Rightarrow> resolved_action" where
  "sample_action op t e raw =
     \<lparr>ra_raw_command = raw, ra_dialect = DialectPosix, ra_project_id = ''p1'',
      ra_commands = [sample_command op t e raw], ra_semantic_ops = [op], ra_effects = [e],
      ra_fingerprints = [\<lparr>f_key = ''package.json'', f_value = ''sha256:1'', f_description = []\<rparr>],
      ra_status = StatusResolved, ra_status_reason = [], ra_action_key = [], ra_explanation = [],
      ra_unsupported = [], ra_incomplete = False, ra_incomplete_reason = []\<rparr>"

definition rm_dist :: resolved_action where
  "rm_dist = sample_action OpFSDelete dist_target
     (file_effect EffectDelete dist_target [EffectFlagRecursive]) ''rm -r dist''"

definition rm_home :: resolved_action where
  "rm_home = sample_action OpFSDelete home_target
     (file_effect EffectDelete home_target [EffectFlagRecursive]) ''rm -r ~/old''"

definition cat_dist :: resolved_action where
  "cat_dist = sample_action OpFSRead dist_target (file_effect EffectRead dist_target []) ''cat dist''"

definition sample_context :: request_context where
  "sample_context =
     \<lparr>cx_workspace_root = ''/w'', cx_project_id = ''p1'', cx_home_dir = ''/home/u'', cx_temp_dir = ''/tmp'',
      cx_platform = ''linux'', cx_generated_roots = [''/w/dist''], cx_git = None,
      cx_package_manager = no_package_manager, cx_status = ContextOK,
      cx_status_reason = []\<rparr>"

definition sample_input :: "resolved_action \<Rightarrow> policy_input" where
  "sample_input a =
     \<lparr>pi_action = Some a, pi_context = Some sample_context, pi_config = Default, pi_rules = sample_rules,
      pi_agent = ''claude''\<rparr>"

definition sample_request :: "resolved_action \<Rightarrow> approval_kind \<Rightarrow> create_request" where
  "sample_request a k =
     \<lparr>cr_action = Some a, cr_policy = sample_input a, cr_kind = Some k, cr_origin = OriginCLI,
      cr_origin_ref = [], cr_source_event_id = Some 1, cr_agent = ''claude'', cr_note = [],
      cr_engine_version = 1, cr_now = 100\<rparr>"

definition project_store :: store where
  "project_store = emptyStore\<lparr>st_projects :=
     [\<lparr>pr_id = ''p1'', pr_root_path = ''/w'', pr_remote_url = [], pr_first_seen_at = 1, pr_last_seen_at = 1\<rparr>]\<rparr>"

definition sample_store :: store where
  "sample_store = snd (Create 100 (sample_request rm_dist ApprovalExact) project_store)"

definition sample_consent :: agent_consent where
  "sample_consent = \<lparr>co_kind = ConsentKindPersistentRule, co_rule_keys = [''Bash(rm -r dist)''], co_exact = True\<rparr>"

definition sample_fs :: host_fs where
  "sample_fs =
     \<lparr>EvalSymlinks = Some, Lstat = (\<lambda>_. None),
      Stat = (\<lambda>p. if p = ''/w/package.json'' then Some \<lparr>fi_is_symlink = False, fi_is_dir = False\<rparr> else None),
      Glob = (\<lambda>_. Some []), ReadDir = (\<lambda>_. Some [])\<rparr>"

definition sample_scope :: scope_context where
  "sample_scope = \<lparr>sc_Rules = sample_rules, sc_Home = ''/home/u'', sc_Workspace = ''/w'', sc_TempDir = ''/tmp'',
     sc_GeneratedExtra = []\<rparr>"

definition host_effect :: "string \<Rightarrow> effect" where
  "host_effect host =
     \<lparr>e_type = EffectNetwork, e_target = None,
      e_network = Some \<lparr>n_host = host, n_port = 443, n_scheme = ''https'', n_method = ''GET'', n_declared_kind = []\<rparr>,
      e_program = None, e_flags = []\<rparr>"

definition fetch :: "string list \<Rightarrow> resolved_action" where
  "fetch hosts = cat_dist\<lparr>ra_effects := map host_effect hosts\<rparr>"

definition revoked_store :: store where
  "revoked_store = snd (Approvals_SetState 7 1 ApprovalRevoked 7
     (snd (Create 101 (sample_request rm_dist ApprovalExact) sample_store)))"

lemma project_store_ok: "store_ok project_store"
  by (simp add: store_ok_def project_store_def emptyStore_def)

lemma sample_store_ok: "store_ok sample_store"
  unfolding sample_store_def
  using Create_ok [OF project_store_ok, of 100 "sample_request rm_dist ApprovalExact"] by (metis prod.collapse)


lemma revoked_store_ok: "store_ok revoked_store"
  unfolding revoked_store_def
  by (metis Create_ok SetState_ok sample_store_ok prod.collapse)

end
