(* ===== verification/Policy_Properties.thy ===== *)
theory Policy_Properties
  imports Samples
begin

text \<open>
  What the policy engine guarantees for every store and every agent: the safety floor, the meaning of
  an ALLOW, and what happens to actions that could not be modelled.
\<close>

text \<open>C1. The engine answers BLOCK exactly when some effect of the action is one the safety floor
  stops: changing a system location or a credential file, or a wide delete in the home directory or
  outside the project. This holds for every store and every collaborator, so no approval, consent or
  baseline rule can lift a block or cause one.\<close>

theorem engine_blocks_iff:
  "d_outcome (fst (Evaluate e inp consent s)) = OutcomeBlock \<longleftrightarrow>
   (\<exists>a. pi_action inp = Some a \<and> (\<exists>eff \<in> set (ra_effects a). blocked_effect eff))"
proof (cases "pi_action inp")
  case None
  then show ?thesis by (simp add: Evaluate_def EvaluateDetailed_def)
next
  case (Some a)
  then show ?thesis
    using HardRules_block_iff [OF Some] by (simp add: Evaluate_eq EvaluateDetailed_outcome_block)
qed

text \<open>C2. Every ALLOW over the approval store has a reason that can be checked: no safety rule fired,
  and either the action is the read-only baseline (and nothing was written), or the decision names an
  approval whose resolved envelope covers the action in the store that was read, or one that was
  created just now from a usable consent and covers it in the store that is left.\<close>

theorem allow_is_justified:
  assumes "store_ok st" and "Evaluate (stored_engine v now) inp consent st = (d, st')"
    and "d_outcome d = OutcomeAllow"
  shows "\<exists>a. pi_action inp = Some a \<and> HardRules inp = [] \<and>
     (BaselineReadOnlyWorkspace inp \<and> st' = st \<and> d_approval_id d = None \<or>
      (\<exists>i. d_approval_id d = Some i \<and> stored_cover v st i a) \<or>
      (\<exists>i. d_approval_id d = Some i \<and> Usable consent \<and> stored_cover v st' i a))"
  using assms by (rule stored.allow_justified)

theorem allow_is_justified_witness:
  "\<exists>d st'. Evaluate (stored_engine 1 5) (sample_input rm_dist) None sample_store = (d, st') \<and>
     d_outcome d = OutcomeAllow \<and> (\<exists>i. d_approval_id d = Some i \<and> stored_cover 1 sample_store i rm_dist)"
proof -
  obtain d st' where ev: "Evaluate (stored_engine 1 5) (sample_input rm_dist) None sample_store = (d, st')"
    by fastforce
  have "d_outcome (fst (Evaluate (stored_engine 1 5) (sample_input rm_dist) None sample_store)) = OutcomeAllow"
    "d_approval_id (fst (Evaluate (stored_engine 1 5) (sample_input rm_dist) None sample_store)) = Some 1"
    by code_simp+
  with ev have out: "d_outcome d = OutcomeAllow" "d_approval_id d = Some 1" by simp_all
  with allow_is_justified [OF sample_store_ok ev out(1)] ev show ?thesis
    by (auto simp: sample_input_def Usable_def)
qed

text \<open>C9. A deletion outside the project is never silent: a DELETE effect on a system, home or other
  outside location makes the engine ask or block and name the safety rule, whatever is stored and
  whatever consent the agent holds.\<close>

theorem delete_outside_never_allowed:
  assumes "pi_action inp = Some a" and "eff \<in> set (ra_effects a)" and "e_type eff = EffectDelete"
    and "e_target eff = Some t" and "t_scope t \<in> {ScopeSystem, ScopeHome, ScopeOutsideWorkspace}"
  shows "d_outcome (fst (Evaluate e inp consent s)) \<noteq> OutcomeAllow \<and>
         (\<exists>fd \<in> set (HardRules inp). d_hard_rule (fst (Evaluate e inp consent s)) = fd_rule fd)"
  using engine_names_rule [OF assms(1) delete_outside_found [OF assms]] .

theorem delete_outside_never_allowed_witness:
  "d_outcome (fst (Evaluate (stored_engine 1 5) (sample_input rm_home) (Some sample_consent) sample_store)) \<noteq> OutcomeAllow"
  using delete_outside_never_allowed [of "sample_input rm_home" rm_home
      "file_effect EffectDelete home_target [EffectFlagRecursive]" home_target
      "stored_engine 1 5" "Some sample_consent" sample_store]
  by (simp add: sample_input_def rm_home_def sample_action_def file_effect_def home_target_def sample_target_def)

text \<open>C10. What Intenter could not examine or model is never allowed: an incomplete, unparsed or
  unresolved action, or one with an ambiguous target, is answered ASK or BLOCK.\<close>

theorem unmodelled_never_allowed:
  assumes "pi_action inp = Some a"
    and "ra_incomplete a \<or> ra_status a \<in> {StatusParseFailed, StatusContextFailed, StatusUnresolved} \<or>
         HasAmbiguousTarget a"
  shows "d_outcome (fst (Evaluate e inp consent s)) \<noteq> OutcomeAllow"
proof
  assume "d_outcome (fst (Evaluate e inp consent s)) = OutcomeAllow"
  then obtain b where "pi_action inp = Some b" "HardRules inp = []" "uncertain e b = None"
    by (auto simp: Evaluate_eq elim: EvaluateDetailed_outcome_allow)
  with assms incomplete_found show False by (auto simp: uncertain_None_iff)
qed

theorem unmodelled_never_allowed_witness:
  "d_outcome (fst (Evaluate (stored_engine 1 5) (sample_input (rm_dist\<lparr>ra_status := StatusUnresolved\<rparr>))
     None sample_store)) \<noteq> OutcomeAllow"
  using unmodelled_never_allowed [of "sample_input (rm_dist\<lparr>ra_status := StatusUnresolved\<rparr>)"
      "rm_dist\<lparr>ra_status := StatusUnresolved\<rparr>" "stored_engine 1 5" None sample_store]
  by (simp add: sample_input_def)

text \<open>Explaining a decision never changes it: with and without the mismatch explainer the engine
  gives the same outcome, class, reason, rule and approval and leaves the same store.\<close>

theorem explanation_never_decides:
  "d_outcome (fst (Evaluate (e\<lparr>en_explainer := None\<rparr>) inp consent s)) = d_outcome (fst (Evaluate e inp consent s)) \<and>
   d_class (fst (Evaluate (e\<lparr>en_explainer := None\<rparr>) inp consent s)) = d_class (fst (Evaluate e inp consent s)) \<and>
   d_reason (fst (Evaluate (e\<lparr>en_explainer := None\<rparr>) inp consent s)) = d_reason (fst (Evaluate e inp consent s)) \<and>
   d_approval_id (fst (Evaluate (e\<lparr>en_explainer := None\<rparr>) inp consent s)) = d_approval_id (fst (Evaluate e inp consent s)) \<and>
   snd (Evaluate (e\<lparr>en_explainer := None\<rparr>) inp consent s) = snd (Evaluate e inp consent s)"
proof -
  let ?e = "e\<lparr>en_explainer := None\<rparr>"
  have pd: "plain_decision ?e = plain_decision e" by (simp add: fun_eq_iff plain_decision_def)
  have same: "hardOutcome ?e = hardOutcome e" "uncertain ?e = uncertain e" "engine_match ?e = engine_match e"
    "ask_decision ?e = ask_decision e" "engineError ?e = engineError e"
    unfolding hardOutcome_def [abs_def] uncertain_def [abs_def] engine_match_def [abs_def]
      ask_decision_def [abs_def] engineError_def [abs_def] pd by simp_all
  have ec: "en_consent ?e = en_consent e" by simp
  show ?thesis
    unfolding Evaluate_def EvaluateDetailed_def Let_def same pd ec
    by (cases "pi_action inp"; cases "hardOutcome e (HardRules inp)"; cases "uncertain e (the (pi_action inp))")
      simp_all
qed

text \<open>An action that is asked about leaves the approval store as it was: only an ALLOW records a
  use or an import. The exception is an internal error, which is reported as such.\<close>

theorem ask_changes_nothing:
  assumes "Evaluate (stored_engine v now) inp consent st = (d, st')" and "d_outcome d \<noteq> OutcomeAllow"
    and "d_class d \<noteq> ClassEngineError"
  shows "st' = st"
  using assms by (rule stored.ask_leaves_store)

theorem ask_changes_nothing_witness:
  "snd (Evaluate (stored_engine 1 5) (sample_input rm_dist) None project_store) = project_store"
proof -
  obtain d st' where ev: "Evaluate (stored_engine 1 5) (sample_input rm_dist) None project_store = (d, st')"
    by fastforce
  have "d_outcome (fst (Evaluate (stored_engine 1 5) (sample_input rm_dist) None project_store)) = OutcomeAsk"
    "d_class (fst (Evaluate (stored_engine 1 5) (sample_input rm_dist) None project_store)) = ClassNoMatchingApproval"
    by code_simp+
  with ev have "d_outcome d \<noteq> OutcomeAllow" "d_class d \<noteq> ClassEngineError" by simp_all
  with ask_changes_nothing [OF ev] ev show ?thesis by simp
qed

text \<open>The safety floor is monotone: an action with more effects and more commands, everything else
  equal, has every finding the smaller one has.\<close>

theorem hard_rules_monotone:
  assumes "pi_action inp = Some a" and "set (ra_effects a) \<subseteq> set (ra_effects b)"
    and "set (ra_commands a) \<subseteq> set (ra_commands b)" and "ra_incomplete b = ra_incomplete a"
    and "ra_incomplete_reason b = ra_incomplete_reason a"
  shows "set (HardRules inp) \<subseteq> set (HardRules (inp\<lparr>pi_action := Some b\<rparr>))"
  by (rule HardRules_mono [OF assms(1) _ assms(2-5)]) simp_all

theorem hard_rules_monotone_witness:
  "set (HardRules (sample_input rm_home)) \<subseteq>
   set (HardRules (sample_input (rm_home\<lparr>ra_effects := ra_effects rm_home @ ra_effects cat_dist\<rparr>)))"
  using hard_rules_monotone [of "sample_input rm_home" rm_home
      "rm_home\<lparr>ra_effects := ra_effects rm_home @ ra_effects cat_dist\<rparr>"]
  by (simp add: sample_input_def)

text \<open>The finding a decision is explained with is the strongest one: no finding is stronger, and
  among equally strong ones it has the least rule id; its outcome is the outcome of the pass.\<close>

theorem strongest_finding_decides:
  assumes "Strongest f = Some b"
  shows "b \<in> set f \<and> fd_outcome b = Findings_Outcome f \<and>
     (\<forall>fd \<in> set f. outcomeRank (fd_outcome fd) \<le> outcomeRank (fd_outcome b) \<and>
        (fd_outcome fd = fd_outcome b \<longrightarrow> fd_rule b \<le> fd_rule fd))"
  using Strongest_SomeD [OF assms] Strongest_Outcome [OF assms] by (simp add: strongest_of_def)

theorem strongest_finding_decides_witness:
  "Strongest (HardRules (sample_input rm_home)) =
     Some \<lparr>fd_rule = ''R2'', fd_outcome = HardBlock,
           fd_reason = ''recursively deleting ~/old, which is in your home directory''\<rparr> \<and>
   Findings_Outcome (HardRules (sample_input rm_home)) = HardBlock"
proof -
  have s: "Strongest (HardRules (sample_input rm_home)) =
     Some \<lparr>fd_rule = ''R2'', fd_outcome = HardBlock,
           fd_reason = ''recursively deleting ~/old, which is in your home directory''\<rparr>" by code_simp
  from strongest_finding_decides [OF s] s show ?thesis by simp
qed

end
