(* ===== verification/Approval_Properties.thy ===== *)
theory Approval_Properties
  imports Samples
begin

text \<open>
  What an approval grants, which approval answers, what the store keeps and how consent is imported.
\<close>

text \<open>C3. An approval covers the action it was created from: what \<open>Build\<close> makes of a validated
  request passes every matching rule for that action, for either kind of approval.\<close>

theorem build_then_match:
  assumes "Build clock request = Inr a" and "cr_action request = Some act"
    and "distinct (map f_key (ra_fingerprints act))"
  shows "Matches a act (cr_engine_version request) = None"
  using Build_covers [OF assms] by (simp add: Matches_None_iff)

theorem build_then_match_witness:
  "\<exists>a. Build 100 (sample_request rm_dist ApprovalSemantic) = Inr a \<and> Matches a rm_dist 1 = None"
proof -
  have "\<not> isl (Build 100 (sample_request rm_dist ApprovalSemantic))" by code_simp
  then obtain a where a: "Build 100 (sample_request rm_dist ApprovalSemantic) = Inr a"
    by (metis isl_def sum.exhaust_sel sum.collapse(2))
  have "distinct (map f_key (ra_fingerprints rm_dist))" by code_simp
  with build_then_match [OF a, of rm_dist] a show ?thesis by (simp add: sample_request_def)
qed

text \<open>C4. The field-wise rules of \<open>Matches\<close> are the declarative reading of an approval: same engine,
  active, same project, same operations in order, every fingerprint unchanged, every effect of the
  action the same permission (type, scope, program and flags) as an entry of the approval, every host
  permitted, and for EXACT approvals nothing of the approval missing.\<close>

theorem match_rules_are_coverage: "Matches a act v = None \<longleftrightarrow> covers_action a act v"
  by (rule Matches_None_iff)

text \<open>C5. An approval never broadens: whatever it matches has only effects of a type, scope, program
  resolution and flags that one of its own entries has.\<close>

theorem approval_never_broadens:
  assumes "Matches a act v = None" and "e \<in> set (ra_effects act)"
  shows "\<exists>entry \<in> set (a_envelope a). ee_type entry = e_type e \<and>
     ee_scope entry = (case e_target e of None \<Rightarrow> ScopeNone | Some t \<Rightarrow> t_scope t) \<and>
     set (ee_flags entry) = set (e_flags e) \<and>
     set (ee_target_flags entry) = (case e_target e of None \<Rightarrow> {} | Some t \<Rightarrow> set (t_flags t)) \<and>
     ee_program entry = map_option p_resolution (e_program e)"
proof -
  have "effect_permitted a e" using assms by (auto simp: Matches_None_iff covers_action_def)
  then obtain entry where entry: "entry \<in> set (a_envelope a)" "same_entry (effect_EnvelopeEntry e) entry"
    by (auto simp: effect_permitted_def)
  then have "mset (ee_flags entry) = mset (e_flags e)"
    "mset (ee_target_flags entry) = mset (case e_target e of None \<Rightarrow> [] | Some t \<Rightarrow> t_flags t)"
    by (simp_all add: same_entry_def effect_EnvelopeEntry_def)
  then have "set (ee_flags entry) = set (e_flags e)"
    "set (ee_target_flags entry) = set (case e_target e of None \<Rightarrow> [] | Some t \<Rightarrow> t_flags t)"
    using mset_eq_setD by blast+
  with entry show ?thesis
    by (intro bexI [of _ entry]) (auto simp: same_entry_def effect_EnvelopeEntry_def split: option.splits)
qed

theorem approval_never_broadens_witness:
  "\<exists>a. Matches a rm_dist 1 = None \<and>
     (\<exists>entry \<in> set (a_envelope a). ee_type entry = EffectDelete \<and> ee_scope entry = ScopeWorkspaceGenerated)"
proof -
  have "\<not> isl (Build 100 (sample_request rm_dist ApprovalExact)) \<and>
      Matches (projr (Build 100 (sample_request rm_dist ApprovalExact))) rm_dist 1 = None" by code_simp
  moreover have "file_effect EffectDelete dist_target [EffectFlagRecursive] \<in> set (ra_effects rm_dist)"
    by (simp add: rm_dist_def sample_action_def)
  ultimately show ?thesis
    using approval_never_broadens [of "projr (Build 100 (sample_request rm_dist ApprovalExact))" rm_dist 1
        "file_effect EffectDelete dist_target [EffectFlagRecursive]"]
    by (intro exI conjI) (auto simp: file_effect_def dist_target_def sample_target_def)
qed

text \<open>The comparison key of an envelope entry identifies the permission: two entries have the
  same key exactly when they have the same type, scope and program and carry the same flags.\<close>

theorem envelope_key_identifies_entry:
  "EnvelopeEntry_Key e = EnvelopeEntry_Key e' \<longleftrightarrow> same_entry e e'"
  by (rule EnvelopeEntry_Key_eq_iff)

text \<open>Which approval answers is determined: the matcher returns one that covers the action, and
  none that covers it comes before it in the order EXACT first, then ascending id; it records the use
  of that approval.\<close>

theorem matcher_picks_first:
  assumes "store_ok st" and "Match v now inp st = (Inr m, st')" and "mo_matched m"
  shows "\<exists>act c. pi_action inp = Some act \<and> loaded st (mo_approval_id m) = Some c \<and>
     covers_action c act v \<and>
     (\<forall>j b. loaded st j = Some b \<and> covers_action b act v \<longrightarrow> earlier c b) \<and>
     recordUse now (mo_approval_id m) st = (Inr (), st')"
  using assms by (rule Match_matchedD) blast

theorem matcher_picks_first_witness:
  "\<exists>m st'. Match 1 5 (sample_input rm_dist) sample_store = (Inr m, st') \<and> mo_matched m \<and>
     (\<exists>c. loaded sample_store (mo_approval_id m) = Some c \<and> covers_action c rm_dist 1)"
proof -
  have "\<not> isl (fst (Match 1 5 (sample_input rm_dist) sample_store)) \<and>
      mo_matched (projr (fst (Match 1 5 (sample_input rm_dist) sample_store)))" by code_simp
  then obtain m st' where m: "Match 1 5 (sample_input rm_dist) sample_store = (Inr m, st')" "mo_matched m"
    by (metis isl_def prod.collapse sum.collapse(2))
  from matcher_picks_first [OF sample_store_ok m] m show ?thesis by (auto simp: sample_input_def)
qed

text \<open>C24. The matcher misses nothing: when some stored approval covers a modelled action of a
  project and the database works, it answers that the action is matched.\<close>

theorem matcher_is_complete:
  assumes "store_ok st" and "st_failing st = []" and "pi_action inp = Some act" and "ra_project_id act \<noteq> []"
    and "Approvable (ra_status act)" and "\<not> HasAmbiguousTarget act" and "stored_cover v st i act"
  shows "\<exists>m st'. Match v now inp st = (Inr m, st') \<and> mo_matched m"
  using assms Match_complete by (auto simp: stored_cover_def)

theorem matcher_is_complete_witness:
  "\<exists>m st'. Match 1 5 (sample_input rm_dist) sample_store = (Inr m, st') \<and> mo_matched m"
proof -
  have "fst (Create 100 (sample_request rm_dist ApprovalExact) project_store) \<noteq> Inl x" for x by code_simp
  then obtain a where "Create 100 (sample_request rm_dist ApprovalExact) project_store = (Inr a, sample_store)"
    unfolding sample_store_def by (metis prod.collapse sum.exhaust)
  from Create_stored [OF project_store_ok this, of rm_dist]
  have cover: "stored_cover 1 sample_store (a_id a) rm_dist" by (simp add: sample_request_def)
  have "st_failing sample_store = []" "ra_project_id rm_dist \<noteq> []" "Approvable (ra_status rm_dist)"
    "\<not> HasAmbiguousTarget rm_dist" by code_simp+
  with matcher_is_complete [OF sample_store_ok _ _ _ _ _ cover, of "sample_input rm_dist" 5] show ?thesis
    by (simp add: sample_input_def)
qed

text \<open>C25. Every store that the daemon's statements can produce is consistent: approval ids are unique
  and positive, each approval belongs to a known project and has its creation event, conditions,
  events and imports refer to existing approvals, and no rule import occurs twice.\<close>

theorem reachable_stores_consistent: "store_step\<^sup>*\<^sup>* emptyStore st \<Longrightarrow> store_ok st"
  using steps_ok_grows store_ok_empty by blast

theorem reachable_stores_consistent_witness: "store_ok (snd (Meta_Set ''k'' ''v'' emptyStore))"
  by (rule reachable_stores_consistent) (rule r_into_rtranclp, rule step_meta, rule prod.collapse [symmetric])

text \<open>C7. Nothing that was granted is rewritten or lost: whatever statements run later, a stored
  approval is still stored under its id with the same project, kind, operations, envelope, targets,
  hosts, conditions and engine, its uses do not decrease, and if it was revoked it is revoked.\<close>

theorem approvals_never_rewritten:
  assumes "store_ok st" and "store_step\<^sup>*\<^sup>* st st'" and "loaded st i = Some a"
  shows "\<exists>a'. loaded st' i = Some a' \<and> grant a' = grant a \<and> a_use_count a \<le> a_use_count a' \<and>
     (a_state a = ApprovalRevoked \<longrightarrow> a_state a' = ApprovalRevoked)"
  using steps_ok_grows [OF assms(2,1)] grows_loaded [OF assms(1) _ _ assms(3)] by (auto simp: keeps_def)

theorem approvals_never_rewritten_witness:
  "\<exists>a a'. loaded sample_store 1 = Some a \<and>
     loaded (snd (Approvals_SetState 7 1 ApprovalRevoked 7 sample_store)) 1 = Some a' \<and> grant a' = grant a"
proof -
  have "loaded sample_store 1 \<noteq> None" by code_simp
  then obtain a where a: "loaded sample_store 1 = Some a" by blast
  have "store_step\<^sup>*\<^sup>* sample_store (snd (Approvals_SetState 7 1 ApprovalRevoked 7 sample_store))"
    by (rule r_into_rtranclp, rule step_state, rule prod.collapse [symmetric])
  from approvals_never_rewritten [OF sample_store_ok this a] a show ?thesis by auto
qed

text \<open>C6. Revocation is permanent: after an approval has been revoked, no sequence of statements
  makes the matcher allow an action because of it.\<close>

theorem revoked_never_matches:
  assumes "store_ok st" and "loaded st i = Some a" and "a_state a = ApprovalRevoked"
    and "store_step\<^sup>*\<^sup>* st st'" and "Match v now inp st' = (Inr m, st'')" and "mo_matched m"
  shows "mo_approval_id m \<noteq> i"
proof
  assume i: "mo_approval_id m = i"
  have ok': "store_ok st'" using steps_ok_grows [OF assms(4,1)] by blast
  obtain a' where a': "loaded st' i = Some a'" "a_state a' = ApprovalRevoked"
    using steps_ok_grows [OF assms(4,1)] grows_loaded [OF assms(1) _ _ assms(2)] assms(3)
    by (auto simp: keeps_def)
  from ok' assms(5,6) show False
    by (rule Match_matchedD) (use a' i in \<open>auto simp: covers_action_def\<close>)
qed

theorem revoked_never_matches_witness:
  "\<exists>m st'. Match 1 8 (sample_input rm_dist) revoked_store = (Inr m, st') \<and> mo_matched m \<and> mo_approval_id m \<noteq> 1"
proof -
  have "\<not> isl (fst (Match 1 8 (sample_input rm_dist) revoked_store)) \<and>
      mo_matched (projr (fst (Match 1 8 (sample_input rm_dist) revoked_store))) \<and>
      loaded revoked_store 1 \<noteq> None \<and> a_state (the (loaded revoked_store 1)) = ApprovalRevoked" by code_simp
  then obtain m st' a where m: "Match 1 8 (sample_input rm_dist) revoked_store = (Inr m, st')" "mo_matched m"
    and a: "loaded revoked_store 1 = Some a" "a_state a = ApprovalRevoked"
    by (metis isl_def option.collapse prod.collapse sum.collapse(2))
  from revoked_never_matches [OF revoked_store_ok a rtranclp.rtrancl_refl m] m show ?thesis by blast
qed

text \<open>C8. A rule is imported at most once: after an import from a consent, every later import for
  the same project, agent and command line with one of the same rules is refused and changes nothing,
  even when the approval has been disabled or revoked since.\<close>

theorem import_happens_once:
  assumes "store_ok st" and "Import v now inp (Some c) st = (Inr m, st1)" and "mo_matched m"
    and "store_step\<^sup>*\<^sup>* st1 st2" and "st_failing st2 = []"
    and "pi_action inp = Some act" and "pi_action inp2 = Some act2"
    and "ra_project_id act2 = ra_project_id act" and "ra_raw_command act2 = ra_raw_command act"
    and "agentName inp2 = agentName inp"
    and "k \<in> set (normalizedRuleKeys (co_rule_keys c)) \<inter> set (normalizedRuleKeys (co_rule_keys c2))"
  shows "Import v2 now2 inp2 (Some c2) st2 = (Inr no_match, st2)"
  using assms(2,3)
proof (cases rule: Import_matchedD)
  case (1 act' created st0 c')
  have act': "act' = act" "c' = c" using 1(1,2) assms(6) by simp_all
  have k1: "(ra_project_id act, agentName inp, k, ra_raw_command act) \<in> import_key ` set (st_imports st1)"
    using recordImports_keys [OF 1(8), of k] assms(11) act' by (simp add: import_key_def)
  have ok1: "store_ok st1" using Import_ok' assms(1,2) by blast
  have "prefix (st_imports st1) (st_imports st2)"
    using steps_ok_grows [OF assms(4) ok1] by (auto simp: grows_def)
  then have k2: "(ra_project_id act, agentName inp, k, ra_raw_command act) \<in> import_key ` set (st_imports st2)"
    using k1 set_mono_prefix by blast
  have any: "Imports_AnyExists st2 p ag ks raw = Inr True"
    if "(p, ag, k, raw) \<in> import_key ` set (st_imports st2)" "k \<in> set ks" for p ag ks raw
    using that(2) by (induction ks) (use that(1) assms(5) in \<open>auto simp: Imports_Exists_def\<close>)
  show ?thesis
    using any [OF k2, of "normalizedRuleKeys (co_rule_keys c2)"] assms(7-11)
    by (auto simp: Import_def Let_def)
qed

theorem import_happens_once_witness:
  "\<exists>m st1. Import 1 5 (sample_input rm_dist) (Some sample_consent) project_store = (Inr m, st1) \<and> mo_matched m \<and>
     Import 1 9 (sample_input rm_dist) (Some sample_consent) st1 = (Inr no_match, st1)"
proof -
  have "\<not> isl (fst (Import 1 5 (sample_input rm_dist) (Some sample_consent) project_store)) \<and>
      mo_matched (projr (fst (Import 1 5 (sample_input rm_dist) (Some sample_consent) project_store))) \<and>
      st_failing (snd (Import 1 5 (sample_input rm_dist) (Some sample_consent) project_store)) = [] \<and>
      ''Bash(rm -r dist)'' \<in> set (normalizedRuleKeys (co_rule_keys sample_consent))" by code_simp
  then obtain m st1 where m: "Import 1 5 (sample_input rm_dist) (Some sample_consent) project_store = (Inr m, st1)"
    "mo_matched m" "st_failing st1 = []" "''Bash(rm -r dist)'' \<in> set (normalizedRuleKeys (co_rule_keys sample_consent))"
    by (metis isl_def prod.collapse snd_conv sum.collapse(2))
  have "pi_action (sample_input rm_dist) = Some rm_dist" by (simp add: sample_input_def)
  with import_happens_once [OF project_store_ok m(1,2) rtranclp.rtrancl_refl m(3)] m show ?thesis by blast
qed

text \<open>C26. The mismatch report is complete for everything it can name: for an approval of the
  action's project it is empty exactly when the approval matches. For EXACT approvals this needs that
  no host of the approval is missing from the action, since the report names added hosts only.\<close>

theorem differences_explain_mismatch:
  assumes "a_project_id a = ra_project_id act"
    and "a_kind a = ApprovalExact \<longrightarrow> distinct (EnvelopeKeys a) \<and> distinct (NetworkKeys a) \<and>
      distinct (a_targets a) \<and> set (NetworkKeys a) \<subseteq> set (networkKeys act)"
  shows "Differences a act v = [] \<longleftrightarrow> Matches a act v = None"
  using assms by (rule Differences_Matches)

theorem differences_explain_mismatch_witness:
  "Differences (the (loaded sample_store 1)) cat_dist 1 \<noteq> [] \<and> Matches (the (loaded sample_store 1)) cat_dist 1 \<noteq> None"
proof -
  have "a_project_id (the (loaded sample_store 1)) = ra_project_id cat_dist \<and>
      distinct (EnvelopeKeys (the (loaded sample_store 1))) \<and> NetworkKeys (the (loaded sample_store 1)) = [] \<and>
      distinct (a_targets (the (loaded sample_store 1))) \<and> Matches (the (loaded sample_store 1)) cat_dist 1 \<noteq> None"
    by code_simp
  with differences_explain_mismatch [of "the (loaded sample_store 1)" cat_dist 1] show ?thesis by simp
qed

text \<open>A host an EXACT approval names and the action no longer contacts makes the rules fail and
  leaves the report empty, so the engine cannot say which approval stopped applying.\<close>

theorem removed_host_not_reported:
  "Matches (projr (Build 1 (sample_request (fetch [''a.io'', ''b.io'']) ApprovalExact))) (fetch [''a.io'']) 1
     = Some ''network'' \<and>
   Differences (projr (Build 1 (sample_request (fetch [''a.io'', ''b.io'']) ApprovalExact))) (fetch [''a.io'']) 1 = []"
  by code_simp

text \<open>When recording the import fails, the import reports an error but the approval it created
  stays stored and active, and the next evaluation allows the action because of it.\<close>

theorem failed_import_leaves_approval:
  "isl (fst (Import 1 5 (sample_input rm_dist) (Some sample_consent) (project_store\<lparr>st_failing := [DbInsertImport]\<rparr>))) \<and>
   d_outcome (fst (Evaluate (stored_engine 1 6)
     (sample_input rm_dist) None
     (snd (Import 1 5 (sample_input rm_dist) (Some sample_consent)
        (project_store\<lparr>st_failing := [DbInsertImport]\<rparr>))))) = OutcomeAllow"
  by code_simp

end
