(* ===== verification/Scope_Properties.thy ===== *)
theory Scope_Properties
  imports Samples
begin

text \<open>
  What containment, generated roots and displayed paths mean.
\<close>

text \<open>C27. On absolute paths \<open>Under\<close> is containment of directories: the components of the root are an
  initial part of the components of the path, after cleaning and with the platform's case rule.\<close>

theorem under_is_component_prefix:
  assumes "IsAbs p" and "IsAbs q"
  shows "Under r p q \<longleftrightarrow> prefix (map (fold_case r) (Clean_comps q)) (map (fold_case r) (Clean_comps p))"
  using Under_comps [OF assms, of r] by (simp add: path_comps_def)

theorem under_is_component_prefix_witness:
  "Under sample_rules ''/w/a/../b'' ''/w'' \<and> \<not> Under sample_rules ''/w2'' ''/w''"
proof -
  have "IsAbs ''/w/a/../b''" "IsAbs ''/w''" "IsAbs ''/w2''"
    and "prefix (map (fold_case sample_rules) (Clean_comps ''/w'')) (map (fold_case sample_rules) (Clean_comps ''/w/a/../b''))"
    "\<not> prefix (map (fold_case sample_rules) (Clean_comps ''/w'')) (map (fold_case sample_rules) (Clean_comps ''/w2''))"
    by code_simp+
  then show ?thesis
    using under_is_component_prefix [of "''/w/a/../b''" "''/w''" sample_rules]
      under_is_component_prefix [of "''/w2''" "''/w''" sample_rules] by simp
qed



text \<open>What a user is shown identifies the file: on a case-sensitive host two different canonical
  paths have different displays, so approving \<^verbatim>\<open>./dist\<close> cannot mean another directory.\<close>

theorem display_identifies_path:
  assumes "\<not> CaseInsensitive (sc_Rules c)"
    and "sc_Workspace c \<noteq> [] \<longrightarrow> IsAbs (sc_Workspace c)" and "sc_Home c \<noteq> [] \<longrightarrow> IsAbs (sc_Home c)"
    and "IsAbs p" "Clean p = p" and "IsAbs q" "Clean q = q" and "displayBase c p = displayBase c q"
  shows "p = q"
  using assms by (rule displayBase_inject)

theorem display_identifies_path_witness:
  "displayBase sample_scope ''/w/dist'' = ''./dist'' \<and> displayBase sample_scope ''/home/u/dist'' \<noteq> ''./dist''"
proof -
  have d: "displayBase sample_scope ''/w/dist'' = ''./dist''" by code_simp
  have "\<not> CaseInsensitive (sc_Rules sample_scope)" "IsAbs (sc_Workspace sample_scope)"
    "IsAbs (sc_Home sample_scope)" "IsAbs ''/w/dist''" "Clean ''/w/dist'' = ''/w/dist''"
    "IsAbs ''/home/u/dist''" "Clean ''/home/u/dist'' = ''/home/u/dist''" by code_simp+
  with display_identifies_path [of sample_scope "''/w/dist''" "''/home/u/dist''"] d show ?thesis by auto
qed

end
