(* ===== verification/Claude_Rules.thy ===== *)
theory Claude_Rules
  imports Action_Model Filepath
begin

text \<open>
  The permission rules the agent already holds (\<open>src/internal/adapter/claude/rules.go\<close>) and the
  settings files they come from (\<open>settings.go\<close>): reading a rule, splitting a command line the way
  the agent does, matching each part, and the consent that is reported when every part is covered.
  The lemmas relate \<open>globMatch\<close>, which walks the pieces of a pattern greedily, to the meaning of a
  pattern in which \<open>*\<close> stands for any sequence of characters.
\<close>

section \<open>Settings files\<close>

datatype settings_scope = ScopeManaged | ScopeUser | ScopeProject | ScopeLocal

primrec settings_scope_str :: "settings_scope \<Rightarrow> string" where
  "settings_scope_str ScopeManaged = ''managed''"
| "settings_scope_str ScopeUser = ''user''"
| "settings_scope_str ScopeProject = ''project''"
| "settings_scope_str ScopeLocal = ''local''"

record permissions =
  pm_allow :: "string list"
  pm_deny :: "string list"
  pm_ask :: "string list"

definition no_permissions :: permissions where
  "no_permissions = \<lparr>pm_allow = [], pm_deny = [], pm_ask = []\<rparr>"

record settings_file =
  sf_scope :: settings_scope
  sf_path :: string
  sf_exists :: bool
  sf_permissions :: permissions
  sf_unreadable :: bool

section \<open>Discovering and caching settings files\<close>

text \<open>
  The file system is an argument: what \<open>os.Stat\<close> reports of a path (modification time and size),
  what \<open>os.ReadFile\<close> returns, and how \<open>encoding/json\<close> decodes a settings document. The cache of the
  reader is a map from paths to the parse that was stored with the file's time and size.
\<close>

record settings_world =
  sw_stat :: "string \<Rightarrow> (int \<times> int) option"
  sw_read :: "string \<Rightarrow> string option"
  sw_unmarshal :: "string \<Rightarrow> permissions option"

record cached_settings =
  cs_mod_time :: int
  cs_size :: int
  cs_permissions :: permissions
  cs_unreadable :: bool

record settings_reader =
  sr_os :: string
  sr_home :: string
  sr_program_data :: string
  sr_user_override :: string
  sr_cwd :: string
  sr_cache :: "string \<rightharpoonup> cached_settings"

definition managedSettingsPath :: "settings_reader \<Rightarrow> string" where
  "managedSettingsPath r =
     (if sr_os r = ''darwin'' then ''/Library/Application Support/ClaudeCode/managed-settings.json''
      else if sr_os r = ''windows'' then
        filepath_Join [sr_program_data r, ''ClaudeCode'', ''managed-settings.json'']
      else ''/etc/claude-code/managed-settings.json'')"

definition UserSettingsPath :: "settings_reader \<Rightarrow> string" where
  "UserSettingsPath r =
     (if sr_user_override r \<noteq> [] then sr_user_override r
      else if sr_home r = [] then []
      else filepath_Join [sr_home r, ''.claude'', ''settings.json''])"

definition forget :: "string \<Rightarrow> settings_reader \<Rightarrow> settings_reader" where
  "forget path r = r\<lparr>sr_cache := (sr_cache r)(path := None)\<rparr>"

definition settings_read ::
    "settings_world \<Rightarrow> string \<Rightarrow> settings_reader \<Rightarrow> (permissions \<times> bool \<times> bool) \<times> settings_reader" where
  "settings_read w path r =
     (case sw_stat w path of
        None \<Rightarrow> ((no_permissions, False, False), forget path r)
      | Some (modTime, bytes) \<Rightarrow>
          let fresh =
            (case sw_read w path of
               None \<Rightarrow> ((no_permissions, True, True), r)
             | Some content \<Rightarrow>
                 (case sw_unmarshal w content of
                    None \<Rightarrow> ((no_permissions, True, True), r)
                  | Some perms \<Rightarrow>
                      ((perms, True, False),
                       r\<lparr>sr_cache := (sr_cache r)(path \<mapsto>
                          \<lparr>cs_mod_time = modTime, cs_size = bytes, cs_permissions = perms,
                           cs_unreadable = False\<rparr>)\<rparr>)))
          in case sr_cache r path of
               None \<Rightarrow> fresh
             | Some cached \<Rightarrow>
                 if cs_mod_time cached = modTime \<and> cs_size cached = bytes
                 then ((cs_permissions cached, True, cs_unreadable cached), r)
                 else fresh)"

definition filepath_Abs :: "string \<Rightarrow> string \<Rightarrow> string" where
  "filepath_Abs cwd path = (if IsAbs path then Clean path else filepath_Join [cwd, path])"

function git_root_from :: "settings_world \<Rightarrow> string \<Rightarrow> string" where
  "git_root_from w current =
     (if sw_stat w (filepath_Join [current, ''.git'']) \<noteq> None then current
      else if Dir current = current then []
      else git_root_from w (Dir current))"
  by pat_completeness auto
termination
  by (relation "measure (\<lambda>(w, p). climb_measure p)") (auto intro: Dir_climbs)

declare git_root_from.simps [simp del]

definition gitRootOf :: "settings_world \<Rightarrow> string \<Rightarrow> string \<Rightarrow> string" where
  "gitRootOf w cwd dir =
     (let current = TrimSpace dir in
      if current = [] then [] else git_root_from w (filepath_Abs cwd current))"

fun read_candidates ::
    "settings_world \<Rightarrow> (settings_scope \<times> string) list \<Rightarrow> settings_reader \<Rightarrow> settings_file list \<times> settings_reader" where
  "read_candidates w [] r = ([], r)"
| "read_candidates w ((scope, path) # others) r =
     (if path = [] then read_candidates w others r
      else
        let ((perms, exists, unreadable), r1) = settings_read w path r;
            (files, r2) = read_candidates w others r1
        in (\<lparr>sf_scope = scope, sf_path = path, sf_exists = exists, sf_permissions = perms,
              sf_unreadable = unreadable\<rparr> # files, r2))"

definition settings_paths :: "settings_world \<Rightarrow> string \<Rightarrow> settings_reader \<Rightarrow> (settings_scope \<times> string) list" where
  "settings_paths w projectDir r =
     [(ScopeManaged, managedSettingsPath r), (ScopeUser, UserSettingsPath r)] @
     (let root = gitRootOf w (sr_cwd r) projectDir in
      if root = [] then []
      else [(ScopeProject, filepath_Join [root, ''.claude'', ''settings.json'']),
            (ScopeLocal, filepath_Join [root, ''.claude'', ''settings.local.json''])])"

definition Discover ::
    "settings_world \<Rightarrow> string \<Rightarrow> settings_reader \<Rightarrow> settings_file list \<times> settings_reader" where
  "Discover w projectDir r = read_candidates w (settings_paths w projectDir r) r"

section \<open>Rules\<close>

record rule =
  rl_scope :: settings_scope
  rl_tool :: string
  rl_content :: string
  rl_raw :: string

definition Rule_Key :: "rule \<Rightarrow> string" where
  "Rule_Key r = settings_scope_str (rl_scope r) @ '':'' @ rl_raw r"

definition Rule_String :: "rule \<Rightarrow> string" where
  "Rule_String r = settings_scope_str (rl_scope r) @ '':'' @ rl_raw r"

definition ParseRule :: "settings_scope \<Rightarrow> string \<Rightarrow> rule option" where
  "ParseRule scope raw0 =
     (let raw = TrimSpace raw0 in
      if raw = [] then None
      else case strings_Cut raw ''('' of
             None \<Rightarrow> Some \<lparr>rl_scope = scope, rl_tool = raw, rl_content = ''*'', rl_raw = raw\<rparr>
           | Some (before, after) \<Rightarrow>
               if \<not> HasSuffix raw '')'' then None
               else let tool = TrimSpace before in
                    if tool = [] then None
                    else Some \<lparr>rl_scope = scope, rl_tool = tool,
                                rl_content = take (length after - 1) after, rl_raw = raw\<rparr>)"

definition AllowRules :: "settings_file list \<Rightarrow> string \<Rightarrow> rule list" where
  "AllowRules files tool =
     concat (map (\<lambda>file.
       filter (\<lambda>rule. rl_tool rule = tool)
         (List.map_filter (ParseRule (sf_scope file)) (pm_allow (sf_permissions file)))) files)"

section \<open>What applies to a project\<close>

definition ruleChangeable :: "settings_scope \<Rightarrow> bool \<times> string" where
  "ruleChangeable scope =
     (case scope of
        ScopeManaged \<Rightarrow> (False, ''an administrator's managed policy file, which Intenter never edits'')
      | ScopeProject \<Rightarrow>
          (False, ''shared through the repository, so removing it would change what everyone is allowed to do'')
      | _ \<Rightarrow> (True, []))"

record project_rule =
  pr_rule :: rule
  pr_path :: string
  pr_changeable :: bool
  pr_reason :: string

fun project_rules :: "settings_file list \<Rightarrow> string \<Rightarrow> project_rule list \<times> string list" where
  "project_rules [] tool = ([], [])"
| "project_rules (file # files) tool =
     (let (rules, unreadable) = project_rules files tool in
      if sf_unreadable file then (rules, sf_path file # unreadable)
      else (map (\<lambda>rule. \<lparr>pr_rule = rule, pr_path = sf_path file,
                          pr_changeable = fst (ruleChangeable (sf_scope file)),
                          pr_reason = snd (ruleChangeable (sf_scope file))\<rparr>)
              (AllowRules [file] tool) @ rules, unreadable))"

definition ProjectRules ::
    "settings_world \<Rightarrow> settings_reader \<Rightarrow> string \<Rightarrow> string \<Rightarrow> (project_rule list \<times> string list) \<times> settings_reader" where
  "ProjectRules w reader projectDir tool =
     (let (files, reader') = Discover w projectDir reader in (project_rules files tool, reader'))"

section \<open>Matching one command against a rule\<close>

fun glob_middle :: "string list \<Rightarrow> string \<Rightarrow> string option" where
  "glob_middle [] text = Some text"
| "glob_middle (part # parts) text =
     (case strings_Cut text part of
        None \<Rightarrow> None
      | Some (before, after) \<Rightarrow> glob_middle parts after)"

definition globMatch :: "string \<Rightarrow> string \<Rightarrow> bool" where
  "globMatch pattern text =
     (if \<not> strings_Contains pattern ''*'' then pattern = text
      else
        let parts = strings_Split pattern ''*'' in
        if \<not> HasPrefix text (hd parts) then False
        else
          case glob_middle (butlast (tl parts)) (drop (length (hd parts)) text) of
            None \<Rightarrow> False
          | Some rest \<Rightarrow> if tl parts = [] then True else HasSuffix rest (last parts))"

definition matchPrefixBoundary :: "string \<Rightarrow> string \<Rightarrow> bool" where
  "matchPrefixBoundary p subcommand =
     (if strings_Contains p ''*'' then globMatch p subcommand \<or> globMatch (p @ '' *'') subcommand
      else subcommand = p \<or> HasPrefix subcommand (p @ '' ''))"

definition matchContent :: "string \<Rightarrow> string \<Rightarrow> bool" where
  "matchContent content subcommand =
     (if content = ''*'' then True
      else case CutSuffix content '':*'' of
             Some p \<Rightarrow> matchPrefixBoundary p subcommand
           | None \<Rightarrow>
               (case CutSuffix content '' *'' of
                  Some p \<Rightarrow> matchPrefixBoundary p subcommand
                | None \<Rightarrow> globMatch content subcommand))"

fun matchRule :: "rule list \<Rightarrow> string \<Rightarrow> (rule \<times> bool) option" where
  "matchRule [] subcommand = None"
| "matchRule (rule # rules) subcommand =
     (if rl_content rule = subcommand then Some (rule, True)
      else if matchContent (rl_content rule) subcommand then Some (rule, False)
      else matchRule rules subcommand)"

section \<open>Splitting a command line\<close>

definition claudeSeparators :: "string list" where
  "claudeSeparators = [''&&'', ''||'', ''|&'', '';'', ''|'', ''&'', [CHR 0x0A]]"

definition claudeWrappers :: "string list" where
  "claudeWrappers =
     [''timeout'', ''time'', ''nice'', ''nohup'', ''stdbuf'', ''command'', ''builtin'', ''noglob'']"

fun quoted_separator :: "char option \<Rightarrow> string \<Rightarrow> bool" where
  "quoted_separator quote [] = False"
| "quoted_separator (Some q) (char # text) =
     (if char = q then quoted_separator None text
      else if char \<in> {CHR ''&'', CHR ''|'', CHR '';'', CHR 0x0A} then True
      else quoted_separator (Some q) text)"
| "quoted_separator None (char # text) =
     (if char = CHR 0x27 \<or> char = CHR 0x22 then quoted_separator (Some char) text
      else quoted_separator None text)"

definition separatorInsideQuotes :: "string \<Rightarrow> bool" where
  "separatorInsideQuotes text = quoted_separator None text"

definition split_parts :: "string list \<Rightarrow> string \<Rightarrow> string list" where
  "split_parts parts separator = concat (map (\<lambda>part. strings_Split part separator) parts)"

definition splitCommand :: "string \<Rightarrow> string list option" where
  "splitCommand rawCommand =
     (if separatorInsideQuotes rawCommand then None
      else Some (filter (\<lambda>part. part \<noteq> [])
                   (map TrimSpace (foldl split_parts [rawCommand] claudeSeparators))))"

definition env_name_char :: "nat \<Rightarrow> char \<Rightarrow> bool" where
  "env_name_char i char =
     (char = CHR ''_'' \<or> CHR ''a'' \<le> char \<and> char \<le> CHR ''z'' \<or> CHR ''A'' \<le> char \<and> char \<le> CHR ''Z'' \<or>
      CHR ''0'' \<le> char \<and> char \<le> CHR ''9'' \<and> 0 < i)"

definition isEnvAssignment :: "string \<Rightarrow> bool" where
  "isEnvAssignment word =
     (case strings_Cut word ''='' of
        None \<Rightarrow> False
      | Some (name, value) \<Rightarrow>
          if name = [] then False else \<forall>i \<in> set [0..<length name]. env_name_char i (name ! i))"

lemma length_TrimSpace_le: "length (TrimSpace s) \<le> length s"
  by (simp add: TrimSpace_def TrimRight_by_def TrimLeft_by_def)
     (metis length_dropWhile_le length_rev order_trans)

lemma length_TrimPrefix_le: "length (TrimPrefix s p) \<le> length s"
  by (simp add: TrimPrefix_def)

lemma TrimSpace_same_length: "length s \<le> length (TrimSpace s) \<Longrightarrow> TrimSpace s = s"
proof -
  have "sublist (TrimSpace s) s"
    unfolding TrimSpace_def TrimRight_by_def TrimLeft_by_def
    by (metis prefix_imp_sublist rev_rev_ident sublist_order.order_trans suffix_dropWhile suffix_imp_sublist suffix_to_prefix)
  then obtain ps ss where s: "s = ps @ TrimSpace s @ ss" by (auto simp: sublist_def)
  then have "length s = length ps + length (TrimSpace s) + length ss"
    by (metis add.assoc length_append)
  then show "length s \<le> length (TrimSpace s) \<Longrightarrow> TrimSpace s = s" using s by simp
qed

lemma rest_shorter:
  assumes "TrimSpace (TrimPrefix s p) \<noteq> s"
  shows "length (TrimSpace (TrimPrefix s p)) < length s"
proof (rule ccontr)
  assume "\<not> ?thesis"
  then have len: "length s \<le> length (TrimSpace (TrimPrefix s p))" by simp
  then have "length (TrimPrefix s p) = length s"
    using length_TrimSpace_le [of "TrimPrefix s p"] length_TrimPrefix_le [of s p] by linarith
  then have "TrimPrefix s p = s"
    by (auto simp: TrimPrefix_def HasPrefix_def prefix_def split: if_splits)
  with assms len TrimSpace_same_length show False by metis
qed

lemma fields_aux_not_Nil: "x \<in> set (fields_aux acc s) \<Longrightarrow> x \<noteq> []"
  by (induction acc s rule: fields_aux.induct) (auto split: if_splits)

function strip_wrappers :: "string \<Rightarrow> string option" where
  "strip_wrappers current =
     (case strings_Fields current of
        [] \<Rightarrow> None
      | head # others \<Rightarrow>
          if isEnvAssignment head then None
          else if head = ''xargs'' \<and> others \<noteq> [] then Some current
          else if head = ''xargs'' then None
          else if head \<notin> set claudeWrappers then Some current
          else
            let rest = TrimSpace (TrimPrefix current head) in
            if rest = [] \<or> rest = current then None else strip_wrappers rest)"
  by pat_completeness auto
termination
  by (relation "measure length") (auto intro: rest_shorter)

declare strip_wrappers.simps [simp del]

definition stripWrappers :: "string \<Rightarrow> string option" where
  "stripWrappers subcommand = strip_wrappers (TrimSpace subcommand)"

section \<open>Consent\<close>

fun consent_loop :: "rule list \<Rightarrow> string list \<Rightarrow> string list \<Rightarrow> bool \<Rightarrow> (string list \<times> bool) option" where
  "consent_loop rules [] keys exact = Some (keys, exact)"
| "consent_loop rules (subcommand # others) keys exact =
     (case stripWrappers subcommand of
        None \<Rightarrow> None
      | Some stripped \<Rightarrow>
          (case matchRule rules stripped of
             None \<Rightarrow> None
           | Some (rule, matchExact) \<Rightarrow>
               consent_loop rules others (List.insert (Rule_Key rule) keys) (exact \<and> matchExact)))"

definition Consent :: "string \<Rightarrow> string \<Rightarrow> settings_file list \<Rightarrow> agent_consent option" where
  "Consent tool rawCommand files =
     (let rules = AllowRules files tool in
      if rules = [] then None
      else case splitCommand rawCommand of
             None \<Rightarrow> None
           | Some subcommands \<Rightarrow>
               if subcommands = [] then None
               else case consent_loop rules subcommands [] True of
                      None \<Rightarrow> None
                    | Some (keys, exact) \<Rightarrow>
                        Some \<lparr>co_kind = ConsentKindPersistentRule, co_rule_keys = sort keys,
                              co_exact = exact\<rparr>)"

section \<open>Rules that deny\<close>

definition covers_subcommand :: "rule \<Rightarrow> string \<Rightarrow> bool" where
  "covers_subcommand rule subcommand =
     (case stripWrappers subcommand of
        None \<Rightarrow> False
      | Some stripped \<Rightarrow> stripped = rl_content rule \<or> matchContent (rl_content rule) stripped)"

definition deny_rules :: "settings_file list \<Rightarrow> string \<Rightarrow> rule list" where
  "deny_rules files tool =
     concat (map (\<lambda>file.
       filter (\<lambda>rule. rl_tool rule = tool)
         (List.map_filter (ParseRule (sf_scope file))
            (pm_deny (sf_permissions file) @ pm_ask (sf_permissions file)))) files)"

definition DenyMatch :: "string \<Rightarrow> string \<Rightarrow> settings_file list \<Rightarrow> string option" where
  "DenyMatch tool rawCommand files =
     (case splitCommand rawCommand of
        None \<Rightarrow> None
      | Some subcommands \<Rightarrow>
          map_option Rule_Key
            (find (\<lambda>rule. list_ex (covers_subcommand rule) subcommands) (deny_rules files tool)))"

section \<open>What a pattern means\<close>

text \<open>The reference meaning: a star stands for any sequence of characters, every other character for
  itself.\<close>

fun star_match :: "string \<Rightarrow> string \<Rightarrow> bool" where
  "star_match [] str = (str = [])"
| "star_match (p # ps) [] = (p = CHR ''*'' \<and> star_match ps [])"
| "star_match (p # ps) (c # cs) =
     (if p = CHR ''*'' then star_match ps (c # cs) \<or> star_match (p # ps) cs
      else p = c \<and> star_match ps cs)"

text \<open>The pieces of the pattern occur in the text in order, the first at its start, the last at its end.\<close>

fun pieces_match :: "string list \<Rightarrow> string \<Rightarrow> bool" where
  "pieces_match [] str = False"
| "pieces_match [last_piece] str = suffix last_piece str"
| "pieces_match (piece # pieces) str = (\<exists>u v. str = u @ piece @ v \<and> pieces_match pieces v)"

lemma star_match_star: "star_match (CHR ''*'' # ps) str \<longleftrightarrow> (\<exists>u v. str = u @ v \<and> star_match ps v)"
proof (induction str)
  case Nil
  then show ?case by simp
next
  case (Cons c cs)
  have "(\<exists>u v. c # cs = u @ v \<and> star_match ps v) \<longleftrightarrow>
        star_match ps (c # cs) \<or> (\<exists>u v. cs = u @ v \<and> star_match ps v)"
    by (auto simp: Cons_eq_append_conv)
  then show ?case using Cons by simp
qed

lemma star_match_plain:
  "CHR ''*'' \<notin> set piece \<Longrightarrow> star_match (piece @ ps) str \<longleftrightarrow> (\<exists>v. str = piece @ v \<and> star_match ps v)"
proof (induction piece arbitrary: str)
  case Nil
  then show ?case by simp
next
  case (Cons p piece)
  then show ?case by (cases str) auto
qed

lemma star_match_no_star: "CHR ''*'' \<notin> set ps \<Longrightarrow> star_match ps str \<longleftrightarrow> ps = str"
  using star_match_plain [of ps "[]" str] by auto

lemma strings_Cut_first:
  "strings_Cut s sep = Some (a, b) \<Longrightarrow> s = u @ sep @ v \<Longrightarrow> length a \<le> length u"
proof (induction s arbitrary: a u)
  case Nil
  then show ?case by (auto split: if_splits)
next
  case (Cons c cs)
  show ?case
  proof (cases "prefix sep (c # cs)")
    case True
    then have "a = []" using Cons.prems(1) by simp
    then show ?thesis by simp
  next
    case False
    then obtain u' where "u = c # u'" using Cons.prems(2) by (cases u) (auto simp: prefix_def)
    with False Cons show ?thesis by (auto split: if_splits)
  qed
qed

lemma strings_Cut_None_iff: "strings_Cut s sep = None \<longleftrightarrow> (\<nexists>u v. s = u @ sep @ v)"
proof
  show "strings_Cut s sep = None \<Longrightarrow> \<nexists>u v. s = u @ sep @ v"
  proof (induction s)
    case Nil
    then show ?case by (auto split: if_splits)
  next
    case (Cons c cs)
    then have "\<not> prefix sep (c # cs)" "\<nexists>u v. cs = u @ sep @ v" by (auto split: if_splits)
    then show ?case by (auto simp: Cons_eq_append_conv prefix_def)
  qed
  show "\<nexists>u v. s = u @ sep @ v \<Longrightarrow> strings_Cut s sep = None"
    using strings_Cut_Some by (metis option.exhaust prod.exhaust)
qed

lemma pieces_match_prepend: "pieces_match pieces v \<Longrightarrow> pieces_match pieces (u @ v)"
  by (induction pieces v arbitrary: u rule: pieces_match.induct)
     (auto simp: suffix_def, metis append.assoc)

text \<open>Taking the first occurrence of a piece loses nothing.\<close>

lemma pieces_match_greedy:
  "strings_Cut str piece = Some (a, b) \<Longrightarrow> pieces \<noteq> [] \<Longrightarrow>
   pieces_match (piece # pieces) str \<longleftrightarrow> pieces_match pieces b"
proof
  assume cut: "strings_Cut str piece = Some (a, b)" and "pieces \<noteq> []" and "pieces_match (piece # pieces) str"
  then obtain u v where uv: "str = u @ piece @ v" "pieces_match pieces v" by (cases pieces) auto
  have "length a \<le> length u" by (rule strings_Cut_first [OF cut uv(1)])
  then have "length v \<le> length b" using strings_Cut_Some [OF cut] uv(1) by (auto dest!: arg_cong [where f = length])
  moreover have "suffix v str" "suffix b str"
    using strings_Cut_Some [OF cut] uv(1) by (metis append_assoc suffix_def)+
  ultimately obtain x where "b = x @ v" using suffix_length_suffix by (metis suffix_def)
  with uv(2) show "pieces_match pieces b" using pieces_match_prepend by blast
next
  assume cut: "strings_Cut str piece = Some (a, b)" and "pieces \<noteq> []" "pieces_match pieces b"
  then show "pieces_match (piece # pieces) str"
    using strings_Cut_Some [OF cut] by (cases pieces) auto
qed

lemma glob_middle_iff:
  "(case glob_middle middle str of None \<Rightarrow> False | Some rest \<Rightarrow> suffix end_piece rest) \<longleftrightarrow>
   pieces_match (middle @ [end_piece]) str"
proof (induction middle arbitrary: str)
  case Nil
  then show ?case by simp
next
  case (Cons piece middle)
  show ?case
  proof (cases "strings_Cut str piece")
    case None
    then have "\<not> pieces_match (piece # middle @ [end_piece]) str"
      by (cases "middle @ [end_piece]") (auto simp: strings_Cut_None_iff)
    then show ?thesis using None by simp
  next
    case (Some ab)
    then obtain a b where "strings_Cut str piece = Some (a, b)" by (cases ab) auto
    then show ?thesis using Cons pieces_match_greedy [of str piece a b "middle @ [end_piece]"] by simp
  qed
qed

lemma star_match_pieces:
  "pieces \<noteq> [] \<Longrightarrow> \<forall>p \<in> set pieces. CHR ''*'' \<notin> set p \<Longrightarrow>
   star_match (CHR ''*'' # strings_Join pieces ''*'') str \<longleftrightarrow> pieces_match pieces str"
proof (induction pieces arbitrary: str)
  case Nil
  then show ?case by simp
next
  case (Cons piece pieces)
  show ?case
  proof (cases pieces)
    case Nil
    then show ?thesis using Cons.prems by (auto simp: star_match_star star_match_no_star suffix_def)
  next
    case (Cons q qs)
    then have "star_match (CHR ''*'' # strings_Join (piece # pieces) ''*'') str \<longleftrightarrow>
      (\<exists>u v. str = u @ piece @ v \<and> star_match (CHR ''*'' # strings_Join pieces ''*'') v)"
      using Cons.prems unfolding star_match_star [of "strings_Join (piece # pieces) ''*''"]
      by (auto simp: star_match_plain)
    then show ?thesis using Cons.IH Cons.prems Cons by auto
  qed
qed

lemma strings_Cut_char:
  "strings_Cut s [c] = Some (a, b) \<Longrightarrow> c \<notin> set a"
  by (induction s arbitrary: a) (auto split: if_splits simp: prefix_def)

lemma strings_Contains_char: "strings_Contains s [c] \<longleftrightarrow> c \<in> set s"
  by (auto simp: strings_Contains_def strings_Cut_None_iff dest: split_list)

lemma strings_Split_char:
  "strings_Join (strings_Split s [c]) [c] = s \<and> strings_Split s [c] \<noteq> [] \<and>
   (\<forall>p \<in> set (strings_Split s [c]). c \<notin> set p)"
proof (induction "length s" arbitrary: s rule: less_induct)
  case less
  show ?case
  proof (cases "strings_Cut s [c]")
    case None
    then have "c \<notin> set s" using strings_Contains_char [of s c] by (simp add: strings_Contains_def)
    then show ?thesis using None by (simp add: strings_Split.simps [of s])
  next
    case (Some ab)
    then obtain a b where ab: "strings_Cut s [c] = Some (a, b)" by (cases ab) auto
    have s: "s = a @ c # b" using strings_Cut_Some [OF ab] by simp
    then have IH: "strings_Join (strings_Split b [c]) [c] = b \<and> strings_Split b [c] \<noteq> [] \<and>
      (\<forall>p \<in> set (strings_Split b [c]). c \<notin> set p)" by (intro less) simp
    have "strings_Split s [c] = a # strings_Split b [c]" using ab by (simp add: strings_Split.simps [of s])
    then show ?thesis using IH s strings_Cut_char [OF ab] by (simp add: strings_Join_Cons)
  qed
qed

lemma globMatch_star_match: "globMatch pattern str \<longleftrightarrow> star_match pattern str"
proof (cases "CHR ''*'' \<in> set pattern")
  case False
  then show ?thesis by (simp add: globMatch_def strings_Contains_char star_match_no_star)
next
  case True
  obtain piece rest where split: "strings_Split pattern ''*'' = piece # rest"
    using strings_Split_char [of pattern "CHR ''*''"] by (cases "strings_Split pattern ''*''") auto
  have parts: "strings_Join (piece # rest) ''*'' = pattern" "CHR ''*'' \<notin> set piece"
    "\<forall>p \<in> set rest. CHR ''*'' \<notin> set p"
    using strings_Split_char [of pattern "CHR ''*''"] split by auto
  have rest: "rest \<noteq> []" using parts True by auto
  have pat: "pattern = piece @ CHR ''*'' # strings_Join rest ''*''"
    using parts(1) rest by (cases rest) auto
  have "star_match pattern str \<longleftrightarrow> (\<exists>v. str = piece @ v \<and> pieces_match rest v)"
    by (subst pat) (simp add: star_match_plain parts(2) star_match_pieces rest parts(3))
  also have "\<dots> \<longleftrightarrow> prefix piece str \<and> pieces_match rest (drop (length piece) str)"
    by (auto simp: prefix_def)
  also have "\<dots> \<longleftrightarrow> globMatch pattern str"
    using glob_middle_iff [where middle = "butlast rest" and end_piece = "last rest" and str = "drop (length piece) str"] rest True
    by (simp add: globMatch_def strings_Contains_char split HasPrefix_def HasSuffix_def Let_def cong: option.case_cong)
  finally show ?thesis by simp
qed

text \<open>The two forms with a word boundary.\<close>

lemma matchContent_boundary:
  assumes "CHR ''*'' \<notin> set p"
  shows "matchContent (p @ '':*'') sub \<longleftrightarrow> sub = p \<or> (\<exists>args. sub = p @ '' '' @ args)"
    and "matchContent (p @ '' *'') sub \<longleftrightarrow> sub = p \<or> (\<exists>args. sub = p @ '' '' @ args)"
  using assms
  by (auto simp: matchContent_def CutSuffix_def HasSuffix_def suffix_def matchPrefixBoundary_def
      strings_Contains_char HasPrefix_def prefix_def)

lemma matchContent_plain:
  assumes "CHR ''*'' \<notin> set content"
  shows "matchContent content sub \<longleftrightarrow> sub = content"
  using assms
  by (auto simp: matchContent_def CutSuffix_def HasSuffix_def suffix_def globMatch_star_match star_match_no_star)

section \<open>What a consent means\<close>

definition rule_covers :: "rule \<Rightarrow> string \<Rightarrow> bool" where
  "rule_covers rule stripped \<longleftrightarrow> rl_content rule = stripped \<or> matchContent (rl_content rule) stripped"

lemma matchRule_Some:
  "matchRule rules sub = Some (rule, exact) \<Longrightarrow>
   rule \<in> set rules \<and> rule_covers rule sub \<and> (exact \<longleftrightarrow> rl_content rule = sub)"
  by (induction rules) (auto simp: rule_covers_def split: if_splits)

lemma matchRule_None: "matchRule rules sub = None \<longleftrightarrow> (\<forall>rule \<in> set rules. \<not> rule_covers rule sub)"
  by (induction rules) (auto simp: rule_covers_def)

definition covered_by :: "rule list \<Rightarrow> string list \<Rightarrow> bool \<Rightarrow> string \<Rightarrow> bool" where
  "covered_by rules keys exact sub \<longleftrightarrow>
     (\<exists>stripped rule. stripWrappers sub = Some stripped \<and> rule \<in> set rules \<and> rule_covers rule stripped \<and>
        Rule_Key rule \<in> set keys \<and> (exact \<longrightarrow> rl_content rule = stripped))"

lemma consent_loop_Some:
  "consent_loop rules subs keys exact = Some (keys', exact') \<Longrightarrow>
   set keys \<subseteq> set keys' \<and> (exact' \<longrightarrow> exact) \<and> (\<forall>sub \<in> set subs. covered_by rules keys' exact' sub) \<and>
   set keys' \<subseteq> set keys \<union> Rule_Key ` set rules \<and> (distinct keys \<longrightarrow> distinct keys')"
proof (induction rules subs keys exact rule: consent_loop.induct)
  case (1 rules keys exact)
  then show ?case by simp
next
  case (2 rules sub others keys exact)
  from "2.prems" obtain stripped rule matchExact where
    strip: "stripWrappers sub = Some stripped" and match: "matchRule rules stripped = Some (rule, matchExact)" and
    loop: "consent_loop rules others (List.insert (Rule_Key rule) keys) (exact \<and> matchExact) = Some (keys', exact')"
    by (auto split: option.splits)
  note IH = "2.IH" [OF strip match refl loop]
  have rule: "rule \<in> set rules" "rule_covers rule stripped" "matchExact \<longleftrightarrow> rl_content rule = stripped"
    using matchRule_Some [OF match] by blast+
  have "covered_by rules keys' exact' sub"
    unfolding covered_by_def
  proof (intro exI conjI)
    show "Rule_Key rule \<in> set keys'" using IH by simp
    show "exact' \<longrightarrow> rl_content rule = stripped" using IH rule(3) by blast
  qed (use strip rule in auto)
  moreover have "set keys' \<subseteq> set keys \<union> Rule_Key ` set rules" using IH rule(1) by auto
  ultimately show ?case using IH by simp
qed

lemma consent_loop_None:
  "consent_loop rules subs keys exact = None \<longleftrightarrow>
   (\<exists>sub \<in> set subs. \<forall>stripped. stripWrappers sub = Some stripped \<longrightarrow> (\<forall>rule \<in> set rules. \<not> rule_covers rule stripped))"
proof (induction rules subs keys exact rule: consent_loop.induct)
  case (1 rules keys exact)
  then show ?case by simp
next
  case (2 rules sub others keys exact)
  show ?case
  proof (cases "stripWrappers sub")
    case None
    then show ?thesis by simp
  next
    case strip: (Some stripped)
    show ?thesis
    proof (cases "matchRule rules stripped")
      case None
      then show ?thesis using strip matchRule_None [of rules stripped] by simp
    next
      case (Some found)
      then obtain rule matchExact where match: "matchRule rules stripped = Some (rule, matchExact)"
        by (cases found) auto
      then have "\<exists>rule \<in> set rules. rule_covers rule stripped" using matchRule_Some by blast
      then show ?thesis using "2.IH" [OF strip match refl] strip match by auto
    qed
  qed
qed

lemma Consent_Some:
  assumes "Consent tool raw files = Some c"
  shows "\<exists>subs. splitCommand raw = Some subs \<and> subs \<noteq> [] \<and>
     (\<forall>sub \<in> set subs. covered_by (AllowRules files tool) (co_rule_keys c) (co_exact c) sub) \<and>
     set (co_rule_keys c) \<subseteq> Rule_Key ` set (AllowRules files tool) \<and>
     distinct (co_rule_keys c) \<and> Usable (Some c)"
proof -
  obtain subs keys exact where subs: "splitCommand raw = Some subs" "subs \<noteq> []"
    and loop: "consent_loop (AllowRules files tool) subs [] True = Some (keys, exact)"
    and c: "c = \<lparr>co_kind = ConsentKindPersistentRule, co_rule_keys = sort keys, co_exact = exact\<rparr>"
    using assms by (auto simp: Consent_def Let_def split: if_splits option.splits)
  from consent_loop_Some [OF loop] have facts:
    "\<forall>sub \<in> set subs. covered_by (AllowRules files tool) keys exact sub"
    "set keys \<subseteq> Rule_Key ` set (AllowRules files tool)" "distinct keys" by auto
  moreover have "keys \<noteq> []" using facts(1) subs(2) by (cases subs) (auto simp: covered_by_def)
  ultimately show ?thesis using subs c
    by (auto simp: covered_by_def Usable_def) (metis list.set_intros(1) neq_Nil_conv set_empty set_sort)
qed

lemma Consent_None:
  "Consent tool raw files = None \<longleftrightarrow>
   (case splitCommand raw of
      None \<Rightarrow> True
    | Some subs \<Rightarrow> subs = [] \<or>
        (\<exists>sub \<in> set subs. \<forall>stripped. stripWrappers sub = Some stripped \<longrightarrow>
           (\<forall>rule \<in> set (AllowRules files tool). \<not> rule_covers rule stripped)))"
proof (cases "splitCommand raw")
  case None
  then show ?thesis by (simp add: Consent_def Let_def)
next
  case (Some subs)
  have "Consent tool raw files = None \<longleftrightarrow>
    AllowRules files tool = [] \<or> subs = [] \<or> consent_loop (AllowRules files tool) subs [] True = None"
    using Some by (auto simp: Consent_def Let_def split: option.splits)
  then show ?thesis using Some by (cases subs) (auto simp only: consent_loop_None option.case list.set)
qed

section \<open>The parts of a split command hold no separator\<close>

lemma strings_Split_infix:
  "sep \<noteq> [] \<Longrightarrow> p \<in> set (strings_Split s sep) \<Longrightarrow> set p \<subseteq> set s"
proof (induction "length s" arbitrary: s rule: less_induct)
  case less
  show ?case
  proof (cases "strings_Cut s sep")
    case None
    then show ?thesis using less.prems by (simp add: strings_Split.simps [of s])
  next
    case (Some ab)
    then obtain a b where ab: "strings_Cut s sep = Some (a, b)" by (cases ab) auto
    have s: "s = a @ sep @ b" using strings_Cut_Some [OF ab] by simp
    have "p = a \<or> p \<in> set (strings_Split b sep)"
      using less.prems ab by (simp add: strings_Split.simps [of s])
    then show ?thesis using less.hyps [of b] less.prems(1) s by auto
  qed
qed

lemma split_parts_free:
  assumes "p \<in> set (split_parts parts sep)" and "sep \<noteq> []" and "\<forall>q \<in> set parts. set q \<inter> C = {}"
  shows "set p \<inter> C = {}"
  using assms strings_Split_infix [OF assms(2)] by (fastforce simp: split_parts_def)

lemma split_parts_char: "p \<in> set (split_parts parts [c]) \<Longrightarrow> c \<notin> set p"
  using strings_Split_char by (auto simp: split_parts_def)

lemma TrimSpace_subset: "set (TrimSpace s) \<subseteq> set s"
  unfolding TrimSpace_def TrimRight_by_def TrimLeft_by_def
  by (metis set_dropWhileD set_rev subsetI)

lemma splitCommand_free:
  assumes "splitCommand raw = Some subs" and "sub \<in> set subs"
  shows "sub \<noteq> [] \<and> set sub \<inter> {CHR ''&'', CHR ''|'', CHR '';'', CHR 0x0A} = {}"
proof -
  let ?parts = "split_parts (split_parts (split_parts [raw] ''&&'') ''||'') ''|&''"
  from assms obtain p where p: "sub = TrimSpace p" "sub \<noteq> []"
    "p \<in> set (split_parts (split_parts (split_parts (split_parts ?parts '';'') ''|'') ''&'') [CHR 0x0A])"
    by (auto simp: splitCommand_def claudeSeparators_def split: if_splits)
  have a: "\<forall>q \<in> set (split_parts ?parts '';''). set q \<inter> {CHR '';''} = {}"
    using split_parts_char [of _ ?parts "CHR '';''"] by simp
  have b: "\<forall>q \<in> set (split_parts (split_parts ?parts '';'') ''|''). set q \<inter> {CHR '';'', CHR ''|''} = {}"
    using split_parts_free [OF _ _ a] split_parts_char [of _ "split_parts ?parts '';''" "CHR ''|''"] by auto
  have c: "\<forall>q \<in> set (split_parts (split_parts (split_parts ?parts '';'') ''|'') ''&'').
             set q \<inter> {CHR '';'', CHR ''|'', CHR ''&''} = {}"
    using split_parts_free [OF _ _ b]
      split_parts_char [of _ "split_parts (split_parts ?parts '';'') ''|''" "CHR ''&''"] by auto
  have "set p \<inter> {CHR '';'', CHR ''|'', CHR ''&''} = {}" "CHR 0x0A \<notin> set p"
    using split_parts_free [OF p(3) _ c] split_parts_char [OF p(3)] by auto
  then show ?thesis using p(1,2) TrimSpace_subset [of p] by auto
qed

section \<open>The settings cache is transparent\<close>

definition fresh_read :: "settings_world \<Rightarrow> string \<Rightarrow> permissions \<times> bool \<times> bool" where
  "fresh_read w path =
     (if sw_stat w path = None then (no_permissions, False, False)
      else case Option.bind (sw_read w path) (sw_unmarshal w) of
             None \<Rightarrow> (no_permissions, True, True)
           | Some perms \<Rightarrow> (perms, True, False))"

definition cache_ok :: "settings_world \<Rightarrow> settings_reader \<Rightarrow> bool" where
  "cache_ok w r \<longleftrightarrow>
     (\<forall>path c. sr_cache r path = Some c \<and> sw_stat w path = Some (cs_mod_time c, cs_size c) \<longrightarrow>
        fresh_read w path = (cs_permissions c, True, cs_unreadable c))"

lemma settings_read_fresh:
  assumes "cache_ok w r"
  shows "fst (settings_read w path r) = fresh_read w path \<and> cache_ok w (snd (settings_read w path r))"
proof (cases "sw_stat w path")
  case None
  then show ?thesis using assms
    by (auto simp: settings_read_def fresh_read_def cache_ok_def forget_def)
next
  case (Some st)
  then obtain m b where st: "sw_stat w path = Some (m, b)" by (cases st) auto
  show ?thesis
  proof (cases "\<exists>c. sr_cache r path = Some c \<and> cs_mod_time c = m \<and> cs_size c = b")
    case True
    then obtain c where "sr_cache r path = Some c" "cs_mod_time c = m" "cs_size c = b" by blast
    then show ?thesis using assms st by (auto simp: settings_read_def cache_ok_def)
  next
    case False
    then have "settings_read w path r =
      (fresh_read w path, case Option.bind (sw_read w path) (sw_unmarshal w) of None \<Rightarrow> r
         | Some perms \<Rightarrow> r\<lparr>sr_cache := (sr_cache r)(path \<mapsto> \<lparr>cs_mod_time = m, cs_size = b,
              cs_permissions = perms, cs_unreadable = False\<rparr>)\<rparr>)"
      using st by (auto simp: settings_read_def fresh_read_def Let_def split: option.splits)
    then show ?thesis using assms st
      by (auto simp: cache_ok_def fresh_read_def split: option.splits)
  qed
qed

definition candidate_file :: "settings_world \<Rightarrow> settings_scope \<times> string \<Rightarrow> settings_file" where
  "candidate_file w c =
     (case fresh_read w (snd c) of (perms, exists, unreadable) \<Rightarrow>
        \<lparr>sf_scope = fst c, sf_path = snd c, sf_exists = exists, sf_permissions = perms, sf_unreadable = unreadable\<rparr>)"

lemma read_candidates_fresh:
  "cache_ok w r \<Longrightarrow> fst (read_candidates w cs r) = map (candidate_file w) (filter (\<lambda>c. snd c \<noteq> []) cs) \<and>
     cache_ok w (snd (read_candidates w cs r))"
proof (induction w cs r rule: read_candidates.induct)
  case (1 w r)
  then show ?case by simp
next
  case (2 w scope path others r)
  obtain p e u r1 where step: "settings_read w path r = ((p, e, u), r1)" by (metis prod.exhaust)
  then have fresh: "fresh_read w path = (p, e, u)" "cache_ok w r1"
    using settings_read_fresh [OF "2.prems", of path] by auto
  show ?case
  proof (cases "path = []")
    case True
    then show ?thesis using 2 by simp
  next
    case False
    then show ?thesis using "2.IH"(2) [OF False step [symmetric] refl refl refl fresh(2)] step fresh(1)
      by (auto simp: candidate_file_def split: prod.splits)
  qed
qed

lemma settings_paths_cache [simp]: "settings_paths w dir (r\<lparr>sr_cache := c\<rparr>) = settings_paths w dir r"
  by (simp add: settings_paths_def managedSettingsPath_def UserSettingsPath_def)

lemma Discover_fresh:
  "cache_ok w r \<Longrightarrow>
   fst (Discover w dir r) = map (candidate_file w) (filter (\<lambda>c. snd c \<noteq> []) (settings_paths w dir r)) \<and>
   cache_ok w (snd (Discover w dir r))"
  by (simp add: Discover_def read_candidates_fresh)

lemma cache_ok_empty: "cache_ok w (r\<lparr>sr_cache := Map.empty\<rparr>)"
  by (simp add: cache_ok_def)

end
