(* ===== verification/Audit_Log.thy ===== *)
theory Audit_Log
  imports Storage
begin

text \<open>
  The decision log: the rows and summaries of \<^verbatim>\<open>internal/action/audit.go\<close>, the repository of
  \<^verbatim>\<open>internal/storage/audit.go\<close> and the recorder of \<^verbatim>\<open>internal/audit/audit.go\<close>. The table is \<open>st_audit\<close>
  of the store. An empty text column is SQL's NULL, so a query that compares such a column with a
  value never selects a row in which it is empty; the JSON columns are kept as the values they encode.
  The lemmas show that a row never changes what it says of the decision, that the recorder touches no
  other table, and that the grouped counts of \<open>Summarize\<close> are the counts of the selected rows.
\<close>

section \<open>Filters and summaries\<close>

record audit_filter =
  fl_decision :: "decision_outcome option"
  fl_project_id :: string
  fl_session_id :: string
  fl_since :: "go_time option"
  fl_limit :: int
  fl_include_dry_run :: bool

record activity_summary =
  as_total :: int
  as_allowed :: int
  as_allowed_by_approval :: int
  as_allowed_baseline :: int
  as_asked :: int
  as_blocked :: int
  as_first_at :: "go_time option"
  as_last_at :: "go_time option"

definition PromptsAvoided :: "activity_summary \<Rightarrow> int" where
  "PromptsAvoided s = as_allowed_by_approval s"

definition Summary_Empty :: "activity_summary \<Rightarrow> bool" where
  "Summary_Empty s = (as_total s = 0)"

record audit_event_summary =
  es_id :: int
  es_at :: go_time
  es_decision :: decision_outcome
  es_class :: decision_class
  es_raw_command :: string
  es_resolved_summary :: string
  es_reason :: string
  es_approval_id :: "int option"
  es_adapter_action :: "adapter_action option"
  es_project_id :: string
  es_session_id :: string

definition ResolvedSummary :: "audit_event \<Rightarrow> string" where
  "ResolvedSummary e =
     (case au_resolved e of
        None \<Rightarrow> []
      | Some resolved \<Rightarrow>
          (case find (\<lambda>cmd. 1 < length (rc_resolved_from cmd)) (ra_commands resolved) of
             Some cmd \<Rightarrow> last (rc_resolved_from cmd)
           | None \<Rightarrow>
               let parts = filter (\<lambda>t. t \<noteq> []) (map rc_raw_text (ra_commands resolved)) in
               if parts = [] then [] else strings_Join parts ''; ''))"

section \<open>The repository\<close>

definition empty_action :: resolved_action where
  "empty_action = \<lparr>ra_raw_command = [], ra_dialect = DialectNone, ra_project_id = [], ra_commands = [],
     ra_semantic_ops = [], ra_effects = [], ra_fingerprints = [], ra_status = StatusUnset,
     ra_status_reason = [], ra_action_key = [], ra_explanation = [], ra_unsupported = [],
     ra_incomplete = False, ra_incomplete_reason = []\<rparr>"

definition audit_row :: "go_time \<Rightarrow> int \<Rightarrow> audit_event \<Rightarrow> audit_event" where
  "audit_row at i event =
     (let resolved =
            (case au_resolved event of
               Some r \<Rightarrow> r
             | None \<Rightarrow> empty_action\<lparr>ra_raw_command := au_raw_command event, ra_dialect := au_dialect event,
                                    ra_status := au_resolution_status event\<rparr>);
          stored = (if au_explanation event \<noteq> [] then resolved\<lparr>ra_explanation := au_explanation event\<rparr>
                    else resolved)
      in event\<lparr>au_id := i, au_at := at, au_resolved := Some stored, au_explanation := ra_explanation stored\<rparr>)"

definition Audit_Insert :: "go_time \<Rightarrow> audit_event \<Rightarrow> store \<Rightarrow> (storage_error + int) \<times> store" where
  "Audit_Insert now event st =
     (let at = stamp now (au_at event);
          i = next_id (map au_id (st_audit st))
      in if DbInsertAudit \<in> set (st_failing st) then (Inl (ErrDatabase DbInsertAudit), st)
         else if au_project_id event \<noteq> [] \<and> \<not> project_exists st (au_project_id event)
           then (Inl (ErrConstraint ''insert audit event''), st)
         else (Inr i, st\<lparr>st_audit := st_audit st @ [audit_row at i event]\<rparr>))"

definition Audit_Get :: "store \<Rightarrow> int \<Rightarrow> storage_error + audit_event" where
  "Audit_Get st i =
     (if DbSelectAudit \<in> set (st_failing st) then Inl (ErrDatabase DbSelectAudit)
      else case find (\<lambda>e. au_id e = i) (st_audit st) of
             None \<Rightarrow> Inl (ErrNotFound (''audit event '' @ Itoa i))
           | Some event \<Rightarrow> Inr event)"

definition selected :: "audit_filter \<Rightarrow> audit_event \<Rightarrow> bool" where
  "selected f e =
     ((fl_project_id f = [] \<or> au_project_id e = fl_project_id f) \<and>
      (fl_session_id f = [] \<or> au_session_id e = fl_session_id f) \<and>
      (case fl_since f of None \<Rightarrow> True | Some since \<Rightarrow> since \<le> au_at e) \<and>
      (fl_include_dry_run f \<or> \<not> au_dry_run e))"

text \<open>Newest first: by descending id and then, stably, by descending time.\<close>

definition newest_first :: "audit_event list \<Rightarrow> audit_event list" where
  "newest_first es = sort_key (\<lambda>e. - au_at e) (sort_key (\<lambda>e. - au_id e) es)"

definition summary_row :: "audit_event \<Rightarrow> audit_event_summary" where
  "summary_row event =
     \<lparr>es_id = au_id event, es_at = au_at event, es_decision = au_decision event, es_class = au_class event,
      es_raw_command = au_raw_command event, es_resolved_summary = ResolvedSummary event,
      es_reason = au_reason event, es_approval_id = au_matched_approval_id event,
      es_adapter_action = au_adapter_action event, es_project_id = au_project_id event,
      es_session_id = au_session_id event\<rparr>"

definition Audit_List :: "store \<Rightarrow> audit_filter \<Rightarrow> storage_error + audit_event_summary list" where
  "Audit_List st f =
     (let limit = (if fl_limit f \<le> 0 then 50 else fl_limit f) in
      if DbSelectAudit \<in> set (st_failing st) then Inl (ErrDatabase DbSelectAudit)
      else Inr (map summary_row (take (nat limit) (newest_first
             (filter (\<lambda>e. (case fl_decision f of None \<Rightarrow> True | Some d \<Rightarrow> au_decision e = d) \<and> selected f e)
                (st_audit st))))))"

definition first_row :: "store \<Rightarrow> (audit_event \<Rightarrow> bool) \<Rightarrow> storage_error + audit_event" where
  "first_row st p =
     (if DbSelectAudit \<in> set (st_failing st) then Inl (ErrDatabase DbSelectAudit)
      else case newest_first (filter p (st_audit st)) of
             [] \<Rightarrow> Inl (ErrNotFound [])
           | event # _ \<Rightarrow> Inr event)"

definition FindRecentBySessionCommand ::
    "store \<Rightarrow> string \<Rightarrow> string \<Rightarrow> go_time \<Rightarrow> storage_error + audit_event" where
  "FindRecentBySessionCommand st sessionID rawCommand notBefore =
     first_row st (\<lambda>e. sessionID \<noteq> [] \<and> au_session_id e = sessionID \<and> au_raw_command e = rawCommand \<and>
                       notBefore \<le> au_at e \<and> \<not> au_dry_run e)"

definition FindByToolUseID :: "store \<Rightarrow> string \<Rightarrow> string \<Rightarrow> storage_error + audit_event" where
  "FindByToolUseID st sessionID toolUseID =
     first_row st (\<lambda>e. toolUseID \<noteq> [] \<and> au_tool_use_id e = toolUseID \<and> \<not> au_dry_run e \<and>
                       (sessionID = [] \<or> au_session_id e = sessionID))"

definition Audit_update :: "int \<Rightarrow> (audit_event \<Rightarrow> audit_event) \<Rightarrow> store \<Rightarrow> (storage_error + unit) \<times> store" where
  "Audit_update i f st =
     (if DbUpdateAudit \<in> set (st_failing st) then (Inl (ErrDatabase DbUpdateAudit), st)
      else if i \<notin> au_id ` set (st_audit st) then (Inl (ErrNotFound (''audit event '' @ Itoa i)), st)
      else (Inr (), st\<lparr>st_audit := map (\<lambda>e. if au_id e = i then f e else e) (st_audit st)\<rparr>))"

definition UpdatePrompt :: "int \<Rightarrow> string list option \<Rightarrow> store \<Rightarrow> (storage_error + unit) \<times> store" where
  "UpdatePrompt i suggestions =
     Audit_update i (\<lambda>e. e\<lparr>au_prompt_shown := True,
       au_permission_suggestions :=
         (case suggestions of None \<Rightarrow> au_permission_suggestions e | Some s \<Rightarrow> s)\<rparr>)"

definition UpdateExecution ::
    "go_time \<Rightarrow> int \<Rightarrow> execution_status option \<Rightarrow> go_time \<Rightarrow> string \<Rightarrow> store \<Rightarrow> (storage_error + unit) \<times> store" where
  "UpdateExecution now i status at summary =
     Audit_update i (\<lambda>e. e\<lparr>au_execution_status := status, au_execution_at := Some (stamp now at),
       au_response_summary := summary\<rparr>)"

definition SetImportedApproval :: "int \<Rightarrow> int \<Rightarrow> store \<Rightarrow> (storage_error + unit) \<times> store" where
  "SetImportedApproval i approvalID = Audit_update i (\<lambda>e. e\<lparr>au_imported_approval_id := Some approvalID\<rparr>)"

definition SetAdapterAction :: "int \<Rightarrow> adapter_action \<Rightarrow> store \<Rightarrow> (storage_error + unit) \<times> store" where
  "SetAdapterAction i adapterAction = Audit_update i (\<lambda>e. e\<lparr>au_adapter_action := Some adapterAction\<rparr>)"

definition CountByDecisionSince :: "store \<Rightarrow> go_time \<Rightarrow> storage_error + (decision_outcome \<Rightarrow> nat)" where
  "CountByDecisionSince st since =
     (if DbSelectAudit \<in> set (st_failing st) then Inl (ErrDatabase DbSelectAudit)
      else Inr (\<lambda>outcome. length (filter (\<lambda>e. since \<le> au_at e \<and> \<not> au_dry_run e \<and> au_decision e = outcome)
                                   (st_audit st))))"

text \<open>The rows of the grouped query: decision, class, number of rows and the bounds of their times.\<close>

definition group_rows :: "audit_event list \<Rightarrow> (decision_outcome \<times> decision_class \<times> nat \<times> go_time \<times> go_time) list" where
  "group_rows es =
     map (\<lambda>(d, c). let g = filter (\<lambda>e. au_decision e = d \<and> au_class e = c) es in
            (d, c, length g, Min (set (map au_at g)), Max (set (map au_at g))))
       (remdups (map (\<lambda>e. (au_decision e, au_class e)) es))"

definition extendRange :: "activity_summary \<Rightarrow> go_time \<Rightarrow> go_time \<Rightarrow> activity_summary" where
  "extendRange summary first latest =
     (let s1 = (if (case as_first_at summary of None \<Rightarrow> True | Some t \<Rightarrow> first < t)
                then summary\<lparr>as_first_at := Some first\<rparr> else summary)
      in if (case as_last_at s1 of None \<Rightarrow> True | Some t \<Rightarrow> t < latest)
         then s1\<lparr>as_last_at := Some latest\<rparr> else s1)"

definition zero_summary :: activity_summary where
  "zero_summary = \<lparr>as_total = 0, as_allowed = 0, as_allowed_by_approval = 0, as_allowed_baseline = 0,
     as_asked = 0, as_blocked = 0, as_first_at = None, as_last_at = None\<rparr>"

fun add_group ::
    "activity_summary \<Rightarrow> decision_outcome \<times> decision_class \<times> nat \<times> go_time \<times> go_time \<Rightarrow> activity_summary" where
  "add_group summary (decision, cls, rows, first, latest) =
     (let s1 = summary\<lparr>as_total := as_total summary + int rows\<rparr>;
          s2 = (case decision of
                  OutcomeAllow \<Rightarrow>
                    (let s = s1\<lparr>as_allowed := as_allowed s1 + int rows\<rparr> in
                     if cls = ClassPolicyReadonlyWorkspace
                     then s\<lparr>as_allowed_baseline := as_allowed_baseline s + int rows\<rparr>
                     else s\<lparr>as_allowed_by_approval := as_allowed_by_approval s + int rows\<rparr>)
                | OutcomeAsk \<Rightarrow> s1\<lparr>as_asked := as_asked s1 + int rows\<rparr>
                | OutcomeBlock \<Rightarrow> s1\<lparr>as_blocked := as_blocked s1 + int rows\<rparr>)
      in extendRange s2 first latest)"

definition Summarize :: "store \<Rightarrow> audit_filter \<Rightarrow> storage_error + activity_summary" where
  "Summarize st f =
     (if DbSelectAudit \<in> set (st_failing st) then Inl (ErrDatabase DbSelectAudit)
      else Inr (foldl add_group zero_summary (group_rows (filter (selected f) (st_audit st)))))"

section \<open>The recorder\<close>

definition PromptCorrelationWindow :: go_time where
  "PromptCorrelationWindow = 60 * 10 ^ 9"

record evaluation =
  ev_request :: action_request
  ev_context :: "request_context option"
  ev_resolved :: "resolved_action option"
  ev_decision :: decision
  ev_explanation :: "string list"
  ev_dry_run :: bool

definition hookEventOf :: "action_request \<Rightarrow> string" where
  "hookEventOf request = (case map_of (rq_adapter_context request) ''hook_event'' of None \<Rightarrow> [] | Some v \<Rightarrow> v)"

definition buildEvent :: "go_time \<Rightarrow> evaluation \<Rightarrow> audit_event" where
  "buildEvent now evaluation =
     (let request = ev_request evaluation;
          d = ev_decision evaluation;
          ctxProject = (case ev_context evaluation of None \<Rightarrow> [] | Some c \<Rightarrow> cx_project_id c)
      in \<lparr>au_id = 0, au_at = stamp now (rq_received_at request), au_agent = rq_agent request,
          au_agent_version = rq_agent_version request, au_session_id = rq_session_id request,
          au_tool_use_id = rq_tool_use_id request, au_hook_event = hookEventOf request,
          au_project_id = (if ctxProject \<noteq> [] then ctxProject
                           else case ev_resolved evaluation of None \<Rightarrow> [] | Some r \<Rightarrow> ra_project_id r),
          au_cwd = rq_cwd request, au_tool = rq_tool request, au_dialect = rq_dialect request,
          au_raw_command = rq_raw_command request, au_resolved = ev_resolved evaluation,
          au_resolution_status = (case ev_resolved evaluation of None \<Rightarrow> StatusUnset | Some r \<Rightarrow> ra_status r),
          au_decision = d_outcome d, au_class = d_class d, au_reason = d_reason d, au_hard_rule = d_hard_rule d,
          au_matched_approval_id = (if d_outcome d = OutcomeAllow then d_approval_id d else None),
          au_related_approval_ids = map mr_approval_id (d_mismatch_reports d),
          au_mismatch_report = d_mismatch_reports d, au_imported_approval_id = None,
          au_adapter_action = None, au_adapter_context = rq_adapter_context request,
          au_prompt_shown = False, au_permission_suggestions = [], au_execution_status = None,
          au_execution_at = None, au_response_summary = [], au_engine_version = d_engine_version d,
          au_dry_run = False, au_explanation = ev_explanation evaluation\<rparr>)"

definition RecordEvaluation :: "go_time \<Rightarrow> evaluation \<Rightarrow> store \<Rightarrow> (string + int option) \<times> store" where
  "RecordEvaluation now evaluation st =
     (if ev_dry_run evaluation then (Inr None, st)
      else case Audit_Insert now (buildEvent now evaluation) st of
             (Inl err, st') \<Rightarrow> (Inl (''audit: record evaluation: '' @ storage_error_str err), st')
           | (Inr i, st') \<Rightarrow> (Inr (Some i), st'))"

definition prompt_event :: "go_time \<Rightarrow> action_request \<Rightarrow> string list option \<Rightarrow> audit_event" where
  "prompt_event now request suggestions =
     \<lparr>au_id = 0, au_at = now, au_agent = rq_agent request, au_agent_version = rq_agent_version request,
      au_session_id = rq_session_id request, au_tool_use_id = rq_tool_use_id request,
      au_hook_event = ''PermissionRequest'', au_project_id = [], au_cwd = rq_cwd request,
      au_tool = rq_tool request, au_dialect = rq_dialect request, au_raw_command = rq_raw_command request,
      au_resolved = None, au_resolution_status = StatusUnset, au_decision = OutcomeAsk,
      au_class = ClassNoMatchingApproval,
      au_reason = ''the agent asked for permission without a preceding evaluation'', au_hard_rule = [],
      au_matched_approval_id = None, au_related_approval_ids = [], au_mismatch_report = [],
      au_imported_approval_id = None, au_adapter_action = None, au_adapter_context = [],
      au_prompt_shown = True,
      au_permission_suggestions = (case suggestions of None \<Rightarrow> [] | Some s \<Rightarrow> s),
      au_execution_status = None, au_execution_at = None, au_response_summary = [], au_engine_version = 0,
      au_dry_run = False, au_explanation = []\<rparr>"

text \<open>An error value keeps the repository's error, so that a caller can tell a missing row apart.\<close>

definition RecordPrompt ::
    "go_time \<Rightarrow> action_request \<Rightarrow> string list option \<Rightarrow> store \<Rightarrow> (storage_error + int) \<times> store" where
  "RecordPrompt now request suggestions st =
     (let create = Audit_Insert now (prompt_event now request suggestions) st in
      case FindRecentBySessionCommand st (rq_session_id request) (rq_raw_command request)
             (now - PromptCorrelationWindow) of
        Inl (ErrNotFound _) \<Rightarrow> create
      | Inl err \<Rightarrow> (Inl err, st)
      | Inr existing \<Rightarrow>
          (case UpdatePrompt (au_id existing) suggestions st of
             (Inl err, st') \<Rightarrow> (Inl err, st')
           | (Inr _, st') \<Rightarrow> (Inr (au_id existing), st')))"

record execution =
  ex_session_id :: string
  ex_tool_use_id :: string
  ex_status :: "execution_status option"
  ex_summary :: string
  ex_at :: go_time

definition RecordExecution ::
    "go_time \<Rightarrow> execution \<Rightarrow> store \<Rightarrow> (storage_error + audit_event option) \<times> store" where
  "RecordExecution now execution st =
     (case FindByToolUseID st (ex_session_id execution) (ex_tool_use_id execution) of
        Inl (ErrNotFound _) \<Rightarrow> (Inr None, st)
      | Inl err \<Rightarrow> (Inl err, st)
      | Inr event \<Rightarrow>
          (let at = stamp now (ex_at execution) in
           case UpdateExecution now (au_id event) (ex_status execution) at (ex_summary execution) st of
             (Inl err, st') \<Rightarrow> (Inl err, st')
           | (Inr _, st') \<Rightarrow>
               (Inr (Some (event\<lparr>au_execution_status := ex_status execution, au_execution_at := Some at,
                                 au_response_summary := ex_summary execution\<rparr>)), st')))"

definition RecordAdapterAction :: "int \<Rightarrow> adapter_action \<Rightarrow> store \<Rightarrow> (storage_error + unit) \<times> store" where
  "RecordAdapterAction eventID adapterAction st = SetAdapterAction eventID adapterAction st"

definition RecordImportedApproval :: "int \<Rightarrow> int \<Rightarrow> store \<Rightarrow> (storage_error + unit) \<times> store" where
  "RecordImportedApproval eventID approvalID st = SetImportedApproval eventID approvalID st"

section \<open>A row keeps what it says of the decision\<close>

text \<open>The columns that are written once: everything but the prompt, the delivery, the execution and the
  late import.\<close>

definition verdict :: "audit_event \<Rightarrow> audit_event" where
  "verdict e = e\<lparr>au_imported_approval_id := None, au_adapter_action := None, au_prompt_shown := False,
     au_permission_suggestions := [], au_execution_status := None, au_execution_at := None,
     au_response_summary := []\<rparr>"

definition audit_grows :: "store \<Rightarrow> store \<Rightarrow> bool" where
  "audit_grows st st' \<longleftrightarrow>
     st' = st\<lparr>st_audit := st_audit st'\<rparr> \<and> prefix (map verdict (st_audit st)) (map verdict (st_audit st'))"

lemma audit_grows_refl [simp]: "audit_grows st st"
  by (simp add: audit_grows_def)

lemma audit_grows_trans: "audit_grows a b \<Longrightarrow> audit_grows b c \<Longrightarrow> audit_grows a c"
  unfolding audit_grows_def by (metis prefix_order.trans store.surjective store.update_convs(6))

lemma Audit_Insert_grows: "Audit_Insert now e st = (r, st') \<Longrightarrow> audit_grows st st'"
  by (auto simp: Audit_Insert_def Let_def audit_grows_def split: if_splits)

lemma Audit_update_grows:
  assumes "\<And>e. verdict (f e) = verdict e" and "Audit_update i f st = (r, st')"
  shows "audit_grows st st'"
proof -
  have "(\<lambda>e. verdict (if au_id e = i then f e else e)) = verdict" by (simp add: assms(1) fun_eq_iff)
  then show ?thesis using assms(2)
    by (fastforce simp: Audit_update_def audit_grows_def comp_def split: if_splits)
qed

lemmas audit_update_defs =
  UpdatePrompt_def UpdateExecution_def SetImportedApproval_def SetAdapterAction_def
  RecordAdapterAction_def RecordImportedApproval_def

lemma audit_updates_grow:
  "UpdatePrompt i s st = (r, st') \<Longrightarrow> audit_grows st st'"
  "UpdateExecution now i x at y st = (r, st') \<Longrightarrow> audit_grows st st'"
  "RecordImportedApproval i a st = (r, st') \<Longrightarrow> audit_grows st st'"
  "RecordAdapterAction i b st = (r, st') \<Longrightarrow> audit_grows st st'"
  unfolding audit_update_defs by (erule Audit_update_grows [rotated], simp add: verdict_def)+

lemma RecordEvaluation_grows: "RecordEvaluation now ev st = (r, st') \<Longrightarrow> audit_grows st st'"
  by (auto simp: RecordEvaluation_def Audit_Insert_grows split: if_splits prod.splits sum.splits)

lemma RecordPrompt_grows: "RecordPrompt now rq s st = (r, st') \<Longrightarrow> audit_grows st st'"
  unfolding RecordPrompt_def Let_def
  by (auto dest: Audit_Insert_grows audit_updates_grow split: sum.splits storage_error.splits prod.splits)

lemma RecordExecution_grows: "RecordExecution now x st = (r, st') \<Longrightarrow> audit_grows st st'"
  unfolding RecordExecution_def Let_def
  by (auto dest: audit_updates_grow split: sum.splits storage_error.splits prod.splits)

section \<open>Summaries count the rows\<close>

definition row_count :: "(audit_event \<Rightarrow> bool) \<Rightarrow> audit_event list \<Rightarrow> int" where
  "row_count p es = int (length (filter p es))"

definition counted_summary :: "audit_event list \<Rightarrow> activity_summary" where
  "counted_summary es =
     \<lparr>as_total = int (length es),
      as_allowed = row_count (\<lambda>e. au_decision e = OutcomeAllow) es,
      as_allowed_by_approval =
        row_count (\<lambda>e. au_decision e = OutcomeAllow \<and> au_class e \<noteq> ClassPolicyReadonlyWorkspace) es,
      as_allowed_baseline =
        row_count (\<lambda>e. au_decision e = OutcomeAllow \<and> au_class e = ClassPolicyReadonlyWorkspace) es,
      as_asked = row_count (\<lambda>e. au_decision e = OutcomeAsk) es,
      as_blocked = row_count (\<lambda>e. au_decision e = OutcomeBlock) es,
      as_first_at = (if es = [] then None else Some (Min (au_at ` set es))),
      as_last_at = (if es = [] then None else Some (Max (au_at ` set es)))\<rparr>"

lemma extendRange_counts [simp]:
  "as_total (extendRange s a b) = as_total s" "as_allowed (extendRange s a b) = as_allowed s"
  "as_allowed_by_approval (extendRange s a b) = as_allowed_by_approval s"
  "as_allowed_baseline (extendRange s a b) = as_allowed_baseline s"
  "as_asked (extendRange s a b) = as_asked s" "as_blocked (extendRange s a b) = as_blocked s"
  by (simp_all add: extendRange_def Let_def split: option.splits)

lemma extendRange_range [simp]:
  "as_first_at (extendRange s a b) = Some (case as_first_at s of None \<Rightarrow> a | Some t \<Rightarrow> min t a)"
  "as_last_at (extendRange s a b) = Some (case as_last_at s of None \<Rightarrow> b | Some t \<Rightarrow> max t b)"
  by (auto simp: extendRange_def Let_def split: option.splits)

lemma add_group_range:
  "as_first_at (add_group s (d, c, n, a, b)) = Some (case as_first_at s of None \<Rightarrow> a | Some t \<Rightarrow> min t a)"
  "as_last_at (add_group s (d, c, n, a, b)) = Some (case as_last_at s of None \<Rightarrow> b | Some t \<Rightarrow> max t b)"
  by (cases d; simp add: Let_def)+

lemma add_group_counts:
  "as_total (add_group s (d, c, n, a, b)) = as_total s + int n"
  "as_allowed (add_group s (d, c, n, a, b)) = as_allowed s + (if d = OutcomeAllow then int n else 0)"
  "as_allowed_by_approval (add_group s (d, c, n, a, b)) =
     as_allowed_by_approval s + (if d = OutcomeAllow \<and> c \<noteq> ClassPolicyReadonlyWorkspace then int n else 0)"
  "as_allowed_baseline (add_group s (d, c, n, a, b)) =
     as_allowed_baseline s + (if d = OutcomeAllow \<and> c = ClassPolicyReadonlyWorkspace then int n else 0)"
  "as_asked (add_group s (d, c, n, a, b)) = as_asked s + (if d = OutcomeAsk then int n else 0)"
  "as_blocked (add_group s (d, c, n, a, b)) = as_blocked s + (if d = OutcomeBlock then int n else 0)"
  by (cases d; simp add: Let_def)+

lemma foldl_measure:
  assumes "\<And>s g. m (f s g) = m s + (w g :: int)"
  shows "m (foldl f s gs) = m s + (\<Sum>g \<leftarrow> gs. w g)"
  by (induction gs arbitrary: s) (simp_all add: assms)

lemma sum_list_single:
  "distinct ks \<Longrightarrow> (\<Sum>k \<leftarrow> ks. if q k \<and> x = k then 1 else 0) = (if q x \<and> x \<in> set ks then 1 else (0 :: int))"
  by (induction ks) auto

lemma sum_over_groups:
  assumes "distinct ks" and "key ` set es \<subseteq> set ks"
  shows "(\<Sum>k \<leftarrow> ks. if q k then int (length (filter (\<lambda>e. key e = k) es)) else 0) =
         int (length (filter (\<lambda>e. q (key e)) es))"
  using assms(2)
proof (induction es)
  case Nil
  then show ?case by (induction ks) auto
next
  case (Cons e es)
  have one: "(\<Sum>k \<leftarrow> ks. if q k \<and> key e = k then 1 else 0) = (if q (key e) then 1 else (0 :: int))"
    using sum_list_single [OF assms(1), of q "key e"] Cons.prems by simp
  have "(\<Sum>k \<leftarrow> ks. if q k then int (length (filter (\<lambda>e. key e = k) (e # es))) else 0) =
        (\<Sum>k \<leftarrow> ks. (if q k \<and> key e = k then 1 else 0) +
                   (if q k then int (length (filter (\<lambda>e. key e = k) es)) else 0))"
    by (intro arg_cong [where f = sum_list] map_cong refl) auto
  also have "\<dots> = (if q (key e) then 1 else 0) + int (length (filter (\<lambda>e. q (key e)) es))"
    using Cons one by (simp add: sum_list_addf)
  finally show ?case by simp
qed

abbreviation group_key :: "audit_event \<Rightarrow> decision_outcome \<times> decision_class" where
  "group_key e \<equiv> (au_decision e, au_class e)"

definition weigh :: "(decision_outcome \<times> decision_class \<Rightarrow> bool) \<Rightarrow>
    decision_outcome \<times> decision_class \<times> nat \<times> go_time \<times> go_time \<Rightarrow> int" where
  "weigh q g = (case g of (d, c, n, _, _) \<Rightarrow> if q (d, c) then int n else 0)"

lemma weigh_groups: "(\<Sum>g \<leftarrow> group_rows es. weigh q g) = row_count (\<lambda>e. q (group_key e)) es"
proof -
  have "(\<Sum>g \<leftarrow> group_rows es. weigh q g) =
    (\<Sum>k \<leftarrow> remdups (map group_key es). if q k then int (length (filter (\<lambda>e. group_key e = k) es)) else 0)"
    unfolding group_rows_def map_map
    by (intro arg_cong [where f = sum_list] map_cong refl) (auto simp: weigh_def Let_def)
  also have "\<dots> = row_count (\<lambda>e. q (group_key e)) es"
    unfolding row_count_def by (rule sum_over_groups) auto
  finally show ?thesis .
qed

lemma group_measure:
  assumes "\<And>s d c n a b. m (add_group s (d, c, n, a, b)) = m s + (if q (d, c) then int n else 0)"
    and "m zero_summary = (0 :: int)"
  shows "m (foldl add_group zero_summary (group_rows es)) = row_count (\<lambda>e. q (group_key e)) es"
  using foldl_measure [of m add_group "weigh q" zero_summary "group_rows es"] assms weigh_groups
  by (simp add: weigh_def split: prod.splits)

lemma foldl_first_at:
  "as_first_at (foldl add_group s gs) =
     (if gs = [] then as_first_at s
      else Some (Min ((\<lambda>(d, c, n, a, b). a) ` set gs \<union> set_option (as_first_at s))))"
proof (induction gs arbitrary: s)
  case Nil
  then show ?case by simp
next
  case (Cons g gs)
  obtain d c n a b where g: "g = (d, c, n, a, b)" by (cases g) auto
  show ?case
    using Cons [of "add_group s g"]
    by (cases "as_first_at s"; cases "gs = []")
       (simp_all add: g add_group_range min.commute min.left_commute del: add_group.simps)
qed

lemma foldl_last_at:
  "as_last_at (foldl add_group s gs) =
     (if gs = [] then as_last_at s
      else Some (Max ((\<lambda>(d, c, n, a, b). b) ` set gs \<union> set_option (as_last_at s))))"
proof (induction gs arbitrary: s)
  case Nil
  then show ?case by simp
next
  case (Cons g gs)
  obtain d c n a b where g: "g = (d, c, n, a, b)" by (cases g) auto
  show ?case
    using Cons [of "add_group s g"]
    by (cases "as_last_at s"; cases "gs = []")
       (simp_all add: g add_group_range max.commute max.left_commute del: add_group.simps)
qed

lemma group_rows_Nil [simp]: "group_rows es = [] \<longleftrightarrow> es = []"
  by (simp add: group_rows_def)

lemma group_times:
  "(\<lambda>(d, c, n, a, b). a) ` set (group_rows es) =
     (\<lambda>k. Min (au_at ` {e \<in> set es. group_key e = k})) ` group_key ` set es"
  "(\<lambda>(d, c, n, a, b). b) ` set (group_rows es) =
     (\<lambda>k. Max (au_at ` {e \<in> set es. group_key e = k})) ` group_key ` set es"
  by (auto simp: group_rows_def Let_def image_image image_iff Collect_conj_eq [symmetric] intro!: bexI)

lemma Min_of_groups:
  assumes "finite A" and "A \<noteq> {}"
  shows "Min ((\<lambda>k. Min (t ` {e \<in> A. key e = k})) ` key ` A) = Min (t ` A :: int set)"
proof (rule Min_eqI)
  show "finite ((\<lambda>k. Min (t ` {e \<in> A. key e = k})) ` key ` A)" using assms by simp
next
  fix y assume "y \<in> (\<lambda>k. Min (t ` {e \<in> A. key e = k})) ` key ` A"
  then obtain e where e: "e \<in> A" "y = Min (t ` {x \<in> A. key x = key e})" by auto
  have "y \<in> t ` {x \<in> A. key x = key e}" unfolding e(2) using e(1) assms(1) by (intro Min_in) auto
  then show "Min (t ` A) \<le> y" using assms(1) by auto
next
  have "Min (t ` A) \<in> t ` A" using assms by (intro Min_in) auto
  then obtain e where e: "e \<in> A" "t e = Min (t ` A)" by force
  have "Min (t ` {x \<in> A. key x = key e}) = Min (t ` A)"
  proof (rule Min_eqI)
    show "Min (t ` A) \<in> t ` {x \<in> A. key x = key e}" using e by force
  qed (use assms in auto)
  then show "Min (t ` A) \<in> (\<lambda>k. Min (t ` {e \<in> A. key e = k})) ` key ` A" using e(1) by force
qed

lemma Max_of_groups:
  assumes "finite A" and "A \<noteq> {}"
  shows "Max ((\<lambda>k. Max (t ` {e \<in> A. key e = k})) ` key ` A) = Max (t ` A :: int set)"
proof (rule Max_eqI)
  show "finite ((\<lambda>k. Max (t ` {e \<in> A. key e = k})) ` key ` A)" using assms by simp
next
  fix y assume "y \<in> (\<lambda>k. Max (t ` {e \<in> A. key e = k})) ` key ` A"
  then obtain e where e: "e \<in> A" "y = Max (t ` {x \<in> A. key x = key e})" by auto
  have "y \<in> t ` {x \<in> A. key x = key e}" unfolding e(2) using e(1) assms(1) by (intro Max_in) auto
  then show "y \<le> Max (t ` A)" using assms(1) by auto
next
  have "Max (t ` A) \<in> t ` A" using assms by (intro Max_in) auto
  then obtain e where e: "e \<in> A" "t e = Max (t ` A)" by force
  have "Max (t ` {x \<in> A. key x = key e}) = Max (t ` A)"
  proof (rule Max_eqI)
    show "Max (t ` A) \<in> t ` {x \<in> A. key x = key e}" using e by force
  qed (use assms in auto)
  then show "Max (t ` A) \<in> (\<lambda>k. Max (t ` {e \<in> A. key e = k})) ` key ` A" using e(1) by force
qed

lemma grouped_summary: "foldl add_group zero_summary (group_rows es) = counted_summary es"
proof (rule activity_summary.equality)
  let ?s = "foldl add_group zero_summary (group_rows es)"
  note m = group_measure [where es = es]
  show "as_total ?s = as_total (counted_summary es)"
    using m [of as_total "\<lambda>_. True"] by (simp add: counted_summary_def add_group_counts row_count_def zero_summary_def del: add_group.simps)
  show "as_allowed ?s = as_allowed (counted_summary es)"
    using m [of as_allowed "\<lambda>k. fst k = OutcomeAllow"]
    by (simp add: counted_summary_def add_group_counts zero_summary_def del: add_group.simps)
  show "as_allowed_by_approval ?s = as_allowed_by_approval (counted_summary es)"
    using m [of as_allowed_by_approval "\<lambda>k. fst k = OutcomeAllow \<and> snd k \<noteq> ClassPolicyReadonlyWorkspace"]
    by (simp add: counted_summary_def add_group_counts zero_summary_def del: add_group.simps)
  show "as_allowed_baseline ?s = as_allowed_baseline (counted_summary es)"
    using m [of as_allowed_baseline "\<lambda>k. fst k = OutcomeAllow \<and> snd k = ClassPolicyReadonlyWorkspace"]
    by (simp add: counted_summary_def add_group_counts zero_summary_def del: add_group.simps)
  show "as_asked ?s = as_asked (counted_summary es)"
    using m [of as_asked "\<lambda>k. fst k = OutcomeAsk"]
    by (simp add: counted_summary_def add_group_counts zero_summary_def del: add_group.simps)
  show "as_blocked ?s = as_blocked (counted_summary es)"
    using m [of as_blocked "\<lambda>k. fst k = OutcomeBlock"]
    by (simp add: counted_summary_def add_group_counts zero_summary_def del: add_group.simps)
  show "as_first_at ?s = as_first_at (counted_summary es)"
    using Min_of_groups [of "set es" au_at group_key]
    by (simp add: foldl_first_at group_times counted_summary_def zero_summary_def)
  show "as_last_at ?s = as_last_at (counted_summary es)"
    using Max_of_groups [of "set es" au_at group_key]
    by (simp add: foldl_last_at group_times counted_summary_def zero_summary_def)
qed simp

lemma Summarize_counts:
  "Summarize st f = (if DbSelectAudit \<in> set (st_failing st) then Inl (ErrDatabase DbSelectAudit)
                     else Inr (counted_summary (filter (selected f) (st_audit st))))"
  by (simp add: Summarize_def grouped_summary)

end
