(* ===== verification/Utf8_Cut.thy ===== *)
theory Utf8_Cut
  imports Intenter_Prelude
begin

text \<open>
  Cutting a string to a byte budget without splitting a rune: \<open>truncateUTF8\<close> of
  \<^verbatim>\<open>internal/adapter/claude/hookio.go\<close> and \<open>safeTruncate\<close> of \<^verbatim>\<open>internal/daemon/handlers_evaluate.go\<close>,
  which are the same loop, over \<open>utf8.RuneStart\<close> of Go's library.
\<close>

definition RuneStart :: "char \<Rightarrow> bool" where
  "RuneStart c = (\<not> (128 \<le> (of_char c :: nat) \<and> (of_char c :: nat) < 192))"

fun rune_cut :: "string \<Rightarrow> nat \<Rightarrow> nat" where
  "rune_cut s 0 = 0"
| "rune_cut s (Suc n) = (if RuneStart (s ! Suc n) then Suc n else rune_cut s n)"

definition truncateUTF8 :: "string \<Rightarrow> int \<Rightarrow> string" where
  "truncateUTF8 s limit = (if int (length s) \<le> limit then s else take (rune_cut s (nat limit)) s)"

definition safeTruncate :: "string \<Rightarrow> int \<Rightarrow> string" where
  "safeTruncate s limit = (if int (length s) \<le> limit then s else take (rune_cut s (nat limit)) s)"

text \<open>One encoded rune: a byte that starts it and the continuation bytes after it.\<close>

definition rune :: "string \<Rightarrow> bool" where
  "rune r \<longleftrightarrow> r \<noteq> [] \<and> RuneStart (hd r) \<and> (\<forall>c \<in> set (tl r). \<not> RuneStart c)"

lemma rune_cut_le: "rune_cut s n \<le> n"
  by (induction n) auto

lemma rune_cut_start: "0 < rune_cut s n \<Longrightarrow> RuneStart (s ! rune_cut s n)"
  by (induction n) auto

lemma rune_cut_between: "rune_cut s n < j \<Longrightarrow> j \<le> n \<Longrightarrow> \<not> RuneStart (s ! j)"
  by (induction n) (auto split: if_splits simp: le_Suc_eq)

lemma length_truncateUTF8: "0 \<le> limit \<Longrightarrow> int (length (truncateUTF8 s limit)) \<le> limit"
  using rune_cut_le [of s "nat limit"] by (auto simp: truncateUTF8_def min_def)

lemma safeTruncate_eq: "safeTruncate = truncateUTF8"
  by (simp add: fun_eq_iff safeTruncate_def truncateUTF8_def)

text \<open>In a sequence of runes, the positions at which a rune starts are the lengths of its prefixes.\<close>

lemma rune_start_boundary:
  "\<forall>r \<in> set runes. rune r \<Longrightarrow> i < length (concat runes) \<Longrightarrow> RuneStart (concat runes ! i) \<Longrightarrow>
   \<exists>k < length runes. i = length (concat (take k runes))"
proof (induction runes arbitrary: i)
  case Nil
  then show ?case by simp
next
  case (Cons r runes)
  show ?case
  proof (cases "i < length r")
    case True
    then have "i = 0"
      using Cons.prems by (cases i; cases r) (auto simp: rune_def nth_append)
    then show ?thesis by auto
  next
    case False
    then have "\<exists>k < length runes. i - length r = length (concat (take k runes))"
      using Cons by (intro Cons.IH) (auto simp: nth_append)
    then obtain k where "k < length runes" "i = length (concat (take (Suc k) (r # runes)))" using False by auto
    then show ?thesis by (intro exI [of _ "Suc k"]) simp
  qed
qed

lemma concat_take_le: "length (concat (take k rs)) \<le> length (concat rs)"
  by (metis append_take_drop_id concat_append le_add1 length_append)

lemma rune_boundary_starts:
  assumes "\<forall>r \<in> set runes. rune r" and "k < length runes"
  shows "RuneStart (concat runes ! length (concat (take k runes)))"
    and "length (concat (take k runes)) < length (concat (take (Suc k) runes))"
proof -
  have r: "rune (runes ! k)" using assms by simp
  have "concat runes = concat (take k runes) @ runes ! k @ concat (drop (Suc k) runes)"
    using assms(2) by (metis concat.simps(2) concat_append id_take_nth_drop)
  then show "RuneStart (concat runes ! length (concat (take k runes)))"
    using r by (auto simp: rune_def nth_append) (metis hd_conv_nth)
  show "length (concat (take k runes)) < length (concat (take (Suc k) runes))"
    using r assms(2) by (simp add: take_Suc_conv_app_nth rune_def)
qed

lemma truncateUTF8_runes:
  assumes runes: "\<forall>r \<in> set runes. rune r" and long: "limit < length (concat runes)"
  shows "\<exists>k < length runes. truncateUTF8 (concat runes) (int limit) = concat (take k runes) \<and>
     length (concat (take k runes)) \<le> limit \<and> limit < length (concat (take (Suc k) runes))"
proof -
  let ?s = "concat runes" and ?cut = "rune_cut (concat runes) limit"
  have ne: "runes \<noteq> []" using long by auto
  have le: "?cut \<le> limit" by (rule rune_cut_le)
  have "RuneStart (?s ! ?cut)"
  proof (cases "?cut = 0")
    case True
    then show ?thesis using rune_boundary_starts(1) [OF runes, of 0] ne by simp
  qed (simp add: rune_cut_start)
  then obtain k where k: "k < length runes" "?cut = length (concat (take k runes))"
    using rune_start_boundary [OF runes, of ?cut] le long by auto
  have "limit < length (concat (take (Suc k) runes))"
  proof (rule ccontr)
    assume "\<not> ?thesis"
    then have next': "length (concat (take (Suc k) runes)) \<le> limit" by simp
    then have "Suc k < length runes" using long k(1) by (metis Suc_lessI leD take_all order_refl)
    then show False
      using rune_boundary_starts [OF runes, of "Suc k"] rune_boundary_starts(2) [OF runes k(1)]
        rune_cut_between [of ?s limit "length (concat (take (Suc k) runes))"] next' k(2) by simp
  qed
  moreover have "truncateUTF8 ?s (int limit) = concat (take k runes)"
    using long k by (simp add: truncateUTF8_def)
      (metis append_eq_conv_conj append_take_drop_id concat_append)
  ultimately show ?thesis using k le by (intro exI [of _ k]) auto
qed

end
