(* ===== verification/Claude_Hook.thy ===== *)
theory Claude_Hook
  imports Claude_Rules Audit_Log Utf8_Cut
begin

text \<open>
  The hook process: reading an event (\<^verbatim>\<open>internal/adapter/claude/hookio.go\<close>), mapping a decision onto
  what the agent understands (\<^verbatim>\<open>mapping.go\<close>) and the handlers that ask the daemon (\<^verbatim>\<open>hook.go\<close>). The
  daemon is the record \<open>client\<close> of its calls over some state; a call that fails is \<open>Inl\<close>. JSON decoding
  of \<^verbatim>\<open>encoding/json\<close> and the hash of the marker file are arguments. Characters outside ASCII in the
  messages are written as their UTF-8 bytes.
\<close>

section \<open>Events\<close>

definition Agent :: string where
  "Agent = ''claude''"

abbreviation "EventPreToolUse \<equiv> ''PreToolUse''"
abbreviation "EventPermissionRequest \<equiv> ''PermissionRequest''"
abbreviation "EventPostToolUse \<equiv> ''PostToolUse''"
abbreviation "EventConfigChange \<equiv> ''ConfigChange''"
abbreviation "EventSessionEnd \<equiv> ''SessionEnd''"
abbreviation "ModeBypassPermissions \<equiv> ''bypassPermissions''"
abbreviation "ToolBash \<equiv> ''Bash''"
abbreviation "ToolPowerShell \<equiv> ''PowerShell''"
abbreviation "EnvProjectDir \<equiv> ''CLAUDE_PROJECT_DIR''"
abbreviation "EnvSelfTest \<equiv> ''INTENTER_SELFTEST''"

definition MaxResponseSummaryBytes :: int where
  "MaxResponseSummaryBytes = 1024"

definition MaxHookInputBytes :: int where
  "MaxHookInputBytes = 4 * 2 ^ 20"

record event =
  he_hook_event_name :: string
  he_session_id :: string
  he_cwd :: string
  he_permission_mode :: string
  he_tool_name :: string
  he_tool_use_id :: string
  he_command :: string
  he_tool_response :: string
  he_permission_suggestions :: "string list option"
  he_source :: string
  he_file_path :: string
  he_session_end_reason :: string

definition DecodeEvent :: "(string \<Rightarrow> event option) \<Rightarrow> string \<Rightarrow> string + event" where
  "DecodeEvent unmarshal raw =
     (if MaxHookInputBytes < int (length raw) then Inl (''claude: hook input exceeds '' @ Itoa MaxHookInputBytes @ '' bytes'')
      else if TrimSpace raw = [] then Inl ''claude: empty hook input''
      else case unmarshal raw of
             None \<Rightarrow> Inl ''claude: parse hook input''
           | Some event \<Rightarrow> Inr event)"

definition gatedTool :: "event \<Rightarrow> bool" where
  "gatedTool e = (he_tool_name e = ToolBash \<or> he_tool_name e = ToolPowerShell)"

definition Gated :: "event \<Rightarrow> bool" where
  "Gated e =
     (if he_hook_event_name e = EventConfigChange then True
      else if he_hook_event_name e = EventSessionEnd then he_session_id e \<noteq> []
      else if he_hook_event_name e \<notin> {EventPreToolUse, EventPermissionRequest, EventPostToolUse} then False
      else if \<not> gatedTool e then False
      else he_command e \<noteq> [] \<or> he_hook_event_name e = EventPostToolUse)"

definition Dialect :: "event \<Rightarrow> dialect" where
  "Dialect e = (if he_tool_name e = ToolPowerShell then DialectPowerShell else DialectPosix)"

definition Bypassing :: "event \<Rightarrow> bool" where
  "Bypassing e = (he_permission_mode e = ModeBypassPermissions)"

definition toolUseIDForRequest :: "event \<Rightarrow> string" where
  "toolUseIDForRequest e = (if he_hook_event_name e = EventPermissionRequest then [] else he_tool_use_id e)"

definition ActionRequest :: "event \<Rightarrow> string \<Rightarrow> agent_consent option \<Rightarrow> go_time \<Rightarrow> action_request" where
  "ActionRequest e projectHint consent now =
     (let truncated = MaxRawCommandBytes < int (length (he_command e));
          command = (if truncated then truncateUTF8 (he_command e) MaxRawCommandBytes else he_command e)
      in \<lparr>rq_agent = Agent, rq_agent_version = [], rq_session_id = he_session_id e,
          rq_tool_use_id = toolUseIDForRequest e, rq_tool = he_tool_name e, rq_dialect = Dialect e,
          rq_raw_command = command, rq_raw_command_truncated = truncated, rq_cwd = he_cwd e,
          rq_project_hint = projectHint, rq_agent_consent = consent,
          rq_adapter_context = [(''hook_event'', he_hook_event_name e), (''permission_mode'', he_permission_mode e)],
          rq_received_at = now\<rparr>)"

text \<open>The fields of a tool response that are read; a field that is missing is \<open>None\<close>.\<close>

record tool_status =
  tr_interrupted :: "bool option"
  tr_is_error :: "bool option"
  tr_success :: "bool option"
  tr_stderr :: "string option"

definition ExecutionStatus :: "(string \<Rightarrow> tool_status option) \<Rightarrow> event \<Rightarrow> execution_status" where
  "ExecutionStatus unmarshal e =
     (if he_tool_response e = [] then ExecutionUnknown
      else case unmarshal (he_tool_response e) of
             None \<Rightarrow> ExecutionUnknown
           | Some r \<Rightarrow>
               if tr_interrupted r = Some True then ExecutionFailed
               else if tr_is_error r = Some True then ExecutionFailed
               else case tr_success r of
                      Some ok \<Rightarrow> if ok then ExecutionCompleted else ExecutionFailed
                    | None \<Rightarrow>
                        if tr_interrupted r \<noteq> None \<or> tr_is_error r \<noteq> None \<or> tr_stderr r \<noteq> None
                        then ExecutionCompleted else ExecutionUnknown)"

definition ResponseSummary :: "(string \<Rightarrow> (string \<times> string) option) \<Rightarrow> event \<Rightarrow> string" where
  "ResponseSummary unmarshal e =
     (if he_tool_response e = [] then []
      else
        let decoded =
              (case unmarshal (he_tool_response e) of
                 None \<Rightarrow> []
               | Some (stdout, stderr) \<Rightarrow> TrimSpace (TrimSpace stdout @ [CHR 0x0A] @ TrimSpace stderr));
            content = (if decoded = [] then he_tool_response e else decoded)
        in truncateUTF8 (TrimSpace content) MaxResponseSummaryBytes)"

definition ProjectHint :: "(string \<Rightarrow> string) option \<Rightarrow> string" where
  "ProjectHint lookup = (case lookup of None \<Rightarrow> [] | Some f \<Rightarrow> TrimSpace (f EnvProjectDir))"

section \<open>What is written to the agent\<close>

datatype permission_decision = PermissionDecision (pd_behavior: string) (pd_message: string) (pd_interrupt: bool)

datatype hook_output =
    PreToolUseOutput (po_decision: string) (po_reason: string)
  | PermissionRequestOutput (ro_decision: "permission_decision option")

record response =
  rs_system_message :: string
  rs_output :: "hook_output option"

abbreviation "decisionAllow \<equiv> ''allow''"
abbreviation "decisionDeny \<equiv> ''deny''"
abbreviation "decisionAsk \<equiv> ''ask''"

definition forcedAskClasses :: "decision_class list" where
  "forcedAskClasses = [ClassApprovalMismatch, ClassPolicyRequiresConfirmation]"

definition announcedAllowClasses :: "decision_class list" where
  "announcedAllowClasses = [ClassApprovalMatch, ClassRuleImport]"

definition em_dash :: string where
  "em_dash = [CHR 0xE2, CHR 0x80, CHR 0x94]"

definition check_mark :: string where
  "check_mark = [CHR 0xE2, CHR 0x9C, CHR 0x93]"

definition middle_dot :: string where
  "middle_dot = [CHR 0xC2, CHR 0xB7]"

definition prefixed :: "evaluation_result \<Rightarrow> bool \<Rightarrow> string" where
  "prefixed r blocked =
     (let label0 = (if blocked then ''Intenter BLOCK'' else ''Intenter'');
          label = (case er_audit_event_id r of None \<Rightarrow> label0 | Some i \<Rightarrow> label0 @ '' [event '' @ Itoa i @ '']'');
          reason0 = TrimSpace (er_reason r);
          reason = (if reason0 = [] then ''no reason was recorded'' else reason0)
      in label @ '': '' @ reason)"

definition approveHint :: "evaluation_result \<Rightarrow> string" where
  "approveHint r =
     (case er_audit_event_id r of
        None \<Rightarrow> [] | Some i \<Rightarrow> ''. To approve permanently: intenter approve '' @ Itoa i)"

definition eventLabel :: "evaluation_result \<Rightarrow> string" where
  "eventLabel r =
     (case er_audit_event_id r of None \<Rightarrow> ''Intenter'' | Some i \<Rightarrow> ''Intenter [event '' @ Itoa i @ '']'')"

definition resolutionSummary :: "evaluation_result \<Rightarrow> string" where
  "resolutionSummary r =
     (case find (\<lambda>line. line \<noteq> []) (map TrimSpace (er_explanation r)) of
        Some line \<Rightarrow> line
      | None \<Rightarrow>
          if TrimSpace (er_reason r) \<noteq> [] then TrimSpace (er_reason r)
          else ''this command has no recorded summary'')"

definition noApprovalMessage :: "evaluation_result \<Rightarrow> string" where
  "noApprovalMessage r =
     eventLabel r @ '': '' @ resolutionSummary r @
     [CHR 0x0A] @ ''  no approval yet '' @ em_dash @ '' Claude will ask.'' @
     [CHR 0x0A] @ ''  '' @ [CHR 0x22] @ ''Yes, and don'' @ [CHR 0x27] @ ''t ask again'' @ [CHR 0x22] @
     '' lets Intenter approve what the command does, not the text you typed.'' @
     (case er_audit_event_id r of
        None \<Rightarrow> [] | Some i \<Rightarrow> [CHR 0x0A] @ ''  Or approve it later: intenter approve '' @ Itoa i)"

definition allowMessage :: "evaluation_result \<Rightarrow> string" where
  "allowMessage r =
     (if er_class r \<notin> set announcedAllowClasses then []
      else
        let message = eventLabel r @ '' '' @ check_mark @ '' allowed: '' @ resolutionSummary r in
        case er_approval_id r of
          None \<Rightarrow> message
        | Some i \<Rightarrow>
            let origin = (if er_class r = ClassRuleImport
                          then '', imported from Claude'' @ [CHR 0x27] @ ''s '' @ [CHR 0x22] @ ''don'' @ [CHR 0x27] @
                               ''t ask again'' @ [CHR 0x22]
                          else [])
            in message @ [CHR 0x0A] @ ''  approval '' @ Itoa i @ origin @ '' '' @ middle_dot @
               '' intenter approval show '' @ Itoa i)"

definition MapPreToolUse :: "evaluation_result \<Rightarrow> bool \<Rightarrow> response option \<times> adapter_action" where
  "MapPreToolUse r bypassing =
     (case er_decision r of
        OutcomeAllow \<Rightarrow>
          (Some \<lparr>rs_system_message = allowMessage r,
                 rs_output = Some (PreToolUseOutput decisionAllow (prefixed r False))\<rparr>, AdapterAllow)
      | OutcomeBlock \<Rightarrow>
          (Some \<lparr>rs_system_message = prefixed r True,
                 rs_output = Some (PreToolUseOutput decisionDeny (prefixed r True))\<rparr>, AdapterDeny)
      | OutcomeAsk \<Rightarrow>
          if bypassing then (None, AdapterDefer)
          else if er_class r \<in> set forcedAskClasses then
            (Some \<lparr>rs_system_message = [],
                   rs_output = Some (PreToolUseOutput decisionAsk (prefixed r False @ approveHint r))\<rparr>,
             AdapterPrompt)
          else if er_class r = ClassNoMatchingApproval then
            (Some \<lparr>rs_system_message = noApprovalMessage r, rs_output = None\<rparr>, AdapterDefer)
          else (None, AdapterDefer))"

definition MapPermissionRequest :: "evaluation_result \<Rightarrow> response option \<times> adapter_action" where
  "MapPermissionRequest r =
     (case er_decision r of
        OutcomeAllow \<Rightarrow>
          (Some \<lparr>rs_system_message = [],
                 rs_output = Some (PermissionRequestOutput (Some (PermissionDecision decisionAllow [] False)))\<rparr>,
           AdapterAllow)
      | OutcomeBlock \<Rightarrow>
          (Some \<lparr>rs_system_message = [],
                 rs_output = Some (PermissionRequestOutput
                   (Some (PermissionDecision decisionDeny (prefixed r True) False)))\<rparr>,
           AdapterDeny)
      | OutcomeAsk \<Rightarrow> (None, AdapterPrompt))"

definition DaemonUnavailableResponse :: response where
  "DaemonUnavailableResponse =
     \<lparr>rs_system_message = ''Intenter: daemon unavailable '' @ em_dash @
        '' native permissions in effect (intenter daemon status)'', rs_output = None\<rparr>"

definition plural :: "int \<Rightarrow> string \<Rightarrow> string" where
  "plural n noun = (if n = 1 then ''1 '' @ noun else Itoa n @ '' '' @ noun @ ''s'')"

definition SessionSummaryMessage :: "activity_summary \<Rightarrow> string" where
  "SessionSummaryMessage s =
     (if Summary_Empty s then []
      else
        ''Intenter this session: '' @ plural (as_total s) ''command'' @ '' checked '' @ em_dash @ '' '' @
        Itoa (as_allowed s) @ '' allowed'' @
        (if 0 < as_asked s then '', '' @ Itoa (as_asked s) @ '' asked'' else []) @
        (if 0 < as_blocked s then '', '' @ Itoa (as_blocked s) @ '' blocked'' else []) @ ''.'' @
        (if 0 < PromptsAvoided s
         then [CHR 0x0A] @ ''  '' @ plural (PromptsAvoided s) ''command'' @
              '' allowed by approvals you gave once '' @ em_dash @ '' '' @
              plural (PromptsAvoided s) ''prompt'' @ '' you did not have to answer.''
         else []) @
        [CHR 0x0A] @ ''  intenter summary'')"

section \<open>The handlers\<close>

text \<open>
  The calls of the daemon, each returning an error or its result with the state it leaves; whether a
  daemon endpoint can be discovered at all; and the hook-side start of the daemon, when configured.
\<close>

record 'd client =
  cl_reachable :: bool
  cl_evaluate :: "bool \<Rightarrow> action_request \<Rightarrow> 'd \<Rightarrow> (string + evaluation_result) \<times> 'd"
  cl_record_prompt :: "string \<Rightarrow> string \<Rightarrow> string \<Rightarrow> string list option \<Rightarrow> 'd \<Rightarrow> (string + unit) \<times> 'd"
  cl_record_adapter_action :: "int \<Rightarrow> string \<Rightarrow> 'd \<Rightarrow> (string + unit) \<times> 'd"
  cl_report_execution ::
    "string \<Rightarrow> string \<Rightarrow> execution_status \<Rightarrow> string \<Rightarrow> agent_consent option \<Rightarrow> 'd \<Rightarrow> (string + unit) \<times> 'd"
  cl_config_changed :: "'d \<Rightarrow> (string + unit) \<times> 'd"
  cl_summarize :: "string \<Rightarrow> 'd \<Rightarrow> (string + activity_summary) \<times> 'd"
  cl_lazy_start :: "('d \<Rightarrow> bool \<times> 'd) option"

definition DaemonWarningInterval :: go_time where
  "DaemonWarningInterval = 60 * 60 * 10 ^ 9"

text \<open>The state of a host with hooks: the daemon's state, the settings reader and the marker files in
  the runtime directory with their modification times.\<close>

record 'd host =
  ho_daemon :: 'd
  ho_settings :: settings_reader
  ho_markers :: "string \<rightharpoonup> go_time"

record 'd hook_env =
  hx_client :: "'d client"
  hx_world :: settings_world
  hx_lookup :: "(string \<Rightarrow> string) option"
  hx_now :: go_time
  hx_runtime_dir :: string
  hx_hash :: "string \<Rightarrow> string"
  hx_marker_writable :: bool
  hx_status :: "string \<Rightarrow> tool_status option"
  hx_outputs :: "string \<Rightarrow> (string \<times> string) option"

definition Lookup :: "'d hook_env \<Rightarrow> string \<Rightarrow> string" where
  "Lookup x name = (case hx_lookup x of None \<Rightarrow> [] | Some f \<Rightarrow> f name)"

definition hook_consent :: "'d hook_env \<Rightarrow> event \<Rightarrow> 'd host \<Rightarrow> agent_consent option \<times> 'd host" where
  "hook_consent x e h =
     (if he_command e = [] then (None, h)
      else
        let projectDir = (if ProjectHint (hx_lookup x) = [] then he_cwd e else ProjectHint (hx_lookup x));
            (files, reader) = Discover (hx_world x) projectDir (ho_settings h)
        in (Consent (he_tool_name e) (he_command e) files, h\<lparr>ho_settings := reader\<rparr>))"

definition callEvaluate :: "'d hook_env \<Rightarrow> action_request \<Rightarrow> bool \<Rightarrow> 'd host \<Rightarrow> (string + evaluation_result) \<times> 'd host" where
  "callEvaluate x request dryRun h =
     (if \<not> cl_reachable (hx_client x) then (Inl ''claude: no daemon endpoint could be discovered'', h)
      else case cl_evaluate (hx_client x) dryRun request (ho_daemon h) of
             (r, d) \<Rightarrow> (r, h\<lparr>ho_daemon := d\<rparr>))"

definition hook_evaluate :: "'d hook_env \<Rightarrow> event \<Rightarrow> 'd host \<Rightarrow> (string + evaluation_result) \<times> 'd host" where
  "hook_evaluate x e h =
     (let (consent, h1) = hook_consent x e h;
          request = ActionRequest e (ProjectHint (hx_lookup x)) consent (hx_now x);
          dryRun = (TrimSpace (Lookup x EnvSelfTest) = ''1'')
      in case callEvaluate x request dryRun h1 of
           (Inr result, h2) \<Rightarrow> (Inr result, h2)
         | (Inl err, h2) \<Rightarrow>
             (case cl_lazy_start (hx_client x) of
                None \<Rightarrow> (Inl err, h2)
              | Some start \<Rightarrow>
                  (case start (ho_daemon h2) of
                     (started, d) \<Rightarrow>
                       if \<not> started then (Inl err, h2\<lparr>ho_daemon := d\<rparr>)
                       else callEvaluate x request dryRun (h2\<lparr>ho_daemon := d\<rparr>))))"

definition warningMarkerPath :: "'d hook_env \<Rightarrow> string \<Rightarrow> string" where
  "warningMarkerPath x sessionID =
     (if hx_runtime_dir x = [] then []
      else filepath_Join [hx_runtime_dir x, ''warned-'' @ hx_hash x sessionID @ ''.json''])"

definition shouldWarn :: "'d hook_env \<Rightarrow> string \<Rightarrow> 'd host \<Rightarrow> bool \<times> 'd host" where
  "shouldWarn x sessionID h =
     (let path = warningMarkerPath x sessionID in
      if path = [] then (True, h)
      else if (case ho_markers h path of None \<Rightarrow> False | Some modTime \<Rightarrow> hx_now x - modTime < DaemonWarningInterval)
        then (False, h)
      else if \<not> hx_marker_writable x then (True, h)
      else (True, h\<lparr>ho_markers := (ho_markers h)(path \<mapsto> hx_now x)\<rparr>))"

definition daemonUnavailable :: "'d hook_env \<Rightarrow> event \<Rightarrow> 'd host \<Rightarrow> response option \<times> 'd host" where
  "daemonUnavailable x e h =
     (case shouldWarn x (he_session_id e) h of
        (warn, h') \<Rightarrow> (if warn then Some DaemonUnavailableResponse else None, h'))"

text \<open>The work that runs after the response has been written: it can change the daemon's state only.\<close>

definition adapterActionReporter :: "'d hook_env \<Rightarrow> evaluation_result \<Rightarrow> adapter_action \<Rightarrow> 'd host \<Rightarrow> 'd host" where
  "adapterActionReporter x result adapterAction h =
     (case er_audit_event_id result of
        None \<Rightarrow> h
      | Some eventID \<Rightarrow>
          if \<not> cl_reachable (hx_client x) then h
          else h\<lparr>ho_daemon := snd (cl_record_adapter_action (hx_client x) eventID
                   (adapter_action_str adapterAction) (ho_daemon h))\<rparr>)"

definition handlePreToolUse :: "'d hook_env \<Rightarrow> event \<Rightarrow> 'd host \<Rightarrow> response option \<times> 'd host" where
  "handlePreToolUse x e h =
     (case hook_evaluate x e h of
        (Inl err, h1) \<Rightarrow> daemonUnavailable x e h1
      | (Inr result, h1) \<Rightarrow>
          (case MapPreToolUse result (Bypassing e) of
             (response, adapterAction) \<Rightarrow> (response, adapterActionReporter x result adapterAction h1)))"

definition handlePermissionRequest :: "'d hook_env \<Rightarrow> event \<Rightarrow> 'd host \<Rightarrow> response option \<times> 'd host" where
  "handlePermissionRequest x e h =
     (case hook_evaluate x e h of
        (Inl err, h1) \<Rightarrow> (None, h1)
      | (Inr result, h1) \<Rightarrow>
          (let h2 = (if \<not> cl_reachable (hx_client x) then h1
                     else h1\<lparr>ho_daemon := snd (cl_record_prompt (hx_client x) (he_session_id e)
                            (he_tool_name e) (he_command e) (he_permission_suggestions e) (ho_daemon h1))\<rparr>)
           in case MapPermissionRequest result of
                (response, adapterAction) \<Rightarrow> (response, adapterActionReporter x result adapterAction h2)))"

definition handlePostToolUse :: "'d hook_env \<Rightarrow> event \<Rightarrow> 'd host \<Rightarrow> 'd host" where
  "handlePostToolUse x e h =
     (if \<not> cl_reachable (hx_client x) then h
      else
        let (consent, h1) = hook_consent x e h in
        h1\<lparr>ho_daemon := snd (cl_report_execution (hx_client x) (he_session_id e) (he_tool_use_id e)
             (ExecutionStatus (hx_status x) e) (ResponseSummary (hx_outputs x) e) consent (ho_daemon h1))\<rparr>)"

definition handleSessionEnd :: "'d hook_env \<Rightarrow> event \<Rightarrow> 'd host \<Rightarrow> response option \<times> 'd host" where
  "handleSessionEnd x e h =
     (if \<not> cl_reachable (hx_client x) then (None, h)
      else case cl_summarize (hx_client x) (he_session_id e) (ho_daemon h) of
             (Inl err, d) \<Rightarrow> (None, h\<lparr>ho_daemon := d\<rparr>)
           | (Inr summary, d) \<Rightarrow>
               (if SessionSummaryMessage summary = [] then None
                else Some \<lparr>rs_system_message = SessionSummaryMessage summary, rs_output = None\<rparr>,
                h\<lparr>ho_daemon := d\<rparr>))"

definition handleConfigChange :: "'d hook_env \<Rightarrow> event \<Rightarrow> 'd host \<Rightarrow> 'd host" where
  "handleConfigChange x e h =
     (if \<not> cl_reachable (hx_client x) then h
      else h\<lparr>ho_daemon := snd (cl_config_changed (hx_client x) (ho_daemon h))\<rparr>)"

definition hook_handle :: "'d hook_env \<Rightarrow> event \<Rightarrow> 'd host \<Rightarrow> response option \<times> 'd host" where
  "hook_handle x e h =
     (if he_hook_event_name e = EventPreToolUse then handlePreToolUse x e h
      else if he_hook_event_name e = EventPermissionRequest then handlePermissionRequest x e h
      else if he_hook_event_name e = EventPostToolUse then (None, handlePostToolUse x e h)
      else if he_hook_event_name e = EventConfigChange then (None, handleConfigChange x e h)
      else if he_hook_event_name e = EventSessionEnd then handleSessionEnd x e h
      else (None, h))"

text \<open>One invocation: what is written to the agent, if anything, and the host afterwards.\<close>

definition hook_Run :: "'d hook_env \<Rightarrow> (string \<Rightarrow> event option) \<Rightarrow> string \<Rightarrow> 'd host \<Rightarrow> response option \<times> 'd host" where
  "hook_Run x unmarshal stdin h =
     (case DecodeEvent unmarshal stdin of
        Inl err \<Rightarrow> (None, h)
      | Inr event \<Rightarrow> if \<not> Gated event then (None, h) else hook_handle x event h)"

section \<open>What the agent is told\<close>

definition tells :: "response option \<Rightarrow> string option" where
  "tells r =
     (case r of
        None \<Rightarrow> None
      | Some r' \<Rightarrow>
          (case rs_output r' of
             None \<Rightarrow> None
           | Some (PreToolUseOutput d _) \<Rightarrow> Some d
           | Some (PermissionRequestOutput p) \<Rightarrow> map_option pd_behavior p))"

lemma MapPreToolUse_tells:
  "tells (fst (MapPreToolUse r bypassing)) =
     (case er_decision r of
        OutcomeAllow \<Rightarrow> Some decisionAllow
      | OutcomeBlock \<Rightarrow> Some decisionDeny
      | OutcomeAsk \<Rightarrow>
          if \<not> bypassing \<and> er_class r \<in> {ClassApprovalMismatch, ClassPolicyRequiresConfirmation}
          then Some decisionAsk else None)"
  by (simp add: MapPreToolUse_def tells_def forcedAskClasses_def split: decision_outcome.splits)

lemma MapPermissionRequest_tells:
  "tells (fst (MapPermissionRequest r)) =
     (case er_decision r of
        OutcomeAllow \<Rightarrow> Some decisionAllow | OutcomeBlock \<Rightarrow> Some decisionDeny | OutcomeAsk \<Rightarrow> None)"
  by (simp add: MapPermissionRequest_def tells_def split: decision_outcome.splits)

lemma MapPreToolUse_action:
  "snd (MapPreToolUse r bypassing) =
     (case tells (fst (MapPreToolUse r bypassing)) of
        None \<Rightarrow> AdapterDefer
      | Some d \<Rightarrow> if d = decisionAllow then AdapterAllow else if d = decisionDeny then AdapterDeny
                 else AdapterPrompt)"
  by (simp add: MapPreToolUse_def tells_def split: decision_outcome.splits)

lemma daemonUnavailable_tells: "tells (fst (daemonUnavailable x e h)) = None"
  by (simp add: daemonUnavailable_def DaemonUnavailableResponse_def tells_def split: prod.splits)

text \<open>Whatever the hook tells the agent is the mapping of an answer of the daemon to this event's command.\<close>

definition daemon_answered :: "'d hook_env \<Rightarrow> event \<Rightarrow> evaluation_result \<Rightarrow> bool" where
  "daemon_answered x e result \<longleftrightarrow>
     (\<exists>dryRun consent d d'. cl_reachable (hx_client x) \<and>
        cl_evaluate (hx_client x) dryRun
          (ActionRequest e (ProjectHint (hx_lookup x)) consent (hx_now x)) d = (Inr result, d'))"

lemma hook_evaluate_answered:
  assumes "hook_evaluate x e h = (Inr result, h')"
  shows "daemon_answered x e result"
  using assms
  by (auto simp: hook_evaluate_def callEvaluate_def Let_def daemon_answered_def
      split: prod.splits sum.splits option.splits if_splits)

lemma hook_Run_answered:
  assumes "hook_Run x unmarshal stdin h = (r, h')" and "tells r = Some told"
  shows "\<exists>e result. unmarshal stdin = Some e \<and> Gated e \<and> daemon_answered x e result \<and>
     (he_hook_event_name e = EventPreToolUse \<and> told = the (tells (fst (MapPreToolUse result (Bypassing e)))) \<and>
        tells (fst (MapPreToolUse result (Bypassing e))) \<noteq> None \<or>
      he_hook_event_name e = EventPermissionRequest \<and> told = the (tells (fst (MapPermissionRequest result))) \<and>
        tells (fst (MapPermissionRequest result)) \<noteq> None)"
proof -
  obtain e where e: "unmarshal stdin = Some e" "Gated e" "hook_handle x e h = (r, h')"
    using assms by (auto simp: hook_Run_def DecodeEvent_def tells_def split: if_splits option.splits sum.splits)
  have "he_hook_event_name e = EventPreToolUse \<and> handlePreToolUse x e h = (r, h') \<or>
    he_hook_event_name e = EventPermissionRequest \<and> handlePermissionRequest x e h = (r, h')"
    using e(3) assms(2)
    by (auto simp: hook_handle_def handleSessionEnd_def tells_def split: if_splits sum.splits prod.splits)
  then show ?thesis
  proof
    assume pre: "he_hook_event_name e = EventPreToolUse \<and> handlePreToolUse x e h = (r, h')"
    obtain y h1 where ev: "hook_evaluate x e h = (y, h1)" by fastforce
    show ?thesis
    proof (cases y)
      case (Inl err)
      then have "tells r = None" using pre ev daemonUnavailable_tells [of x e h1] by (simp add: handlePreToolUse_def)
      then show ?thesis using assms(2) by simp
    next
      case (Inr result)
      then have "r = fst (MapPreToolUse result (Bypassing e))"
        using pre ev by (auto simp: handlePreToolUse_def split: prod.splits)
      then show ?thesis using e pre assms(2) hook_evaluate_answered ev Inr by (intro exI [of _ e] exI [of _ result]) auto
    qed
  next
    assume req: "he_hook_event_name e = EventPermissionRequest \<and> handlePermissionRequest x e h = (r, h')"
    obtain y h1 where ev: "hook_evaluate x e h = (y, h1)" by fastforce
    show ?thesis
    proof (cases y)
      case (Inl err)
      then show ?thesis using req ev assms(2) by (simp add: handlePermissionRequest_def tells_def)
    next
      case (Inr result)
      then have "r = fst (MapPermissionRequest result)"
        using req ev by (auto simp: handlePermissionRequest_def Let_def split: prod.splits)
      then show ?thesis using e req assms(2) hook_evaluate_answered ev Inr by (intro exI [of _ e] exI [of _ result]) auto
    qed
  qed
qed

text \<open>An answer the agent acts on names its decision.\<close>

lemma hook_Run_tells:
  assumes "hook_Run x unmarshal stdin h = (r, h')" and "tells r = Some told"
  shows "\<exists>e result. unmarshal stdin = Some e \<and> daemon_answered x e result \<and>
     (told = decisionAllow \<longleftrightarrow> er_decision result = OutcomeAllow) \<and>
     (told = decisionDeny \<longleftrightarrow> er_decision result = OutcomeBlock) \<and>
     (told = decisionAsk \<longleftrightarrow> er_decision result = OutcomeAsk)"
  using hook_Run_answered [OF assms]
  by (elim exE conjE disjE)
     (fastforce simp: MapPreToolUse_tells MapPermissionRequest_tells split: decision_outcome.splits if_splits)+

text \<open>At most one notice per session and hour.\<close>

lemma shouldWarn_once:
  assumes "shouldWarn x s h = (True, h1)" and "hx_marker_writable x" and "hx_runtime_dir x \<noteq> []"
    and "hx_runtime_dir x' = hx_runtime_dir x" and "hx_hash x' = hx_hash x"
    and "hx_now x' < hx_now x + DaemonWarningInterval" and "warningMarkerPath x s \<noteq> []"
  shows "shouldWarn x' s h1 = (False, h1)"
  using assms by (auto simp: shouldWarn_def Let_def warningMarkerPath_def split: if_splits option.splits)

end
