(* ===== verification/Daemon_Handlers.thy ===== *)
theory Daemon_Handlers
  imports Approval_Create Audit_Log Utf8_Cut
begin

text \<open>
  The request handlers of \<^verbatim>\<open>internal/daemon\<close>: evaluation with its result cache
  (\<^verbatim>\<open>handlers_evaluate.go\<close>), the reports of the agent (\<^verbatim>\<open>handlers_reports.go\<close>), approvals
  (\<^verbatim>\<open>handlers_approvals.go\<close>) and history (\<^verbatim>\<open>handlers_history.go\<close>). The state is the store and the
  cache; a handler is a function from its decoded parameters, the time and the state to an error or a
  result and the new state. Resolution of a command line and the construction of a context are fields
  of \<open>daemon_env\<close>, the pipeline over the store is \<open>buildPipeline\<close>.
\<close>

section \<open>The daemon\<close>

record cache_entry =
  ce_result :: evaluation_result
  ce_expires :: go_time

type_synonym result_cache = "string \<rightharpoonup> cache_entry"

record daemon =
  dm_store :: store
  dm_cache :: result_cache

record daemon_env =
  de_config :: config
  de_rules :: path_rules
  de_engine_version :: int
  de_resolve :: "action_request \<Rightarrow> resolved_action \<times> request_context option"
  de_build_context :: "string \<Rightarrow> request_context option"

definition buildPipeline :: "int \<Rightarrow> go_time \<Rightarrow> store engine" where
  "buildPipeline engineVersion now =
     NewEngine (Some (Match engineVersion now)) (Some (Import engineVersion now))
       (Some (Mismatches engineVersion)) engineVersion"

section \<open>The result cache\<close>

definition CacheTTL :: go_time where
  "CacheTTL = 60 * 10 ^ 9"

definition toolUseKey :: "action_request \<Rightarrow> string" where
  "toolUseKey request =
     (if rq_tool_use_id request = [] then [] else ''tool'' @ [CHR 0x00] @ rq_tool_use_id request)"

definition sessionCommandKey :: "action_request \<Rightarrow> string" where
  "sessionCommandKey request =
     (if rq_session_id request = [] \<or> rq_raw_command request = [] then []
      else ''session'' @ [CHR 0x00] @ rq_session_id request @ [CHR 0x00] @ rq_cwd request @ [CHR 0x00] @
           rq_raw_command request)"

definition cacheKeys :: "action_request \<Rightarrow> string list" where
  "cacheKeys request = filter (\<lambda>key. key \<noteq> []) [toolUseKey request, sessionCommandKey request]"

definition cache_get :: "go_time \<Rightarrow> action_request \<Rightarrow> result_cache \<Rightarrow> evaluation_result option \<times> result_cache" where
  "cache_get now request c =
     (let key = (if toolUseKey request = [] then sessionCommandKey request else toolUseKey request) in
      if key = [] then (None, c)
      else case c key of
             None \<Rightarrow> (None, c)
           | Some entry \<Rightarrow>
               if ce_expires entry < now then (None, c(key := None)) else (Some (ce_result entry), c))"

definition evictExpired :: "go_time \<Rightarrow> result_cache \<Rightarrow> result_cache" where
  "evictExpired now c =
     (\<lambda>key. case c key of None \<Rightarrow> None | Some entry \<Rightarrow> if ce_expires entry < now then None else Some entry)"

definition cache_put :: "go_time \<Rightarrow> action_request \<Rightarrow> evaluation_result \<Rightarrow> result_cache \<Rightarrow> result_cache" where
  "cache_put now request result c =
     foldl (\<lambda>m key. m(key \<mapsto> \<lparr>ce_result = result, ce_expires = now + CacheTTL\<rparr>))
       (evictExpired now c) (cacheKeys request)"

definition cache_reset :: "daemon \<Rightarrow> daemon" where
  "cache_reset d = d\<lparr>dm_cache := Map.empty\<rparr>"

section \<open>Evaluation\<close>

definition rememberProject :: "go_time \<Rightarrow> request_context option \<Rightarrow> store \<Rightarrow> store" where
  "rememberProject now ctx st =
     (case ctx of
        None \<Rightarrow> st
      | Some c \<Rightarrow>
          if cx_project_id c = [] \<or> cx_workspace_root c = [] then st
          else
            let remote = (case cx_git c of
                            None \<Rightarrow> []
                          | Some g \<Rightarrow> (case gi_remote_urls g ''origin'' of None \<Rightarrow> [] | Some url \<Rightarrow> url))
            in snd (Projects_Upsert now
                 \<lparr>pr_id = cx_project_id c, pr_root_path = cx_workspace_root c, pr_remote_url = remote,
                  pr_first_seen_at = 0, pr_last_seen_at = 0\<rparr> st))"

definition mark_truncated :: "action_request \<Rightarrow> resolved_action \<Rightarrow> resolved_action" where
  "mark_truncated request resolved =
     (if rq_raw_command_truncated request
      then MarkIncomplete resolved
        ''the command was longer than Intenter evaluates and was examined only in part''
      else resolved)"

definition request_input :: "daemon_env \<Rightarrow> action_request \<Rightarrow> policy_input" where
  "request_input env request =
     (let (resolved, ctx) = de_resolve env request in
      \<lparr>pi_action = Some (mark_truncated request resolved), pi_context = ctx, pi_config = de_config env,
       pi_rules = de_rules env, pi_agent = rq_agent request\<rparr>)"

definition unrecorded :: "decision \<Rightarrow> string \<Rightarrow> decision" where
  "unrecorded d err =
     \<lparr>d_outcome = OutcomeAsk, d_class = ClassEngineError,
      d_reason = ''the decision could not be recorded: '' @ err, d_approval_id = None, d_hard_rule = [],
      d_mismatch_reports = [], d_engine_version = d_engine_version d\<rparr>"

definition evaluation_answer ::
    "int option \<Rightarrow> decision \<Rightarrow> resolution_status \<Rightarrow> string list \<Rightarrow> evaluation_result" where
  "evaluation_answer eventID d status explanation =
     \<lparr>er_audit_event_id = eventID, er_decision = d_outcome d, er_class = d_class d, er_reason = d_reason d,
      er_approval_id = d_approval_id d, er_hard_rule = d_hard_rule d,
      er_mismatch_reports = d_mismatch_reports d, er_resolution_status = status,
      er_explanation = explanation, er_user_message = UserMessage d, er_imported_approval_id = None\<rparr>"

definition daemon_evaluate ::
    "daemon_env \<Rightarrow> go_time \<Rightarrow> action_request \<Rightarrow> bool \<Rightarrow> store \<Rightarrow> evaluation_result \<times> store" where
  "daemon_evaluate env now request dryRun st =
     (let inp = request_input env request;
          resolved = the (pi_action inp);
          st1 = (if dryRun then st else rememberProject now (pi_context inp) st);
          ((d, findings), st2) =
            EvaluateDetailed (buildPipeline (de_engine_version env) now) inp (rq_agent_consent request) st1;
          explanation = Explain inp d findings
      in case RecordEvaluation now
                \<lparr>ev_request = request, ev_context = pi_context inp, ev_resolved = Some resolved,
                 ev_decision = d, ev_explanation = explanation, ev_dry_run = dryRun\<rparr> st2 of
           (Inl err, st3) \<Rightarrow>
             (evaluation_answer None (unrecorded d err) (ra_status resolved)
                (explanation @
                 [''the audit event could not be written, so the decision was downgraded to ask'']), st3)
         | (Inr eventID, st3) \<Rightarrow>
             (evaluation_answer eventID d (ra_status resolved) explanation, st3))"

definition bounded_request :: "go_time \<Rightarrow> action_request \<Rightarrow> action_request" where
  "bounded_request now request =
     (let r1 = (if MaxRawCommandBytes < int (length (rq_raw_command request))
                then request\<lparr>rq_raw_command := safeTruncate (rq_raw_command request) MaxRawCommandBytes,
                             rq_raw_command_truncated := True\<rparr>
                else request)
      in if rq_received_at r1 = 0 then r1\<lparr>rq_received_at := now\<rparr> else r1)"

definition handleEvaluate ::
    "daemon_env \<Rightarrow> go_time \<Rightarrow> bool \<Rightarrow> action_request \<Rightarrow> daemon \<Rightarrow> evaluation_result \<times> daemon" where
  "handleEvaluate env now dryRun params_request d =
     (let request = bounded_request now params_request in
      if dryRun then
        (let (result, st) = daemon_evaluate env now request True (dm_store d) in (result, d\<lparr>dm_store := st\<rparr>))
      else case cache_get now request (dm_cache d) of
             (Some cached, c) \<Rightarrow> (cached, d\<lparr>dm_cache := c\<rparr>)
           | (None, c) \<Rightarrow>
               (let (result, st) = daemon_evaluate env now request False (dm_store d)
                in (result, \<lparr>dm_store = st, dm_cache = cache_put now request result c\<rparr>)))"

section \<open>Protocol errors\<close>

datatype ipc_code = CodeUnsupportedProtocol | CodeBadRequest | CodeNotFound | CodeInternal | CodeBusy

text \<open>What the server answers for a handler's error: its own code, or INTERNAL for any other error.\<close>

datatype ipc_error = IpcError (ie_code: ipc_code) (ie_message: string)

text \<open>The verb \<^verbatim>\<open>%q\<close> on a string without characters that need escaping.\<close>

definition quoted :: "string \<Rightarrow> string" where
  "quoted s = [CHR 0x22] @ s @ [CHR 0x22]"

definition storageError :: "storage_error \<Rightarrow> ipc_error" where
  "storageError err =
     (case err of
        ErrNotFound _ \<Rightarrow> IpcError CodeNotFound (storage_error_str err)
      | _ \<Rightarrow> IpcError CodeInternal (storage_error_str err))"

section \<open>Reports of the agent\<close>

definition zero_request :: action_request where
  "zero_request = \<lparr>rq_agent = [], rq_agent_version = [], rq_session_id = [], rq_tool_use_id = [], rq_tool = [],
     rq_dialect = DialectNone, rq_raw_command = [], rq_raw_command_truncated = False, rq_cwd = [],
     rq_project_hint = [], rq_agent_consent = None, rq_adapter_context = [], rq_received_at = 0\<rparr>"

record record_prompt_params =
  rp_agent :: string
  rp_session_id :: string
  rp_tool :: string
  rp_raw_command :: string
  rp_suggestions :: "string list option"

definition handleRecordPrompt ::
    "go_time \<Rightarrow> record_prompt_params \<Rightarrow> daemon \<Rightarrow> (ipc_error + int) \<times> daemon" where
  "handleRecordPrompt now params d =
     (case RecordPrompt now (zero_request\<lparr>rq_agent := rp_agent params, rq_session_id := rp_session_id params,
             rq_tool := rp_tool params, rq_raw_command := rp_raw_command params\<rparr>)
             (rp_suggestions params) (dm_store d) of
        (Inl err, st) \<Rightarrow> (Inl (storageError err), d\<lparr>dm_store := st\<rparr>)
      | (Inr i, st) \<Rightarrow> (Inr i, d\<lparr>dm_store := st\<rparr>))"

definition handleRecordAdapterAction ::
    "int \<Rightarrow> string \<Rightarrow> daemon \<Rightarrow> (ipc_error + unit) \<times> daemon" where
  "handleRecordAdapterAction auditEventID act d =
     (case ParseAdapterAction act of
        None \<Rightarrow> (Inl (IpcError CodeBadRequest (''unknown adapter action '' @ quoted act)), d)
      | Some adapterAction \<Rightarrow>
          if auditEventID \<le> 0 then (Inl (IpcError CodeBadRequest ''audit_event_id is required''), d)
          else case RecordAdapterAction auditEventID adapterAction (dm_store d) of
                 (Inl err, st) \<Rightarrow> (Inl (storageError err), d\<lparr>dm_store := st\<rparr>)
               | (Inr _, st) \<Rightarrow> (Inr (), d\<lparr>dm_store := st\<rparr>))"

definition importConsent ::
    "daemon_env \<Rightarrow> go_time \<Rightarrow> audit_event \<Rightarrow> agent_consent option \<Rightarrow> daemon \<Rightarrow> (string + int option) \<times> daemon" where
  "importConsent env now event consent d =
     (case au_resolved event of
        None \<Rightarrow> (Inr None, d)
      | Some act \<Rightarrow>
          (let inp = \<lparr>pi_action = Some act, pi_context = de_build_context env (au_cwd event),
                      pi_config = de_config env, pi_rules = de_rules env, pi_agent = au_agent event\<rparr>;
               replayed = \<lparr>d_outcome = au_decision event, d_class = au_class event, d_reason = [],
                           d_approval_id = None, d_hard_rule = [], d_mismatch_reports = [], d_engine_version = 0\<rparr>
           in case ImportForExecution (de_engine_version env) now inp consent replayed (dm_store d) of
                (Inl err, st1) \<Rightarrow> (Inl err, d\<lparr>dm_store := st1\<rparr>)
              | (Inr outcome, st1) \<Rightarrow>
                  if \<not> mo_matched outcome then (Inr None, d\<lparr>dm_store := st1\<rparr>)
                  else case RecordImportedApproval (au_id event) (mo_approval_id outcome) st1 of
                         (Inl err, st2) \<Rightarrow>
                           (Inl (''audit: record imported approval: '' @ storage_error_str err), d\<lparr>dm_store := st2\<rparr>)
                       | (Inr _, st2) \<Rightarrow>
                           (Inr (Some (mo_approval_id outcome)), cache_reset (d\<lparr>dm_store := st2\<rparr>))))"

record report_execution_params =
  re_session_id :: string
  re_tool_use_id :: string
  re_status :: "execution_status option"
  re_response_summary :: string
  re_agent_consent :: "agent_consent option"

definition responseSummary :: "daemon_env \<Rightarrow> string \<Rightarrow> string" where
  "responseSummary env summary = (if StoreResponseSummary (de_config env) then summary else [])"

definition handleReportExecution ::
    "daemon_env \<Rightarrow> go_time \<Rightarrow> report_execution_params \<Rightarrow> daemon \<Rightarrow> (ipc_error + int option) \<times> daemon" where
  "handleReportExecution env now params d =
     (case RecordExecution now
             \<lparr>ex_session_id = re_session_id params, ex_tool_use_id = re_tool_use_id params,
              ex_status = re_status params, ex_summary = responseSummary env (re_response_summary params),
              ex_at = now\<rparr> (dm_store d) of
        (Inl err, st) \<Rightarrow> (Inl (storageError err), d\<lparr>dm_store := st\<rparr>)
      | (Inr found, st) \<Rightarrow>
          (case found of
             None \<Rightarrow> (Inr None, d\<lparr>dm_store := st\<rparr>)
           | Some event \<Rightarrow>
               if \<not> Usable (re_agent_consent params) then (Inr None, d\<lparr>dm_store := st\<rparr>)
               else case importConsent env now event (re_agent_consent params) (d\<lparr>dm_store := st\<rparr>) of
                      (Inl err, d') \<Rightarrow> (Inr None, d')
                    | (Inr imported, d') \<Rightarrow> (Inr imported, d')))"

definition handleAgentConfigChanged :: "daemon \<Rightarrow> (ipc_error + unit) \<times> daemon" where
  "handleAgentConfigChanged d = (Inr (), cache_reset d)"

section \<open>Approvals\<close>

definition projectRoots :: "store \<Rightarrow> string \<Rightarrow> string" where
  "projectRoots st =
     (case Projects_List st of
        Inl err \<Rightarrow> (\<lambda>_. [])
      | Inr projects \<Rightarrow>
          (\<lambda>i. case map_from pr_id pr_root_path projects i of None \<Rightarrow> [] | Some root \<Rightarrow> root))"

record approval_summary =
  sm_id :: int
  sm_kind :: approval_kind
  sm_semantic_ops :: "semantic_op list"
  sm_summary :: string
  sm_project_root :: string
  sm_project_id :: string
  sm_use_count :: int
  sm_last_used_at :: "go_time option"
  sm_state :: approval_state
  sm_origin :: approval_origin
  sm_created_at :: go_time

definition handleListApprovals ::
    "string option \<Rightarrow> bool \<Rightarrow> int \<Rightarrow> daemon \<Rightarrow> ipc_error + approval_summary list" where
  "handleListApprovals projectID includeInactive limit d =
     (let st = dm_store d;
          roots = projectRoots st
      in case Approvals_List st \<lparr>af_project_id = (case projectID of None \<Rightarrow> [] | Some i \<Rightarrow> i),
                                 af_include_inactive = includeInactive, af_limit = limit\<rparr> of
           Inl err \<Rightarrow> Inl (storageError err)
         | Inr approvals \<Rightarrow>
             Inr (map (\<lambda>a. \<lparr>sm_id = a_id a, sm_kind = a_kind a, sm_semantic_ops = a_semantic_ops a,
                             sm_summary = Approval_Summary a, sm_project_root = roots (a_project_id a),
                             sm_project_id = a_project_id a, sm_use_count = a_use_count a,
                             sm_last_used_at = a_last_used_at a, sm_state = a_state a, sm_origin = a_origin a,
                             sm_created_at = a_created_at a\<rparr>) approvals))"

record approval_detail =
  dt_approval :: approval
  dt_project_root :: string
  dt_recent_events :: "approval_event list"

definition recentApprovalEvents :: int where
  "recentApprovalEvents = 10"

definition handleGetApproval :: "int \<Rightarrow> daemon \<Rightarrow> ipc_error + approval_detail" where
  "handleGetApproval i d =
     (let st = dm_store d in
      case Approvals_Get st i of
        Inl err \<Rightarrow> Inl (storageError err)
      | Inr a \<Rightarrow>
          (case Conditions_ListByApproval st (a_id a) of
             Inl err \<Rightarrow> Inl (storageError err)
           | Inr conditions \<Rightarrow>
               (case ApprovalEvents_ListByApproval st (a_id a) recentApprovalEvents of
                  Inl err \<Rightarrow> Inl (storageError err)
                | Inr events \<Rightarrow>
                    Inr \<lparr>dt_approval = a\<lparr>a_conditions := conditions\<rparr>,
                         dt_project_root = projectRoots st (a_project_id a), dt_recent_events = events\<rparr>)))"

definition parse_state :: "string \<Rightarrow> approval_state option" where
  "parse_state s = find (\<lambda>x. approval_state_str x = s) [ApprovalActive, ApprovalDisabled, ApprovalRevoked]"

definition handleSetApprovalState ::
    "go_time \<Rightarrow> int \<Rightarrow> string \<Rightarrow> daemon \<Rightarrow> (ipc_error + approval_detail) \<times> daemon" where
  "handleSetApprovalState now i state d =
     (case parse_state state of
        None \<Rightarrow> (Inl (IpcError CodeBadRequest (''unknown approval state '' @ quoted state)), d)
      | Some s \<Rightarrow>
          (case Approvals_SetState now i s now (dm_store d) of
             (Inl err, st) \<Rightarrow> (Inl (storageError err), d\<lparr>dm_store := st\<rparr>)
           | (Inr _, st) \<Rightarrow>
               (let d' = cache_reset (d\<lparr>dm_store := st\<rparr>) in
                case Approvals_Get st i of
                  Inl err \<Rightarrow> (Inl (storageError err), d')
                | Inr a \<Rightarrow> (Inr \<lparr>dt_approval = a, dt_project_root = [], dt_recent_events = []\<rparr>, d'))))"

record create_approval_params =
  ca_audit_event_id :: int
  ca_kind :: string
  ca_note :: string

definition parse_kind :: "string \<Rightarrow> approval_kind option" where
  "parse_kind s =
     (if s = [] then Some ApprovalExact
      else find (\<lambda>x. approval_kind_str x = s) [ApprovalExact, ApprovalSemantic])"

definition event_request ::
    "daemon_env \<Rightarrow> go_time \<Rightarrow> audit_event \<Rightarrow> resolved_action \<Rightarrow> approval_kind \<Rightarrow> string \<Rightarrow> create_request" where
  "event_request env now event act kind note' =
     \<lparr>cr_action = Some act,
      cr_policy = \<lparr>pi_action = Some act, pi_context = de_build_context env (au_cwd event),
                   pi_config = de_config env, pi_rules = de_rules env, pi_agent = au_agent event\<rparr>,
      cr_kind = Some kind, cr_origin = OriginCLI, cr_origin_ref = [], cr_source_event_id = Some (au_id event),
      cr_agent = au_agent event, cr_note = note', cr_engine_version = de_engine_version env, cr_now = now\<rparr>"

text \<open>An error of \<open>Create\<close> is a bad request when it is \<open>ErrNotApprovable\<close>, that is when \<open>Validate\<close>
  refused the action, and an internal error when the store refused the insertion.\<close>

definition handleCreateApproval ::
    "daemon_env \<Rightarrow> go_time \<Rightarrow> create_approval_params \<Rightarrow> daemon \<Rightarrow> (ipc_error + approval_detail) \<times> daemon" where
  "handleCreateApproval env now params d =
     (case Audit_Get (dm_store d) (ca_audit_event_id params) of
        Inl err \<Rightarrow> (Inl (storageError err), d)
      | Inr event \<Rightarrow>
          (case au_resolved event of
             None \<Rightarrow> (Inl (IpcError CodeBadRequest (''event '' @ Itoa (ca_audit_event_id params) @
                             '' has no resolved action to approve'')), d)
           | Some act \<Rightarrow>
               (case parse_kind (ca_kind params) of
                  None \<Rightarrow> (Inl (IpcError CodeBadRequest (''unknown approval kind '' @ quoted (ca_kind params))), d)
                | Some kind \<Rightarrow>
                    (let request = event_request env now event act kind (ca_note params) in
                     case Create now request (dm_store d) of
                       (Inl err, st) \<Rightarrow>
                         (Inl (IpcError (if Validate request \<noteq> None then CodeBadRequest else CodeInternal) err),
                          d\<lparr>dm_store := st\<rparr>)
                     | (Inr created, st) \<Rightarrow>
                         (Inr \<lparr>dt_approval = created, dt_project_root = projectRoots st (a_project_id created),
                               dt_recent_events = []\<rparr>,
                          cache_reset (d\<lparr>dm_store := st\<rparr>))))))"

section \<open>History\<close>

record list_history_params =
  lh_decision :: "string option"
  lh_project_id :: "string option"
  lh_session_id :: "string option"
  lh_since :: "go_time option"
  lh_limit :: int

abbreviation or_empty :: "string option \<Rightarrow> string" where
  "or_empty o' \<equiv> (case o' of None \<Rightarrow> [] | Some s \<Rightarrow> s)"

definition handleListHistory :: "list_history_params \<Rightarrow> daemon \<Rightarrow> ipc_error + audit_event_summary list" where
  "handleListHistory params d =
     (let answer = (\<lambda>decision.
            case Audit_List (dm_store d)
                   \<lparr>fl_decision = decision, fl_project_id = or_empty (lh_project_id params),
                    fl_session_id = or_empty (lh_session_id params), fl_since = lh_since params,
                    fl_limit = lh_limit params, fl_include_dry_run = False\<rparr> of
              Inl err \<Rightarrow> Inl (storageError err)
            | Inr events \<Rightarrow> Inr events)
      in case lh_decision params of
           None \<Rightarrow> answer None
         | Some s \<Rightarrow>
             (case ParseOutcome s of
                None \<Rightarrow> Inl (IpcError CodeBadRequest (''unknown decision '' @ quoted s))
              | Some outcome \<Rightarrow> answer (Some outcome)))"

definition handleSummarize ::
    "string option \<Rightarrow> string option \<Rightarrow> go_time option \<Rightarrow> daemon \<Rightarrow> ipc_error + activity_summary" where
  "handleSummarize projectID sessionID since d =
     (case Summarize (dm_store d)
             \<lparr>fl_decision = None, fl_project_id = or_empty projectID, fl_session_id = or_empty sessionID,
              fl_since = since, fl_limit = 0, fl_include_dry_run = False\<rparr> of
        Inl err \<Rightarrow> Inl (storageError err)
      | Inr summary \<Rightarrow> Inr summary)"

definition handleGetHistoryEvent :: "int \<Rightarrow> daemon \<Rightarrow> ipc_error + audit_event" where
  "handleGetHistoryEvent i d =
     (case Audit_Get (dm_store d) i of Inl err \<Rightarrow> Inl (storageError err) | Inr event \<Rightarrow> Inr event)"

end
