(* ===== verification/Daemon_Invariants.thy ===== *)
theory Daemon_Invariants
  imports Daemon_Handlers
begin

text \<open>
  What every request does to the daemon's state. The approval logic writes only through the statements
  of the store, so an evaluation is a sequence of store steps and a row of the decision log; the
  relation \<open>daemon_step\<close> is one handled request and \<open>daemon_ok\<close> its invariant: the tables are
  consistent and every cached answer is a recorded decision.
\<close>

section \<open>The approval logic as store steps\<close>

lemma store_step_audit: "store_step st st' \<Longrightarrow> st_audit st' = st_audit st \<and> st_failing st' = st_failing st"
proof (induction rule: store_step.induct)
  case (step_insert now a st r st')
  then show ?case by (auto simp: Approvals_Insert_def append_event_def Let_def split: if_splits)
next
  case (step_state now i state at st r' st')
  then show ?case
    by (auto simp: Approvals_SetState_def append_event_def update_approval_def Let_def split: if_splits option.splits)
next
  case (step_use now i at st r' st')
  then show ?case by (auto simp: Approvals_RecordUse_def update_approval_def Let_def split: if_splits)
next
  case (step_event now ev st r st')
  then show ?case by (auto simp: ApprovalEvents_Insert_def append_event_def Let_def split: if_splits)
next
  case (step_import now im st b st')
  then show ?case by (auto simp: Imports_InsertOnce_def Let_def split: if_splits)
next
  case (step_project now p st r' st')
  then show ?case by (auto simp: Projects_Upsert_def Let_def split: if_splits)
next
  case (step_meta key val st r' st')
  then show ?case by (auto simp: Meta_Set_def split: if_splits)
qed

lemma store_steps_audit: "store_step\<^sup>*\<^sup>* st st' \<Longrightarrow> st_audit st' = st_audit st"
  by (induction rule: rtranclp_induct) (simp_all add: store_step_audit)

lemma recordUse_steps: "recordUse now i st = (r, st') \<Longrightarrow> store_step\<^sup>*\<^sup>* st st'"
  unfolding recordUse_def
  by (auto split: sum.splits prod.splits intro: step_use step_event r_into_rtranclp rtranclp.rtrancl_into_rtrancl)

lemma Match_steps: "Match v now inp st = (r, st') \<Longrightarrow> store_step\<^sup>*\<^sup>* st st'"
  unfolding Match_def by (auto split: option.splits sum.splits prod.splits if_splits intro: recordUse_steps)

lemma Create_steps: "Create now request st = (r, st') \<Longrightarrow> store_step\<^sup>*\<^sup>* st st'"
  unfolding Create_def by (auto split: sum.splits prod.splits intro: step_insert r_into_rtranclp)

lemma recordImports_steps: "recordImports now r keys st = (x, st') \<Longrightarrow> store_step\<^sup>*\<^sup>* st st'"
proof (induction now r keys st rule: recordImports.induct)
  case (1 now r st)
  then show ?case by simp
next
  case (2 now r key keys st)
  obtain y st1 where ins: "Imports_InsertOnce now (r\<lparr>ri_rule_key := key\<rparr>) st = (y, st1)" by fastforce
  have one: "store_step st st1" by (rule step_import [OF ins])
  show ?case
  proof (cases y)
    case (Inl err)
    then show ?thesis using 2 ins one by auto
  next
    case (Inr b)
    then have "store_step\<^sup>*\<^sup>* st1 st'" using 2 ins by auto
    then show ?thesis using one by (meson converse_rtranclp_into_rtranclp)
  qed
qed

lemma Import_steps:
  assumes "Import v now inp consent st = (r, st')"
  shows "store_step\<^sup>*\<^sup>* st st'"
  using assms unfolding Import_def Let_def
  by (auto split: option.splits sum.splits prod.splits if_splits
      intro: Create_steps recordImports_steps rtranclp_trans)

lemma EvaluateDetailed_steps:
  assumes "EvaluateDetailed (buildPipeline v now) inp consent st = (r, st')"
  shows "store_step\<^sup>*\<^sup>* st st'"
proof -
  let ?e = "buildPipeline v now"
  obtain m st1 where m: "Match v now inp st = (m, st1)" by fastforce
  obtain im st2 where im: "Import v now inp consent st1 = (im, st2)" by fastforce
  have steps: "store_step\<^sup>*\<^sup>* st st1" "store_step\<^sup>*\<^sup>* st st2"
    using Match_steps [OF m] Import_steps [OF im] by (auto intro: rtranclp_trans)
  have e: "engine_match ?e inp st = (m, st1)" "en_consent ?e = Some (Import v now)"
    by (simp_all add: engine_match_def buildPipeline_def NewEngine_def m)
  have "st' \<in> {st, st1, st2}"
    using assms unfolding EvaluateDetailed_def Let_def e
    by (auto simp: im split: option.splits sum.splits if_splits)
  with steps show ?thesis by auto
qed

lemma rememberProject_steps: "store_step\<^sup>*\<^sup>* st (rememberProject now ctx st)"
proof -
  have "store_step st (snd (Projects_Upsert now p st))" for p
    by (rule step_project) (rule prod.collapse [symmetric])
  then show ?thesis
    by (auto simp: rememberProject_def Let_def split: option.splits)
qed

section \<open>Writing the log keeps the other tables\<close>

lemma audit_grows_keeps:
  assumes "audit_grows st st'"
  shows "store_ok st' = store_ok st" and "grows st st'" and "loaded st' i = loaded st i"
proof -
  obtain es where st': "st' = st\<lparr>st_audit := es\<rparr>" using assms by (auto simp: audit_grows_def)
  show "store_ok st' = store_ok st"
    unfolding st' by (simp add: store_ok_def project_exists_def approval_exists_def)
  show "loaded st' i = loaded st i"
    unfolding st' by (simp add: loaded_def find_approval_def conditions_of_def)
  show "grows st st'"
    using grows_refl [of st] unfolding st' by (simp add: grows_def project_exists_def approval_exists_def)
qed

definition log_grows :: "store \<Rightarrow> store \<Rightarrow> bool" where
  "log_grows st st' \<longleftrightarrow> prefix (map verdict (st_audit st)) (map verdict (st_audit st'))"

text \<open>What a request may do to the store.\<close>

definition evolves :: "store \<Rightarrow> store \<Rightarrow> bool" where
  "evolves st st' \<longleftrightarrow> (store_ok st \<longrightarrow> store_ok st' \<and> grows st st') \<and> log_grows st st'"

lemma evolves_refl [simp]: "evolves st st"
  by (simp add: evolves_def grows_refl log_grows_def)

lemma evolves_trans: "evolves a b \<Longrightarrow> evolves b c \<Longrightarrow> evolves a c"
  by (auto simp: evolves_def log_grows_def intro: grows_trans prefix_order.trans)

lemma evolves_steps: "store_step\<^sup>*\<^sup>* st st' \<Longrightarrow> evolves st st'"
  using steps_ok_grows [of st st'] store_steps_audit [of st st'] by (simp add: evolves_def log_grows_def)

lemma evolves_audit: "audit_grows st st' \<Longrightarrow> evolves st st'"
  using audit_grows_keeps [of st st'] by (auto simp: evolves_def log_grows_def audit_grows_def)

lemmas evolves_intros =
  evolves_refl evolves_steps [OF Match_steps] evolves_steps [OF Import_steps] evolves_steps [OF Create_steps]
  evolves_steps [OF EvaluateDetailed_steps] evolves_steps [OF rememberProject_steps]
  evolves_audit [OF RecordEvaluation_grows] evolves_audit [OF RecordPrompt_grows]
  evolves_audit [OF RecordExecution_grows] evolves_audit [OF audit_updates_grow(3)]
  evolves_audit [OF audit_updates_grow(4)]

section \<open>Recorded decisions\<close>

definition row_of :: "evaluation_result \<Rightarrow> audit_event \<Rightarrow> bool" where
  "row_of res row \<longleftrightarrow>
     er_audit_event_id res = Some (au_id row) \<and> au_decision row = er_decision res \<and>
     au_class row = er_class res \<and> au_reason row = er_reason res \<and> au_hard_rule row = er_hard_rule res \<and>
     au_mismatch_report row = er_mismatch_reports res \<and> au_explanation row = er_explanation res \<and>
     au_matched_approval_id row = (if er_decision res = OutcomeAllow then er_approval_id res else None)"

definition recorded :: "store \<Rightarrow> evaluation_result \<Rightarrow> bool" where
  "recorded st res \<longleftrightarrow>
     er_decision res = OutcomeAsk \<and> er_class res = ClassEngineError \<and> er_audit_event_id res = None \<or>
     (\<exists>row \<in> set (st_audit st). row_of res row)"

lemma row_of_verdict: "verdict row = verdict row' \<Longrightarrow> row_of res row = row_of res row'"
proof -
  assume eq: "verdict row = verdict row'"
  have sels: "au_id (verdict r) = au_id r" "au_decision (verdict r) = au_decision r"
    "au_class (verdict r) = au_class r" "au_reason (verdict r) = au_reason r"
    "au_hard_rule (verdict r) = au_hard_rule r" "au_mismatch_report (verdict r) = au_mismatch_report r"
    "au_explanation (verdict r) = au_explanation r"
    "au_matched_approval_id (verdict r) = au_matched_approval_id r" for r
    by (simp_all add: verdict_def)
  show ?thesis unfolding row_of_def using eq sels by metis
qed

lemma recorded_mono:
  assumes "recorded st res" and "log_grows st st'"
  shows "recorded st' res"
proof -
  have sub: "verdict ` set (st_audit st) \<subseteq> verdict ` set (st_audit st')"
    using assms(2) set_mono_prefix by (fastforce simp: log_grows_def)
  have "\<exists>row' \<in> set (st_audit st'). row_of res row'"
    if row: "row \<in> set (st_audit st)" "row_of res row" for row
  proof -
    obtain row' where "row' \<in> set (st_audit st')" "verdict row' = verdict row" using sub row(1) by force
    then show ?thesis using row_of_verdict row(2) by blast
  qed
  then show ?thesis using assms(1) unfolding recorded_def by blast
qed

lemma Explain_not_Nil: "Explain inp d findings \<noteq> []"
  by (simp add: Explain_def split: option.splits)

lemma RecordEvaluation_recorded:
  assumes "RecordEvaluation now ev st = (Inr eventID, st')" and "\<not> ev_dry_run ev" and "ev_explanation ev \<noteq> []"
  shows "\<exists>row \<in> set (st_audit st'). row_of (evaluation_answer eventID (ev_decision ev) s (ev_explanation ev)) row"
  using assms
  by (auto simp: RecordEvaluation_def Audit_Insert_def Let_def row_of_def evaluation_answer_def audit_row_def
      buildEvent_def split: if_splits prod.splits sum.splits)

lemma daemon_evaluate_facts:
  assumes "daemon_evaluate env now request dry st = (res, st')"
  shows "evolves st st'" and "\<not> dry \<Longrightarrow> recorded st' res"
    and "er_decision res = OutcomeAllow \<Longrightarrow>
      \<exists>d st1 st2. evolves st st1 \<and> evolves st2 st' \<and> er_approval_id res = d_approval_id d \<and>
        Evaluate (buildPipeline (de_engine_version env) now) (request_input env request)
          (rq_agent_consent request) st1 = (d, st2) \<and> d_outcome d = OutcomeAllow"
proof -
  let ?inp = "request_input env request" and ?e = "buildPipeline (de_engine_version env) now"
  let ?st1 = "if dry then st else rememberProject now (pi_context ?inp) st"
  obtain d findings st2 where ev: "EvaluateDetailed ?e ?inp (rq_agent_consent request) ?st1 = ((d, findings), st2)"
    by (metis prod.exhaust)
  let ?ev = "\<lparr>ev_request = request, ev_context = pi_context ?inp, ev_resolved = Some (the (pi_action ?inp)),
    ev_decision = d, ev_explanation = Explain ?inp d findings, ev_dry_run = dry\<rparr>"
  obtain x st3 where rec: "RecordEvaluation now ?ev st2 = (x, st3)" by fastforce
  have st': "st' = st3" using assms ev rec by (auto simp: daemon_evaluate_def Let_def split: sum.splits)
  have e1: "evolves st ?st1" by (simp add: evolves_intros)
  have e2: "evolves ?st1 st2" using ev by (rule evolves_intros)
  have e3: "evolves st2 st'" unfolding st' using rec by (rule evolves_intros)
  show "evolves st st'" using e1 e2 e3 evolves_trans by blast
  show "recorded st' res" if "\<not> dry"
  proof (cases x)
    case (Inl err)
    then show ?thesis using assms ev rec
      by (auto simp: daemon_evaluate_def Let_def recorded_def evaluation_answer_def unrecorded_def)
  next
    case (Inr eventID)
    have "\<exists>row \<in> set (st_audit st3). row_of (evaluation_answer eventID (ev_decision ?ev)
        (ra_status (the (pi_action ?inp))) (ev_explanation ?ev)) row"
      by (rule RecordEvaluation_recorded) (use rec Inr that in \<open>simp_all add: Explain_not_Nil\<close>)
    then show ?thesis using assms ev rec Inr by (auto simp: daemon_evaluate_def Let_def recorded_def)
  qed
  show "\<exists>d st1 st2. evolves st st1 \<and> evolves st2 st' \<and> er_approval_id res = d_approval_id d \<and>
        Evaluate ?e ?inp (rq_agent_consent request) st1 = (d, st2) \<and> d_outcome d = OutcomeAllow"
    if "er_decision res = OutcomeAllow"
  proof (cases x)
    case (Inl err)
    then show ?thesis using assms ev rec that
      by (auto simp: daemon_evaluate_def Let_def evaluation_answer_def unrecorded_def)
  next
    case (Inr eventID)
    then have "er_approval_id res = d_approval_id d" "d_outcome d = OutcomeAllow"
      using assms ev rec that by (auto simp: daemon_evaluate_def Let_def evaluation_answer_def)
    then show ?thesis using e1 e3 ev by (intro exI [of _ d] exI [of _ ?st1] exI [of _ st2]) (simp add: Evaluate_def)
  qed
qed

section \<open>The cache\<close>

definition cache_values :: "result_cache \<Rightarrow> evaluation_result set" where
  "cache_values c = {res. \<exists>key entry. c key = Some entry \<and> ce_result entry = res}"

lemma cache_get_values:
  "cache_get now request c = (found, c') \<Longrightarrow>
   (\<forall>res. found = Some res \<longrightarrow> res \<in> cache_values c) \<and> cache_values c' \<subseteq> cache_values c"
  by (auto simp: cache_get_def Let_def cache_values_def split: if_splits option.splits) blast+

lemma cache_put_values: "cache_values (cache_put now request res c) \<subseteq> insert res (cache_values c)"
proof -
  have fold: "cache_values (foldl (\<lambda>m key. m(key \<mapsto> entry)) c keys) \<subseteq> insert (ce_result entry) (cache_values c)"
    for entry c keys
  proof (induction keys arbitrary: c)
    case (Cons key keys)
    have "cache_values (c(key \<mapsto> entry)) \<subseteq> insert (ce_result entry) (cache_values c)"
      by (auto simp: cache_values_def split: if_splits)
    then show ?case unfolding foldl_Cons using Cons [of "c(key \<mapsto> entry)"] by blast
  qed auto
  have "cache_values (evictExpired now c) \<subseteq> cache_values c"
    by (auto simp: cache_values_def evictExpired_def split: option.splits if_splits)
  then show ?thesis
    using fold [of "\<lparr>ce_result = res, ce_expires = now + CacheTTL\<rparr>" "evictExpired now c" "cacheKeys request"]
    by (auto simp: cache_put_def)
qed

lemma cache_values_empty [simp]: "cache_values Map.empty = {}"
  by (simp add: cache_values_def)

lemma cache_get_empty [simp]: "cache_get now rq Map.empty = (None, Map.empty)"
  by (auto simp: cache_get_def Let_def)

lemma cache_put_stored:
  assumes "key \<in> set (cacheKeys rq)"
  shows "cache_put now rq res c key = Some \<lparr>ce_result = res, ce_expires = now + CacheTTL\<rparr>"
proof -
  have "foldl (\<lambda>m key. m(key \<mapsto> v)) m keys key = (if key \<in> set keys then Some v else m key)" for m :: result_cache and v keys
    by (induction keys arbitrary: m) auto
  then show ?thesis using assms by (simp add: cache_put_def)
qed

lemma truncated_incomplete:
  "rq_raw_command_truncated rq \<Longrightarrow> \<exists>a. pi_action (request_input env rq) = Some a \<and> ra_incomplete a"
  by (cases "de_resolve env rq") (simp add: request_input_def mark_truncated_def MarkIncomplete_def)

text \<open>An answer comes from the cache or is a fresh evaluation.\<close>

lemma handleEvaluate_cases:
  assumes "handleEvaluate env now dry rq d = (res, d')"
  obtains (dry_run) "dry" "dm_cache d' = dm_cache d"
      "daemon_evaluate env now (bounded_request now rq) True (dm_store d) = (res, dm_store d')"
  | (hit) "\<not> dry" "res \<in> cache_values (dm_cache d)" "dm_store d' = dm_store d"
      "cache_values (dm_cache d') \<subseteq> cache_values (dm_cache d)"
  | (fresh) "\<not> dry" "daemon_evaluate env now (bounded_request now rq) False (dm_store d) = (res, dm_store d')"
      "cache_values (dm_cache d') \<subseteq> insert res (cache_values (dm_cache d))"
proof (cases dry)
  case True
  then show ?thesis using assms that(1) by (auto simp: handleEvaluate_def Let_def split: prod.splits)
next
  case False
  obtain found c where get: "cache_get now (bounded_request now rq) (dm_cache d) = (found, c)" by fastforce
  obtain r st where ev: "daemon_evaluate env now (bounded_request now rq) False (dm_store d) = (r, st)" by fastforce
  show ?thesis
  proof (cases found)
    case None
    then have "res = r" "dm_store d' = st" "dm_cache d' = cache_put now (bounded_request now rq) r c"
      using assms False get ev by (auto simp: handleEvaluate_def Let_def)
    then show ?thesis
      using that(3) False ev cache_get_values [OF get] cache_put_values [of now "bounded_request now rq" r c] by auto
  next
    case (Some x)
    then show ?thesis
      using that(2) False assms get cache_get_values [OF get] by (auto simp: handleEvaluate_def Let_def)
  qed
qed

section \<open>One handled request\<close>

inductive daemon_step :: "daemon_env \<Rightarrow> daemon \<Rightarrow> daemon \<Rightarrow> bool" for env where
  evaluate: "handleEvaluate env now dry rq d = (res, d') \<Longrightarrow> daemon_step env d d'"
| prompt: "handleRecordPrompt now pp d = (pr, d') \<Longrightarrow> daemon_step env d d'"
| delivery: "handleRecordAdapterAction i act d = (u, d') \<Longrightarrow> daemon_step env d d'"
| report: "handleReportExecution env now ep d = (er, d') \<Longrightarrow> daemon_step env d d'"
| settings: "handleAgentConfigChanged d = (u, d') \<Longrightarrow> daemon_step env d d'"
| set_state: "handleSetApprovalState now i state d = (r, d') \<Longrightarrow> daemon_step env d d'"
| create: "handleCreateApproval env now cp d = (r, d') \<Longrightarrow> daemon_step env d d'"

inductive_cases daemon_stepE: "daemon_step env d d'"

lemma importConsent_facts:
  assumes "importConsent env now event consent d = (r, d')"
  shows "evolves (dm_store d) (dm_store d') \<and> cache_values (dm_cache d') \<subseteq> cache_values (dm_cache d)"
proof (cases "au_resolved event")
  case None
  then show ?thesis using assms by (simp add: importConsent_def)
next
  case (Some act)
  let ?inp = "\<lparr>pi_action = Some act, pi_context = de_build_context env (au_cwd event), pi_config = de_config env,
    pi_rules = de_rules env, pi_agent = au_agent event\<rparr>"
  let ?d = "\<lparr>d_outcome = au_decision event, d_class = au_class event, d_reason = [], d_approval_id = None,
    d_hard_rule = [], d_mismatch_reports = [], d_engine_version = 0\<rparr>"
  obtain x st1 where im: "ImportForExecution (de_engine_version env) now ?inp consent ?d (dm_store d) = (x, st1)"
    by fastforce
  obtain y st2 where rec: "RecordImportedApproval (au_id event) (mo_approval_id (projr x)) st1 = (y, st2)" by fastforce
  have e1: "evolves (dm_store d) st1"
    using im by (auto simp: ImportForExecution_def split: if_splits intro: evolves_intros)
  have e2: "evolves (dm_store d) st2"
    using e1 evolves_trans evolves_intros(10) [OF rec] by blast
  show ?thesis
  proof (cases x)
    case (Inl err)
    then show ?thesis using assms Some im e1 by (auto simp: importConsent_def Let_def)
  next
    case (Inr outcome)
    then show ?thesis using assms Some im rec e1 e2
      by (cases y) (auto simp: importConsent_def Let_def cache_reset_def split: if_splits)
  qed
qed

lemma handleReportExecution_facts:
  assumes "handleReportExecution env now params d = (r, d')"
  shows "evolves (dm_store d) (dm_store d') \<and> cache_values (dm_cache d') \<subseteq> cache_values (dm_cache d)"
proof -
  let ?x = "\<lparr>ex_session_id = re_session_id params, ex_tool_use_id = re_tool_use_id params,
    ex_status = re_status params, ex_summary = responseSummary env (re_response_summary params), ex_at = now\<rparr>"
  obtain f st where rec: "RecordExecution now ?x (dm_store d) = (f, st)" by fastforce
  have e: "evolves (dm_store d) st" using rec by (rule evolves_intros)
  have im: "evolves st (dm_store d1) \<and> cache_values (dm_cache d1) \<subseteq> cache_values (dm_cache d)"
    if "importConsent env now event consent (d\<lparr>dm_store := st\<rparr>) = (y, d1)" for event consent y d1
    using importConsent_facts [OF that] by simp
  show ?thesis
    using assms rec e evolves_trans [OF e] im unfolding handleReportExecution_def
    by (auto split: sum.splits option.splits if_splits prod.splits; blast)
qed

lemma handleSetApprovalState_facts:
  assumes "handleSetApprovalState now i state d = (r, d')"
  shows "evolves (dm_store d) (dm_store d') \<and> cache_values (dm_cache d') \<subseteq> cache_values (dm_cache d)"
proof (cases "parse_state state")
  case None
  then show ?thesis using assms by (auto simp: handleSetApprovalState_def)
next
  case (Some s)
  obtain x st where set: "Approvals_SetState now i s now (dm_store d) = (x, st)" by fastforce
  have "evolves (dm_store d) st" by (rule evolves_steps, rule r_into_rtranclp, rule step_state [OF set])
  then show ?thesis using assms Some set
    by (cases x) (auto simp: handleSetApprovalState_def cache_reset_def Let_def split: sum.splits)
qed

lemma handleCreateApproval_facts:
  assumes "handleCreateApproval env now params d = (r, d')"
  shows "evolves (dm_store d) (dm_store d') \<and> cache_values (dm_cache d') \<subseteq> cache_values (dm_cache d)"
proof -
  have "evolves (dm_store d) st" if "Create now request (dm_store d) = (x, st)" for request x st
    using that by (rule evolves_intros)
  then show ?thesis using assms unfolding handleCreateApproval_def Let_def cache_reset_def
    by (auto split: sum.splits option.splits prod.splits)
qed

lemma daemon_step_facts:
  assumes "daemon_step env d d'"
  shows "evolves (dm_store d) (dm_store d') \<and>
     (\<forall>res \<in> cache_values (dm_cache d'). res \<in> cache_values (dm_cache d) \<or>
        (\<exists>now rq. daemon_evaluate env now rq False (dm_store d) = (res, dm_store d')))"
  using assms
proof cases
  case (evaluate now dry rq res)
  from evaluate show ?thesis
    by (cases rule: handleEvaluate_cases) (auto dest: daemon_evaluate_facts(1))
next
  case (prompt now pp pr)
  then show ?thesis
    by (auto simp: handleRecordPrompt_def split: prod.splits sum.splits intro: evolves_intros)
next
  case (delivery i act u)
  then show ?thesis
    by (auto simp: handleRecordAdapterAction_def split: prod.splits sum.splits option.splits if_splits
        intro: evolves_intros)
next
  case (report now ep er)
  then show ?thesis using handleReportExecution_facts by blast
next
  case (settings u)
  then show ?thesis by (auto simp: handleAgentConfigChanged_def cache_reset_def)
next
  case (set_state now i state r)
  then show ?thesis using handleSetApprovalState_facts by blast
next
  case (create now cp r)
  then show ?thesis using handleCreateApproval_facts by blast
qed

section \<open>The invariant\<close>

definition daemon_ok :: "daemon \<Rightarrow> bool" where
  "daemon_ok d \<longleftrightarrow> store_ok (dm_store d) \<and> (\<forall>res \<in> cache_values (dm_cache d). recorded (dm_store d) res)"

lemma daemon_step_ok:
  assumes step: "daemon_step env d d'" and ok: "daemon_ok d"
  shows "daemon_ok d'"
proof -
  note facts = daemon_step_facts [OF step]
  have "recorded (dm_store d') res" if "res \<in> cache_values (dm_cache d')" for res
    using facts that ok recorded_mono daemon_evaluate_facts(2) by (fastforce simp: daemon_ok_def evolves_def)
  then show ?thesis using facts ok by (simp add: daemon_ok_def evolves_def)
qed

lemma daemon_steps_ok: "(daemon_step env)\<^sup>*\<^sup>* d d' \<Longrightarrow> daemon_ok d \<Longrightarrow> daemon_ok d'"
  by (induction rule: rtranclp_induct) (auto intro: daemon_step_ok)

lemma handleEvaluate_recorded:
  assumes "handleEvaluate env now False rq d = (res, d')" and "daemon_ok d"
  shows "recorded (dm_store d') res"
  using assms(1)
proof (cases rule: handleEvaluate_cases)
  case hit
  then show ?thesis using assms(2) by (simp add: daemon_ok_def)
next
  case fresh
  then show ?thesis using daemon_evaluate_facts(2) by blast
qed simp

section \<open>Revoked trust is never served\<close>

definition revoked :: "store \<Rightarrow> int \<Rightarrow> bool" where
  "revoked st i \<longleftrightarrow> (\<exists>a. loaded st i = Some a \<and> a_state a = ApprovalRevoked)"

lemma revoked_evolves: "revoked st i \<Longrightarrow> store_ok st \<Longrightarrow> evolves st st' \<Longrightarrow> revoked st' i"
  unfolding revoked_def evolves_def by (metis grows_loaded keeps_def)

lemma revoked_not_covering: "revoked st i \<Longrightarrow> \<not> stored_cover v st i act"
  by (auto simp: revoked_def stored_cover_def covers_action_def)

lemma evaluate_never_revoked:
  assumes ev: "daemon_evaluate env now rq dry st = (res, st')" and ok: "store_ok st" and rev: "revoked st i"
    and allow: "er_decision res = OutcomeAllow"
  shows "er_approval_id res \<noteq> Some i"
proof -
  obtain d st1 st2 where e: "evolves st st1" "evolves st2 st'" "er_approval_id res = d_approval_id d"
    "Evaluate (buildPipeline (de_engine_version env) now) (request_input env rq) (rq_agent_consent rq) st1 = (d, st2)"
    "d_outcome d = OutcomeAllow"
    using daemon_evaluate_facts(3) [OF ev allow] by blast
  have ok1: "store_ok st1" and rev1: "revoked st1 i"
    using e(1) ok rev revoked_evolves by (auto simp: evolves_def)
  obtain r where "EvaluateDetailed (buildPipeline (de_engine_version env) now) (request_input env rq)
      (rq_agent_consent rq) st1 = (r, st2)"
    using e(4) by (metis Evaluate_eq prod.collapse prod.inject)
  then have "revoked st2 i" using revoked_evolves [OF rev1 ok1] evolves_intros(5) by blast
  then show ?thesis
    using stored.allow_justified [OF ok1 e(4) [unfolded buildPipeline_def] e(5)] rev1 revoked_not_covering e(3) by auto
qed

definition serves :: "daemon \<Rightarrow> int \<Rightarrow> bool" where
  "serves d i \<longleftrightarrow>
     (\<exists>res \<in> cache_values (dm_cache d). er_decision res = OutcomeAllow \<and> er_approval_id res = Some i)"

lemma revoked_step:
  assumes "daemon_step env d d'" and "daemon_ok d" and "revoked (dm_store d) i" and "\<not> serves d i"
  shows "revoked (dm_store d') i \<and> \<not> serves d' i"
proof
  show "revoked (dm_store d') i"
    using daemon_step_facts [OF assms(1)] assms(2,3) revoked_evolves by (auto simp: daemon_ok_def)
  show "\<not> serves d' i"
    using daemon_step_facts [OF assms(1)] assms(2,3,4) evaluate_never_revoked
    by (fastforce simp: serves_def daemon_ok_def)
qed

lemma revoked_steps:
  assumes "(daemon_step env)\<^sup>*\<^sup>* d d'" and "daemon_ok d" and "revoked (dm_store d) i" and "\<not> serves d i"
  shows "daemon_ok d' \<and> revoked (dm_store d') i \<and> \<not> serves d' i"
  using assms
proof (induction rule: rtranclp_induct)
  case (step e e')
  then show ?case using revoked_step daemon_step_ok by blast
qed simp

lemma handleSetApprovalState_revokes:
  assumes "handleSetApprovalState now i (approval_state_str ApprovalRevoked) d = (Inr detail, d')" and "daemon_ok d"
  shows "revoked (dm_store d') i \<and> dm_cache d' = Map.empty"
proof -
  have parse: "parse_state (approval_state_str ApprovalRevoked) = Some ApprovalRevoked" by (simp add: parse_state_def)
  obtain x st where set: "Approvals_SetState now i ApprovalRevoked now (dm_store d) = (x, st)" by fastforce
  have d': "x = Inr ()" "dm_store d' = st" "dm_cache d' = Map.empty"
    using assms(1) parse set
    by (cases x; auto simp: handleSetApprovalState_def cache_reset_def Let_def split: sum.splits)+
  obtain a where a: "find_approval (dm_store d) i = Some a"
    and st: "st = append_event (update_approval i (set_state_row ApprovalRevoked (stamp now now)) (dm_store d))
               i (state_event ApprovalRevoked) None (stamp now now)"
    using set d'(1) by (auto simp: Approvals_SetState_def Let_def split: if_splits option.splits)
  have "find_approval st i = Some (set_state_row ApprovalRevoked (stamp now now) a)"
    using a unfolding st find_approval_def update_approval_def append_event_def
    by (simp add: find_Some_iff) (auto simp: set_state_row_def)
  then show ?thesis using d' by (auto simp: revoked_def loaded_def set_state_row_def)
qed

end
