(* ===== verification/Gate.thy ===== *)
theory Gate
  imports Claude_Hook Daemon_Invariants
begin

text \<open>
  The hook over the daemon. What the hook relies on is the locale \<open>decision_service\<close>: a state with an
  invariant, a log of answers, and calls that keep both. The daemon's handlers provide it, so whatever
  the agent is told to allow or deny stands in the decision log when the hook exits.
\<close>

section \<open>The interface\<close>

locale decision_service =
  fixes client :: "'d client" and inv :: "'d \<Rightarrow> bool" and logged :: "'d \<Rightarrow> evaluation_result \<Rightarrow> bool"
  assumes evaluate_inv: "inv d \<Longrightarrow> cl_evaluate client dry rq d = (r, d') \<Longrightarrow> inv d'"
    and evaluate_logged: "inv d \<Longrightarrow> cl_evaluate client False rq d = (Inr res, d') \<Longrightarrow> logged d' res"
    and prompt_inv: "inv d \<Longrightarrow> cl_record_prompt client s t c g d = (u, d') \<Longrightarrow> inv d'"
    and prompt_logged: "inv d \<Longrightarrow> logged d res \<Longrightarrow> cl_record_prompt client s t c g d = (u, d') \<Longrightarrow> logged d' res"
    and delivery_inv: "inv d \<Longrightarrow> cl_record_adapter_action client i act d = (u, d') \<Longrightarrow> inv d'"
    and delivery_logged:
      "inv d \<Longrightarrow> logged d res \<Longrightarrow> cl_record_adapter_action client i act d = (u, d') \<Longrightarrow> logged d' res"
    and report_inv: "inv d \<Longrightarrow> cl_report_execution client s t st y co d = (u, d') \<Longrightarrow> inv d'"
    and settings_inv: "inv d \<Longrightarrow> cl_config_changed client d = (u, d') \<Longrightarrow> inv d'"
    and summarize_inv: "inv d \<Longrightarrow> cl_summarize client s d = (m, d') \<Longrightarrow> inv d'"
    and start_inv: "inv d \<Longrightarrow> cl_lazy_start client = Some start \<Longrightarrow> start d = (ok, d') \<Longrightarrow> inv d'"
begin

lemma hook_consent_daemon: "hook_consent x e h = (c, h') \<Longrightarrow> ho_daemon h' = ho_daemon h"
  by (auto simp: hook_consent_def Let_def split: if_splits prod.splits)

lemma callEvaluate_service:
  assumes "hx_client x = client" and "inv (ho_daemon h)" and "callEvaluate x rq dry h = (r, h')"
  shows "inv (ho_daemon h') \<and> (\<forall>res. r = Inr res \<and> \<not> dry \<longrightarrow> logged (ho_daemon h') res)"
  using assms evaluate_inv evaluate_logged
  by (auto simp: callEvaluate_def split: if_splits prod.splits; blast)

lemma hook_evaluate_service:
  assumes x: "hx_client x = client" and inv: "inv (ho_daemon h)" and ev: "hook_evaluate x e h = (r, h')"
  shows "inv (ho_daemon h') \<and> (\<forall>res. r = Inr res \<and> TrimSpace (Lookup x EnvSelfTest) \<noteq> ''1'' \<longrightarrow> logged (ho_daemon h') res)"
proof -
  obtain c h1 where c: "hook_consent x e h = (c, h1)" by fastforce
  let ?rq = "ActionRequest e (ProjectHint (hx_lookup x)) c (hx_now x)"
  let ?dry = "TrimSpace (Lookup x EnvSelfTest) = ''1''"
  obtain r1 h2 where call: "callEvaluate x ?rq ?dry h1 = (r1, h2)" by fastforce
  have inv1: "inv (ho_daemon h1)" using inv hook_consent_daemon [OF c] by simp
  note s1 = callEvaluate_service [OF x inv1 call]
  show ?thesis
  proof (cases r1)
    case (Inr res)
    then show ?thesis using ev c call s1 by (auto simp: hook_evaluate_def)
  next
    case (Inl err)
    show ?thesis
    proof (cases "cl_lazy_start client")
      case None
      then show ?thesis using ev c call s1 Inl x by (auto simp: hook_evaluate_def)
    next
      case (Some start)
      obtain ok d where st: "start (ho_daemon h2) = (ok, d)" by fastforce
      have invd: "inv d" using start_inv [OF _ Some st] s1 by blast
      then show ?thesis
        using ev c call Inl x Some st callEvaluate_service [OF x, of "h2\<lparr>ho_daemon := d\<rparr>" ?rq ?dry r h']
        by (auto simp: hook_evaluate_def split: if_splits)
    qed
  qed
qed

lemma reporter_service:
  assumes "hx_client x = client" and "inv (ho_daemon h)"
  shows "inv (ho_daemon (adapterActionReporter x result act h))"
    and "logged (ho_daemon h) res \<Longrightarrow> logged (ho_daemon (adapterActionReporter x result act h)) res"
  using assms delivery_inv delivery_logged
  by (auto simp: adapterActionReporter_def split: option.splits) (metis prod.collapse)+

lemma told_is_logged:
  assumes x: "hx_client x = client" and inv: "inv (ho_daemon h)"
    and run: "hook_Run x unmarshal stdin h = (r, h')" and told: "tells r = Some told"
    and real: "TrimSpace (Lookup x EnvSelfTest) \<noteq> ''1''"
  shows "\<exists>res. logged (ho_daemon h') res \<and> inv (ho_daemon h') \<and>
     (told = decisionAllow \<longrightarrow> er_decision res = OutcomeAllow) \<and>
     (told = decisionDeny \<longrightarrow> er_decision res = OutcomeBlock) \<and>
     (told = decisionAsk \<longrightarrow> er_decision res = OutcomeAsk)"
proof -
  obtain e where e: "hook_handle x e h = (r, h')"
    using run told by (auto simp: hook_Run_def tells_def split: if_splits sum.splits)
  obtain y h1 where ev: "hook_evaluate x e h = (y, h1)" by fastforce
  note s = hook_evaluate_service [OF x inv ev]
  consider (pre) "handlePreToolUse x e h = (r, h')" | (req) "handlePermissionRequest x e h = (r, h')"
    using e told by (auto simp: hook_handle_def handleSessionEnd_def tells_def split: if_splits sum.splits prod.splits)
  then show ?thesis
  proof cases
    case pre
    obtain res where y: "y = Inr res"
      using pre ev told daemonUnavailable_tells [of x e h1] by (cases y) (auto simp: handlePreToolUse_def)
    have r: "r = fst (MapPreToolUse res (Bypassing e))"
      "h' = adapterActionReporter x res (snd (MapPreToolUse res (Bypassing e))) h1"
      using pre ev y by (auto simp: handlePreToolUse_def split: prod.splits)
    have "logged (ho_daemon h') res" "inv (ho_daemon h')" using r(2) s y real reporter_service [OF x] by auto
    then show ?thesis using told r(1)
      by (intro exI [of _ res]) (auto simp: MapPreToolUse_tells split: decision_outcome.splits if_splits)
  next
    case req
    obtain res where y: "y = Inr res" using req ev told by (cases y) (auto simp: handlePermissionRequest_def tells_def)
    define h2 where "h2 = (if \<not> cl_reachable client then h1
      else h1\<lparr>ho_daemon := snd (cl_record_prompt client (he_session_id e) (he_tool_name e) (he_command e)
             (he_permission_suggestions e) (ho_daemon h1))\<rparr>)"
    have r: "r = fst (MapPermissionRequest res)"
      "h' = adapterActionReporter x res (snd (MapPermissionRequest res)) h2"
      using req ev y x by (auto simp: handlePermissionRequest_def h2_def Let_def split: prod.splits if_splits)
    have "inv (ho_daemon h2) \<and> logged (ho_daemon h2) res"
      using s y real prompt_inv prompt_logged by (auto simp: h2_def) (metis prod.collapse)+
    then have "logged (ho_daemon h') res" "inv (ho_daemon h')" using r(2) reporter_service [OF x] by auto
    then show ?thesis using told r(1)
      by (intro exI [of _ res]) (auto simp: MapPermissionRequest_tells split: decision_outcome.splits)
  qed
qed

end

section \<open>The daemon provides it\<close>

definition ipc_answer :: "(ipc_error + 'a) \<times> daemon \<Rightarrow> (string + unit) \<times> daemon" where
  "ipc_answer r = (case r of (Inl err, d) \<Rightarrow> (Inl (ie_message err), d) | (Inr _, d) \<Rightarrow> (Inr (), d))"

definition daemon_client :: "daemon_env \<Rightarrow> go_time \<Rightarrow> bool \<Rightarrow> daemon client" where
  "daemon_client env now up =
     \<lparr>cl_reachable = up,
      cl_evaluate = (\<lambda>dry rq d. case handleEvaluate env now dry rq d of (res, d') \<Rightarrow> (Inr res, d')),
      cl_record_prompt = (\<lambda>s t c g d. ipc_answer (handleRecordPrompt now
         \<lparr>rp_agent = Agent, rp_session_id = s, rp_tool = t, rp_raw_command = c, rp_suggestions = g\<rparr> d)),
      cl_record_adapter_action = (\<lambda>i act d. ipc_answer (handleRecordAdapterAction i act d)),
      cl_report_execution = (\<lambda>s t st y c d. ipc_answer (handleReportExecution env now
         \<lparr>re_session_id = s, re_tool_use_id = t, re_status = Some st, re_response_summary = y,
          re_agent_consent = c\<rparr> d)),
      cl_config_changed = (\<lambda>d. ipc_answer (handleAgentConfigChanged d)),
      cl_summarize = (\<lambda>s d. (case handleSummarize None (Some s) None d of
                               Inl err \<Rightarrow> Inl (ie_message err) | Inr summary \<Rightarrow> Inr summary, d)),
      cl_lazy_start = None\<rparr>"

lemma ipc_answer_state: "ipc_answer r = (u, d') \<Longrightarrow> \<exists>r'. r = (r', d')"
  by (auto simp: ipc_answer_def split: prod.splits sum.splits)

lemma recorded_step: "daemon_step env d d' \<Longrightarrow> recorded (dm_store d) res \<Longrightarrow> recorded (dm_store d') res"
  using daemon_step_facts recorded_mono by (fastforce simp: evolves_def)

interpretation gate: decision_service "daemon_client env now up" daemon_ok "\<lambda>d. recorded (dm_store d)"
  for env now up
proof
  fix d dry rq r d'
  assume ok: "daemon_ok d" and ev: "cl_evaluate (daemon_client env now up) dry rq d = (r, d')"
  then obtain res where "handleEvaluate env now dry rq d = (res, d')" by (auto simp: daemon_client_def split: prod.splits)
  then show "daemon_ok d'" using daemon_step_ok [OF daemon_step.evaluate] ok by blast
next
  fix d rq res d'
  assume "daemon_ok d" and "cl_evaluate (daemon_client env now up) False rq d = (Inr res, d')"
  then show "recorded (dm_store d') res"
    by (auto simp: daemon_client_def split: prod.splits intro: handleEvaluate_recorded)
next
  fix d s t c g u d'
  assume ok: "daemon_ok d" and call: "cl_record_prompt (daemon_client env now up) s t c g d = (u, d')"
  then obtain r where r: "handleRecordPrompt now \<lparr>rp_agent = Agent, rp_session_id = s, rp_tool = t,
      rp_raw_command = c, rp_suggestions = g\<rparr> d = (r, d')"
    by (auto simp: daemon_client_def dest: ipc_answer_state)
  show "daemon_ok d'" using daemon_step_ok [OF daemon_step.prompt [OF r]] ok by blast
  show "recorded (dm_store d) res \<Longrightarrow> recorded (dm_store d') res" for res
    using recorded_step [OF daemon_step.prompt [OF r]] .
next
  fix d i act u d'
  assume ok: "daemon_ok d" and call: "cl_record_adapter_action (daemon_client env now up) i act d = (u, d')"
  then obtain r where r: "handleRecordAdapterAction i act d = (r, d')"
    by (auto simp: daemon_client_def dest: ipc_answer_state)
  show "daemon_ok d'" using daemon_step_ok [OF daemon_step.delivery [OF r]] ok by blast
  show "recorded (dm_store d) res \<Longrightarrow> recorded (dm_store d') res" for res
    using recorded_step [OF daemon_step.delivery [OF r]] .
qed (auto simp: daemon_client_def dest!: ipc_answer_state
       intro: daemon_step_ok [OF daemon_step.report] daemon_step_ok [OF daemon_step.settings])

end
