(* ===== verification/Gate_Properties.thy ===== *)
theory Gate_Properties
  imports Gate Samples
begin

text \<open>Properties of the hook, the daemon and the decision log together.\<close>

section \<open>Concrete values\<close>

definition sample_env :: "resolved_action \<Rightarrow> daemon_env" where
  "sample_env a =
     \<lparr>de_config = Default, de_rules = sample_rules, de_engine_version = 1,
      de_resolve = (\<lambda>rq. (a, Some sample_context)), de_build_context = (\<lambda>cwd. Some sample_context)\<rparr>"

definition sample_daemon :: daemon where
  "sample_daemon = \<lparr>dm_store = sample_store, dm_cache = Map.empty\<rparr>"

definition bash_request :: "string \<Rightarrow> string \<Rightarrow> action_request" where
  "bash_request tool_use command =
     zero_request\<lparr>rq_agent := ''claude'', rq_session_id := ''s1'', rq_tool_use_id := tool_use,
       rq_tool := ''Bash'', rq_dialect := DialectPosix, rq_raw_command := command, rq_cwd := ''/w'',
       rq_received_at := 5\<rparr>"






lemma sample_daemon_ok: "daemon_ok sample_daemon"
  by (simp add: daemon_ok_def sample_daemon_def sample_store_ok)

section \<open>What the agent is told is on record\<close>



text \<open>C30. Revoking an approval takes effect at once and for good: after the request that revoked it
  has been answered, no sequence of requests makes the daemon answer ALLOW because of that approval,
  neither from the cache nor from a new evaluation.\<close>

theorem revocation_is_immediate:
  assumes "daemon_ok d" and "handleSetApprovalState now i (approval_state_str ApprovalRevoked) d = (Inr detail, d1)"
    and "(daemon_step env)\<^sup>*\<^sup>* d1 d2" and "handleEvaluate env now2 dry rq d2 = (res, d3)"
    and "er_decision res = OutcomeAllow"
  shows "er_approval_id res \<noteq> Some i"
proof -
  have rev: "revoked (dm_store d1) i" "dm_cache d1 = Map.empty"
    using handleSetApprovalState_revokes [OF assms(2,1)] by auto
  have "daemon_ok d1" using daemon_step_ok [OF daemon_step.set_state [OF assms(2)] assms(1)] .
  then have d2: "daemon_ok d2" "revoked (dm_store d2) i" "\<not> serves d2 i"
    using revoked_steps [OF assms(3) _ rev(1)] rev(2) by (auto simp: serves_def)
  from assms(4) show ?thesis
  proof (cases rule: handleEvaluate_cases)
    case dry_run
    then show ?thesis using evaluate_never_revoked d2 assms(5) by (auto simp: daemon_ok_def)
  next
    case hit
    then show ?thesis using d2(3) assms(5) by (auto simp: serves_def)
  next
    case fresh
    then show ?thesis using evaluate_never_revoked d2 assms(5) by (auto simp: daemon_ok_def)
  qed
qed

theorem revocation_is_immediate_witness:
  "\<exists>res d3. handleEvaluate (sample_env cat_dist) 9 False (bash_request ''t9'' ''cat dist'')
      (snd (handleSetApprovalState 7 1 ''REVOKED'' sample_daemon)) = (res, d3) \<and>
    er_decision res = OutcomeAllow \<and> er_approval_id res \<noteq> Some 1"
proof -
  let ?d1 = "snd (handleSetApprovalState 7 1 ''REVOKED'' sample_daemon)"
  have ok: "\<not> isl (fst (handleSetApprovalState 7 1 ''REVOKED'' sample_daemon))" by code_simp
  then obtain detail where "fst (handleSetApprovalState 7 1 ''REVOKED'' sample_daemon) = Inr detail"
    by (metis isl_def sum.collapse(2))
  then have set: "handleSetApprovalState 7 1 (approval_state_str ApprovalRevoked) sample_daemon = (Inr detail, ?d1)"
    by (simp add: prod_eq_iff)
  obtain res d3 where ev: "handleEvaluate (sample_env cat_dist) 9 False (bash_request ''t9'' ''cat dist'') ?d1 = (res, d3)"
    by fastforce
  have "er_decision (fst (handleEvaluate (sample_env cat_dist) 9 False (bash_request ''t9'' ''cat dist'') ?d1)) = OutcomeAllow"
    by code_simp
  then have allow: "er_decision res = OutcomeAllow" using ev by simp
  from revocation_is_immediate [OF sample_daemon_ok set rtranclp.rtrancl_refl ev allow] ev allow show ?thesis by blast
qed



text \<open>The cache forgets that a command was cut: when a command of exactly the evaluated length was
  answered, a longer command of the same session and directory that begins with it, asked about
  without a tool id, receives that answer within the next minute, an ALLOW included, although it was
  never examined beyond its first part.\<close>

theorem overlong_answered_from_cache:
  assumes fresh: "cache_get now (bounded_request now rq) (dm_cache d) = (None, c)"
    and eval: "handleEvaluate env now False rq d = (res, d1)"
    and full: "int (length (rq_raw_command rq)) = MaxRawCommandBytes" and "rq_session_id rq \<noteq> []"
    and rest: "RuneStart b" and time: "now2 \<le> now + CacheTTL"
  shows "fst (handleEvaluate env now2 False
     (rq\<lparr>rq_tool_use_id := [], rq_raw_command := rq_raw_command rq @ b # bs\<rparr>) d1) = res"
proof -
  let ?long = "rq\<lparr>rq_tool_use_id := [], rq_raw_command := rq_raw_command rq @ b # bs\<rparr>"
  let ?n = "length (rq_raw_command rq)"
  have n: "nat MaxRawCommandBytes = ?n" "0 < ?n" using full by (auto simp: MaxRawCommandBytes_def)
  have at: "(rq_raw_command rq @ b # bs) ! ?n = b" by simp
  have "rune_cut (rq_raw_command rq @ b # bs) ?n = ?n" using n(2) rest at by (cases ?n) auto
  then have cut: "safeTruncate (rq_raw_command rq @ b # bs) MaxRawCommandBytes = rq_raw_command rq"
    using full n by (simp add: safeTruncate_def)
  have same: "sessionCommandKey (bounded_request now2 ?long) = sessionCommandKey (bounded_request now rq)"
    "toolUseKey (bounded_request now2 ?long) = []"
    using full cut by (auto simp: bounded_request_def sessionCommandKey_def toolUseKey_def Let_def)
  have key: "sessionCommandKey (bounded_request now rq) \<noteq> []"
    using n(2) assms(4) full by (auto simp: bounded_request_def sessionCommandKey_def Let_def)
  obtain st where d1: "dm_cache d1 = cache_put now (bounded_request now rq) res c" "dm_store d1 = st"
    using eval fresh by (auto simp: handleEvaluate_def Let_def split: prod.splits)
  have "sessionCommandKey (bounded_request now rq) \<in> set (cacheKeys (bounded_request now rq))"
    using key by (simp add: cacheKeys_def)
  then have "dm_cache d1 (sessionCommandKey (bounded_request now rq)) = Some \<lparr>ce_result = res, ce_expires = now + CacheTTL\<rparr>"
    unfolding d1(1) by (rule cache_put_stored)
  then show ?thesis
    using same key time by (simp add: handleEvaluate_def cache_get_def)
qed

theorem overlong_answered_from_cache_witness:
  "\<exists>d1. snd (handleEvaluate (sample_env cat_dist) 9 False (bash_request ''t9'' (replicate 65536 CHR ''x''))
            sample_daemon) = d1 \<and>
     er_decision (fst (handleEvaluate (sample_env cat_dist) 10 False
       (bash_request [] (replicate 65536 CHR ''x'' @ CHR '';'' # ''rm -r ~'')) d1)) = OutcomeAllow"
proof -
  let ?rq = "bash_request ''t9'' (replicate 65536 CHR ''x'')"
  let ?ev = "EvaluateDetailed (buildPipeline 1 9) (sample_input cat_dist) None
               (rememberProject 9 (Some sample_context) sample_store)"
  obtain res d1 where ev: "handleEvaluate (sample_env cat_dist) 9 False ?rq sample_daemon = (res, d1)" by fastforce
  have fresh: "cache_get 9 (bounded_request 9 ?rq) (dm_cache sample_daemon) = (None, Map.empty)"
    by (simp add: sample_daemon_def)
  have long: "?rq\<lparr>rq_tool_use_id := [], rq_raw_command := rq_raw_command ?rq @ CHR '';'' # ''rm -r ~''\<rparr> =
    bash_request [] (replicate 65536 CHR ''x'' @ CHR '';'' # ''rm -r ~'')" by (simp add: bash_request_def)
  have b: "bounded_request 9 ?rq = ?rq" by (simp add: bounded_request_def bash_request_def MaxRawCommandBytes_def)
  have inp: "request_input (sample_env cat_dist) ?rq = sample_input cat_dist"
    by (simp add: request_input_def sample_env_def sample_input_def mark_truncated_def bash_request_def zero_request_def)
  have evaluated: "d_outcome (fst (fst ?ev)) = OutcomeAllow" "st_failing (snd ?ev) = []" "project_exists (snd ?ev) ''p1''"
    by code_simp+
  obtain dc fs st2 where dc: "?ev = ((dc, fs), st2)" by (metis prod.exhaust)
  have "er_decision (fst (daemon_evaluate (sample_env cat_dist) 9 ?rq False sample_store)) = OutcomeAllow"
    using evaluated dc inp
    by (simp add: daemon_evaluate_def Let_def sample_env_def bash_request_def zero_request_def sample_input_def
        sample_context_def RecordEvaluation_def Audit_Insert_def buildEvent_def evaluation_answer_def)
  then have "er_decision res = OutcomeAllow"
    using ev fresh b by (auto simp: handleEvaluate_def sample_daemon_def Let_def split: prod.splits)
  moreover have "fst (handleEvaluate (sample_env cat_dist) 10 False
      (bash_request [] (replicate 65536 CHR ''x'' @ CHR '';'' # ''rm -r ~'')) d1) = res"
    using overlong_answered_from_cache [OF fresh ev, of "CHR '';''" 10 "''rm -r ~''"] unfolding long
    by (simp add: bash_request_def MaxRawCommandBytes_def RuneStart_def CacheTTL_def)
  ultimately show ?thesis using ev by simp
qed

text \<open>A decision that cannot be written to the log is not acted on: while the insertion of audit
  rows fails, every new evaluation is answered ASK with class ENGINE_ERROR and names no event.\<close>

theorem unrecorded_is_asked:
  assumes "DbInsertAudit \<in> set (st_failing (dm_store d))"
    and "cache_get now (bounded_request now rq) (dm_cache d) = (None, c)"
    and "handleEvaluate env now False rq d = (res, d')"
  shows "er_decision res = OutcomeAsk \<and> er_class res = ClassEngineError \<and> er_audit_event_id res = None"
proof -
  let ?rq = "bounded_request now rq" and ?e = "buildPipeline (de_engine_version env) now"
  let ?inp = "request_input env ?rq"
  let ?st1 = "rememberProject now (pi_context ?inp) (dm_store d)"
  obtain dc fs st2 where ev: "EvaluateDetailed ?e ?inp (rq_agent_consent ?rq) ?st1 = ((dc, fs), st2)"
    by (metis prod.exhaust)
  have "store_step\<^sup>*\<^sup>* (dm_store d) st2"
    using rememberProject_steps EvaluateDetailed_steps [OF ev] by (rule rtranclp_trans)
  then have "st_failing st2 = st_failing (dm_store d)" by (induction rule: rtranclp_induct) (simp_all add: store_step_audit)
  then show ?thesis using assms ev
    by (auto simp: handleEvaluate_def daemon_evaluate_def Let_def RecordEvaluation_def Audit_Insert_def
        evaluation_answer_def unrecorded_def split: prod.splits)
qed

theorem unrecorded_is_asked_witness:
  "er_decision (fst (handleEvaluate (sample_env cat_dist) 9 False (bash_request ''t9'' ''cat dist'')
     (sample_daemon\<lparr>dm_store := sample_store\<lparr>st_failing := [DbInsertAudit]\<rparr>\<rparr>))) = OutcomeAsk"
proof -
  let ?d = "sample_daemon\<lparr>dm_store := sample_store\<lparr>st_failing := [DbInsertAudit]\<rparr>\<rparr>"
  let ?rq = "bash_request ''t9'' ''cat dist''"
  obtain res d' where ev: "handleEvaluate (sample_env cat_dist) 9 False ?rq ?d = (res, d')" by fastforce
  have "cache_get 9 (bounded_request 9 ?rq) (dm_cache ?d) = (None, Map.empty)" by (simp add: sample_daemon_def)
  from unrecorded_is_asked [OF _ this ev] ev show ?thesis by simp
qed

text \<open>C32. The log explains decisions for good: no sequence of requests deletes a row or changes its
  request, its resolved action, its decision, class, reason, rule, approvals or explanation; only the
  prompt, the delivery, the execution and a late import are filled in later. New rows are appended.\<close>

theorem log_never_rewritten:
  assumes "(daemon_step env)\<^sup>*\<^sup>* d d'"
  shows "prefix (map verdict (st_audit (dm_store d))) (map verdict (st_audit (dm_store d')))"
  using assms
proof (induction rule: rtranclp_induct)
  case (step e e')
  have "prefix (map verdict (st_audit (dm_store e))) (map verdict (st_audit (dm_store e')))"
    using daemon_step_facts [OF step.hyps(2)] by (simp add: evolves_def log_grows_def)
  then show ?case using step.IH by (rule prefix_order.trans [rotated])
qed simp

theorem log_never_rewritten_witness:
  "prefix (map verdict (st_audit sample_store))
     (map verdict (st_audit (dm_store (snd (handleEvaluate (sample_env cat_dist) 9 False
        (bash_request ''t9'' ''cat dist'') sample_daemon)))))"
proof -
  let ?run = "handleEvaluate (sample_env cat_dist) 9 False (bash_request ''t9'' ''cat dist'') sample_daemon"
  have "daemon_step (sample_env cat_dist) sample_daemon (snd ?run)"
    by (rule daemon_step.evaluate) (rule prod.collapse [symmetric])
  from log_never_rewritten [OF r_into_rtranclp, OF this] show ?thesis by (simp add: sample_daemon_def)
qed

text \<open>A dry run is not without trace: with a consent of the agent it imports it, and the store is
  left with a new active approval and its import record, although the run is neither logged nor
  cached.\<close>

theorem dry_run_imports_consent:
  "let d = \<lparr>dm_store = project_store, dm_cache = Map.empty\<rparr>;
       rq = (bash_request ''t9'' ''rm -r dist'')\<lparr>rq_agent_consent := Some sample_consent\<rparr>;
       d' = snd (handleEvaluate (sample_env rm_dist) 9 True rq d)
   in st_approvals (dm_store d) = [] \<and> map a_state (st_approvals (dm_store d')) = [ApprovalActive] \<and>
      length (st_imports (dm_store d')) = 1 \<and> st_audit (dm_store d') = []"
  by code_simp

text \<open>The summary of a session or project, computed by the database per decision and class, is the
  count of the selected rows: totals, the split of the allows, and the first and last time.\<close>

theorem summary_counts_rows:
  assumes "DbSelectAudit \<notin> set (st_failing st)"
  shows "Summarize st f = Inr (counted_summary (filter (selected f) (st_audit st)))"
  using assms by (simp add: Summarize_counts)

theorem summary_counts_rows_witness:
  "\<exists>s. Summarize (dm_store (snd (handleEvaluate (sample_env cat_dist) 9 False
          (bash_request ''t9'' ''cat dist'') sample_daemon)))
        \<lparr>fl_decision = None, fl_project_id = ''p1'', fl_session_id = ''s1'', fl_since = None, fl_limit = 0,
         fl_include_dry_run = False\<rparr> = Inr s \<and> as_total s = 1 \<and> as_allowed_baseline s = 1"
proof -
  let ?st = "dm_store (snd (handleEvaluate (sample_env cat_dist) 9 False (bash_request ''t9'' ''cat dist'') sample_daemon))"
  let ?f = "\<lparr>fl_decision = None, fl_project_id = ''p1'', fl_session_id = ''s1'', fl_since = None, fl_limit = 0,
    fl_include_dry_run = False\<rparr>"
  have "DbSelectAudit \<notin> set (st_failing ?st)" by code_simp
  note counts = summary_counts_rows [OF this, of ?f]
  have "as_total (counted_summary (filter (selected ?f) (st_audit ?st))) = 1"
    "as_allowed_baseline (counted_summary (filter (selected ?f) (st_audit ?st))) = 1" by code_simp+
  with counts show ?thesis by blast
qed

end
