(* ===== verification/Claude_Properties.thy ===== *)
theory Claude_Properties
  imports Claude_Hook
begin

text \<open>Properties of the agent adapter: rules and consent, settings files, and what the hook emits.\<close>

section \<open>Concrete values\<close>

definition npm_settings :: settings_file where
  "npm_settings =
     \<lparr>sf_scope = ScopeLocal, sf_path = ''/w/.claude/settings.local.json'', sf_exists = True,
      sf_permissions = \<lparr>pm_allow = [''Bash(npm run test:*)'', ''Bash(git status)''], pm_deny = [], pm_ask = []\<rparr>,
      sf_unreadable = False\<rparr>"

definition user_world :: settings_world where
  "user_world =
     \<lparr>sw_stat = (\<lambda>p. if p = ''/home/u/.claude/settings.json'' then Some (1, 2) else None),
      sw_read = (\<lambda>p. if p = ''/home/u/.claude/settings.json'' then Some ''{}'' else None),
      sw_unmarshal = (\<lambda>c. Some \<lparr>pm_allow = [''Bash(npm test:*)''], pm_deny = [], pm_ask = []\<rparr>)\<rparr>"

definition user_reader :: settings_reader where
  "user_reader =
     \<lparr>sr_os = ''linux'', sr_home = ''/home/u'', sr_program_data = [], sr_user_override = [], sr_cwd = ''/w'',
      sr_cache = [''/home/u/.claude/settings.json'' \<mapsto>
        \<lparr>cs_mod_time = 1, cs_size = 2,
         cs_permissions = \<lparr>pm_allow = [''Bash(npm test:*)''], pm_deny = [], pm_ask = []\<rparr>, cs_unreadable = False\<rparr>]\<rparr>"

definition client_that_answers :: "evaluation_result \<Rightarrow> unit client" where
  "client_that_answers result =
     \<lparr>cl_reachable = True, cl_evaluate = (\<lambda>dry rq d. (Inr result, d)), cl_record_prompt = (\<lambda>s t c g d. (Inr (), d)),
      cl_record_adapter_action = (\<lambda>i act d. (Inr (), d)), cl_report_execution = (\<lambda>s t st y c d. (Inr (), d)),
      cl_config_changed = (\<lambda>d. (Inr (), d)), cl_summarize = (\<lambda>s d. (Inl [], d)), cl_lazy_start = None\<rparr>"

definition blocked_result :: evaluation_result where
  "blocked_result =
     \<lparr>er_audit_event_id = Some 4, er_decision = OutcomeBlock, er_class = HardRuleClass ''R2'',
      er_reason = ''deleting ~/old'', er_approval_id = None, er_hard_rule = ''R2'', er_mismatch_reports = [],
      er_resolution_status = StatusResolved, er_explanation = [], er_user_message = [],
      er_imported_approval_id = None\<rparr>"

definition hook_with :: "evaluation_result \<Rightarrow> unit hook_env" where
  "hook_with result =
     \<lparr>hx_client = client_that_answers result, hx_world = user_world, hx_lookup = None, hx_now = 5,
      hx_runtime_dir = ''/run'', hx_hash = (\<lambda>s. s), hx_marker_writable = True, hx_status = (\<lambda>_. None),
      hx_outputs = (\<lambda>_. None)\<rparr>"

definition bypass_event :: event where
  "bypass_event =
     \<lparr>he_hook_event_name = EventPreToolUse, he_session_id = ''s1'', he_cwd = ''/w'',
      he_permission_mode = ModeBypassPermissions, he_tool_name = ToolBash, he_tool_use_id = ''t1'',
      he_command = ''rm -r ~/old'', he_tool_response = [], he_permission_suggestions = None, he_source = [],
      he_file_path = [], he_session_end_reason = []\<rparr>"

section \<open>Rules\<close>

text \<open>The matcher of rule patterns, which looks for the pieces between the stars from left to right
  and never goes back, accepts exactly the texts a pattern means, where a star stands for any sequence
  of characters.\<close>

theorem glob_matches_its_meaning: "globMatch pattern str \<longleftrightarrow> star_match pattern str"
  by (rule globMatch_star_match)

text \<open>C33. A consent is reported only when every part of the command line is covered: the rule keys are
  those of allow rules the agent holds for the tool, every part is covered by one of them (literally, when the consent says so), and no part contains a character on
  which the agent would split again.\<close>

theorem consent_covers_every_part:
  assumes "Consent tool raw files = Some c"
  shows "\<exists>subs. splitCommand raw = Some subs \<and> subs \<noteq> [] \<and>
     (\<forall>sub \<in> set subs. set sub \<inter> {CHR ''&'', CHR ''|'', CHR '';'', CHR 0x0A} = {} \<and>
        (\<exists>stripped rule. stripWrappers sub = Some stripped \<and> rule \<in> set (AllowRules files tool) \<and>
           (rl_content rule = stripped \<or> matchContent (rl_content rule) stripped) \<and>
           Rule_Key rule \<in> set (co_rule_keys c) \<and> (co_exact c \<longrightarrow> rl_content rule = stripped))) \<and>
     set (co_rule_keys c) \<subseteq> Rule_Key ` set (AllowRules files tool)"
proof -
  obtain subs where subs: "splitCommand raw = Some subs" "subs \<noteq> []"
    "\<forall>sub \<in> set subs. covered_by (AllowRules files tool) (co_rule_keys c) (co_exact c) sub"
    "set (co_rule_keys c) \<subseteq> Rule_Key ` set (AllowRules files tool)"
    using Consent_Some [OF assms] by blast
  then show ?thesis using splitCommand_free [OF subs(1)]
    by (intro exI [of _ subs]) (auto simp: covered_by_def rule_covers_def)
qed

theorem consent_covers_every_part_witness:
  "\<exists>c. Consent ToolBash ''npm run test --all && git status'' [npm_settings] = Some c \<and>
       set (co_rule_keys c) \<subseteq> Rule_Key ` set (AllowRules [npm_settings] ToolBash)"
proof -
  have "Consent ToolBash ''npm run test --all && git status'' [npm_settings] \<noteq> None" by code_simp
  then obtain c where c: "Consent ToolBash ''npm run test --all && git status'' [npm_settings] = Some c" by blast
  from consent_covers_every_part [OF this] c show ?thesis by blast
qed



section \<open>What the hook emits\<close>

text \<open>The hook is the messenger: it tells the agent to allow, deny or ask only when the daemon
  answered this very command with ALLOW, BLOCK or ASK, and in bypass mode it never asks. Whatever goes
  wrong before an answer arrives is silence or a notice without a decision.\<close>

theorem hook_tells_the_decision:
  assumes "hook_Run x unmarshal stdin h = (r, h')" and "tells r = Some told"
  shows "\<exists>e result. unmarshal stdin = Some e \<and> daemon_answered x e result \<and>
     (told = decisionAllow \<and> er_decision result = OutcomeAllow \<or>
      told = decisionDeny \<and> er_decision result = OutcomeBlock \<or>
      told = decisionAsk \<and> er_decision result = OutcomeAsk \<and> \<not> Bypassing e \<and>
        er_class result \<in> {ClassApprovalMismatch, ClassPolicyRequiresConfirmation})"
  using hook_Run_answered [OF assms]
  by (elim exE conjE disjE)
     (fastforce simp: MapPreToolUse_tells MapPermissionRequest_tells split: decision_outcome.splits if_splits)+

theorem hook_tells_the_decision_witness:
  "\<exists>result. daemon_answered (hook_with blocked_result) bypass_event result \<and> er_decision result = OutcomeBlock"
proof -
  let ?h = "\<lparr>ho_daemon = (), ho_settings = user_reader, ho_markers = Map.empty\<rparr>"
  let ?run = "hook_Run (hook_with blocked_result) (\<lambda>_. Some bypass_event) ''{}'' ?h"
  obtain r h' where run: "?run = (r, h')" by fastforce
  have "tells (fst ?run) = Some decisionDeny" by code_simp
  then have "tells r = Some decisionDeny" using run by simp
  from hook_tells_the_decision [OF run this] show ?thesis by auto
qed

text \<open>Cutting a command to the byte limit never splits a rune and cuts as little as possible: of a
  text of runes that is too long, a number of whole runes is kept that fits the limit, and the next
  rune would not fit.\<close>

theorem truncation_keeps_whole_runes:
  assumes "\<forall>r \<in> set runes. rune r" and "limit < length (concat runes)"
  shows "\<exists>k < length runes. truncateUTF8 (concat runes) (int limit) = concat (take k runes) \<and>
     length (concat (take k runes)) \<le> limit \<and> limit < length (concat (take (Suc k) runes))"
  using assms by (rule truncateUTF8_runes)

theorem truncation_keeps_whole_runes_witness:
  "\<exists>k < 3. truncateUTF8 (concat [''a'', em_dash, ''b'']) 3 = concat (take k [''a'', em_dash, ''b''])"
proof -
  have "\<forall>r \<in> set [''a'', em_dash, ''b'']. rune r" by code_simp
  moreover have "3 < length (concat [''a'', em_dash, ''b''])" by code_simp
  ultimately obtain k where "k < length [''a'', em_dash, ''b'']"
    "truncateUTF8 (concat [''a'', em_dash, ''b'']) (int 3) = concat (take k [''a'', em_dash, ''b''])"
    using truncation_keeps_whole_runes [of "[''a'', em_dash, ''b'']" 3] by blast
  then show ?thesis by (intro exI [of _ k]) simp
qed

end
