(* ===== verification/Parser_Model.thy ===== *)
theory Parser_Model
  imports Action_Model Filepath
begin

text \<open>
  \<^verbatim>\<open>internal/parser\<close> without the dialects: the command model every parser produces (\<^verbatim>\<open>model.go\<close>) and
  the variable expansion and name tables they share (\<^verbatim>\<open>expand.go\<close>). An index loop over a string is a
  recursion over the rest of the string. The lemmas show that expansion leaves text without variables
  alone, keeps unknown variables as written, and that a dialect is parsed by the parser registered
  for it.
\<close>

section \<open>The command model\<close>

datatype operator = OpNone | OpSequence | OpAnd | OpOr | OpPipe

record word =
  w_text :: string
  w_quoted :: bool
  w_glob :: bool
  w_unexpanded :: bool

abbreviation zero_word :: word where
  "zero_word \<equiv> \<lparr>w_text = [], w_quoted = False, w_glob = False, w_unexpanded = False\<rparr>"

abbreviation text_word :: "string \<Rightarrow> word" where
  "text_word s \<equiv> \<lparr>w_text = s, w_quoted = False, w_glob = False, w_unexpanded = False\<rparr>"

record env_assignment =
  ea_name :: string
  ea_value :: string

record redirection =
  rd_op :: string
  rd_target :: word

record simple_command =
  s_argv :: "word list"
  s_env :: "env_assignment list"
  s_redirections :: "redirection list"
  s_cwd :: string
  s_raw_text :: string
  s_operator :: operator
  s_piped_into :: bool
  s_piped_from :: bool
  s_elevated :: bool
  s_builtin :: bool

definition SimpleCommand_Name :: "simple_command \<Rightarrow> string" where
  "SimpleCommand_Name c = (case s_argv c of [] \<Rightarrow> [] | w # _ \<Rightarrow> w_text w)"

definition SimpleCommand_Args :: "simple_command \<Rightarrow> word list" where
  "SimpleCommand_Args c = (if length (s_argv c) \<le> 1 then [] else drop 1 (s_argv c))"

definition ArgTexts :: "simple_command \<Rightarrow> string list" where
  "ArgTexts c = map w_text (SimpleCommand_Args c)"

definition HasUnexpandedVar :: "simple_command \<Rightarrow> bool" where
  "HasUnexpandedVar c = (\<exists>w \<in> set (s_argv c). w_unexpanded w)"

datatype unsupported_kind =
  UnsupportedCommandSubstitution | UnsupportedProcessSubstitution | UnsupportedArithmetic
  | UnsupportedControlFlow | UnsupportedFunction | UnsupportedEval | UnsupportedSource
  | UnsupportedExec | UnsupportedXargs | UnsupportedAlias | UnsupportedExport
  | UnsupportedDirStack | UnsupportedTrap | UnsupportedBackground | UnsupportedScriptBlock
  | UnsupportedInvokeExpression | UnsupportedStartProcess | UnsupportedShellWrapper
  | UnsupportedElevation | UnsupportedSyntaxError | UnsupportedNode | UnsupportedRedirection
  | UnsupportedCdDash | UnsupportedTooManyCommands | UnsupportedCommandTooLong
  | UnsupportedTruncated

primrec unsupported_kind_str :: "unsupported_kind \<Rightarrow> string" where
  "unsupported_kind_str UnsupportedCommandSubstitution = ''command_substitution''"
| "unsupported_kind_str UnsupportedProcessSubstitution = ''process_substitution''"
| "unsupported_kind_str UnsupportedArithmetic = ''arithmetic_expansion''"
| "unsupported_kind_str UnsupportedControlFlow = ''control_flow''"
| "unsupported_kind_str UnsupportedFunction = ''function_definition''"
| "unsupported_kind_str UnsupportedEval = ''eval''"
| "unsupported_kind_str UnsupportedSource = ''source''"
| "unsupported_kind_str UnsupportedExec = ''exec''"
| "unsupported_kind_str UnsupportedXargs = ''xargs''"
| "unsupported_kind_str UnsupportedAlias = ''alias''"
| "unsupported_kind_str UnsupportedExport = ''export''"
| "unsupported_kind_str UnsupportedDirStack = ''dir_stack''"
| "unsupported_kind_str UnsupportedTrap = ''trap''"
| "unsupported_kind_str UnsupportedBackground = ''background''"
| "unsupported_kind_str UnsupportedScriptBlock = ''script_block''"
| "unsupported_kind_str UnsupportedInvokeExpression = ''invoke_expression''"
| "unsupported_kind_str UnsupportedStartProcess = ''start_process''"
| "unsupported_kind_str UnsupportedShellWrapper = ''shell_command_wrapper''"
| "unsupported_kind_str UnsupportedElevation = ''elevation''"
| "unsupported_kind_str UnsupportedSyntaxError = ''syntax_error''"
| "unsupported_kind_str UnsupportedNode = ''unsupported_node''"
| "unsupported_kind_str UnsupportedRedirection = ''unsupported_redirection''"
| "unsupported_kind_str UnsupportedCdDash = ''cd_dash''"
| "unsupported_kind_str UnsupportedTooManyCommands = ''too_many_commands''"
| "unsupported_kind_str UnsupportedCommandTooLong = ''command_too_long''"
| "unsupported_kind_str UnsupportedTruncated = ''truncated''"

record unsupported_construct =
  uc_kind :: unsupported_kind
  uc_position :: nat
  uc_text :: string

definition UnsupportedConstruct_String :: "unsupported_construct \<Rightarrow> string" where
  "UnsupportedConstruct_String u =
     (if uc_text u = [] then unsupported_kind_str (uc_kind u)
      else unsupported_kind_str (uc_kind u) @ '' ('' @ uc_text u @ '')'')"

record parsed_command =
  pc_dialect :: dialect
  pc_commands :: "simple_command list"
  pc_operators :: "operator list"
  pc_unsupported :: "unsupported_construct list"
  pc_final_cwd :: string

definition Parsed_OK :: "parsed_command \<Rightarrow> bool" where
  "Parsed_OK p = (pc_unsupported p = [])"

definition Truncated :: "parsed_command \<Rightarrow> bool" where
  "Truncated p = (\<exists>u \<in> set (pc_unsupported p). uc_kind u = UnsupportedTruncated)"

definition UnsupportedSummary :: "parsed_command \<Rightarrow> string list" where
  "UnsupportedSummary p = map UnsupportedConstruct_String (pc_unsupported p)"

definition AddUnsupported :: "parsed_command \<Rightarrow> unsupported_kind \<Rightarrow> nat \<Rightarrow> string \<Rightarrow> parsed_command" where
  "AddUnsupported p kind position txt =
     p\<lparr>pc_unsupported := pc_unsupported p @ [\<lparr>uc_kind = kind, uc_position = position, uc_text = txt\<rparr>]\<rparr>"

record parse_input =
  pi_Command :: string
  pi_Cwd :: string
  pi_Home :: string
  pi_TempDir :: string
  pi_Env :: "string \<rightharpoonup> string"

text \<open>A parser answers with the text of an internal error or with the parsed command; the registry
  keeps one per dialect.\<close>

type_synonym dialect_parser = "parse_input \<Rightarrow> string + parsed_command"
type_synonym parser_registry = "(dialect \<times> dialect_parser) list"

definition Parsers_Register :: "parser_registry \<Rightarrow> dialect \<Rightarrow> dialect_parser \<Rightarrow> parser_registry" where
  "Parsers_Register r name p = filter (\<lambda>(n, _). n \<noteq> name) r @ [(name, p)]"

definition Parsers_Names :: "parser_registry \<Rightarrow> string list" where
  "Parsers_Names r = sort (map (\<lambda>(n, _). dialect_str n) r)"

definition Parsers_Get :: "parser_registry \<Rightarrow> dialect \<Rightarrow> string + dialect_parser" where
  "Parsers_Get r name =
     (case map_of r name of
        Some p \<Rightarrow> Inr p
      | None \<Rightarrow> Inl (''parser: unknown dialect '' @ [CHR 0x22] @ dialect_str name @ [CHR 0x22] @
                    '' (known: '' @ strings_Join (Parsers_Names r) '', '' @ '')''))"

definition MaxCommandBytes :: int where
  "MaxCommandBytes = 64 * 1024"

definition MaxSimpleCommands :: int where
  "MaxSimpleCommands = 32"

definition MaxParsedCommands :: int where
  "MaxParsedCommands = 65536"

section \<open>Variables\<close>

record var_context =
  vc_Home :: string
  vc_Cwd :: string
  vc_TempDir :: string
  vc_Env :: "string \<rightharpoonup> string"

definition FromInput :: "parse_input \<Rightarrow> var_context" where
  "FromInput inp =
     \<lparr>vc_Home = pi_Home inp, vc_Cwd = pi_Cwd inp, vc_TempDir = pi_TempDir inp, vc_Env = pi_Env inp\<rparr>"

text \<open>The value of a variable is used when it is not empty. \<open>filepath.VolumeName\<close> is empty on a host
  with slashes, so \<open>HOMEDRIVE\<close> is the empty string and \<open>HOMEPATH\<close> the home directory.\<close>

abbreviation non_empty :: "string \<Rightarrow> string option" where
  "non_empty v \<equiv> (if v \<noteq> [] then Some v else None)"

definition VolumeName :: "string \<Rightarrow> string" where
  "VolumeName p = []"

definition vars_Lookup :: "dialect \<Rightarrow> string \<Rightarrow> var_context \<Rightarrow> string option" where
  "vars_Lookup dialect name ctx =
     (case vc_Env ctx name of
        Some value' \<Rightarrow> Some value'
      | None \<Rightarrow>
          (case dialect of
             DialectPosix \<Rightarrow>
               (if name = ''HOME'' then non_empty (vc_Home ctx)
                else if name = ''PWD'' then non_empty (vc_Cwd ctx)
                else if name = ''TMPDIR'' then non_empty (vc_TempDir ctx)
                else None)
           | DialectPowerShell \<Rightarrow>
               (if name \<in> {''HOME'', ''env:HOME'', ''env:USERPROFILE''} then non_empty (vc_Home ctx)
                else if name = ''PWD'' then non_empty (vc_Cwd ctx)
                else if name \<in> {''env:TEMP'', ''env:TMP''} then non_empty (vc_TempDir ctx)
                else None)
           | DialectCmd \<Rightarrow>
               (let upper = ToUpper name in
                if upper = ''USERPROFILE'' then non_empty (vc_Home ctx)
                else if upper = ''HOMEDRIVE''
                  then (if vc_Home ctx \<noteq> [] then Some (VolumeName (vc_Home ctx)) else None)
                else if upper = ''HOMEPATH''
                  then (if vc_Home ctx \<noteq> [] then Some (TrimPrefix (vc_Home ctx) (VolumeName (vc_Home ctx)))
                        else None)
                else if upper \<in> {''TEMP'', ''TMP''} then non_empty (vc_TempDir ctx)
                else if upper = ''CD'' then non_empty (vc_Cwd ctx)
                else None)
           | DialectNone \<Rightarrow> None))"

definition ExpandTilde :: "string \<Rightarrow> string \<Rightarrow> string" where
  "ExpandTilde t home =
     (if home = [] \<or> t = [] \<or> hd t \<noteq> CHR ''~'' then t
      else if t = ''~'' then home
      else if 1 < length t \<and> (t ! 1 = CHR ''/'' \<or> t ! 1 = CHR 0x5C) then home @ drop 1 t
      else t)"

definition isNameChar :: "char \<Rightarrow> bool" where
  "isNameChar c =
     (c = CHR ''_'' \<or> (CHR ''a'' \<le> c \<and> c \<le> CHR ''z'') \<or> (CHR ''A'' \<le> c \<and> c \<le> CHR ''Z'') \<or>
      (CHR ''0'' \<le> c \<and> c \<le> CHR ''9''))"

text \<open>A name reader is given the text after the dollar sign and returns the name and how many
  characters it took.\<close>

definition read_braced :: "string \<Rightarrow> string \<times> nat" where
  "read_braced s =
     (if CHR ''}'' \<in> set s
      then (let name = takeWhile (\<lambda>c. c \<noteq> CHR ''}'') (drop 1 s) in (name, length name + 2))
      else ([], 0))"

definition readPowerShellName :: "string \<Rightarrow> string \<times> nat" where
  "readPowerShellName s =
     (if s = [] then ([], 0)
      else if hd s = CHR ''{'' then read_braced s
      else let name = takeWhile (\<lambda>c. isNameChar c \<or> c = CHR '':'') s in (name, length name))"

definition readPosixName :: "string \<Rightarrow> string \<times> nat" where
  "readPosixName s =
     (if s = [] then ([], 0)
      else if hd s = CHR ''{'' then read_braced s
      else let name = takeWhile isNameChar s in (name, length name))"

function expand_dollar ::
    "(string \<Rightarrow> string \<times> nat) \<Rightarrow> (string \<Rightarrow> string option) \<Rightarrow> string \<Rightarrow> string \<times> bool" where
  "expand_dollar read look [] = ([], False)"
| "expand_dollar read look (c # cs) =
     (if c \<noteq> CHR ''$'' then apfst (Cons c) (expand_dollar read look cs)
      else let (name, n) = read cs in
           if name = [] then apfst (Cons c) (expand_dollar read look cs)
           else case look name of
                  Some v \<Rightarrow> apfst ((@) v) (expand_dollar read look (drop n cs))
                | None \<Rightarrow> map_prod ((@) (c # take n cs)) (\<lambda>_. True) (expand_dollar read look (drop n cs)))"
  by pat_completeness auto
termination
  by (relation "measure (\<lambda>(_, _, s). length s)") auto

definition ExpandPowerShell :: "string \<Rightarrow> var_context \<Rightarrow> string \<times> bool" where
  "ExpandPowerShell t ctx =
     expand_dollar readPowerShellName (\<lambda>name. vars_Lookup DialectPowerShell name ctx)
       (ExpandTilde t (vc_Home ctx))"

definition ExpandPosixString :: "string \<Rightarrow> var_context \<Rightarrow> string \<times> bool" where
  "ExpandPosixString t ctx =
     expand_dollar readPosixName (\<lambda>name. vars_Lookup DialectPosix name ctx)
       (ExpandTilde t (vc_Home ctx))"

function expand_percent :: "(string \<Rightarrow> string option) \<Rightarrow> string \<Rightarrow> string \<times> bool" where
  "expand_percent look [] = ([], False)"
| "expand_percent look (c # cs) =
     (if c \<noteq> CHR ''%'' then apfst (Cons c) (expand_percent look cs)
      else case strings_Cut cs ''%'' of
             None \<Rightarrow> (c # cs, False)
           | Some (name, rest) \<Rightarrow>
               if name = [] then apfst (Cons c) (expand_percent look rest)
               else case look name of
                      Some v \<Rightarrow> apfst ((@) v) (expand_percent look rest)
                    | None \<Rightarrow> map_prod ((@) (c # name @ ''%'')) (\<lambda>_. True) (expand_percent look rest))"
  by pat_completeness auto
termination
  by (relation "measure (\<lambda>(_, s). length s)") (auto dest!: strings_Cut_Some)

definition ExpandCmd :: "string \<Rightarrow> var_context \<Rightarrow> string \<times> bool" where
  "ExpandCmd t ctx = expand_percent (\<lambda>name. vars_Lookup DialectCmd name ctx) t"

fun ContainsGlob :: "string \<Rightarrow> bool" where
  "ContainsGlob [] = False"
| "ContainsGlob (c # cs) =
     (c = CHR ''*'' \<or> c = CHR ''?'' \<or> (c = CHR ''['' \<and> CHR '']'' \<in> set cs) \<or> ContainsGlob cs)"

section \<open>Name tables\<close>

definition IgnoredRedirectionTargets :: "string list" where
  "IgnoredRedirectionTargets =
     [''/dev/null'', ''/dev/stdout'', ''/dev/stderr'', ''/dev/stdin'', ''nul'', ''NUL'', ''$null'']"

definition IsIgnoredRedirectionTarget :: "string \<Rightarrow> bool" where
  "IsIgnoredRedirectionTarget target =
     (target \<in> set IgnoredRedirectionTargets \<or> ToLower target \<in> set IgnoredRedirectionTargets)"

definition NeutralEnvNames :: "(string \<times> bool) list" where
  "NeutralEnvNames =
     map (\<lambda>n. (n, True))
       [''CI'', ''NODE_ENV'', ''DEBUG'', ''LOG_LEVEL'', ''VERBOSE'',
        ''QUIET'', ''FORCE_COLOR'', ''NO_COLOR'', ''CLICOLOR'',
        ''CLICOLOR_FORCE'', ''TERM'', ''COLUMNS'', ''LINES'', ''TZ'',
        ''LANG'', ''LANGUAGE'', ''LC_ALL'', ''LC_CTYPE'', ''LC_MESSAGES'',
        ''LC_COLLATE'', ''LC_NUMERIC'', ''LC_TIME'', ''PORT'',
        ''DO_NOT_TRACK'', ''NEXT_TELEMETRY_DISABLED'', ''NODE_NO_WARNINGS'',
        ''PYTHONUNBUFFERED'', ''PYTHONDONTWRITEBYTECODE'', ''HUSKY''] @
     map (\<lambda>n. (n, False)) [''BROWSER'', ''GRADLE_OPTS'', ''MAVEN_OPTS'', ''JAVA_HOME'']"

definition IsDangerousEnvAssignment :: "string \<Rightarrow> bool" where
  "IsDangerousEnvAssignment name =
     (\<not> (map_of NeutralEnvNames (ToUpper (TrimSpace name)) = Some True))"

definition StreamInterpreters :: "string list" where
  "StreamInterpreters =
     [''sh'', ''bash'', ''zsh'', ''dash'', ''ksh'', ''pwsh'', ''powershell'', ''cmd'',
      ''python'', ''python2'', ''python3'', ''node'', ''deno'', ''bun'',
      ''perl'', ''ruby'', ''php'', ''invoke-expression'', ''iex'']"

definition IsStreamInterpreter :: "string \<Rightarrow> bool" where
  "IsStreamInterpreter name = (TrimSuffix (ToLower (Base name)) ''.exe'' \<in> set StreamInterpreters)"

definition ElevationWrappers :: "string list" where
  "ElevationWrappers = [''sudo'', ''doas'', ''su'', ''runas'']"

definition IsElevationWrapper :: "string \<Rightarrow> bool" where
  "IsElevationWrapper name = (TrimSuffix (ToLower (Base name)) ''.exe'' \<in> set ElevationWrappers)"

section \<open>Lemmas\<close>

lemma SimpleCommand_Args_eq: "SimpleCommand_Args c = tl (s_argv c)"
  by (cases "s_argv c") (auto simp: SimpleCommand_Args_def)

lemma AddUnsupported_sels [simp]:
  "pc_commands (AddUnsupported p k i t) = pc_commands p"
  "pc_operators (AddUnsupported p k i t) = pc_operators p"
  "pc_dialect (AddUnsupported p k i t) = pc_dialect p"
  "pc_final_cwd (AddUnsupported p k i t) = pc_final_cwd p"
  "pc_unsupported (AddUnsupported p k i t) =
     pc_unsupported p @ [\<lparr>uc_kind = k, uc_position = i, uc_text = t\<rparr>]"
  by (simp_all add: AddUnsupported_def)

lemma AddUnsupported_not_OK [simp]: "\<not> Parsed_OK (AddUnsupported p k i t)"
  by (simp add: Parsed_OK_def)

text \<open>The registry answers with the parser registered last.\<close>

lemma Parsers_Get_Register:
  "Parsers_Get (Parsers_Register r n p) n = Inr p"
  "m \<noteq> n \<Longrightarrow> map_of r m = Some q \<Longrightarrow> Parsers_Get (Parsers_Register r n p) m = Inr q"
proof -
  have "map_of (filter (\<lambda>(k, _). k \<noteq> n) r) m = (if m = n then None else map_of r m)" for m
    by (induction r) auto
  then show "Parsers_Get (Parsers_Register r n p) n = Inr p"
    and "m \<noteq> n \<Longrightarrow> map_of r m = Some q \<Longrightarrow> Parsers_Get (Parsers_Register r n p) m = Inr q"
    by (simp_all add: Parsers_Get_def Parsers_Register_def map_add_def)
qed

text \<open>Text without the variable sign is returned as it is.\<close>

lemma expand_dollar_plain: "CHR ''$'' \<notin> set s \<Longrightarrow> expand_dollar read look s = (s, False)"
  by (induction s) auto

lemma expand_percent_plain: "CHR ''%'' \<notin> set s \<Longrightarrow> expand_percent look s = (s, False)"
  by (induction s) auto

text \<open>An unknown variable is kept as written: when no variable is known, expansion is the identity
  up to the escaped percent sign.\<close>

lemma expand_dollar_unknown:
  assumes "\<And>name. look name = None"
  shows "fst (expand_dollar read look s) = s"
proof (induction "length s" arbitrary: s rule: less_induct)
  case less
  show ?case
  proof (cases s)
    case (Cons c cs)
    then have "fst (expand_dollar read look (drop n cs)) = drop n cs" for n
      using less by simp
    from this [of 0] this show ?thesis
      using Cons assms by (simp add: case_prod_unfold Let_def)
  qed simp
qed

end
