(* ===== verification/Resolver_Registry.thy ===== *)
theory Resolver_Registry
  imports Parser_Model Scope
begin

text \<open>
  \<^verbatim>\<open>internal/resolver/registry.go\<close>: the request a recognizer is given, the registry that dispatches a
  simple command to the recognizer of its executable and then applies the rules that hold for every
  command (redirections, environment overrides, streamed input, elevation), and the option grammar
  all recognizers scan their arguments with. A recognizer is a function of the request; the registry
  is a parameter of everything here, so the lemmas hold for every set of recognizers.

  The script resolver of a request takes the request itself as its first argument; here it is the
  function already applied to that request.
\<close>

section \<open>Requests and recognizers\<close>

record resolver_context =
  rx_action :: "request_context option"
  rx_scope :: "(host_fs \<times> scope_context) option"

record script =
  sx_text :: string
  sx_cwd :: string
  sx_dialects :: "dialect list"
  sx_label :: string
  sx_key :: string

record script_result =
  sr_commands :: "resolved_command list"
  sr_status :: resolution_status
  sr_status_reason :: string

record resolve_request =
  rr_command :: simple_command
  rr_context :: "resolver_context option"
  rr_dialect :: dialect
  rr_depth :: int
  rr_chain :: "string list"
  rr_script :: "(script \<Rightarrow> script_result) option"

definition ResolveScript :: "resolve_request \<Rightarrow> script \<Rightarrow> script_result" where
  "ResolveScript r s =
     (case rr_script r of
        None \<Rightarrow> \<lparr>sr_commands = [], sr_status = StatusUnresolved,
                 sr_status_reason = ''script resolution is unavailable''\<rparr>
      | Some f \<Rightarrow> f s)"

definition InChain :: "resolve_request \<Rightarrow> string \<Rightarrow> bool" where
  "InChain r key = (key \<in> set (rr_chain r))"

type_synonym recognizer = "string list \<times> (resolve_request \<Rightarrow> resolved_command)"
type_synonym registry = "string \<rightharpoonup> (resolve_request \<Rightarrow> resolved_command)"

definition Register :: "registry \<Rightarrow> recognizer list \<Rightarrow> registry" where
  "Register r recognizers =
     foldl (\<lambda>r (names, f). foldl (\<lambda>r name. r(ToLower name \<mapsto> f)) r names) r recognizers"

definition executableKeys :: "string \<Rightarrow> string list" where
  "executableKeys executable =
     (let lowered = ToLower executable;
          base = Base (ReplaceAll lowered [CHR 0x5C] ''/'');
          keys = [lowered] @ (if base \<noteq> lowered then [base] else [])
      in case find (\<lambda>ext. TrimSuffix base ext \<noteq> base) [''.exe'', ''.cmd'', ''.bat'', ''.ps1''] of
           None \<Rightarrow> keys
         | Some ext \<Rightarrow> keys @ [TrimSuffix base ext])"

definition Registry_Lookup :: "registry \<Rightarrow> string \<Rightarrow> (resolve_request \<Rightarrow> resolved_command) option" where
  "Registry_Lookup r executable =
     (if executable = [] then None
      else case find (\<lambda>key. r key \<noteq> None) (executableKeys executable) of
             None \<Rightarrow> None
           | Some key \<Rightarrow> r key)"

section \<open>Assembling a command\<close>

text \<open>Assignments to the fields of a \<open>ResolvedCommand\<close>.\<close>

definition set_executable :: "string \<Rightarrow> resolved_command \<Rightarrow> resolved_command" where
  "set_executable x c = ResolvedCommand x (rc_semantic_op c) (rc_targets c) (rc_effects c) (rc_status c)
     (rc_status_reason c) (rc_fingerprints c) (rc_resolved_from c) (rc_children c) (rc_raw_text c) (rc_git c)"

definition set_semantic_op :: "semantic_op \<Rightarrow> resolved_command \<Rightarrow> resolved_command" where
  "set_semantic_op x c = ResolvedCommand (rc_executable c) x (rc_targets c) (rc_effects c) (rc_status c)
     (rc_status_reason c) (rc_fingerprints c) (rc_resolved_from c) (rc_children c) (rc_raw_text c) (rc_git c)"

definition set_targets :: "target list \<Rightarrow> resolved_command \<Rightarrow> resolved_command" where
  "set_targets x c = ResolvedCommand (rc_executable c) (rc_semantic_op c) x (rc_effects c) (rc_status c)
     (rc_status_reason c) (rc_fingerprints c) (rc_resolved_from c) (rc_children c) (rc_raw_text c) (rc_git c)"

definition set_effects :: "effect list \<Rightarrow> resolved_command \<Rightarrow> resolved_command" where
  "set_effects x c = ResolvedCommand (rc_executable c) (rc_semantic_op c) (rc_targets c) x (rc_status c)
     (rc_status_reason c) (rc_fingerprints c) (rc_resolved_from c) (rc_children c) (rc_raw_text c) (rc_git c)"

definition set_status :: "resolution_status \<Rightarrow> string \<Rightarrow> resolved_command \<Rightarrow> resolved_command" where
  "set_status x reason c = ResolvedCommand (rc_executable c) (rc_semantic_op c) (rc_targets c) (rc_effects c) x
     reason (rc_fingerprints c) (rc_resolved_from c) (rc_children c) (rc_raw_text c) (rc_git c)"

definition set_resolved_from :: "string list \<Rightarrow> resolved_command \<Rightarrow> resolved_command" where
  "set_resolved_from x c = ResolvedCommand (rc_executable c) (rc_semantic_op c) (rc_targets c) (rc_effects c)
     (rc_status c) (rc_status_reason c) (rc_fingerprints c) x (rc_children c) (rc_raw_text c) (rc_git c)"

definition set_raw_text :: "string \<Rightarrow> resolved_command \<Rightarrow> resolved_command" where
  "set_raw_text x c = ResolvedCommand (rc_executable c) (rc_semantic_op c) (rc_targets c) (rc_effects c)
     (rc_status c) (rc_status_reason c) (rc_fingerprints c) (rc_resolved_from c) (rc_children c) x (rc_git c)"

lemmas set_defs =
  set_executable_def set_semantic_op_def set_targets_def set_effects_def set_status_def
  set_resolved_from_def set_raw_text_def

lemma set_executable_sels [simp]:
  "rc_executable (set_executable x c) = x" "rc_semantic_op (set_executable x c) = rc_semantic_op c"
  "rc_targets (set_executable x c) = rc_targets c" "rc_effects (set_executable x c) = rc_effects c"
  "rc_status (set_executable x c) = rc_status c" "rc_status_reason (set_executable x c) = rc_status_reason c"
  "rc_raw_text (set_executable x c) = rc_raw_text c" "rc_children (set_executable x c) = rc_children c"
  by (simp_all add: set_executable_def)

lemma set_semantic_op_sels [simp]:
  "rc_semantic_op (set_semantic_op x c) = x" "rc_targets (set_semantic_op x c) = rc_targets c"
  "rc_effects (set_semantic_op x c) = rc_effects c" "rc_status (set_semantic_op x c) = rc_status c"
  "rc_status_reason (set_semantic_op x c) = rc_status_reason c"
  "rc_raw_text (set_semantic_op x c) = rc_raw_text c" "rc_children (set_semantic_op x c) = rc_children c"
  by (simp_all add: set_semantic_op_def)

lemma set_targets_sels [simp]:
  "rc_executable (set_targets x c) = rc_executable c" "rc_semantic_op (set_targets x c) = rc_semantic_op c"
  "rc_targets (set_targets x c) = x" "rc_effects (set_targets x c) = rc_effects c"
  "rc_status (set_targets x c) = rc_status c" "rc_status_reason (set_targets x c) = rc_status_reason c"
  "rc_raw_text (set_targets x c) = rc_raw_text c" "rc_children (set_targets x c) = rc_children c"
  by (simp_all add: set_targets_def)

lemma set_effects_sels [simp]:
  "rc_executable (set_effects x c) = rc_executable c" "rc_semantic_op (set_effects x c) = rc_semantic_op c"
  "rc_targets (set_effects x c) = rc_targets c" "rc_effects (set_effects x c) = x"
  "rc_status (set_effects x c) = rc_status c" "rc_status_reason (set_effects x c) = rc_status_reason c"
  "rc_raw_text (set_effects x c) = rc_raw_text c" "rc_children (set_effects x c) = rc_children c"
  by (simp_all add: set_effects_def)

lemma set_status_sels [simp]:
  "rc_executable (set_status x r c) = rc_executable c" "rc_semantic_op (set_status x r c) = rc_semantic_op c"
  "rc_targets (set_status x r c) = rc_targets c" "rc_effects (set_status x r c) = rc_effects c"
  "rc_status (set_status x r c) = x" "rc_status_reason (set_status x r c) = r"
  "rc_raw_text (set_status x r c) = rc_raw_text c" "rc_children (set_status x r c) = rc_children c"
  by (simp_all add: set_status_def)

lemma set_raw_text_sels [simp]:
  "rc_executable (set_raw_text x c) = rc_executable c" "rc_semantic_op (set_raw_text x c) = rc_semantic_op c"
  "rc_targets (set_raw_text x c) = rc_targets c" "rc_effects (set_raw_text x c) = rc_effects c"
  "rc_status (set_raw_text x c) = rc_status c" "rc_status_reason (set_raw_text x c) = rc_status_reason c"
  "rc_raw_text (set_raw_text x c) = x" "rc_children (set_raw_text x c) = rc_children c"
  by (simp_all add: set_raw_text_def)

lemma set_resolved_from_sels [simp]:
  "rc_effects (set_resolved_from x c) = rc_effects c" "rc_status (set_resolved_from x c) = rc_status c"
  "rc_targets (set_resolved_from x c) = rc_targets c" "rc_semantic_op (set_resolved_from x c) = rc_semantic_op c"
  "rc_status_reason (set_resolved_from x c) = rc_status_reason c"
  by (simp_all add: set_resolved_from_def)

definition displayName :: "string \<Rightarrow> string" where
  "displayName executable = (if executable = [] then ''the command'' else executable)"

definition degrade :: "resolved_command \<Rightarrow> string \<Rightarrow> resolved_command" where
  "degrade out reason =
     set_status (WeakerStatus (rc_status out) StatusUnresolved)
       (if rc_status_reason out = [] then reason else rc_status_reason out) out"

definition execute_effect :: "string \<Rightarrow> bool \<Rightarrow> effect" where
  "execute_effect name streamed =
     \<lparr>e_type = EffectExecute, e_target = None, e_network = None,
      e_program = Some \<lparr>p_name = name, p_resolution = ProgramUnresolved, p_elevated = False, p_streamed = streamed\<rparr>,
      e_flags = []\<rparr>"

definition Unresolved :: "resolve_request \<Rightarrow> semantic_op \<Rightarrow> string \<Rightarrow> resolved_command" where
  "Unresolved req op reason =
     ResolvedCommand (SimpleCommand_Name (rr_command req)) op []
       [execute_effect (displayName (SimpleCommand_Name (rr_command req))) False]
       StatusUnresolved reason [] [] [] (s_raw_text (rr_command req)) None"

section \<open>Targets of a request\<close>

definition windowsPaths :: "resolve_request \<Rightarrow> bool" where
  "windowsPaths r =
     (rr_dialect r = DialectPowerShell \<or> rr_dialect r = DialectCmd \<or>
      (case rr_context r of
         None \<Rightarrow> False
       | Some ctx \<Rightarrow> (case rx_action ctx of None \<Rightarrow> False | Some a \<Rightarrow> cx_platform a = ''windows'')))"

definition scopeInput :: "resolve_request \<Rightarrow> word \<Rightarrow> scope_input" where
  "scopeInput r word =
     \<lparr>in_Raw = w_text word, in_Text = w_text word, in_Cwd = s_cwd (rr_command r),
      in_Ambiguous = w_unexpanded word, in_Glob = w_glob word, in_WindowsStyle = windowsPaths r\<rparr>"

definition request_scope :: "resolve_request \<Rightarrow> (host_fs \<times> scope_context) option" where
  "request_scope r = Option.bind (rr_context r) rx_scope"

definition TargetsFor :: "resolve_request \<Rightarrow> word \<Rightarrow> target list" where
  "TargetsFor r word =
     (case request_scope r of
        None \<Rightarrow> []
      | Some (fs, sc) \<Rightarrow> NormalizeWord fs sc (scopeInput r word))"

definition TargetFor :: "resolve_request \<Rightarrow> word \<Rightarrow> target option" where
  "TargetFor r word =
     (case request_scope r of
        None \<Rightarrow> None
      | Some (fs, sc) \<Rightarrow> Some (Normalize fs sc (scopeInput r word)))"

definition PathTarget :: "resolve_request \<Rightarrow> string \<Rightarrow> target option" where
  "PathTarget r path =
     (case request_scope r of
        None \<Rightarrow> None
      | Some (fs, sc) \<Rightarrow>
          if path = [] then None
          else Some (Normalize fs sc
                 \<lparr>in_Raw = path, in_Text = path, in_Cwd = s_cwd (rr_command r), in_Ambiguous = False,
                  in_Glob = False, in_WindowsStyle = windowsPaths r\<rparr>))"

definition Workspace :: "resolve_request \<Rightarrow> string" where
  "Workspace r =
     (case Option.bind (rr_context r) rx_action of None \<Rightarrow> [] | Some a \<Rightarrow> cx_workspace_root a)"

section \<open>The rules for every command\<close>

definition target_effect :: "effect_type \<Rightarrow> target \<Rightarrow> effect" where
  "target_effect ty t = \<lparr>e_type = ty, e_target = Some t, e_network = None, e_program = None, e_flags = []\<rparr>"

definition redirection_effects :: "string \<Rightarrow> target \<Rightarrow> effect list" where
  "redirection_effects op t =
     (if HasSuffix op ''<'' then [target_effect EffectRead t]
      else if HasSuffix op ''>>'' then [target_effect EffectWrite t]
      else [target_effect EffectCreate t, target_effect EffectWrite t])"

definition redirect_target :: "string \<Rightarrow> resolved_command \<Rightarrow> target \<Rightarrow> resolved_command" where
  "redirect_target op out t =
     set_targets (rc_targets out @ [t]) (set_effects (rc_effects out @ redirection_effects op t) out)"

definition redirect :: "resolve_request \<Rightarrow> resolved_command \<Rightarrow> redirection \<Rightarrow> resolved_command" where
  "redirect req out rd = foldl (redirect_target (rd_op rd)) out (TargetsFor req (rd_target rd))"

definition applyRedirections :: "resolve_request \<Rightarrow> resolved_command \<Rightarrow> resolved_command" where
  "applyRedirections req out = foldl (redirect req) out (s_redirections (rr_command req))"

definition applyEnvironmentOverrides :: "resolve_request \<Rightarrow> resolved_command \<Rightarrow> resolved_command" where
  "applyEnvironmentOverrides req out =
     (case find (\<lambda>a. IsDangerousEnvAssignment (ea_name a)) (s_env (rr_command req)) of
        None \<Rightarrow> out
      | Some a \<Rightarrow>
          degrade out (''the '' @ ea_name a @ '' environment override changes what this command does''))"

definition runs_program :: "string \<Rightarrow> effect \<Rightarrow> bool" where
  "runs_program name e =
     (e_type e = EffectExecute \<and> (case e_program e of None \<Rightarrow> False | Some p \<Rightarrow> p_name p = name))"

definition mark_streamed :: "string \<Rightarrow> effect \<Rightarrow> effect" where
  "mark_streamed name e =
     (if runs_program name e then e\<lparr>e_program := map_option (\<lambda>p. p\<lparr>p_streamed := True\<rparr>) (e_program e)\<rparr>
      else e)"

definition applyStreamedInput :: "resolve_request \<Rightarrow> resolved_command \<Rightarrow> resolved_command" where
  "applyStreamedInput req out =
     (let cmd = rr_command req; name = displayName (SimpleCommand_Name cmd) in
      if \<not> s_piped_from cmd \<or> \<not> IsStreamInterpreter (SimpleCommand_Name cmd) then out
      else
        let marked = (\<exists>e \<in> set (rc_effects out). runs_program name e);
            effects = map (mark_streamed name) (rc_effects out) @
                      (if marked then [] else [execute_effect name True])
        in degrade (set_effects effects out)
             (name @ '' executes whatever the previous command writes to it''))"

definition elevate :: "effect \<Rightarrow> effect" where
  "elevate e = (effect_AddFlags e [EffectFlagElevated])
     \<lparr>e_program := map_option (\<lambda>p. p\<lparr>p_elevated := True\<rparr>) (e_program e)\<rparr>"

definition applyElevation :: "resolve_request \<Rightarrow> resolved_command \<Rightarrow> resolved_command" where
  "applyElevation req out =
     (if \<not> s_elevated (rr_command req) then out
      else degrade (set_effects (map elevate (rc_effects out)) out)
             ''the command runs with elevated privileges'')"

definition effectKey :: "effect \<Rightarrow> string" where
  "effectKey e =
     EnvelopeEntry_Key (effect_EnvelopeEntry e) @
     (case e_target e of None \<Rightarrow> [] | Some t \<Rightarrow> ''@'' @ t_canonical t) @
     (case e_network e of None \<Rightarrow> [] | Some n \<Rightarrow> ''@'' @ NetworkTarget_Key n) @
     (case e_program e of None \<Rightarrow> []
      | Some p \<Rightarrow> ''@'' @ p_name p @ (if p_streamed p then ''@streamed'' else []))"

definition dedupeEffects :: "effect list \<Rightarrow> effect list" where
  "dedupeEffects effects = (if length effects < 2 then effects else dedupe_on effectKey effects)"

definition registry_dispatch :: "registry \<Rightarrow> resolve_request \<Rightarrow> resolved_command" where
  "registry_dispatch r req =
     (let name = SimpleCommand_Name (rr_command req) in
      case Registry_Lookup r name of
        None \<Rightarrow> Unresolved req OpUnknown (displayName name @ '' is not a program Intenter models'')
      | Some recognize \<Rightarrow> recognize req)"

definition Recognize :: "registry \<Rightarrow> resolve_request \<Rightarrow> resolved_command" where
  "Recognize r req =
     (let out = registry_dispatch r req;
          out = set_executable (SimpleCommand_Name (rr_command req)) out;
          out = (if rc_raw_text out = [] then set_raw_text (s_raw_text (rr_command req)) out else out);
          out = applyElevation req (applyStreamedInput req
                  (applyEnvironmentOverrides req (applyRedirections req out)))
      in set_effects (dedupeEffects (rc_effects out)) out)"

section \<open>Option grammars\<close>

datatype arg_class = ArgSafe | ArgSemantic | ArgUnknown

record grammar =
  Safe :: "string list"
  SafeValue :: "string list"
  SafeOptionalValue :: "string list"
  Semantic :: "string list"
  SemanticValue :: "string list"
  SemanticOptionalValue :: "string list"
  SafeNumericShort :: bool
  SlashSwitches :: bool
  SafePrefixes :: "string list"
  Cluster :: bool
  PermissiveUnknown :: bool

definition empty_grammar :: grammar where
  "empty_grammar =
     \<lparr>Safe = [], SafeValue = [], SafeOptionalValue = [], Semantic = [], SemanticValue = [],
      SemanticOptionalValue = [], SafeNumericShort = False, SlashSwitches = False, SafePrefixes = [],
      Cluster = False, PermissiveUnknown = False\<rparr>"

record arg_spec =
  as_class :: arg_class
  as_takes_args :: bool
  as_inline_only :: bool
  as_listed :: bool

record args =
  ar_operands :: "word list"
  ar_options :: "string \<rightharpoonup> word"
  ar_values :: "string \<Rightarrow> word list"
  ar_unknown :: "string list"
  ar_leading :: nat

definition empty_args :: args where
  "empty_args = \<lparr>ar_operands = [], ar_options = Map.empty, ar_values = (\<lambda>_. []), ar_unknown = [], ar_leading = 0\<rparr>"

definition setValue :: "args \<Rightarrow> string \<Rightarrow> word \<Rightarrow> args" where
  "setValue a name w =
     a\<lparr>ar_options := (ar_options a)(name \<mapsto> w), ar_values := (ar_values a)(name := ar_values a name @ [w])\<rparr>"

definition setOption :: "args \<Rightarrow> string \<Rightarrow> args" where
  "setOption a name = a\<lparr>ar_options := (ar_options a)(name \<mapsto> zero_word)\<rparr>"

definition addUnknown :: "args \<Rightarrow> string \<Rightarrow> args" where
  "addUnknown a name = a\<lparr>ar_unknown := ar_unknown a @ [name]\<rparr>"

definition args_All :: "args \<Rightarrow> string list \<Rightarrow> word list" where
  "args_All a names = concat (map (ar_values a) names)"

definition args_OK :: "args \<Rightarrow> bool" where
  "args_OK a = (ar_unknown a = [])"

definition args_Has :: "args \<Rightarrow> string \<Rightarrow> bool" where
  "args_Has a name = (ar_options a name \<noteq> None)"

definition HasAny :: "args \<Rightarrow> string list \<Rightarrow> bool" where
  "HasAny a names = (\<exists>name \<in> set names. args_Has a name)"

definition args_Value :: "args \<Rightarrow> string \<Rightarrow> word" where
  "args_Value a name = (case ar_options a name of None \<Rightarrow> zero_word | Some w \<Rightarrow> w)"

definition LeadingOperands :: "args \<Rightarrow> word list" where
  "LeadingOperands a = take (ar_leading a) (ar_operands a)"

definition UnknownReason :: "args \<Rightarrow> string \<Rightarrow> string" where
  "UnknownReason a executable =
     displayName executable @ '' was called with '' @ strings_Join (ar_unknown a) '' '' @
     '', which Intenter does not model''"

definition compile :: "grammar \<Rightarrow> (string \<rightharpoonup> arg_spec)" where
  "compile g =
     (let add = (\<lambda>names spec m. foldl (\<lambda>m name. m(name \<mapsto> spec)) m names);
          spec = (\<lambda>c takes inline. \<lparr>as_class = c, as_takes_args = takes, as_inline_only = inline, as_listed = True\<rparr>)
      in add (SemanticValue g) (spec ArgSemantic True False)
          (add (SemanticOptionalValue g) (spec ArgSemantic False True)
            (add (Semantic g) (spec ArgSemantic False False)
              (add (SafeValue g) (spec ArgSafe True False)
                (add (SafeOptionalValue g) (spec ArgSafe False True)
                  (add (Safe g) (spec ArgSafe False False) Map.empty))))))"

definition resolveOption :: "grammar \<Rightarrow> string \<Rightarrow> (arg_spec \<times> string) option" where
  "resolveOption g option' =
     (case compile g option' of
        Some spec \<Rightarrow> Some (spec, option')
      | None \<Rightarrow>
          if SlashSwitches g \<and> HasPrefix option' ''/''
          then map_option (\<lambda>spec. (spec, ToLower option')) (compile g (ToLower option'))
          else None)"

definition grammar_lookup :: "grammar \<Rightarrow> string \<Rightarrow> arg_spec option" where
  "grammar_lookup g option' = map_option fst (resolveOption g option')"

definition grammar_isOption :: "grammar \<Rightarrow> string \<Rightarrow> bool" where
  "grammar_isOption g t =
     (if length t < 2 then False
      else if HasPrefix t ''-'' then True
      else SlashSwitches g \<and> hd t = CHR ''/'' \<and> \<not> ContainsAny (drop 1 t) [CHR ''/'', CHR 0x5C] \<and> length t \<le> 8)"

definition isNumericShortOption :: "string \<Rightarrow> bool" where
  "isNumericShortOption option' =
     (\<not> (length option' < 2 \<or> hd option' \<noteq> CHR ''-'') \<and>
      (\<forall>c \<in> set (drop 1 option'). CHR ''0'' \<le> c \<and> c \<le> CHR ''9''))"

definition Classify :: "grammar \<Rightarrow> string \<Rightarrow> arg_class" where
  "Classify g option' =
     (case grammar_lookup g option' of
        Some spec \<Rightarrow> as_class spec
      | None \<Rightarrow>
          if \<exists>p \<in> set (SafePrefixes g). HasPrefix option' p then ArgSafe
          else if SafeNumericShort g \<and> isNumericShortOption option' then ArgSafe
          else if PermissiveUnknown g then ArgSafe
          else ArgUnknown)"

definition safe_spec :: arg_spec where
  "safe_spec = \<lparr>as_class = ArgSafe, as_takes_args = False, as_inline_only = False, as_listed = False\<rparr>"

text \<open>A scanner of one option is given the words that follow it and returns how many of them it
  consumed, with the result so far.\<close>

definition scanLongOption :: "grammar \<Rightarrow> word \<Rightarrow> word list \<Rightarrow> args \<Rightarrow> nat \<times> args" where
  "scanLongOption g word rest out =
     (let (name, inline) = (case strings_Cut (w_text word) ''='' of
                              None \<Rightarrow> (w_text word, None) | Some (a, b) \<Rightarrow> (a, Some b))
      in case (case resolveOption g name of
                 Some (spec, name) \<Rightarrow> Some (spec, name)
               | None \<Rightarrow> if Classify g name \<noteq> ArgSafe then None else Some (safe_spec, name)) of
           None \<Rightarrow> (0, addUnknown out name)
         | Some (spec, name) \<Rightarrow>
             (case inline of
                Some v \<Rightarrow>
                  if as_listed spec \<and> \<not> as_takes_args spec \<and> \<not> as_inline_only spec
                  then (0, addUnknown out (w_text word))
                  else (0, setValue out name
                          \<lparr>w_text = v, w_quoted = w_quoted word, w_glob = ContainsGlob v,
                           w_unexpanded = w_unexpanded word\<rparr>)
              | None \<Rightarrow>
                  if \<not> as_takes_args spec then (0, setOption out name)
                  else (case rest of
                          [] \<Rightarrow> (0, addUnknown out name)
                        | next' # _ \<Rightarrow> (1, setValue out name next'))))"

text \<open>\<open>string(b)\<close> of a byte is the UTF-8 encoding of the code point with that number.\<close>

definition byte_string :: "char \<Rightarrow> string" where
  "byte_string c =
     (let n = of_char c :: nat in
      if n < 128 then [c] else [char_of (192 + n div 64), char_of (128 + n mod 64)])"

fun scan_letters :: "grammar \<Rightarrow> word \<Rightarrow> word list \<Rightarrow> string \<Rightarrow> args \<Rightarrow> nat \<times> args" where
  "scan_letters g word rest [] out = (0, out)"
| "scan_letters g word rest (c # letters) out =
     (let option' = ''-'' @ byte_string c in
      case (case grammar_lookup g option' of
              Some spec \<Rightarrow> Some spec
            | None \<Rightarrow> if Classify g option' \<noteq> ArgSafe then None else Some safe_spec) of
        None \<Rightarrow> scan_letters g word rest letters (addUnknown out option')
      | Some spec \<Rightarrow>
          if \<not> as_takes_args spec then scan_letters g word rest letters (setOption out option')
          else if letters \<noteq> []
            then (0, setValue out option'
                    \<lparr>w_text = letters, w_quoted = False, w_glob = ContainsGlob letters,
                     w_unexpanded = w_unexpanded word\<rparr>)
          else (case rest of
                  [] \<Rightarrow> (0, addUnknown out option')
                | next' # _ \<Rightarrow> (1, setValue out option' next')))"

definition scanCluster :: "grammar \<Rightarrow> word \<Rightarrow> word list \<Rightarrow> args \<Rightarrow> nat \<times> args" where
  "scanCluster g word rest out =
     (let letters = drop 1 (w_text word) in
      if strings_Contains letters ''='' then (0, addUnknown out (w_text word))
      else scan_letters g word rest letters out)"

definition scan_option :: "grammar \<Rightarrow> word \<Rightarrow> word list \<Rightarrow> args \<Rightarrow> nat \<times> args" where
  "scan_option g word rest out =
     (if HasPrefix (w_text word) ''--'' \<or> \<not> Cluster g then scanLongOption g word rest out
      else scanCluster g word rest out)"

definition add_operand :: "bool \<Rightarrow> word \<Rightarrow> args \<Rightarrow> args" where
  "add_operand sawOption word out =
     out\<lparr>ar_leading := (if sawOption then ar_leading out else ar_leading out + 1),
         ar_operands := ar_operands out @ [word]\<rparr>"

function scan_loop :: "grammar \<Rightarrow> bool \<Rightarrow> bool \<Rightarrow> word list \<Rightarrow> args \<Rightarrow> args" where
  "scan_loop g sawOption endOfOptions [] out = out"
| "scan_loop g sawOption endOfOptions (word # rest) out =
     (if endOfOptions \<or> \<not> grammar_isOption g (w_text word)
      then scan_loop g sawOption endOfOptions rest (add_operand sawOption word out)
      else if w_text word = ''--'' then scan_loop g True True rest out
      else let (n, out) = scan_option g word rest out
           in scan_loop g True endOfOptions (drop n rest) out)"
  by pat_completeness auto
termination
  by (relation "measure (\<lambda>(_, _, _, ws, _). length ws)") auto

definition Scan :: "grammar \<Rightarrow> word list \<Rightarrow> args" where
  "Scan g ws = scan_loop g False False ws empty_args"

section \<open>Laws of the registry\<close>

lemma degrade_sels [simp]:
  "rc_effects (degrade c r) = rc_effects c" "rc_targets (degrade c r) = rc_targets c"
  "rc_semantic_op (degrade c r) = rc_semantic_op c" "rc_children (degrade c r) = rc_children c"
  "rc_raw_text (degrade c r) = rc_raw_text c"
  "rc_status (degrade c r) = WeakerStatus (rc_status c) StatusUnresolved"
  by (simp_all add: degrade_def)

definition unmodelled :: "resolution_status \<Rightarrow> bool" where
  "unmodelled s = (s \<in> {StatusParseFailed, StatusContextFailed, StatusUnresolved})"

lemma unmodelled_rank: "unmodelled s \<longleftrightarrow> statusRank StatusUnresolved \<le> statusRank s"
  by (cases s) (simp_all add: unmodelled_def)

lemma unmodelled_WeakerStatus: "unmodelled (WeakerStatus a b) \<longleftrightarrow> unmodelled a \<or> unmodelled b"
  by (simp add: unmodelled_rank le_max_iff_disj)

lemma unmodelled_Unresolved [simp]: "unmodelled StatusUnresolved" "unmodelled StatusParseFailed"
    "unmodelled StatusContextFailed"
  by (simp_all add: unmodelled_def)

text \<open>What every effect of a recognizer becomes before duplicates are removed.\<close>

definition redirected :: "resolve_request \<Rightarrow> effect list" where
  "redirected req =
     concat (map (\<lambda>rd. concat (map (redirection_effects (rd_op rd)) (TargetsFor req (rd_target rd))))
       (s_redirections (rr_command req)))"

definition streams :: "resolve_request \<Rightarrow> bool" where
  "streams req = (s_piped_from (rr_command req) \<and> IsStreamInterpreter (SimpleCommand_Name (rr_command req)))"

definition transform :: "resolve_request \<Rightarrow> effect \<Rightarrow> effect" where
  "transform req e =
     (let e = (if streams req then mark_streamed (displayName (SimpleCommand_Name (rr_command req))) e else e)
      in if s_elevated (rr_command req) then elevate e else e)"

lemma redirect_sels:
  "rc_effects (redirect req out rd) =
     rc_effects out @ concat (map (redirection_effects (rd_op rd)) (TargetsFor req (rd_target rd)))"
  "rc_status (redirect req out rd) = rc_status out"
proof -
  have "rc_effects (foldl (redirect_target op) out ts) = rc_effects out @ concat (map (redirection_effects op) ts) \<and>
      rc_status (foldl (redirect_target op) out ts) = rc_status out" for op ts
    by (induction ts arbitrary: out) (simp_all add: redirect_target_def)
  then show "rc_effects (redirect req out rd) =
       rc_effects out @ concat (map (redirection_effects (rd_op rd)) (TargetsFor req (rd_target rd)))"
    and "rc_status (redirect req out rd) = rc_status out"
    by (simp_all add: redirect_def)
qed

lemma applyRedirections_sels:
  "rc_effects (applyRedirections req out) = rc_effects out @ redirected req"
  "rc_status (applyRedirections req out) = rc_status out"
proof -
  have "rc_effects (foldl (redirect req) out rds) = rc_effects out @
      concat (map (\<lambda>rd. concat (map (redirection_effects (rd_op rd)) (TargetsFor req (rd_target rd)))) rds) \<and>
      rc_status (foldl (redirect req) out rds) = rc_status out" for rds
    by (induction rds arbitrary: out) (simp_all add: redirect_sels)
  then show "rc_effects (applyRedirections req out) = rc_effects out @ redirected req"
    and "rc_status (applyRedirections req out) = rc_status out"
    by (simp_all add: applyRedirections_def redirected_def)
qed

lemma applyEnvironmentOverrides_effects [simp]:
  "rc_effects (applyEnvironmentOverrides req out) = rc_effects out"
  by (simp add: applyEnvironmentOverrides_def split: option.split)

lemma applyEnvironmentOverrides_status:
  "unmodelled (rc_status (applyEnvironmentOverrides req out)) \<longleftrightarrow>
   unmodelled (rc_status out) \<or> (\<exists>a \<in> set (s_env (rr_command req)). IsDangerousEnvAssignment (ea_name a))"
  by (auto simp: applyEnvironmentOverrides_def unmodelled_WeakerStatus find_None_iff find_Some_iff
      split: option.split)

definition streamed_extra :: "resolve_request \<Rightarrow> effect list \<Rightarrow> effect list" where
  "streamed_extra req es =
     (let name = displayName (SimpleCommand_Name (rr_command req)) in
      if streams req \<and> \<not> (\<exists>e \<in> set es. runs_program name e) then [execute_effect name True] else [])"

lemma applyStreamedInput_effects:
  "rc_effects (applyStreamedInput req out) =
     (if streams req then map (mark_streamed (displayName (SimpleCommand_Name (rr_command req)))) (rc_effects out)
      else rc_effects out) @ streamed_extra req (rc_effects out)"
  by (simp add: applyStreamedInput_def Let_def streams_def streamed_extra_def)

lemma applyStreamedInput_status:
  "unmodelled (rc_status (applyStreamedInput req out)) \<longleftrightarrow> unmodelled (rc_status out) \<or> streams req"
  by (auto simp: applyStreamedInput_def Let_def streams_def unmodelled_WeakerStatus)

lemma applyElevation_effects:
  "rc_effects (applyElevation req out) =
     (if s_elevated (rr_command req) then map elevate (rc_effects out) else rc_effects out)"
  by (simp add: applyElevation_def)

lemma applyElevation_status:
  "unmodelled (rc_status (applyElevation req out)) \<longleftrightarrow> unmodelled (rc_status out) \<or> s_elevated (rr_command req)"
  by (auto simp: applyElevation_def unmodelled_WeakerStatus)

text \<open>The effects of a recognized command, up to duplicates: those of the recognizer and of the
  redirections, marked as the rules for every command say.\<close>

lemma Recognize_effects:
  "rc_effects (Recognize r req) = dedupeEffects
     (map (transform req) (rc_effects (registry_dispatch r req) @ redirected req) @
      map (\<lambda>e. if s_elevated (rr_command req) then elevate e else e)
        (streamed_extra req (rc_effects (registry_dispatch r req) @ redirected req)))"
  by (simp add: Recognize_def Let_def applyElevation_effects applyStreamedInput_effects
      applyRedirections_sels transform_def [abs_def] comp_def)

lemma Recognize_status:
  "unmodelled (rc_status (Recognize r req)) \<longleftrightarrow>
   unmodelled (rc_status (registry_dispatch r req)) \<or>
   (\<exists>a \<in> set (s_env (rr_command req)). IsDangerousEnvAssignment (ea_name a)) \<or>
   streams req \<or> s_elevated (rr_command req)"
  by (auto simp: Recognize_def Let_def applyElevation_status applyStreamedInput_status
      applyEnvironmentOverrides_status applyRedirections_sels)

section \<open>What survives the removal of duplicates\<close>

lemma effect_flag_str_bracket: "CHR '']'' \<notin> set (effect_flag_str f)"
  by (cases f) simp_all

lemma key_head_bracket: "CHR '']'' \<notin> set (key_head s p)"
  by (cases s; cases p; simp add: key_head_def; cases "the p"; simp)

lemma effect_type_str_bracket: "CHR '']'' \<notin> set (effect_type_str t)"
  by (cases t) simp_all

lemma EnvelopeEntry_Key_split:
  "EnvelopeEntry_Key e @ us = EnvelopeEntry_Key e' @ vs \<longleftrightarrow>
   EnvelopeEntry_Key e = EnvelopeEntry_Key e' \<and> us = vs"
proof -
  have "\<exists>k. EnvelopeEntry_Key e = k @ '']'' \<and> CHR '']'' \<notin> set k" for e
  proof (intro exI conjI)
    have "CHR '']'' \<notin> set (strings_Join (map effect_flag_str xs) '','')"
        "CHR '']'' \<notin> set (strings_Join (map target_flag_str ys) '','')" for xs ys
      by (rule notin_strings_Join; auto simp: effect_flag_str_bracket target_flag_str_chars)+
    then show "CHR '']'' \<notin> set (effect_type_str (ee_type e) @ CHR ''/'' # key_head (ee_scope e) (ee_program e) @
       CHR ''{'' # strings_Join (map effect_flag_str (sort_key effect_flag_str (ee_flags e))) '','' @
       CHR ''}'' # CHR ''['' #
       strings_Join (map target_flag_str (sort_key target_flag_str (ee_target_flags e))) '','')"
      by (simp add: effect_type_str_bracket key_head_bracket)
  qed (simp add: EnvelopeEntry_Key_alt)
  then obtain k k' where "EnvelopeEntry_Key e = k @ '']''" "CHR '']'' \<notin> set k"
      "EnvelopeEntry_Key e' = k' @ '']''" "CHR '']'' \<notin> set k'" by metis
  then show ?thesis by (simp add: split_at_char)
qed

lemma effectKey_entry: "effectKey e = effectKey e' \<Longrightarrow> effect_EnvelopeEntry e = effect_EnvelopeEntry e'"
  by (simp add: effectKey_def EnvelopeEntry_Key_split EnvelopeEntry_Key_inject effect_EnvelopeEntry_normal)

text \<open>Two effects with the same key agree in everything but the details of their target, network
  target and program.\<close>

definition target_scope :: "effect \<Rightarrow> scope" where
  "target_scope e = (case e_target e of None \<Rightarrow> ScopeNone | Some t \<Rightarrow> t_scope t)"

definition target_flags :: "effect \<Rightarrow> target_flag set" where
  "target_flags e = (case e_target e of None \<Rightarrow> {} | Some t \<Rightarrow> set (t_flags t))"

lemma effectKey_fields:
  assumes "effectKey e = effectKey e'"
  shows "e_type e = e_type e'" and "target_scope e = target_scope e'" and "set (e_flags e) = set (e_flags e')"
    and "target_flags e = target_flags e'"
proof -
  have *: "effect_EnvelopeEntry e = effect_EnvelopeEntry e'" using assms by (rule effectKey_entry)
  show "e_type e = e_type e'" "target_scope e = target_scope e'"
    using arg_cong [OF *, of ee_type] arg_cong [OF *, of ee_scope]
    by (simp_all add: effect_EnvelopeEntry_def target_scope_def)
  show "set (e_flags e) = set (e_flags e')"
    using arg_cong [OF *, of "\<lambda>x. set (ee_flags x)"] by (simp add: effect_EnvelopeEntry_def)
  show "target_flags e = target_flags e'"
    using arg_cong [OF *, of "\<lambda>x. set (ee_target_flags x)"]
    by (cases "e_target e"; cases "e_target e'") (simp_all add: effect_EnvelopeEntry_def target_flags_def)
qed

lemma dedupeEffects_covers: "e \<in> set es \<Longrightarrow> \<exists>e' \<in> set (dedupeEffects es). effectKey e' = effectKey e"
  unfolding dedupeEffects_def by (auto dest: dedupe_on_covers)

lemma dedupeEffects_subset: "set (dedupeEffects es) \<subseteq> set es"
  unfolding dedupeEffects_def by (auto dest: dedupe_on_subset)

lemma transform_sels [simp]:
  "e_type (transform req e) = e_type e" "e_target (transform req e) = e_target e"
  by (simp_all add: transform_def Let_def elevate_def mark_streamed_def)

lemma transform_flags: "set (e_flags e) \<subseteq> set (e_flags (transform req e))"
  by (auto simp: transform_def Let_def elevate_def mark_streamed_def)

text \<open>Every effect a recognizer reported is among the effects of the recognized command: of the same
  type, on a target of the same scope and flags, with at least its flags.\<close>

lemma Recognize_keeps:
  assumes "e \<in> set (rc_effects (registry_dispatch r req)) \<union> set (redirected req)"
  shows "\<exists>e' \<in> set (rc_effects (Recognize r req)). e_type e' = e_type e \<and> target_scope e' = target_scope e \<and>
    target_flags e' = target_flags e \<and> set (e_flags e) \<subseteq> set (e_flags e')"
proof -
  have "transform req e \<in> set (map (transform req) (rc_effects (registry_dispatch r req) @ redirected req) @
      map (\<lambda>e. if s_elevated (rr_command req) then elevate e else e)
        (streamed_extra req (rc_effects (registry_dispatch r req) @ redirected req)))"
    using assms by auto
  then obtain e' where e': "e' \<in> set (rc_effects (Recognize r req))" "effectKey e' = effectKey (transform req e)"
    unfolding Recognize_effects by (blast dest: dedupeEffects_covers)
  have "target_scope (transform req e) = target_scope e" "target_flags (transform req e) = target_flags e"
    by (simp_all add: target_scope_def target_flags_def)
  with e' effectKey_fields [OF e'(2)] transform_flags [of e req] show ?thesis by auto
qed

section \<open>Every argument is accounted for\<close>

lemma setters_operands [simp]:
  "ar_operands (setValue a n w) = ar_operands a" "ar_operands (setOption a n) = ar_operands a"
  "ar_operands (addUnknown a n) = ar_operands a" "ar_operands (add_operand saw w a) = ar_operands a @ [w]"
  by (simp_all add: setValue_def setOption_def addUnknown_def add_operand_def)

lemma setters_values [simp]:
  "ar_values (setOption a n) = ar_values a" "ar_values (addUnknown a n) = ar_values a"
  "ar_values (add_operand saw w a) = ar_values a"
  "ar_values (setValue a n w) = (ar_values a)(n := ar_values a n @ [w])"
  by (simp_all add: setValue_def setOption_def addUnknown_def add_operand_def)

lemma setters_unknown [simp]:
  "ar_unknown (setValue a n w) = ar_unknown a" "ar_unknown (setOption a n) = ar_unknown a"
  "ar_unknown (addUnknown a n) = ar_unknown a @ [n]" "ar_unknown (add_operand saw w a) = ar_unknown a"
  by (simp_all add: setValue_def setOption_def addUnknown_def add_operand_def)

text \<open>An option the grammar lists with a value of its own word.\<close>

definition takes_value :: "grammar \<Rightarrow> string \<Rightarrow> bool" where
  "takes_value g name = (name \<in> set (SafeValue g) \<union> set (SemanticValue g))"

lemma foldl_upd: "foldl (\<lambda>m name. m(name \<mapsto> spec)) m names x = (if x \<in> set names then Some spec else m x)"
  by (induction names arbitrary: m) auto

lemma compile_takes: "compile g name = Some spec \<Longrightarrow> as_takes_args spec \<Longrightarrow> takes_value g name"
  by (auto simp: compile_def Let_def foldl_upd takes_value_def split: if_splits)

lemma resolveOption_takes: "resolveOption g name = Some (spec, name') \<Longrightarrow> as_takes_args spec \<Longrightarrow> takes_value g name'"
  by (auto simp: resolveOption_def split: option.splits if_splits dest: compile_takes)

lemma grammar_lookup_takes:
  "grammar_lookup g (CHR ''-'' # name) = Some spec \<Longrightarrow> as_takes_args spec \<Longrightarrow> takes_value g (CHR ''-'' # name)"
  by (auto simp: grammar_lookup_def resolveOption_def HasPrefix_def split: option.splits if_splits dest: compile_takes)

text \<open>The scan only adds to what it has collected.\<close>

definition extends :: "args \<Rightarrow> args \<Rightarrow> bool" where
  "extends a b =
     (set (ar_operands a) \<subseteq> set (ar_operands b) \<and> (\<forall>name. set (ar_values a name) \<subseteq> set (ar_values b name)) \<and>
      set (ar_unknown a) \<subseteq> set (ar_unknown b))"

lemma extends_refl [simp]: "extends a a"
  by (simp add: extends_def)

lemma extends_trans: "extends a b \<Longrightarrow> extends b c \<Longrightarrow> extends a c"
  by (meson extends_def subset_trans)

lemma extends_setters [simp]:
  "extends a (setValue a n w)" "extends a (setOption a n)" "extends a (addUnknown a n)" "extends a (add_operand saw w a)"
  by (auto simp: extends_def)

text \<open>One option adds to the result and consumes at most the next word, which it keeps as a value.\<close>

definition consumes :: "grammar \<Rightarrow> word list \<Rightarrow> args \<Rightarrow> nat \<times> args \<Rightarrow> bool" where
  "consumes g rest out r =
     (extends out (snd r) \<and>
      (fst r = 0 \<or> fst r = 1 \<and> rest \<noteq> [] \<and>
         (\<exists>name. takes_value g name \<and> hd rest \<in> set (ar_values (snd r) name))))"

lemma consumes_none [simp]: "consumes g rest out (0, out') \<longleftrightarrow> extends out out'"
  by (simp add: consumes_def)

lemma consumes_next: "takes_value g name \<Longrightarrow> consumes g (w # ws) out (Suc 0, setValue out name w)"
  by (auto simp: consumes_def)

lemma consumes_trans: "extends out out' \<Longrightarrow> consumes g rest out' r \<Longrightarrow> consumes g rest out r"
  by (auto simp: consumes_def dest: extends_trans)

lemma scanLongOption_consumes: "consumes g rest out (scanLongOption g word rest out)"
  unfolding scanLongOption_def Let_def case_prod_unfold
  by (simp add: safe_spec_def split: option.split list.split)
    (auto dest: resolveOption_takes consumes_next)

lemma scan_letters_consumes: "consumes g rest out (scan_letters g word rest letters out)"
proof (induction letters arbitrary: out)
  case (Cons c letters)
  have later: "extends out out' \<Longrightarrow> consumes g rest out (scan_letters g word rest letters out')" for out'
    using Cons consumes_trans by blast
  show ?case
    by (simp add: Let_def safe_spec_def later split: option.split list.split)
      (auto dest: grammar_lookup_takes consumes_next)
qed simp

lemma scan_option_consumes: "consumes g rest out (scan_option g word rest out)"
  by (simp add: scan_option_def scanCluster_def Let_def scanLongOption_consumes scan_letters_consumes)

definition accounted :: "grammar \<Rightarrow> args \<Rightarrow> word \<Rightarrow> bool" where
  "accounted g a w =
     (w \<in> set (ar_operands a) \<or> grammar_isOption g (w_text w) \<or>
      (\<exists>name. takes_value g name \<and> w \<in> set (ar_values a name)))"

lemma accounted_mono: "extends a b \<Longrightarrow> accounted g a w \<Longrightarrow> accounted g b w"
  unfolding accounted_def extends_def by (meson subsetD)

lemma scan_loop_accounts:
  "extends out (scan_loop g saw ended ws out) \<and> (\<forall>w \<in> set ws. accounted g (scan_loop g saw ended ws out) w)"
proof (induction g saw ended ws out rule: scan_loop.induct)
  case (1 g saw ended out)
  then show ?case by simp
next
  case (2 g saw ended word rest out)
  show ?case
  proof (cases "ended \<or> \<not> grammar_isOption g (w_text word)")
    case True
    have "accounted g (add_operand saw word out) word" by (simp add: accounted_def)
    with True 2(1) show ?thesis
      by (auto intro: accounted_mono extends_trans [OF extends_setters(4)])
  next
    case opt: False
    then have word: "accounted g a word" for a by (simp add: accounted_def)
    show ?thesis
    proof (cases "w_text word = ''--''")
      case True
      then show ?thesis using opt 2(2) word by auto
    next
      case False
      obtain n out' where so: "scan_option g word rest out = (n, out')" by fastforce
      have c: "consumes g rest out (n, out')" using scan_option_consumes [of g rest out word] so by simp
      have loop: "scan_loop g saw ended (word # rest) out = scan_loop g True ended (drop n rest) out'"
        using opt False so by simp
      have IH: "extends out' (scan_loop g True ended (drop n rest) out')"
          "\<forall>w \<in> set (drop n rest). accounted g (scan_loop g True ended (drop n rest) out') w"
        using 2(3) [OF opt False so [symmetric] refl] by auto
      have "accounted g out' w" if "w \<in> set rest" "w \<notin> set (drop n rest)" for w
        using c that by (cases rest) (auto simp: consumes_def accounted_def)
      then show ?thesis
        unfolding loop using IH word c by (auto simp: consumes_def intro: accounted_mono extends_trans)
    qed
  qed
qed

lemma Scan_accounts: "w \<in> set ws \<Longrightarrow> accounted g (Scan g ws) w"
  by (simp add: Scan_def scan_loop_accounts)

text \<open>In a grammar without value-taking options every word that is not written as an option is an
  operand.\<close>

lemma Scan_operands:
  "SafeValue g = [] \<Longrightarrow> SemanticValue g = [] \<Longrightarrow> w \<in> set ws \<Longrightarrow> \<not> grammar_isOption g (w_text w) \<Longrightarrow>
   w \<in> set (ar_operands (Scan g ws))"
  using Scan_accounts [of w ws g] by (simp add: accounted_def takes_value_def)

end
