(* ===== verification/Resolver_Fs.thy ===== *)
theory Resolver_Fs
  imports Resolver_Registry
begin

text \<open>
  The recognizers of the file system tools: \<^verbatim>\<open>internal/resolver/fs.go\<close> (the POSIX tools),
  \<^verbatim>\<open>fs_windows_cmdlets.go\<close> (the PowerShell cmdlets) and \<^verbatim>\<open>fs_cmd_builtins.go\<close> (the cmd.exe builtins).
  A loop over a set of option names that ends in one lookup is written as that lookup.
\<close>

section \<open>Assembling effects\<close>

definition resolved :: "resolve_request \<Rightarrow> semantic_op \<Rightarrow> resolved_command" where
  "resolved req op =
     ResolvedCommand (SimpleCommand_Name (rr_command req)) op [] [] StatusResolved [] [] [] []
       (s_raw_text (rr_command req)) None"

definition appendTarget :: "target \<Rightarrow> resolved_command \<Rightarrow> resolved_command" where
  "appendTarget t out =
     (if \<exists>u \<in> set (rc_targets out). t_canonical u = t_canonical t \<and> t_display u = t_display t then out
      else set_targets (rc_targets out @ [t]) out)"

definition file_effect_for :: "effect_type \<Rightarrow> effect_flag list \<Rightarrow> target \<Rightarrow> effect" where
  "file_effect_for kind flags t =
     (let e = effect_AddFlags (target_effect kind t) flags in
      if target_HasFlag t FlagWildcard then effect_AddFlags e [EffectFlagWildcard] else e)"

definition addEffect :: "effect_type \<Rightarrow> effect_flag list \<Rightarrow> target \<Rightarrow> resolved_command \<Rightarrow> resolved_command" where
  "addEffect kind flags t out =
     (let out = set_effects (rc_effects out @ [file_effect_for kind flags t]) out;
          out = appendTarget t out
      in if Ambiguous t \<and> rc_status out = StatusResolved
         then set_status (rc_status out) (t_raw t @ '' contains a variable Intenter cannot expand'') out
         else out)"

text \<open>The two nested loops over the words and the targets of each word.\<close>

definition addEffects ::
    "resolve_request \<Rightarrow> effect_type \<Rightarrow> effect_flag list \<Rightarrow> word list \<Rightarrow> resolved_command \<Rightarrow> resolved_command" where
  "addEffects req kind flags ws out = foldl (\<lambda>out t. addEffect kind flags t out) out (concat (map (TargetsFor req) ws))"

definition addMoved :: "resolve_request \<Rightarrow> word list \<Rightarrow> resolved_command \<Rightarrow> resolved_command" where
  "addMoved req ws out =
     foldl (\<lambda>out t. addEffect EffectDelete (if t_is_dir t then [EffectFlagRecursive] else []) t out) out
       (concat (map (TargetsFor req) ws))"

definition refused :: "resolve_request \<Rightarrow> semantic_op \<Rightarrow> args \<Rightarrow> resolved_command" where
  "refused req op args = Unresolved req op (UnknownReason args (SimpleCommand_Name (rr_command req)))"

abbreviation scanned :: "grammar \<Rightarrow> resolve_request \<Rightarrow> args" where
  "scanned g req \<equiv> Scan g (SimpleCommand_Args (rr_command req))"

abbreviation not_stdin :: "word list \<Rightarrow> word list" where
  "not_stdin ws \<equiv> filter (\<lambda>w. w_text w \<noteq> ''-'') ws"

abbreviation flag_if :: "bool \<Rightarrow> effect_flag \<Rightarrow> effect_flag list" where
  "flag_if b f \<equiv> (if b then [f] else [])"

definition sourcesAndDestination :: "args \<Rightarrow> (word list \<times> word) option" where
  "sourcesAndDestination args =
     (case find (args_Has args) [''-t'', ''--target-directory''] of
        Some option' \<Rightarrow> if ar_operands args = [] then None else Some (ar_operands args, args_Value args option')
      | None \<Rightarrow> if length (ar_operands args) < 2 then None
                else Some (butlast (ar_operands args), last (ar_operands args)))"

section \<open>The POSIX tools\<close>

definition readFileGrammar :: grammar where
  "readFileGrammar = empty_grammar\<lparr>
     SafeValue := [''-n'', ''--lines'', ''-c'', ''--bytes'', ''-q'', ''--quiet'', ''--max-depth'',
                   ''-w'', ''--width'', ''-t'', ''--format'', ''-s''],
     PermissiveUnknown := True, Cluster := True, SafeNumericShort := True\<rparr>"

definition readFile_Recognize :: "resolve_request \<Rightarrow> resolved_command" where
  "readFile_Recognize req =
     (let args = scanned readFileGrammar req in
      if \<not> args_OK args then refused req OpFSRead args
      else addEffects req EffectRead [] (not_stdin (ar_operands args)) (resolved req OpFSRead))"

definition listGrammar :: grammar where
  "listGrammar = empty_grammar\<lparr>
     Semantic := [''-R'', ''--recursive''], SafeValue := [''-L'', ''--level'', ''-I'', ''--ignore''],
     PermissiveUnknown := True, Cluster := True\<rparr>"

definition list_Recognize :: "resolve_request \<Rightarrow> resolved_command" where
  "list_Recognize req =
     (let args = scanned listGrammar req in
      if \<not> args_OK args then refused req OpFSRead args
      else let targets = (if ar_operands args = [] then [text_word ''.''] else ar_operands args);
               flags = flag_if (HasAny args [''-R'', ''--recursive'']) EffectFlagRecursive
           in addEffects req EffectRead flags targets (resolved req OpFSRead))"

definition noopGrammar :: grammar where
  "noopGrammar = empty_grammar\<lparr>PermissiveUnknown := True, Cluster := True\<rparr>"

definition noop_Recognize :: "resolve_request \<Rightarrow> resolved_command" where
  "noop_Recognize req =
     (let args = scanned noopGrammar req in
      if \<not> args_OK args then refused req OpNoop args else resolved req OpNoop)"

definition removeGrammar :: grammar where
  "removeGrammar = empty_grammar\<lparr>
     Safe := [''-i'', ''-I'', ''-v'', ''-d'', ''--interactive'', ''--verbose'', ''--dir'',
              ''--one-file-system'', ''--preserve-root''],
     Semantic := [''-r'', ''-R'', ''--recursive'', ''-f'', ''--force'', ''--no-preserve-root''],
     Cluster := True\<rparr>"

definition remove_Recognize :: "resolve_request \<Rightarrow> resolved_command" where
  "remove_Recognize req =
     (let args = scanned removeGrammar req in
      if \<not> args_OK args then refused req OpFSDelete args
      else if ar_operands args = [] then Unresolved req OpFSDelete ''rm was called without a target''
      else let flags = flag_if (HasAny args [''-r'', ''-R'', ''--recursive'']) EffectFlagRecursive @
                       flag_if (HasAny args [''-f'', ''--force'']) EffectFlagForce
           in addEffects req EffectDelete flags (ar_operands args) (resolved req OpFSDelete))"

definition copyGrammar :: grammar where
  "copyGrammar = empty_grammar\<lparr>
     Safe := [''-i'', ''-n'', ''-v'', ''-p'', ''-f'', ''-L'', ''-P'', ''-H'', ''-u'',
              ''--interactive'', ''--no-clobber'', ''--verbose'', ''--force'', ''--update'',
              ''--dereference'', ''--no-dereference'', ''-T'', ''--no-target-directory''],
     SafeOptionalValue := [''--preserve'', ''--no-preserve'', ''--reflink'', ''--sparse''],
     Semantic := [''-r'', ''-R'', ''-a'', ''--recursive'', ''--archive''],
     SemanticValue := [''-t'', ''--target-directory''], Cluster := True\<rparr>"

text \<open>Reading the sources and creating and writing the destination, as \<open>cp\<close>, \<open>Copy-Item\<close> and
  \<open>copy\<close> end.\<close>

definition copied ::
    "resolve_request \<Rightarrow> effect_flag list \<Rightarrow> word list \<Rightarrow> word \<Rightarrow> resolved_command \<Rightarrow> resolved_command" where
  "copied req flags sources destination out =
     (let out = addEffects req EffectRead flags sources out in
      case TargetFor req destination of
        None \<Rightarrow> out
      | Some t \<Rightarrow> addEffect EffectWrite flags t (addEffect EffectCreate flags t out))"

definition moved :: "resolve_request \<Rightarrow> word list \<Rightarrow> word \<Rightarrow> resolved_command \<Rightarrow> resolved_command" where
  "moved req sources destination out =
     (let out = addMoved req sources out in
      case TargetFor req destination of
        None \<Rightarrow> out
      | Some t \<Rightarrow> addEffect EffectCreate [] t out)"

definition copy_Recognize :: "resolve_request \<Rightarrow> resolved_command" where
  "copy_Recognize req =
     (let args = scanned copyGrammar req in
      if \<not> args_OK args then refused req OpFSCopy args
      else case sourcesAndDestination args of
             None \<Rightarrow> Unresolved req OpFSCopy ''cp was called without a source and a destination''
           | Some (sources, destination) \<Rightarrow>
               copied req
                 (flag_if (HasAny args [''-r'', ''-R'', ''-a'', ''--recursive'', ''--archive'']) EffectFlagRecursive)
                 sources destination (resolved req OpFSCopy))"

definition moveGrammar :: grammar where
  "moveGrammar = empty_grammar\<lparr>
     Safe := [''-i'', ''-n'', ''-v'', ''-f'', ''-u'', ''--interactive'', ''--no-clobber'',
              ''--verbose'', ''--force'', ''--update'', ''-T'', ''--no-target-directory''],
     SemanticValue := [''-t'', ''--target-directory''], Cluster := True\<rparr>"

definition move_Recognize :: "resolve_request \<Rightarrow> resolved_command" where
  "move_Recognize req =
     (let args = scanned moveGrammar req in
      if \<not> args_OK args then refused req OpFSMove args
      else case sourcesAndDestination args of
             None \<Rightarrow> Unresolved req OpFSMove ''mv was called without a source and a destination''
           | Some (sources, destination) \<Rightarrow> moved req sources destination (resolved req OpFSMove))"

definition makeDirGrammar :: grammar where
  "makeDirGrammar = empty_grammar\<lparr>
     Safe := [''-p'', ''-v'', ''--parents'', ''--verbose''], SafeValue := [''-m'', ''--mode''], Cluster := True\<rparr>"

definition makeDir_Recognize :: "resolve_request \<Rightarrow> resolved_command" where
  "makeDir_Recognize req =
     (let args = scanned makeDirGrammar req in
      if \<not> args_OK args then refused req OpFSCreate args
      else if ar_operands args = [] then Unresolved req OpFSCreate ''mkdir was called without a directory''
      else addEffects req EffectCreate [] (ar_operands args) (resolved req OpFSCreate))"

definition catGrammar :: grammar where
  "catGrammar = empty_grammar\<lparr>
     Safe := [''-n'', ''-b'', ''-s'', ''-E'', ''-T'', ''-v'', ''-A'', ''-e'', ''-t'', ''-u'',
              ''--number'', ''--number-nonblank'', ''--squeeze-blank'', ''--show-ends'',
              ''--show-tabs'', ''--show-nonprinting'', ''--show-all''], Cluster := True\<rparr>"

definition cat_Recognize :: "resolve_request \<Rightarrow> resolved_command" where
  "cat_Recognize req =
     (let args = scanned catGrammar req in
      if \<not> args_OK args then refused req OpFSRead args
      else addEffects req EffectRead [] (not_stdin (ar_operands args)) (resolved req OpFSRead))"

definition grepGrammar :: grammar where
  "grepGrammar = empty_grammar\<lparr>
     SafeValue := [''-e'', ''--regexp'', ''-m'', ''--max-count'', ''-A'', ''--after-context'',
                   ''-B'', ''--before-context'', ''-C'', ''--context'', ''--label'',
                   ''--include'', ''--exclude'', ''--exclude-dir'', ''--include-dir''],
     SafeOptionalValue := [''--color'', ''--colour'', ''--binary-files'', ''--devices'', ''--directories''],
     SemanticValue := [''-f'', ''--file'', ''--exclude-from''],
     Semantic := [''-r'', ''-R'', ''--recursive'', ''--dereference-recursive''],
     PermissiveUnknown := True, Cluster := True\<rparr>"

definition grep_Recognize :: "resolve_request \<Rightarrow> resolved_command" where
  "grep_Recognize req =
     (let args = scanned grepGrammar req in
      if \<not> args_OK args then refused req OpFSRead args
      else
        let flags = flag_if (HasAny args [''-r'', ''-R'', ''--recursive'', ''--dereference-recursive''])
                      EffectFlagRecursive;
            out = addEffects req EffectRead []
                    (map (args_Value args) (filter (args_Has args) [''-f'', ''--file'', ''--exclude-from'']))
                    (resolved req OpFSRead);
            pattern' = (\<not> HasAny args [''-e'', ''--regexp'', ''-f'', ''--file'']);
            files = (if pattern' then drop 1 (ar_operands args) else ar_operands args)
        in if pattern' \<and> ar_operands args = [] then out
           else addEffects req EffectRead flags (not_stdin files) out)"

definition findGrammar :: grammar where
  "findGrammar = empty_grammar\<lparr>
     Safe := [''-print'', ''-print0'', ''-ls'', ''-prune'', ''-empty'', ''-not'', ''-a'', ''-and'',
              ''-o'', ''-or'', ''-L'', ''-H'', ''-P'', ''-depth'', ''-follow'', ''-xdev'', ''-mount'',
              ''-nouser'', ''-nogroup'', ''-readable'', ''-writable'', ''-executable''],
     SafeValue := [''-name'', ''-iname'', ''-path'', ''-ipath'', ''-regex'', ''-iregex'', ''-type'',
                   ''-mtime'', ''-mmin'', ''-ctime'', ''-cmin'', ''-atime'', ''-amin'', ''-newer'',
                   ''-size'', ''-maxdepth'', ''-mindepth'', ''-perm'', ''-user'', ''-group'',
                   ''-regextype'', ''-inum'', ''-links'', ''-samefile'', ''-anewer'', ''-cnewer''],
     Semantic := [''-delete''],
     SemanticValue := [''-fprint'', ''-fprint0'', ''-fls'', ''-exec'', ''-execdir'', ''-ok'', ''-okdir'']\<rparr>"

definition findGroupingTokens :: "string list" where
  "findGroupingTokens = [''('', '')'', ''!'', '','']"

definition find_start :: "bool \<Rightarrow> resolved_command \<Rightarrow> target \<Rightarrow> resolved_command" where
  "find_start deletes out t =
     (let out = addEffect EffectRead [] t out in
      if deletes then addEffect EffectDelete [EffectFlagRecursive, EffectFlagWildcard] t out else out)"

definition find_output :: "resolve_request \<Rightarrow> args \<Rightarrow> resolved_command \<Rightarrow> string \<Rightarrow> resolved_command" where
  "find_output req args out option' =
     (if \<not> args_Has args option' then out
      else case TargetFor req (args_Value args option') of
             None \<Rightarrow> out
           | Some t \<Rightarrow> addEffect EffectWrite [] t (addEffect EffectCreate [] t out))"

definition find_exec :: "args \<Rightarrow> resolved_command \<Rightarrow> string \<Rightarrow> resolved_command" where
  "find_exec args out option' =
     (if \<not> args_Has args option' then out
      else degrade (set_effects (rc_effects out @ [execute_effect (w_text (args_Value args option')) False]) out)
             (''find '' @ option' @ '' runs a command Intenter cannot model''))"

definition find_Recognize :: "resolve_request \<Rightarrow> resolved_command" where
  "find_Recognize req =
     (let args = scanned findGrammar req in
      if \<not> args_OK args then refused req OpFSRead args
      else
        let starts = filter (\<lambda>w. w_text w \<notin> set findGroupingTokens) (LeadingOperands args);
            starts = (if starts = [] then [text_word ''.''] else starts);
            deletes = args_Has args ''-delete'';
            out = (if deletes then set_semantic_op OpFSDelete (resolved req OpFSRead) else resolved req OpFSRead);
            out = foldl (find_start deletes) out (concat (map (TargetsFor req) starts));
            out = foldl (find_output req args) out [''-fprint'', ''-fprint0'', ''-fls'']
        in foldl (find_exec args) out [''-exec'', ''-execdir'', ''-ok'', ''-okdir''])"

definition FilesystemRecognizers :: "recognizer list" where
  "FilesystemRecognizers =
     [([''rm''], remove_Recognize), ([''cp''], copy_Recognize), ([''mv''], move_Recognize),
      ([''mkdir''], makeDir_Recognize), ([''cat''], cat_Recognize),
      ([''grep'', ''egrep'', ''fgrep'', ''rgrep''], grep_Recognize), ([''find''], find_Recognize),
      ([''head'', ''tail'', ''wc'', ''less'', ''more'', ''nl'', ''od'', ''xxd'', ''file'', ''stat'', ''du''],
        readFile_Recognize),
      ([''ls'', ''tree''], list_Recognize),
      ([''echo'', ''printf'', ''pwd'', ''true'', ''false'', ''test'', ''['', ''date'', ''sleep'', ''which'',
        ''basename'', ''dirname''], noop_Recognize)]"

section \<open>The PowerShell cmdlets\<close>

definition cmdletPathOptions :: "string list" where
  "cmdletPathOptions = [''-Path'', ''-LiteralPath'', ''-Destination'']"

definition cmdletGrammar :: "string list \<Rightarrow> string list \<Rightarrow> grammar" where
  "cmdletGrammar extraSafe extraSemantic = empty_grammar\<lparr>
     Safe := [''-Verbose'', ''-Debug'', ''-WhatIf'', ''-Confirm'', ''-ErrorAction'',
              ''-WarningAction'', ''-InformationAction'', ''-PassThru'', ''-Exclude'',
              ''-Include'', ''-Filter''] @ extraSafe,
     SafeValue := [''-ErrorAction'', ''-WarningAction'', ''-InformationAction'',
                   ''-Exclude'', ''-Include'', ''-Filter'', ''-Encoding''],
     Semantic := [''-Recurse'', ''-Force''] @ extraSemantic,
     SemanticValue := cmdletPathOptions\<rparr>"

definition knownParameters :: "string list" where
  "knownParameters =
     [''-Path'', ''-LiteralPath'', ''-Destination'', ''-Recurse'', ''-Force'', ''-Verbose'',
      ''-Debug'', ''-WhatIf'', ''-Confirm'', ''-ErrorAction'', ''-WarningAction'',
      ''-InformationAction'', ''-PassThru'', ''-Exclude'', ''-Include'', ''-Filter'',
      ''-ItemType'', ''-Value'', ''-Encoding'', ''-Raw'', ''-TotalCount'', ''-Tail'',
      ''-Pattern'', ''-SimpleMatch'', ''-CaseSensitive'', ''-List'', ''-Name'',
      ''-Container'', ''-Recurse:'', ''-Force:'']"

definition canonicalParameter :: "string \<Rightarrow> string" where
  "canonicalParameter t =
     (let (name, value') = (case strings_Cut t '':'' of None \<Rightarrow> (t, None) | Some (a, b) \<Rightarrow> (a, Some b))
      in case find (EqualFold name) knownParameters of
           None \<Rightarrow> t
         | Some known \<Rightarrow> (case value' of None \<Rightarrow> known | Some v \<Rightarrow> known @ '':'' @ v))"

definition scanCmdlet :: "grammar \<Rightarrow> word list \<Rightarrow> args" where
  "scanCmdlet g ws =
     Scan g (map (\<lambda>w. if HasPrefix (w_text w) ''-'' then w\<lparr>w_text := canonicalParameter (w_text w)\<rparr> else w) ws)"

abbreviation scanned_cmdlet :: "grammar \<Rightarrow> resolve_request \<Rightarrow> args" where
  "scanned_cmdlet g req \<equiv> scanCmdlet g (SimpleCommand_Args (rr_command req))"

definition cmdletTargets :: "args \<Rightarrow> string list \<Rightarrow> word list" where
  "cmdletTargets args options = ar_operands args @ map (args_Value args) (filter (args_Has args) options)"

definition linkItemTypes :: "string list" where
  "linkItemTypes = [''symboliclink'', ''junction'', ''hardlink'']"

definition isLinkItemType :: "string \<Rightarrow> bool" where
  "isLinkItemType itemType = (ToLower (TrimSpace itemType) \<in> set linkItemTypes)"

definition removeItem_Recognize :: "resolve_request \<Rightarrow> resolved_command" where
  "removeItem_Recognize req =
     (let args = scanned_cmdlet (cmdletGrammar [] []) req in
      if \<not> args_OK args then refused req OpFSDelete args
      else let targets = cmdletTargets args [''-Path'', ''-LiteralPath''] in
           if targets = [] then Unresolved req OpFSDelete ''Remove-Item was called without a path''
           else addEffects req EffectDelete
                  (flag_if (args_Has args ''-Recurse'') EffectFlagRecursive @
                   flag_if (args_Has args ''-Force'') EffectFlagForce)
                  targets (resolved req OpFSDelete))"

definition cmdletSourcesAndDestination :: "args \<Rightarrow> (word list \<times> word) option" where
  "cmdletSourcesAndDestination args =
     (if args_Has args ''-Destination'' then
        (let sources = cmdletTargets args [''-Path'', ''-LiteralPath''] in
         if sources = [] then None else Some (sources, args_Value args ''-Destination''))
      else if length (ar_operands args) < 2 then None
      else Some (butlast (ar_operands args), last (ar_operands args)))"

definition copyItem_Recognize :: "resolve_request \<Rightarrow> resolved_command" where
  "copyItem_Recognize req =
     (let args = scanned_cmdlet (cmdletGrammar [] []) req in
      if \<not> args_OK args then refused req OpFSCopy args
      else case cmdletSourcesAndDestination args of
             None \<Rightarrow> Unresolved req OpFSCopy ''Copy-Item was called without a source and a destination''
           | Some (sources, destination) \<Rightarrow>
               copied req (flag_if (args_Has args ''-Recurse'') EffectFlagRecursive) sources destination
                 (resolved req OpFSCopy))"

definition moveItem_Recognize :: "resolve_request \<Rightarrow> resolved_command" where
  "moveItem_Recognize req =
     (let args = scanned_cmdlet (cmdletGrammar [] []) req in
      if \<not> args_OK args then refused req OpFSMove args
      else case cmdletSourcesAndDestination args of
             None \<Rightarrow> Unresolved req OpFSMove ''Move-Item was called without a source and a destination''
           | Some (sources, destination) \<Rightarrow> moved req sources destination (resolved req OpFSMove))"

definition newItem_Recognize :: "resolve_request \<Rightarrow> resolved_command" where
  "newItem_Recognize req =
     (let g = cmdletGrammar [] [];
          args = scanned_cmdlet (g\<lparr>SafeValue := SafeValue g @ [''-ItemType'', ''-Value'', ''-Name'']\<rparr>) req in
      if \<not> args_OK args then refused req OpFSCreate args
      else let itemType = w_text (args_Value args ''-ItemType'') in
           if isLinkItemType itemType then
             Unresolved req OpFSCreate
               (''New-Item -ItemType '' @ itemType @ '' creates a filesystem link, which Intenter does not model'')
           else let targets = cmdletTargets args [''-Path'', ''-LiteralPath''] in
                if targets = [] then Unresolved req OpFSCreate ''New-Item was called without a path''
                else addEffects req EffectCreate [] targets (resolved req OpFSCreate))"

definition getContent_Recognize :: "resolve_request \<Rightarrow> resolved_command" where
  "getContent_Recognize req =
     (let g = cmdletGrammar [''-Raw''] [];
          args = scanned_cmdlet (g\<lparr>SafeValue := SafeValue g @ [''-TotalCount'', ''-Tail'']\<rparr>) req in
      if \<not> args_OK args then refused req OpFSRead args
      else addEffects req EffectRead [] (cmdletTargets args [''-Path'', ''-LiteralPath'']) (resolved req OpFSRead))"

definition selectString_Recognize :: "resolve_request \<Rightarrow> resolved_command" where
  "selectString_Recognize req =
     (let g = cmdletGrammar [''-SimpleMatch'', ''-CaseSensitive'', ''-List'', ''-Raw''] [];
          args = scanned_cmdlet (g\<lparr>SafeValue := SafeValue g @ [''-Pattern'']\<rparr>) req in
      if \<not> args_OK args then refused req OpFSRead args
      else let files = cmdletTargets args [''-Path'', ''-LiteralPath''];
               files = (if \<not> args_Has args ''-Pattern'' \<and> ar_operands args \<noteq> [] then drop 1 files else files)
           in addEffects req EffectRead (flag_if (args_Has args ''-Recurse'') EffectFlagRecursive) files
                (resolved req OpFSRead))"

definition getChildItem_Recognize :: "resolve_request \<Rightarrow> resolved_command" where
  "getChildItem_Recognize req =
     (let args = scanned_cmdlet (cmdletGrammar [''-Name'', ''-Container''] []) req in
      if \<not> args_OK args then refused req OpFSRead args
      else let targets = cmdletTargets args [''-Path'', ''-LiteralPath''];
               targets = (if targets = [] then [text_word ''.''] else targets)
           in addEffects req EffectRead (flag_if (args_Has args ''-Recurse'') EffectFlagRecursive) targets
                (resolved req OpFSRead))"

section \<open>The cmd.exe builtins\<close>

definition cmdDeleteGrammar :: grammar where
  "cmdDeleteGrammar = empty_grammar\<lparr>
     Safe := [''/p'', ''/a'', ''/f'', ''/q''], Semantic := [''/s''], SlashSwitches := True\<rparr>"

definition cmdDelete_Recognize :: "resolve_request \<Rightarrow> resolved_command" where
  "cmdDelete_Recognize req =
     (let args = scanned cmdDeleteGrammar req in
      if \<not> args_OK args then refused req OpFSDelete args
      else if ar_operands args = [] then Unresolved req OpFSDelete ''del was called without a target''
      else addEffects req EffectDelete
             (flag_if (args_Has args ''/s'') EffectFlagRecursive @
              flag_if (HasAny args [''/q'', ''/f'']) EffectFlagForce)
             (ar_operands args) (resolved req OpFSDelete))"

definition cmdRemoveDirGrammar :: grammar where
  "cmdRemoveDirGrammar = empty_grammar\<lparr>Safe := [''/q''], Semantic := [''/s''], SlashSwitches := True\<rparr>"

definition cmdRemoveDir_Recognize :: "resolve_request \<Rightarrow> resolved_command" where
  "cmdRemoveDir_Recognize req =
     (let args = scanned cmdRemoveDirGrammar req in
      if \<not> args_OK args then refused req OpFSDelete args
      else if ar_operands args = [] then Unresolved req OpFSDelete ''rd was called without a directory''
      else addEffects req EffectDelete
             (flag_if (args_Has args ''/s'') EffectFlagRecursive @ flag_if (args_Has args ''/q'') EffectFlagForce)
             (ar_operands args) (resolved req OpFSDelete))"

definition cmdCopyGrammar :: grammar where
  "cmdCopyGrammar = empty_grammar\<lparr>
     Safe := [''/y'', ''/-y'', ''/v'', ''/z'', ''/i'', ''/q'', ''/f'', ''/h'', ''/r'', ''/k''],
     Semantic := [''/s'', ''/e''], SlashSwitches := True\<rparr>"

definition cmdCopy_Recognize :: "resolve_request \<Rightarrow> resolved_command" where
  "cmdCopy_Recognize req =
     (let args = scanned cmdCopyGrammar req in
      if \<not> args_OK args then refused req OpFSCopy args
      else if length (ar_operands args) < 2
        then Unresolved req OpFSCopy ''copy was called without a source and a destination''
      else copied req (flag_if (HasAny args [''/s'', ''/e'']) EffectFlagRecursive)
             (butlast (ar_operands args)) (last (ar_operands args)) (resolved req OpFSCopy))"

definition cmdMoveGrammar :: grammar where
  "cmdMoveGrammar = empty_grammar\<lparr>Safe := [''/y'', ''/-y''], SlashSwitches := True\<rparr>"

definition cmdMove_Recognize :: "resolve_request \<Rightarrow> resolved_command" where
  "cmdMove_Recognize req =
     (let args = scanned cmdMoveGrammar req in
      if \<not> args_OK args then refused req OpFSMove args
      else if length (ar_operands args) < 2
        then Unresolved req OpFSMove ''move was called without a source and a destination''
      else moved req (butlast (ar_operands args)) (last (ar_operands args)) (resolved req OpFSMove))"

definition cmdMakeDirGrammar :: grammar where
  "cmdMakeDirGrammar = empty_grammar\<lparr>SlashSwitches := True\<rparr>"

definition cmdMakeDir_Recognize :: "resolve_request \<Rightarrow> resolved_command" where
  "cmdMakeDir_Recognize req =
     (let args = scanned cmdMakeDirGrammar req in
      if \<not> args_OK args then refused req OpFSCreate args
      else if ar_operands args = [] then Unresolved req OpFSCreate ''md was called without a directory''
      else addEffects req EffectCreate [] (ar_operands args) (resolved req OpFSCreate))"

definition cmdTypeGrammar :: grammar where
  "cmdTypeGrammar = empty_grammar\<lparr>SlashSwitches := True\<rparr>"

definition cmdType_Recognize :: "resolve_request \<Rightarrow> resolved_command" where
  "cmdType_Recognize req =
     (let args = scanned cmdTypeGrammar req in
      if \<not> args_OK args then refused req OpFSRead args
      else addEffects req EffectRead [] (ar_operands args) (resolved req OpFSRead))"

definition cmdDirGrammar :: grammar where
  "cmdDirGrammar = empty_grammar\<lparr>
     Safe := [''/b'', ''/a'', ''/o'', ''/p'', ''/w'', ''/q'', ''/n'', ''/x'', ''/c'', ''/l''],
     Semantic := [''/s''], SlashSwitches := True\<rparr>"

definition cmdDir_Recognize :: "resolve_request \<Rightarrow> resolved_command" where
  "cmdDir_Recognize req =
     (let args = scanned cmdDirGrammar req in
      if \<not> args_OK args then refused req OpFSRead args
      else let targets = (if ar_operands args = [] then [text_word ''.''] else ar_operands args)
           in addEffects req EffectRead (flag_if (args_Has args ''/s'') EffectFlagRecursive) targets
                (resolved req OpFSRead))"

definition cmdFindStrGrammar :: grammar where
  "cmdFindStrGrammar = empty_grammar\<lparr>
     Safe := [''/i'', ''/n'', ''/v'', ''/x'', ''/l'', ''/r'', ''/c'', ''/b'', ''/e'', ''/m'', ''/o'', ''/p''],
     Semantic := [''/s''], PermissiveUnknown := True, SlashSwitches := True\<rparr>"

definition cmdFindStr_Recognize :: "resolve_request \<Rightarrow> resolved_command" where
  "cmdFindStr_Recognize req =
     (let args = scanned cmdFindStrGrammar req in
      if \<not> args_OK args then refused req OpFSRead args
      else if ar_operands args = [] then resolved req OpFSRead
      else addEffects req EffectRead (flag_if (args_Has args ''/s'') EffectFlagRecursive)
             (drop 1 (ar_operands args)) (resolved req OpFSRead))"

definition WindowsRecognizers :: "recognizer list" where
  "WindowsRecognizers =
     [([''Remove-Item''], removeItem_Recognize), ([''Copy-Item''], copyItem_Recognize),
      ([''Move-Item''], moveItem_Recognize), ([''New-Item''], newItem_Recognize),
      ([''Get-Content''], getContent_Recognize), ([''Select-String''], selectString_Recognize),
      ([''Get-ChildItem''], getChildItem_Recognize),
      ([''del'', ''erase''], cmdDelete_Recognize), ([''rd'', ''rmdir''], cmdRemoveDir_Recognize),
      ([''copy'', ''xcopy''], cmdCopy_Recognize), ([''move''], cmdMove_Recognize),
      ([''md''], cmdMakeDir_Recognize), ([''type''], cmdType_Recognize),
      ([''dir''], cmdDir_Recognize), ([''findstr''], cmdFindStr_Recognize)]"

section \<open>What the recognizers report\<close>

lemma appendTarget_sels [simp]:
  "rc_effects (appendTarget t c) = rc_effects c" "rc_status (appendTarget t c) = rc_status c"
  "rc_semantic_op (appendTarget t c) = rc_semantic_op c"
  by (simp_all add: appendTarget_def)

lemma addEffect_sels [simp]:
  "rc_effects (addEffect k fs t c) = rc_effects c @ [file_effect_for k fs t]"
  "rc_status (addEffect k fs t c) = rc_status c" "rc_semantic_op (addEffect k fs t c) = rc_semantic_op c"
  by (simp_all add: addEffect_def Let_def)

lemma addEffects_sels [simp]:
  "rc_effects (addEffects req k fs ws c) =
     rc_effects c @ map (file_effect_for k fs) (concat (map (TargetsFor req) ws))"
  "rc_status (addEffects req k fs ws c) = rc_status c"
proof -
  have "rc_effects (foldl (\<lambda>c t. addEffect k fs t c) c ts) = rc_effects c @ map (file_effect_for k fs) ts \<and>
      rc_status (foldl (\<lambda>c t. addEffect k fs t c) c ts) = rc_status c" for ts
    by (induction ts arbitrary: c) simp_all
  then show "rc_effects (addEffects req k fs ws c) =
      rc_effects c @ map (file_effect_for k fs) (concat (map (TargetsFor req) ws))"
    and "rc_status (addEffects req k fs ws c) = rc_status c"
    by (simp_all add: addEffects_def)
qed

lemma file_effect_for_sels [simp]:
  "e_type (file_effect_for k fs t) = k" "e_target (file_effect_for k fs t) = Some t"
  "e_program (file_effect_for k fs t) = None" "e_network (file_effect_for k fs t) = None"
  by (simp_all add: file_effect_for_def Let_def target_effect_def)

lemma file_effect_for_flags: "set fs \<subseteq> set (e_flags (file_effect_for k fs t))"
  by (auto simp: file_effect_for_def Let_def target_effect_def)

lemma resolved_sels [simp]:
  "rc_effects (resolved req op) = []" "rc_status (resolved req op) = StatusResolved"
  "rc_semantic_op (resolved req op) = op" "rc_targets (resolved req op) = []"
  by (simp_all add: resolved_def)

lemma Unresolved_sels [simp]:
  "rc_status (Unresolved req op reason) = StatusUnresolved"
  "rc_effects (Unresolved req op reason) = [execute_effect (displayName (SimpleCommand_Name (rr_command req))) False]"
  "rc_semantic_op (Unresolved req op reason) = op"
  by (simp_all add: Unresolved_def)

lemma refused_sels [simp]:
  "rc_status (refused req op a) = StatusUnresolved"
  "rc_effects (refused req op a) = [execute_effect (displayName (SimpleCommand_Name (rr_command req))) False]"
  by (simp_all add: refused_def)

lemma execute_effect_type [simp]: "e_type (execute_effect n s) = EffectExecute"
  by (simp add: execute_effect_def)

text \<open>\<open>rm\<close> reports the deletion of every target of every word that is not written as an option, or it
  is not modelled at all.\<close>

lemma remove_deletes:
  assumes "w \<in> set (SimpleCommand_Args (rr_command req))" and "\<not> grammar_isOption removeGrammar (w_text w)"
    and "t \<in> set (TargetsFor req w)"
  shows "unmodelled (rc_status (remove_Recognize req)) \<or>
    (\<exists>e \<in> set (rc_effects (remove_Recognize req)). e_type e = EffectDelete \<and> e_target e = Some t)"
proof -
  have "w \<in> set (ar_operands (scanned removeGrammar req))"
    using assms(1,2) by (intro Scan_operands) (simp_all add: removeGrammar_def empty_grammar_def)
  then show ?thesis
    using assms(3) by (auto simp: remove_Recognize_def Let_def intro!: bexI image_eqI)
qed

text \<open>The tools for looking at things report nothing but reads, or the program they could not model.\<close>

definition only_reads :: "resolved_command \<Rightarrow> bool" where
  "only_reads c =
     ((\<forall>e \<in> set (rc_effects c). e_type e = EffectRead) \<or>
      unmodelled (rc_status c) \<and> (\<forall>e \<in> set (rc_effects c). e_type e = EffectExecute))"

lemma only_reads_base [simp]:
  "only_reads (resolved req op)" "only_reads (refused req op a)"
  by (simp_all add: only_reads_def)

lemma only_reads_addEffects [simp]:
  "rc_status c = StatusResolved \<Longrightarrow> only_reads c \<Longrightarrow> only_reads (addEffects req EffectRead fs ws c)"
  by (auto simp: only_reads_def unmodelled_def)

lemma readers_only_read:
  "only_reads (readFile_Recognize req)" "only_reads (list_Recognize req)" "only_reads (noop_Recognize req)"
  "only_reads (cat_Recognize req)" "only_reads (grep_Recognize req)" "only_reads (getContent_Recognize req)"
  "only_reads (selectString_Recognize req)" "only_reads (getChildItem_Recognize req)"
  "only_reads (cmdType_Recognize req)" "only_reads (cmdDir_Recognize req)" "only_reads (cmdFindStr_Recognize req)"
  by (simp_all add: readFile_Recognize_def list_Recognize_def noop_Recognize_def cat_Recognize_def
      grep_Recognize_def getContent_Recognize_def selectString_Recognize_def getChildItem_Recognize_def
      cmdType_Recognize_def cmdDir_Recognize_def cmdFindStr_Recognize_def Let_def)

end
