(* ===== verification/Resolver_Resolve.thy ===== *)
theory Resolver_Resolve
  imports Resolver_Fs
begin

text \<open>
  \<^verbatim>\<open>internal/resolver/resolve.go\<close> and \<^verbatim>\<open>dialect.go\<close>: parsing a command line with the parser of its
  dialect, recognizing every simple command, resolving the scripts wrappers run, and aggregating the
  commands into the resolved action the policy engine decides about.

  The parsers, the recognizers that are not file system tools and the hash behind the action key are
  parameters. The clock is a parameter too: \<open>rv_expired\<close> says whether the time budget is used up at a
  point of the resolution, and the theorems hold for every such clock. A point is the path of scripts
  and command indexes that leads to it. The recursion of scripts into wrappers ends because every
  script is one level deeper than the command that runs it and the depth is limited.
\<close>

section \<open>The resolver\<close>

type_synonym position = "(string \<times> dialect \<times> nat) list"

record resolver =
  rv_parsers :: parser_registry
  rv_recognizers :: registry
  rv_max_depth :: int
  rv_max_commands :: int
  rv_engine_version :: int
  rv_expired :: "position \<Rightarrow> bool"
  rv_action_key :: "resolved_action \<Rightarrow> string \<Rightarrow> int \<Rightarrow> string option"

definition DialectFor :: "dialect \<Rightarrow> dialect \<Rightarrow> dialect" where
  "DialectFor requested fallback =
     (if requested \<noteq> DialectNone then requested else if fallback \<noteq> DialectNone then fallback else DialectPosix)"

definition NewRecognizerRegistry :: "recognizer list \<Rightarrow> registry" where
  "NewRecognizerRegistry others =
     Register (Register (Register Map.empty FilesystemRecognizers) WindowsRecognizers) others"

definition resolver_New ::
    "parser_registry \<Rightarrow> recognizer list \<Rightarrow> (position \<Rightarrow> bool) \<Rightarrow>
     (resolved_action \<Rightarrow> string \<Rightarrow> int \<Rightarrow> string option) \<Rightarrow> int \<Rightarrow> resolver" where
  "resolver_New parsers others expired key engineVersion =
     \<lparr>rv_parsers = parsers, rv_recognizers = NewRecognizerRegistry others, rv_max_depth = 4,
      rv_max_commands = MaxSimpleCommands, rv_engine_version = engineVersion, rv_expired = expired,
      rv_action_key = key\<rparr>"

definition run_parse ::
    "resolver \<Rightarrow> request_context \<Rightarrow> dialect \<Rightarrow> string \<Rightarrow> string \<Rightarrow> parsed_command option" where
  "run_parse rs actx dialect command cwd =
     (case Parsers_Get (rv_parsers rs) dialect of
        Inl _ \<Rightarrow> None
      | Inr implementation \<Rightarrow>
          (case implementation \<lparr>pi_Command = command, pi_Cwd = cwd, pi_Home = cx_home_dir actx,
                                pi_TempDir = cx_temp_dir actx, pi_Env = Map.empty\<rparr> of
             Inl err \<Rightarrow> Some (AddUnsupported
                 \<lparr>pc_dialect = dialect, pc_commands = [], pc_operators = [], pc_unsupported = [], pc_final_cwd = []\<rparr>
                 UnsupportedSyntaxError 0 err)
           | Inr parsed \<Rightarrow> Some parsed))"

definition too_deep :: "resolver \<Rightarrow> string" where
  "too_deep rs = ''wrapper resolution went deeper than '' @ Itoa (rv_max_depth rs) @ '' levels''"

definition run_recognize :: "resolver \<Rightarrow> resolve_request \<Rightarrow> resolved_command" where
  "run_recognize rs req =
     (if rv_max_depth rs < rr_depth req then Unresolved req OpUnknown (too_deep rs)
      else Recognize (rv_recognizers rs) req)"

section \<open>Scripts\<close>

abbreviation weaken :: "resolution_status \<Rightarrow> string \<Rightarrow> script_result \<Rightarrow> script_result" where
  "weaken status reason result \<equiv>
     result\<lparr>sr_status := WeakerStatus (sr_status result) status,
            sr_status_reason := (if sr_status_reason result = [] then reason else sr_status_reason result)\<rparr>"

definition budget_reason :: string where
  "budget_reason = ''resolution exceeded its time budget''"

text \<open>The loop over the commands of one dialect; the flag says that the budget ran out and the
  function returned.\<close>

fun script_commands ::
    "(nat \<Rightarrow> bool) \<Rightarrow> (nat \<Rightarrow> simple_command \<Rightarrow> resolved_command) \<Rightarrow> nat \<Rightarrow> simple_command list \<Rightarrow>
     script_result \<Rightarrow> script_result \<times> bool" where
  "script_commands expired recognize i [] result = (result, False)"
| "script_commands expired recognize i (c # cs) result =
     (if expired i then (weaken StatusUnresolved budget_reason result, True)
      else script_commands expired recognize (i + 1) cs
             (result\<lparr>sr_commands := sr_commands result @ [recognize i c]\<rparr>))"

fun script_dialects ::
    "(dialect \<Rightarrow> parsed_command option) \<Rightarrow> (dialect \<Rightarrow> nat \<Rightarrow> bool) \<Rightarrow>
     (dialect \<Rightarrow> nat \<Rightarrow> simple_command \<Rightarrow> resolved_command) \<Rightarrow> string \<Rightarrow> dialect list \<Rightarrow> script_result \<Rightarrow> script_result" where
  "script_dialects parse expired recognize label [] result = result"
| "script_dialects parse expired recognize label (d # ds) result =
     (case parse d of
        None \<Rightarrow>
          script_dialects parse expired recognize label ds
            (weaken StatusUnresolved (''no parser is available for the '' @ dialect_str d @ '' dialect'') result)
      | Some parsed \<Rightarrow>
          let result = (if Parsed_OK parsed then result
                        else weaken StatusParseFailed
                               (label @ '' uses syntax Intenter does not interpret: '' @
                                strings_Join (UnsupportedSummary parsed) '', '') result);
              (result, returned) = script_commands (expired d) (recognize d) 0 (pc_commands parsed) result
          in if returned then result else script_dialects parse expired recognize label ds result)"

function resolveScript ::
    "resolver \<Rightarrow> resolver_context \<Rightarrow> position \<Rightarrow> int \<Rightarrow> string list \<Rightarrow> script \<Rightarrow> script_result" where
  "resolveScript rs ctx pos depth chain scr =
     (if rv_max_depth rs < depth + 1 then
        \<lparr>sr_commands = [], sr_status = StatusUnresolved, sr_status_reason = too_deep rs\<rparr>
      else if rv_expired rs (pos @ [(sx_key scr, DialectNone, 0)]) then
        \<lparr>sr_commands = [], sr_status = StatusUnresolved, sr_status_reason = budget_reason\<rparr>
      else case rx_action ctx of
        None \<Rightarrow> \<lparr>sr_commands = [], sr_status = StatusResolved, sr_status_reason = []\<rparr>
      | Some actx \<Rightarrow>
          let chain = chain @ [sx_key scr];
              nested = (\<lambda>pos s. resolveScript rs ctx pos (depth + 1) chain s)
          in script_dialects (\<lambda>d. run_parse rs actx d (sx_text scr) (sx_cwd scr))
               (\<lambda>d i. rv_expired rs (pos @ [(sx_key scr, d, i)]))
               (\<lambda>d i c.
                  let child = run_recognize rs
                        \<lparr>rr_command = c, rr_context = Some ctx, rr_dialect = d, rr_depth = depth + 1,
                         rr_chain = chain, rr_script = Some (nested (pos @ [(sx_key scr, d, i)]))\<rparr>
                  in set_resolved_from (sx_label scr # rc_resolved_from child) child)
               (sx_label scr) (sx_dialects scr)
               \<lparr>sr_commands = [], sr_status = StatusResolved, sr_status_reason = []\<rparr>)"
  by pat_completeness auto
termination
  by (relation "measure (\<lambda>(rs, ctx, pos, depth, chain, scr). nat (rv_max_depth rs - depth))") auto

declare resolveScript.simps [simp del]

section \<open>Aggregation\<close>

definition commandChain :: "resolved_command \<Rightarrow> string" where
  "commandChain c =
     strings_Join (filter (\<lambda>t. t \<noteq> [])
       (map (\<lambda>child. if rc_raw_text child = [] then rc_executable child else rc_raw_text child) (rc_children c))) ''; ''"

definition describeTargets :: "resolved_action \<Rightarrow> string list" where
  "describeTargets out =
     sort (map (\<lambda>t. t_display t @ '' ('' @ scope_str (t_scope t) @ '')'')
       (dedupe_on t_display (filter (\<lambda>t. t_display t \<noteq> []) (Targets out))))"

definition buildExplanation :: "resolved_action \<Rightarrow> string list" where
  "buildExplanation out =
     map (\<lambda>c. let line = (if rc_raw_text c = [] then rc_executable c else rc_raw_text c);
                  chain = commandChain c
              in if chain = [] then line else line @ '' -> '' @ chain) (ra_commands out) @
     (if DisplayTargets out = [] then [] else [''targets: '' @ strings_Join (describeTargets out) '', '']) @
     (if action_Envelope out = [] then []
      else [''effects: '' @ strings_Join (map EnvelopeEntry_String (action_Envelope out)) '', '']) @
     (if ra_fingerprints out = [] then []
      else [''fingerprints: '' @ strings_Join (sort (map f_key (ra_fingerprints out))) '', ''])"

definition fold_command :: "resolved_action \<Rightarrow> resolved_command \<Rightarrow> resolved_action" where
  "fold_command out c =
     out\<lparr>ra_status := WeakerStatus (ra_status out) (rc_status c),
         ra_status_reason := (if ra_status_reason out = [] \<and> rc_status c \<noteq> StatusResolved
                              then rc_status_reason c else ra_status_reason out),
         ra_semantic_ops := ra_semantic_ops out @ [rc_semantic_op c],
         ra_effects := ra_effects out @ rc_effects c,
         ra_fingerprints := MergeFingerprints (ra_fingerprints out) (rc_fingerprints c)\<rparr>"

definition weaken_action :: "resolution_status \<Rightarrow> string \<Rightarrow> resolved_action \<Rightarrow> resolved_action" where
  "weaken_action status reason out =
     out\<lparr>ra_status := WeakerStatus (ra_status out) status,
         ra_status_reason := (if ra_status_reason out = [] then reason else ra_status_reason out)\<rparr>"

definition aggregate :: "resolver \<Rightarrow> resolved_action \<Rightarrow> resolved_action" where
  "aggregate rs out =
     (let out = (if rv_max_commands rs < int (length (ra_commands out))
                 then weaken_action StatusUnresolved
                        (''the command line runs more than '' @ Itoa (rv_max_commands rs) @ '' commands'') out
                 else out);
          out = foldl fold_command out (ra_commands out);
          out = out\<lparr>ra_effects := dedupeEffects (ra_effects out)\<rparr>;
          out = out\<lparr>ra_explanation := buildExplanation out\<rparr>
      in if Approvable (ra_status out)
         then (case rv_action_key rs out (ra_project_id out) (rv_engine_version rs) of
                 None \<Rightarrow> out | Some key \<Rightarrow> out\<lparr>ra_action_key := key\<rparr>)
         else out)"

section \<open>Resolving a request\<close>

fun resolve_commands ::
    "(nat \<Rightarrow> bool) \<Rightarrow> (nat \<Rightarrow> simple_command \<Rightarrow> resolved_command) \<Rightarrow> nat \<Rightarrow> simple_command list \<Rightarrow>
     resolved_action \<Rightarrow> resolved_action" where
  "resolve_commands expired recognize i [] out = out"
| "resolve_commands expired recognize i (c # cs) out =
     (if expired i then
        MarkIncomplete (weaken_action StatusUnresolved budget_reason out)
          ''resolution exceeded its time budget before every command was examined''
      else resolve_commands expired recognize (i + 1) cs
             (out\<lparr>ra_commands := ra_commands out @ [recognize i c]\<rparr>))"

text \<open>The request made of the \<open>i\<close>-th command of the line.\<close>

definition command_request :: "resolver \<Rightarrow> resolver_context \<Rightarrow> dialect \<Rightarrow> nat \<Rightarrow> simple_command \<Rightarrow> resolve_request" where
  "command_request rs ctx dialect i c =
     \<lparr>rr_command = c, rr_context = Some ctx, rr_dialect = dialect, rr_depth = 0, rr_chain = [],
      rr_script = Some (resolveScript rs ctx [([], dialect, i)] 0 [])\<rparr>"

definition started :: "action_request \<Rightarrow> dialect \<Rightarrow> request_context option \<Rightarrow> resolved_action" where
  "started request dialect actx =
     \<lparr>ra_raw_command = rq_raw_command request, ra_dialect = dialect,
      ra_project_id = (case actx of None \<Rightarrow> [] | Some a \<Rightarrow> cx_project_id a), ra_commands = [], ra_semantic_ops = [],
      ra_effects = [], ra_fingerprints = [], ra_status = StatusResolved, ra_status_reason = [],
      ra_action_key = [], ra_explanation = [], ra_unsupported = [], ra_incomplete = False,
      ra_incomplete_reason = []\<rparr>"

definition examined :: "parsed_command \<Rightarrow> resolved_action \<Rightarrow> resolved_action" where
  "examined parsed out =
     (let out = out\<lparr>ra_unsupported := UnsupportedSummary parsed\<rparr>;
          out = (if Parsed_OK parsed then out
                 else weaken_action StatusParseFailed
                        (''the command uses syntax Intenter does not interpret: '' @
                         strings_Join (UnsupportedSummary parsed) '', '') out)
      in if Truncated parsed then MarkIncomplete out ''the command line was too long to examine in full'' else out)"

definition ResolveInContext :: "resolver \<Rightarrow> action_request \<Rightarrow> resolver_context option \<Rightarrow> resolved_action" where
  "ResolveInContext rs request ctx =
     (let dialect = DialectFor (rq_dialect request) DialectPosix;
          out = started request dialect (Option.bind ctx rx_action)
      in case ctx of
           None \<Rightarrow> out\<lparr>ra_status := StatusContextFailed,
                        ra_status_reason := ''no request context could be established''\<rparr>
         | Some c \<Rightarrow>
             (case rx_action c of
                None \<Rightarrow> out\<lparr>ra_status := StatusContextFailed,
                             ra_status_reason := ''no request context could be established''\<rparr>
              | Some actx \<Rightarrow>
                  let out = (if cx_status actx \<noteq> ContextOK
                             then out\<lparr>ra_status := StatusContextFailed, ra_status_reason := cx_status_reason actx\<rparr>
                             else out)
                  in case run_parse rs actx dialect (rq_raw_command request) (rq_cwd request) of
                       None \<Rightarrow>
                         out\<lparr>ra_status := WeakerStatus (ra_status out) StatusParseFailed,
                             ra_status_reason := ''no parser is available for the '' @ dialect_str dialect @ '' dialect''\<rparr>
                     | Some parsed \<Rightarrow>
                         aggregate rs
                           (resolve_commands (\<lambda>i. rv_expired rs [([], dialect, i)])
                              (\<lambda>i cmd. run_recognize rs (command_request rs c dialect i cmd)) 0
                              (pc_commands parsed) (examined parsed out))))"

section \<open>What aggregation keeps\<close>

lemma weaken_action_sels [simp]:
  "ra_commands (weaken_action st r a) = ra_commands a" "ra_effects (weaken_action st r a) = ra_effects a"
  "ra_incomplete (weaken_action st r a) = ra_incomplete a"
  "ra_status (weaken_action st r a) = WeakerStatus (ra_status a) st"
  by (simp_all add: weaken_action_def)

lemma foldl_fold_command:
  "ra_effects (foldl fold_command a cs) = ra_effects a @ concat (map rc_effects cs)"
  "ra_incomplete (foldl fold_command a cs) = ra_incomplete a"
  "ra_commands (foldl fold_command a cs) = ra_commands a"
  "unmodelled (ra_status (foldl fold_command a cs)) \<longleftrightarrow>
     unmodelled (ra_status a) \<or> (\<exists>c \<in> set cs. unmodelled (rc_status c))"
  by (induction cs arbitrary: a) (auto simp: fold_command_def unmodelled_WeakerStatus)

lemma aggregate_sels:
  "ra_effects (aggregate rs a) = dedupeEffects (ra_effects a @ concat (map rc_effects (ra_commands a)))"
  "ra_incomplete (aggregate rs a) = ra_incomplete a"
  "ra_commands (aggregate rs a) = ra_commands a"
  "unmodelled (ra_status (aggregate rs a)) \<longleftrightarrow>
     unmodelled (ra_status a) \<or> (\<exists>c \<in> set (ra_commands a). unmodelled (rc_status c)) \<or>
     rv_max_commands rs < int (length (ra_commands a))"
  by (auto simp: aggregate_def Let_def foldl_fold_command unmodelled_WeakerStatus split: option.splits)

lemma resolve_commands_sels:
  "ra_effects (resolve_commands ex rec i cs a) = ra_effects a"
  "ra_incomplete a \<Longrightarrow> ra_incomplete (resolve_commands ex rec i cs a)"
  "unmodelled (ra_status a) \<Longrightarrow> unmodelled (ra_status (resolve_commands ex rec i cs a))"
  by (induction ex rec i cs a rule: resolve_commands.induct)
    (auto simp: MarkIncomplete_def unmodelled_WeakerStatus)

lemma resolve_commands_keeps:
  "set (ra_commands a) \<subseteq> set (ra_commands (resolve_commands ex rec i cs a))"
  by (induction ex rec i cs a rule: resolve_commands.induct) (auto simp: MarkIncomplete_def)

text \<open>A command of the line is recognized, or the action is marked incomplete.\<close>

lemma resolve_commands_all:
  "j < length cs \<Longrightarrow> \<not> ra_incomplete (resolve_commands ex rec i cs a) \<Longrightarrow>
   rec (i + j) (cs ! j) \<in> set (ra_commands (resolve_commands ex rec i cs a))"
proof (induction ex rec i cs a arbitrary: j rule: resolve_commands.induct)
  case (2 ex rec i c cs a)
  then have "\<not> ex i" by (auto simp: MarkIncomplete_def split: if_splits)
  with 2 show ?case
  proof (cases j)
    case 0
    then show ?thesis
      using \<open>\<not> ex i\<close> resolve_commands_keeps [of "a\<lparr>ra_commands := ra_commands a @ [rec i c]\<rparr>" ex rec "i + 1" cs]
      by auto
  next
    case (Suc k)
    then show ?thesis using 2 \<open>\<not> ex i\<close> by auto
  qed
qed simp

end
