(* ===== verification/Parser_Cmd.thy ===== *)
theory Parser_Cmd
  imports Parser_Model
begin

text \<open>
  \<^verbatim>\<open>internal/parser/cmd/parser.go\<close>: the parser of the cmd.exe dialect. The index loops over a line are
  recursions over the rest of the line with the position as an argument; the walker is a record that
  is passed along. The lemmas show that cutting a line into segments loses no character and leaves no
  separator inside a segment, that a line with more commands than an action may have is refused, and
  that the bound at which commands would be dropped cannot be reached.
\<close>

section \<open>Segments\<close>

record segment =
  sg_text :: string
  sg_operator :: operator
  sg_position :: nat
  sg_piped :: bool
  sg_index :: int

definition refusedCommands :: "(string \<times> unsupported_kind) list" where
  "refusedCommands =
     [(''call'', UnsupportedShellWrapper), (''start'', UnsupportedStartProcess), (''set'', UnsupportedExport),
      (''setx'', UnsupportedExport), (''setlocal'', UnsupportedExport), (''endlocal'', UnsupportedExport),
      (''pushd'', UnsupportedDirStack), (''popd'', UnsupportedDirStack), (''goto'', UnsupportedControlFlow),
      (''if'', UnsupportedControlFlow), (''for'', UnsupportedControlFlow), (''doskey'', UnsupportedAlias)]"

definition endsWithRedirectOperator :: "string \<Rightarrow> bool" where
  "endsWithRedirectOperator s = (s \<noteq> [] \<and> (last s = CHR ''<'' \<or> last s = CHR ''>''))"

definition flush_segment :: "string \<Rightarrow> operator \<Rightarrow> nat \<Rightarrow> bool \<Rightarrow> segment" where
  "flush_segment current op start piped =
     \<lparr>sg_text = current, sg_operator = op, sg_position = start, sg_piped = piped, sg_index = - 1\<rparr>"

text \<open>\<open>None\<close> is an unterminated quote.\<close>

fun split_from :: "nat \<Rightarrow> string \<Rightarrow> string \<Rightarrow> operator \<Rightarrow> nat \<Rightarrow> bool \<Rightarrow> segment list \<Rightarrow> segment list option" where
  "split_from i [] current op start inQuote segments =
     (if inQuote then None else Some (segments @ [flush_segment current op start False]))"
| "split_from i (c # cs) current op start inQuote segments =
     (if \<not> inQuote \<and> c = CHR ''^'' \<and> cs \<noteq> [] then
        (case cs of [] \<Rightarrow> None | d # ds \<Rightarrow> split_from (i + 2) ds (current @ [d]) op start inQuote segments)
      else if c = CHR 0x22 then split_from (i + 1) cs (current @ [c]) op start (\<not> inQuote) segments
      else if inQuote then split_from (i + 1) cs (current @ [c]) op start inQuote segments
      else if c = CHR ''&'' \<and> endsWithRedirectOperator current
        then split_from (i + 1) cs (current @ [c]) op start inQuote segments
      else if c = CHR ''&'' \<and> cs \<noteq> [] \<and> hd cs = CHR ''&''
        then (case cs of [] \<Rightarrow> None
              | d # ds \<Rightarrow> split_from (i + 2) ds [] OpAnd (i + 2) inQuote (segments @ [flush_segment current op start False]))
      else if c = CHR ''|'' \<and> cs \<noteq> [] \<and> hd cs = CHR ''|''
        then (case cs of [] \<Rightarrow> None
              | d # ds \<Rightarrow> split_from (i + 2) ds [] OpOr (i + 2) inQuote (segments @ [flush_segment current op start False]))
      else if c = CHR ''&''
        then split_from (i + 1) cs [] OpSequence (i + 1) inQuote (segments @ [flush_segment current op start False])
      else if c = CHR ''|''
        then split_from (i + 1) cs [] OpPipe (i + 1) inQuote (segments @ [flush_segment current op start True])
      else split_from (i + 1) cs (current @ [c]) op start inQuote segments)"

definition splitSegments :: "string \<Rightarrow> parsed_command \<Rightarrow> segment list option \<times> parsed_command" where
  "splitSegments line out =
     (case split_from 0 line [] OpNone 0 False [] of
        None \<Rightarrow> (None, AddUnsupported out UnsupportedSyntaxError (length line) ''unterminated quote'')
      | Some segments \<Rightarrow> (Some segments, out))"

section \<open>Tokens\<close>

record token =
  tk_text :: string
  tk_quoted :: bool

definition isDigits :: "string \<Rightarrow> bool" where
  "isDigits s = (s \<noteq> [] \<and> list_all is_digit s)"

abbreviation flush_token :: "string \<Rightarrow> bool \<Rightarrow> bool \<Rightarrow> token list \<Rightarrow> token list" where
  "flush_token current quoted started tokens \<equiv>
     (if started then tokens @ [\<lparr>tk_text = current, tk_quoted = quoted\<rparr>] else tokens)"

text \<open>The operator that begins with the metacharacter \<open>c\<close>, and the text after it.\<close>

definition redirect_operator :: "char \<Rightarrow> string \<Rightarrow> string \<times> string" where
  "redirect_operator c cs =
     (if cs \<noteq> [] \<and> hd cs = c then ([c, c], tl cs)
      else if cs \<noteq> [] \<and> hd cs = CHR ''&''
        then (c # CHR ''&'' # takeWhile is_digit (tl cs), dropWhile is_digit (tl cs))
      else ([c], cs))"

lemma redirect_operator_length [termination_simp]:
  "redirect_operator c cs = (op, rest) \<Longrightarrow> length rest \<le> length cs"
  by (cases cs) (auto simp: redirect_operator_def split: if_splits intro: le_SucI length_dropWhile_le)

function split_tokens :: "string \<Rightarrow> string \<Rightarrow> bool \<Rightarrow> bool \<Rightarrow> bool \<Rightarrow> token list \<Rightarrow> token list" where
  "split_tokens [] current inQuote quoted started tokens = flush_token current quoted started tokens"
| "split_tokens (c # cs) current inQuote quoted started tokens =
     (if \<not> inQuote \<and> c = CHR ''^'' \<and> cs \<noteq> [] then
        split_tokens (tl cs) (current @ [hd cs]) inQuote quoted True tokens
      else if c = CHR 0x22 then split_tokens cs current (\<not> inQuote) True True tokens
      else if inQuote then split_tokens cs (current @ [c]) inQuote quoted True tokens
      else if c = CHR ''<'' \<or> c = CHR ''>'' then
        (let handle = (current \<noteq> [] \<and> isDigits current);
             (op, rest) = redirect_operator c cs
         in if handle
            then split_tokens rest [] inQuote quoted False (tokens @ [\<lparr>tk_text = current @ op, tk_quoted = False\<rparr>])
            else split_tokens rest (if started then [] else current) inQuote (if started then False else quoted) False
                   (flush_token current quoted started tokens @ [\<lparr>tk_text = op, tk_quoted = False\<rparr>]))
      else if c = CHR '' '' \<or> c = CHR 0x09 \<or> c = CHR 0x0A \<or> c = CHR 0x0D then
        split_tokens cs (if started then [] else current) inQuote (if started then False else quoted) False
          (flush_token current quoted started tokens)
      else split_tokens cs (current @ [c]) inQuote quoted True tokens)"
  by pat_completeness auto
termination
  by (relation "measure (\<lambda>(s, _). length s)") (auto dest!: redirect_operator_length [OF sym])

definition splitTokens :: "string \<Rightarrow> token list" where
  "splitTokens t = split_tokens t [] False False False []"

text \<open>The first component is the operator, empty when the redirection is to be ignored.\<close>

definition redirectionOperator :: "string \<Rightarrow> string option" where
  "redirectionOperator t =
     (if t \<in> {''>'', ''>>'', ''<'', ''1>'', ''1>>'', ''2>'', ''2>>''} then Some t
      else if t \<in> {''2>&1'', ''1>&2''} then Some []
      else None)"

definition cmd_word :: "var_context \<Rightarrow> token \<Rightarrow> word" where
  "cmd_word vars item =
     (let (expanded, unexpanded) = ExpandCmd (tk_text item) vars in
      \<lparr>w_text = expanded, w_quoted = tk_quoted item,
       w_glob = (if tk_quoted item then False else ContainsGlob expanded), w_unexpanded = unexpanded\<rparr>)"

fun tokenize_from ::
    "var_context \<Rightarrow> token list \<Rightarrow> word list \<Rightarrow> redirection list \<Rightarrow> string \<Rightarrow> (word list \<times> redirection list) option" where
  "tokenize_from vars [] ws rds pending = (if pending \<noteq> [] then None else Some (ws, rds))"
| "tokenize_from vars (item # items) ws rds pending =
     (case redirectionOperator (tk_text item) of
        Some op \<Rightarrow> tokenize_from vars items ws rds (if op = [] then pending else op)
      | None \<Rightarrow>
          let word = cmd_word vars item in
          if pending \<noteq> []
          then tokenize_from vars items ws
                 (if IsIgnoredRedirectionTarget (w_text word) then rds
                  else rds @ [\<lparr>rd_op = pending, rd_target = word\<rparr>]) []
          else tokenize_from vars items (ws @ [word]) rds [])"

section \<open>The walker\<close>

record walker =
  wk_out :: parsed_command
  wk_cwd :: string
  wk_pending :: operator
  wk_truncated :: bool
  wk_hard_capped :: bool

definition unsupported :: "walker \<Rightarrow> unsupported_kind \<Rightarrow> nat \<Rightarrow> string \<Rightarrow> walker" where
  "unsupported w kind position t = w\<lparr>wk_out := AddUnsupported (wk_out w) kind position t\<rparr>"

definition tokenize :: "var_context \<Rightarrow> walker \<Rightarrow> string \<Rightarrow> nat \<Rightarrow> (word list \<times> redirection list) option \<times> walker" where
  "tokenize vars w t position =
     (case tokenize_from vars (splitTokens t) [] [] [] of
        None \<Rightarrow> (None, unsupported w UnsupportedSyntaxError position ''redirection without a target'')
      | Some r \<Rightarrow> (Some r, w))"

definition stripComment :: "string \<Rightarrow> string" where
  "stripComment t =
     (let trimmed = TrimLeft_by (\<lambda>c. c = CHR '' '' \<or> c = CHR 0x09) t; lowered = ToLower trimmed in
      if HasPrefix lowered ''rem '' \<or> lowered = ''rem'' \<or> HasPrefix trimmed ''::'' then [] else t)"

definition cmd_isAbsolute :: "string \<Rightarrow> bool" where
  "cmd_isAbsolute dir =
     (HasPrefix dir [CHR 0x5C] \<or> HasPrefix dir ''/'' \<or>
      (3 \<le> length dir \<and> dir ! 1 = CHR '':'' \<and> (dir ! 2 = CHR ''/'' \<or> dir ! 2 = CHR 0x5C)))"

definition cmd_joinCwd :: "string \<Rightarrow> string \<Rightarrow> string" where
  "cmd_joinCwd cwd dir =
     (if dir = [] then cwd
      else if cmd_isAbsolute dir \<or> cwd = [] then dir
      else let separator = (if strings_Contains cwd ''/'' \<and> \<not> strings_Contains cwd [CHR 0x5C] then ''/'' else [CHR 0x5C])
           in TrimRight_by (\<lambda>c. c = CHR ''/'' \<or> c = CHR 0x5C) cwd @ separator @ dir)"

definition hasInlineScriptFlag :: "simple_command \<Rightarrow> bool" where
  "hasInlineScriptFlag cmd = (\<exists>a \<in> set (SimpleCommand_Args cmd). ToLower (w_text a) \<in> {''/c'', ''/k'', ''-c''})"

definition cap_commands :: "walker \<Rightarrow> nat \<Rightarrow> walker" where
  "cap_commands w position =
     (if MaxSimpleCommands \<le> int (length (pc_commands (wk_out w))) \<and> \<not> wk_truncated w
      then (unsupported w UnsupportedTooManyCommands position
              (''more than '' @ Itoa MaxSimpleCommands @ '' commands''))\<lparr>wk_truncated := True\<rparr>
      else w)"

definition emit :: "walker \<Rightarrow> simple_command \<Rightarrow> segment \<Rightarrow> walker \<times> segment" where
  "emit w cmd item =
     (let w = cap_commands w (sg_position item);
          out = wk_out w
      in if MaxParsedCommands \<le> int (length (pc_commands out)) then
           (if \<not> wk_hard_capped w
            then (unsupported w UnsupportedTruncated (sg_position item)
                    (''more than '' @ Itoa MaxParsedCommands @ '' commands were not examined''))\<lparr>wk_hard_capped := True\<rparr>
            else w, item)
         else
           let first = (pc_commands out = []);
               cmd = (if first then cmd else cmd\<lparr>s_operator := wk_pending w\<rparr>);
               out = out\<lparr>pc_operators := pc_operators out @ (if first then [] else [wk_pending w]),
                         pc_commands := pc_commands out @ [cmd]\<rparr>
           in (w\<lparr>wk_out := out\<rparr>, item\<lparr>sg_index := int (length (pc_commands out)) - 1\<rparr>))"

definition changeDir :: "walker \<Rightarrow> simple_command \<Rightarrow> segment \<Rightarrow> walker \<times> segment" where
  "changeDir w cmd item =
     (let cmd = cmd\<lparr>s_builtin := True\<rparr>;
          args = filter (\<lambda>t. \<not> HasPrefix t ''/'') (ArgTexts cmd);
          (w, item) = emit w cmd item
      in case args of
           [] \<Rightarrow> (w, item)
         | dir # _ \<Rightarrow> (w\<lparr>wk_cwd := cmd_joinCwd (wk_cwd w) dir\<rparr>, item))"

definition cmd_dispatch :: "walker \<Rightarrow> simple_command \<Rightarrow> segment \<Rightarrow> walker \<times> segment" where
  "cmd_dispatch w cmd item =
     (let name = ToLower (TrimSuffix (SimpleCommand_Name cmd) ''.exe'') in
      case map_of refusedCommands name of
        Some kind \<Rightarrow> emit (unsupported w kind (sg_position item) (SimpleCommand_Name cmd)) cmd item
      | None \<Rightarrow>
          if IsStreamInterpreter name \<and> hasInlineScriptFlag cmd then
            emit (unsupported w UnsupportedShellWrapper (sg_position item) (SimpleCommand_Name cmd)) cmd item
          else if IsElevationWrapper name then
            emit (unsupported w UnsupportedElevation (sg_position item) (SimpleCommand_Name cmd))
              (cmd\<lparr>s_elevated := True\<rparr>) item
          else if name = ''cd'' \<or> name = ''chdir'' then changeDir w cmd item
          else emit w cmd item)"

definition cmd_command :: "var_context \<Rightarrow> walker \<Rightarrow> segment \<Rightarrow> walker \<times> segment" where
  "cmd_command vars w item =
     (let t = stripComment (sg_text item) in
      if TrimSpace t = [] then (w, item)
      else case tokenize vars w t (sg_position item) of
             (None, w) \<Rightarrow> (w, item)
           | (Some (ws, rds), w) \<Rightarrow>
               (case ws of
                  [] \<Rightarrow> (w, item)
                | first # _ \<Rightarrow>
                    if w_text first = [] then
                      (unsupported w UnsupportedSyntaxError (sg_position item) ''empty command name'', item)
                    else cmd_dispatch w
                           \<lparr>s_argv = ws, s_env = [], s_redirections = rds, s_cwd = wk_cwd w,
                            s_raw_text = TrimSpace (sg_text item), s_operator = OpNone, s_piped_into = False,
                            s_piped_from = False, s_elevated = False, s_builtin = False\<rparr> item))"

fun walk_segments :: "var_context \<Rightarrow> bool \<Rightarrow> walker \<Rightarrow> segment list \<Rightarrow> walker \<times> segment list" where
  "walk_segments vars first w [] = (w, [])"
| "walk_segments vars first w (item # items) =
     (let w = (if first then w else w\<lparr>wk_pending := sg_operator item\<rparr>);
          (w, item) = cmd_command vars w item;
          (w, items) = walk_segments vars False w items
      in (w, item # items))"

definition mark_pipe :: "simple_command list \<Rightarrow> segment \<Rightarrow> segment \<Rightarrow> simple_command list" where
  "mark_pipe cmds previous current =
     (if sg_operator current \<noteq> OpPipe \<or> sg_index previous < 0 \<or> sg_index current < 0 then cmds
      else let p = nat (sg_index previous); c = nat (sg_index current);
               cmds = cmds[p := (cmds ! p)\<lparr>s_piped_into := True\<rparr>]
           in cmds[c := (cmds ! c)\<lparr>s_piped_from := True\<rparr>])"

fun markPipelines :: "simple_command list \<Rightarrow> segment list \<Rightarrow> simple_command list" where
  "markPipelines cmds (a # b # rest) = markPipelines (mark_pipe cmds a b) (b # rest)"
| "markPipelines cmds _ = cmds"

definition walker_parse :: "var_context \<Rightarrow> walker \<Rightarrow> string \<Rightarrow> walker" where
  "walker_parse vars w line =
     (case splitSegments line (wk_out w) of
        (None, out) \<Rightarrow> w\<lparr>wk_out := out\<rparr>
      | (Some segments, out) \<Rightarrow>
          let (w, segments) = walk_segments vars True (w\<lparr>wk_out := out\<rparr>) segments
          in w\<lparr>wk_out := (wk_out w)\<lparr>pc_commands := markPipelines (pc_commands (wk_out w)) segments\<rparr>\<rparr>)"

definition cmd_Parse :: "parse_input \<Rightarrow> string + parsed_command" where
  "cmd_Parse inp =
     (let out = \<lparr>pc_dialect = DialectCmd, pc_commands = [], pc_operators = [], pc_unsupported = [],
                 pc_final_cwd = pi_Cwd inp\<rparr>
      in if MaxCommandBytes < int (length (pi_Command inp)) then
           Inr (AddUnsupported out UnsupportedCommandTooLong 0
                 (Itoa (int (length (pi_Command inp))) @ '' bytes exceeds the '' @ Itoa MaxCommandBytes @ '' byte limit''))
         else
           let w = walker_parse (FromInput inp)
                     \<lparr>wk_out = out, wk_cwd = pi_Cwd inp, wk_pending = OpNone, wk_truncated = False,
                      wk_hard_capped = False\<rparr> (pi_Command inp)
           in Inr ((wk_out w)\<lparr>pc_final_cwd := wk_cwd w\<rparr>))"

section \<open>Cutting a line loses nothing\<close>

primrec operator_text :: "operator \<Rightarrow> string" where
  "operator_text OpNone = []"
| "operator_text OpSequence = ''&''"
| "operator_text OpAnd = ''&&''"
| "operator_text OpOr = ''||''"
| "operator_text OpPipe = ''|''"

definition rejoined :: "segment list \<Rightarrow> string" where
  "rejoined segments = concat (map (\<lambda>s. operator_text (sg_operator s) @ sg_text s) segments)"

lemma rejoined_simps [simp]:
  "rejoined [] = []" "rejoined (xs @ ys) = rejoined xs @ rejoined ys"
  "rejoined [flush_segment t op i p] = operator_text op @ t"
  by (simp_all add: rejoined_def flush_segment_def)

text \<open>One step of the loop: an escaped character, a character of the current segment, or a cut.\<close>

lemma split_from_step:
  obtains (escape) d ds where "\<not> q" "c = CHR ''^''" "cs = d # ds"
      "split_from i (c # cs) current op start q segments = split_from (i + 2) ds (current @ [d]) op start q segments"
  | (keep) "q \<or> c \<notin> {CHR ''&'', CHR ''|''} \<or> c = CHR ''&'' \<and> endsWithRedirectOperator current"
      "split_from i (c # cs) current op start q segments =
         split_from (i + 1) cs (current @ [c]) op start (q \<noteq> (c = CHR 0x22)) segments"
  | (cut) op' ds piped where "\<not> q" "op' \<noteq> OpNone" "c # cs = operator_text op' @ ds"
      "split_from i (c # cs) current op start q segments =
         split_from (i + length (operator_text op')) ds [] op' (i + length (operator_text op')) q
           (segments @ [flush_segment current op start piped])"
proof -
  consider (1) "\<not> q" "c = CHR ''^''" "cs \<noteq> []" | (2) "q \<or> c \<noteq> CHR ''^'' \<or> cs = []" "c = CHR 0x22"
    | (3) q "c \<noteq> CHR 0x22" | (4) "\<not> q" "c = CHR ''&''" "endsWithRedirectOperator current"
    | (5) "\<not> q" "c = CHR ''&''" "\<not> endsWithRedirectOperator current" "cs \<noteq> []" "hd cs = CHR ''&''"
    | (6) "\<not> q" "c = CHR ''|''" "cs \<noteq> []" "hd cs = CHR ''|''"
    | (7) "\<not> q" "c = CHR ''&''" "\<not> endsWithRedirectOperator current" "\<not> (cs \<noteq> [] \<and> hd cs = CHR ''&'')"
    | (8) "\<not> q" "c = CHR ''|''" "\<not> (cs \<noteq> [] \<and> hd cs = CHR ''|'')"
    | (9) "\<not> q" "c \<noteq> CHR ''^'' \<or> cs = []" "c \<noteq> CHR 0x22" "c \<noteq> CHR ''&''" "c \<noteq> CHR ''|''"
    by argo
  then show thesis
  proof cases
    case 1
    then obtain d ds where "cs = d # ds" by (cases cs) auto
    with 1 show ?thesis by (intro escape) simp_all
  next
    case 5
    then obtain ds where "cs = CHR ''&'' # ds" by (cases cs) auto
    with 5 show ?thesis by (intro cut [where op' = OpAnd and ds = ds and piped = False]) simp_all
  next
    case 6
    then obtain ds where "cs = CHR ''|'' # ds" by (cases cs) auto
    with 6 show ?thesis by (intro cut [where op' = OpOr and ds = ds and piped = False]) simp_all
  next
    case 7
    then show ?thesis by (intro cut [where op' = OpSequence and ds = cs and piped = False]) auto
  next
    case 8
    then show ?thesis by (intro cut [where op' = OpPipe and ds = cs and piped = True]) auto
  next
    case 2
    then show ?thesis by (intro keep) simp_all
  next
    case 3
    then show ?thesis by (intro keep) simp_all
  next
    case 4
    then show ?thesis by (intro keep) simp_all
  next
    case 9
    then show ?thesis by (intro keep) simp_all
  qed
qed

declare split_from.simps(2) [simp del]

text \<open>The induction that follows the loop.\<close>

lemma split_from_induct [consumes 1, case_names finish escape keep cut]:
  assumes "split_from i s current op start q segments = Some out"
    and "\<And>i current op start segments. P i [] current op start False segments (segments @ [flush_segment current op start False])"
    and "\<And>i d ds current op start segments out. P (i + 2) ds (current @ [d]) op start False segments out \<Longrightarrow>
           P i (CHR ''^'' # d # ds) current op start False segments out"
    and "\<And>i c cs current op start q segments out.
           q \<or> c \<notin> {CHR ''&'', CHR ''|''} \<or> c = CHR ''&'' \<and> endsWithRedirectOperator current \<Longrightarrow>
           P (i + 1) cs (current @ [c]) op start (q \<noteq> (c = CHR 0x22)) segments out \<Longrightarrow>
           P i (c # cs) current op start q segments out"
    and "\<And>i s ds op' current op start segments piped out.
           P (i + length (operator_text op')) ds [] op' (i + length (operator_text op')) False
             (segments @ [flush_segment current op start piped]) out \<Longrightarrow>
           s = operator_text op' @ ds \<Longrightarrow> s \<noteq> [] \<Longrightarrow> length ds < length s \<Longrightarrow> P i s current op start False segments out"
  shows "P i s current op start q segments out"
  using assms(1)
proof (induction "length s" arbitrary: i s current op start q segments rule: less_induct)
  case less
  show ?case
  proof (cases s)
    case Nil
    with less.prems assms(2) show ?thesis by (auto split: if_splits)
  next
    case (Cons c cs)
    show ?thesis
    proof (cases rule: split_from_step [of q c cs i current op start segments])
      case (escape d ds)
      have "P (i + 2) ds (current @ [d]) op start q segments out"
        using escape(3,4) less.prems Cons by (intro less.hyps) simp_all
      then show ?thesis unfolding Cons escape(2,3) using escape(1) assms(3) by simp
    next
      case keep
      have "P (i + 1) cs (current @ [c]) op start (q \<noteq> (c = CHR 0x22)) segments out"
        using keep(2) less.prems Cons by (intro less.hyps) simp_all
      with keep(1) show ?thesis unfolding Cons by (rule assms(4))
    next
      case (cut op' ds piped)
      have shorter: "length ds < length s" using cut(2,3) Cons by (cases op') simp_all
      have "P (i + length (operator_text op')) ds [] op' (i + length (operator_text op')) q
          (segments @ [flush_segment current op start piped]) out"
        using cut(4) less.prems Cons shorter by (intro less.hyps) simp_all
      then show ?thesis using cut(1,3) shorter Cons assms(5) by simp
    qed
  qed
qed

lemma split_from_rejoined:
  assumes "split_from i s current op start q segments = Some out" and "CHR ''^'' \<notin> set s"
  shows "rejoined out = rejoined segments @ operator_text op @ current @ s"
  using assms by (induction rule: split_from_induct) simp_all

text \<open>A character is inside quotes when an odd number of quotes stands before it. A separator is
  hidden in a segment only there, or as the \<open>&\<close> of a duplicated stream handle.\<close>

definition quoted_after :: "string \<Rightarrow> bool" where
  "quoted_after s = odd (count_list s (CHR 0x22))"

definition no_separator :: "string \<Rightarrow> bool" where
  "no_separator t =
     (\<forall>a c b. t = a @ c # b \<and> c \<in> {CHR ''&'', CHR ''|''} \<longrightarrow>
        quoted_after a \<or> c = CHR ''&'' \<and> endsWithRedirectOperator a)"

lemma no_separator_Nil [simp]: "no_separator []"
  by (simp add: no_separator_def)

lemma quoted_after_snoc: "quoted_after (s @ [c]) \<longleftrightarrow> quoted_after s \<noteq> (c = CHR 0x22)"
  by (simp add: quoted_after_def)

lemma no_separator_snoc:
  "no_separator (t @ [c]) \<longleftrightarrow> no_separator t \<and>
     (c \<in> {CHR ''&'', CHR ''|''} \<longrightarrow> quoted_after t \<or> c = CHR ''&'' \<and> endsWithRedirectOperator t)"
  (is "?l \<longleftrightarrow> ?r")
proof
  assume l: ?l
  have "no_separator t"
    unfolding no_separator_def
  proof (intro allI impI)
    fix a d b assume "t = a @ d # b \<and> d \<in> {CHR ''&'', CHR ''|''}"
    then have "t @ [c] = a @ d # (b @ [c]) \<and> d \<in> {CHR ''&'', CHR ''|''}" by simp
    then show "quoted_after a \<or> d = CHR ''&'' \<and> endsWithRedirectOperator a"
      using l unfolding no_separator_def by metis
  qed
  with l [unfolded no_separator_def, rule_format, of t c "[]"] show ?r by simp
next
  assume r: ?r
  show ?l
    unfolding no_separator_def
  proof (intro allI impI)
    fix a d b assume "t @ [c] = a @ d # b \<and> d \<in> {CHR ''&'', CHR ''|''}"
    then show "quoted_after a \<or> d = CHR ''&'' \<and> endsWithRedirectOperator a"
      using r [THEN conjunct2] r [THEN conjunct1, unfolded no_separator_def, rule_format, of a d "butlast b"]
      by (cases b rule: rev_cases) simp_all
  qed
qed

lemma split_from_no_separator:
  assumes "split_from i s current op start q segments = Some out" and "CHR ''^'' \<notin> set s"
    and "no_separator current" and "q = quoted_after current" and "\<forall>x \<in> set segments. no_separator (sg_text x)"
  shows "\<forall>x \<in> set out. no_separator (sg_text x)"
  using assms
proof (induction rule: split_from_induct)
  case (keep i c cs current op start q segments out)
  have "c \<in> {CHR ''&'', CHR ''|''} \<longrightarrow> quoted_after current \<or> c = CHR ''&'' \<and> endsWithRedirectOperator current"
    using keep(1,5) by blast
  then have "no_separator (current @ [c])" using keep(4) by (simp only: no_separator_snoc)
  moreover have "(q \<noteq> (c = CHR 0x22)) = quoted_after (current @ [c])"
    using keep(5) by (simp only: quoted_after_snoc)
  moreover have "CHR ''^'' \<notin> set cs" using keep(3) by simp
  ultimately show ?case using keep(2,6) by blast
next
  case (cut i s ds op' current op start segments piped out)
  have "CHR ''^'' \<notin> set ds" using cut(2,5) by simp
  moreover have "False = quoted_after []" by (simp add: quoted_after_def)
  moreover have "\<forall>x \<in> set (segments @ [flush_segment current op start piped]). no_separator (sg_text x)"
    using cut(6,8) by (simp add: flush_segment_def)
  ultimately show ?case using cut(1) no_separator_Nil by blast
next
  case (finish i current op start segments)
  then show ?case by (simp add: flush_segment_def)
next
  case (escape i d ds current op start segments out)
  then show ?case by simp
qed

section \<open>The memory bound is out of reach\<close>

lemma split_from_size:
  assumes "split_from i s current op start q segments = Some out"
  shows "(\<Sum>x\<leftarrow>out. length (sg_text x) + 1) \<le> (\<Sum>x\<leftarrow>segments. length (sg_text x) + 1) + length current + 1 + length s"
  using assms
proof (induction rule: split_from_induct)
  case (cut i s ds op' current op start segments piped out)
  from cut(1,4) show ?case by (simp add: flush_segment_def)
qed (simp_all add: flush_segment_def)

definition untruncated :: "walker \<Rightarrow> bool" where
  "untruncated w = (\<forall>u \<in> set (pc_unsupported (wk_out w)). uc_kind u \<noteq> UnsupportedTruncated)"

abbreviation emitted :: "walker \<Rightarrow> nat" where
  "emitted w \<equiv> length (pc_commands (wk_out w))"

text \<open>A step that emits at most one command and does not reach the memory bound.\<close>

definition walks :: "walker \<Rightarrow> nat \<Rightarrow> walker \<Rightarrow> bool" where
  "walks w n w' =
     (emitted w' \<le> emitted w + n \<and> (untruncated w \<and> int (emitted w + n) \<le> MaxParsedCommands \<longrightarrow> untruncated w'))"

lemma unsupported_walks [simp]:
  "emitted (unsupported w k i t) = emitted w" "wk_cwd (unsupported w k i t) = wk_cwd w"
  "untruncated (unsupported w k i t) \<longleftrightarrow> untruncated w \<and> k \<noteq> UnsupportedTruncated"
  by (auto simp: unsupported_def untruncated_def)

lemma untruncated_updates [simp]:
  "untruncated (w\<lparr>wk_truncated := b\<rparr>) = untruncated w" "untruncated (w\<lparr>wk_hard_capped := b\<rparr>) = untruncated w"
  "untruncated (w\<lparr>wk_cwd := d\<rparr>) = untruncated w" "untruncated (w\<lparr>wk_pending := p\<rparr>) = untruncated w"
  by (simp_all add: untruncated_def)

lemma cap_commands_walks [simp]:
  "emitted (cap_commands w i) = emitted w" "untruncated (cap_commands w i) = untruncated w"
  by (simp_all add: cap_commands_def)

lemma emit_walks: "walks w 1 (fst (emit w cmd item))"
  by (auto simp: walks_def emit_def Let_def untruncated_def [of "_\<lparr>wk_out := _\<rparr>"]
      untruncated_def [of "cap_commands _ _", symmetric])

lemma walks_unsupported:
  "walks (unsupported w k i t) n w' \<Longrightarrow> k \<noteq> UnsupportedTruncated \<Longrightarrow> walks w n w'"
  by (simp add: walks_def)

lemma refusedCommands_kinds: "map_of refusedCommands name = Some kind \<Longrightarrow> kind \<noteq> UnsupportedTruncated"
  by (auto simp: refusedCommands_def split: if_splits)

lemma changeDir_walks: "walks w 1 (fst (changeDir w cmd item))"
proof -
  have "walks w 1 (w'\<lparr>wk_cwd := d\<rparr>) \<longleftrightarrow> walks w 1 w'" for w' d by (simp add: walks_def)
  then show ?thesis
    by (simp add: changeDir_def Let_def case_prod_unfold emit_walks [simplified] split: list.split)
qed

lemma cmd_dispatch_walks: "walks w 1 (fst (cmd_dispatch w cmd item))"
  unfolding cmd_dispatch_def Let_def
  using walks_unsupported [OF emit_walks] refusedCommands_kinds emit_walks changeDir_walks
  by (auto split: option.split)

lemma walks_Suc: "walks w 0 w' \<Longrightarrow> walks w n w'"
  by (auto simp: walks_def)

lemma cmd_command_walks:
  "walks w (if sg_text item = [] then 0 else 1) (fst (cmd_command vars w item))"
proof (cases "sg_text item = []")
  case True
  then show ?thesis
    by (simp add: cmd_command_def stripComment_def Let_def TrimSpace_def TrimLeft_by_def TrimRight_by_def walks_def)
next
  case False
  have "walks w 1 w" "k \<noteq> UnsupportedTruncated \<Longrightarrow> walks w 1 (unsupported w k i t)" for k i t
    by (simp_all add: walks_def)
  with False cmd_dispatch_walks show ?thesis
    by (auto simp: cmd_command_def Let_def tokenize_def split: option.split list.split prod.split)
qed

lemma walks_trans: "walks w m w' \<Longrightarrow> walks w' n w'' \<Longrightarrow> walks w (m + n) w''"
  unfolding walks_def by auto

definition blank :: "segment \<Rightarrow> bool" where
  "blank item = (sg_text item = [])"

lemma walks_pending [simp]: "walks (w\<lparr>wk_pending := op\<rparr>) n w' = walks w n w'"
  by (simp add: walks_def)

lemma walk_segments_walks:
  "walks w (length (filter (\<lambda>x. \<not> blank x) segments)) (fst (walk_segments vars first w segments))"
proof (induction segments arbitrary: w first)
  case Nil
  then show ?case by (simp add: walks_def)
next
  case (Cons item items)
  define w1 where "w1 = (if first then w else w\<lparr>wk_pending := sg_operator item\<rparr>)"
  have "walks w (if blank item then 0 else 1) (fst (cmd_command vars w1 item))"
    using cmd_command_walks [of w1 item vars] by (simp add: w1_def blank_def split: if_splits)
  from walks_trans [OF this Cons.IH [of "fst (cmd_command vars w1 item)" False]]
  show ?case by (cases first; cases "blank item") (simp_all add: case_prod_unfold Let_def w1_def)
qed

lemma count_not_blank: "2 * length (filter (\<lambda>x. \<not> blank x) segments) \<le> (\<Sum>x\<leftarrow>segments. length (sg_text x) + 1)"
proof (induction segments)
  case (Cons x xs)
  then show ?case by (cases "sg_text x") (simp_all add: blank_def)
qed simp

text \<open>A line within the size limit never reaches the memory bound on commands, so no part of it
  stays unseen.\<close>

lemma cmd_Parse_untruncated: "\<not> Truncated (projr (cmd_Parse inp))"
proof (cases "MaxCommandBytes < int (length (pi_Command inp))")
  case True
  then show ?thesis by (simp add: cmd_Parse_def Let_def Truncated_def)
next
  case False
  define w where "w = \<lparr>wk_out = \<lparr>pc_dialect = DialectCmd, pc_commands = [], pc_operators = [], pc_unsupported = [],
      pc_final_cwd = pi_Cwd inp\<rparr>, wk_cwd = pi_Cwd inp, wk_pending = OpNone, wk_truncated = False,
      wk_hard_capped = False\<rparr>"
  have "untruncated (walker_parse (FromInput inp) w (pi_Command inp))"
  proof (cases "split_from 0 (pi_Command inp) [] OpNone 0 False []")
    case None
    then show ?thesis by (simp add: walker_parse_def splitSegments_def untruncated_def w_def)
  next
    case (Some segments)
    have "int (2 * length (filter (\<lambda>x. \<not> blank x) segments)) \<le> MaxCommandBytes + 1"
      using split_from_size [OF Some] count_not_blank [of segments] False by simp
    then have "int (emitted w + length (filter (\<lambda>x. \<not> blank x) segments)) \<le> MaxParsedCommands"
      by (simp add: w_def MaxCommandBytes_def MaxParsedCommands_def)
    moreover have "untruncated w" by (simp add: untruncated_def w_def)
    ultimately have "untruncated (fst (walk_segments (FromInput inp) True w segments))"
      using walk_segments_walks [of w segments "FromInput inp" True] by (simp add: walks_def)
    then show ?thesis
      by (simp add: walker_parse_def splitSegments_def Some case_prod_unfold Let_def untruncated_def)
  qed
  with False show ?thesis
    by (simp add: cmd_Parse_def Let_def w_def [symmetric] Truncated_def untruncated_def)
qed

text \<open>A line with more commands than one action may have is refused.\<close>

definition capped :: "walker \<Rightarrow> bool" where
  "capped w =
     ((MaxSimpleCommands < int (emitted w) \<longrightarrow> wk_truncated w) \<and>
      (wk_truncated w \<longrightarrow> pc_unsupported (wk_out w) \<noteq> []))"

lemma capped_updates [simp]:
  "capped (w\<lparr>wk_cwd := d\<rparr>) = capped w" "capped (w\<lparr>wk_pending := op\<rparr>) = capped w"
  by (simp_all add: capped_def)

lemma capped_unsupported: "capped w \<Longrightarrow> capped (unsupported w k i t)"
  by (simp add: capped_def unsupported_def)

lemma capped_emit: "capped w \<Longrightarrow> capped (fst (emit w cmd item))"
  by (auto simp: emit_def Let_def capped_def cap_commands_def unsupported_def)

lemma capped_dispatch: "capped w \<Longrightarrow> capped (fst (cmd_dispatch w cmd item))"
  by (simp add: cmd_dispatch_def changeDir_def Let_def case_prod_unfold capped_emit capped_unsupported
      split: option.split list.split)

lemma capped_command: "capped w \<Longrightarrow> capped (fst (cmd_command vars w item))"
  by (simp add: cmd_command_def Let_def tokenize_def capped_dispatch capped_unsupported
      split: option.split list.split prod.split)

lemma capped_walk: "capped w \<Longrightarrow> capped (fst (walk_segments vars first w segments))"
  by (induction segments arbitrary: w first) (simp_all add: Let_def case_prod_unfold capped_command)

lemma length_markPipelines [simp]: "length (markPipelines cmds segments) = length cmds"
  by (induction cmds segments rule: markPipelines.induct) (simp_all add: mark_pipe_def Let_def)

lemma cmd_Parse_capped:
  assumes "Parsed_OK (projr (cmd_Parse inp))"
  shows "int (length (pc_commands (projr (cmd_Parse inp)))) \<le> MaxSimpleCommands"
proof -
  have "capped (walker_parse vars w line)" if "capped w" for vars w line
  proof (cases "split_from 0 line [] OpNone 0 False []")
    case None
    then show ?thesis using that by (simp add: walker_parse_def splitSegments_def capped_def)
  next
    case (Some segments)
    then show ?thesis
      using capped_walk [OF that, of vars True segments]
      by (simp add: walker_parse_def splitSegments_def case_prod_unfold Let_def capped_def)
  qed
  then have "capped (walker_parse (FromInput inp) \<lparr>wk_out = \<lparr>pc_dialect = DialectCmd, pc_commands = [],
      pc_operators = [], pc_unsupported = [], pc_final_cwd = pi_Cwd inp\<rparr>, wk_cwd = pi_Cwd inp, wk_pending = OpNone,
      wk_truncated = False, wk_hard_capped = False\<rparr> (pi_Command inp))"
    by (simp add: capped_def MaxSimpleCommands_def)
  then show ?thesis
    using assms
    by (simp add: cmd_Parse_def Let_def capped_def Parsed_OK_def split: if_splits)
qed

end
