(* ===== verification/Resolver_Pipeline.thy ===== *)
theory Resolver_Pipeline
  imports Resolver_Resolve Parser_Cmd Policy_Engine Samples
begin

text \<open>
  From the parsed command line to the decision: what the recognizer of one command of the line reports
  reaches the safety floor, whatever else stands on the line and however the time budget runs out.
  The theory ends with a concrete resolver for the cmd.exe dialect, used by the witnesses.
\<close>

text \<open>The request was parsed to \<open>parsed\<close> in the context \<open>ctx\<close>.\<close>

definition parsed_as ::
    "resolver \<Rightarrow> action_request \<Rightarrow> resolver_context \<Rightarrow> parsed_command \<Rightarrow> bool" where
  "parsed_as rs request ctx parsed =
     (\<exists>actx. rx_action ctx = Some actx \<and>
        run_parse rs actx (DialectFor (rq_dialect request) DialectPosix) (rq_raw_command request) (rq_cwd request)
          = Some parsed)"

text \<open>What the \<open>j\<close>-th command of the line was recognized as.\<close>

definition recognized ::
    "resolver \<Rightarrow> action_request \<Rightarrow> resolver_context \<Rightarrow> nat \<Rightarrow> simple_command \<Rightarrow> resolved_command" where
  "recognized rs request ctx j c =
     run_recognize rs (command_request rs ctx (DialectFor (rq_dialect request) DialectPosix) j c)"

lemma parsed_as_resolve:
  assumes "parsed_as rs request ctx parsed"
  obtains out where "ra_effects out = []" "ra_commands out = []" "ra_incomplete out = Truncated parsed"
      "Parsed_OK parsed \<Longrightarrow> Context_OK (rx_action ctx) \<Longrightarrow> ra_status out = StatusResolved"
      "\<not> Parsed_OK parsed \<Longrightarrow> unmodelled (ra_status out)"
      "ResolveInContext rs request (Some ctx) =
         aggregate rs (resolve_commands
           (\<lambda>i. rv_expired rs [([], DialectFor (rq_dialect request) DialectPosix, i)])
           (recognized rs request ctx) 0 (pc_commands parsed) out)"
proof -
  obtain actx where a: "rx_action ctx = Some actx"
      "run_parse rs actx (DialectFor (rq_dialect request) DialectPosix) (rq_raw_command request) (rq_cwd request)
         = Some parsed"
    using assms by (auto simp: parsed_as_def)
  define out0 where "out0 = (let out = started request (DialectFor (rq_dialect request) DialectPosix) (Some actx) in
     if cx_status actx \<noteq> ContextOK
     then out\<lparr>ra_status := StatusContextFailed, ra_status_reason := cx_status_reason actx\<rparr> else out)"
  show thesis
  proof (rule that [of "examined parsed out0"])
    show "ra_effects (examined parsed out0) = []" "ra_commands (examined parsed out0) = []"
        "ra_incomplete (examined parsed out0) = Truncated parsed"
      by (simp_all add: examined_def out0_def started_def Let_def MarkIncomplete_def)
    show "Parsed_OK parsed \<Longrightarrow> Context_OK (rx_action ctx) \<Longrightarrow> ra_status (examined parsed out0) = StatusResolved"
      using a(1) by (simp add: examined_def out0_def started_def Let_def MarkIncomplete_def Context_OK_def)
    show "\<not> Parsed_OK parsed \<Longrightarrow> unmodelled (ra_status (examined parsed out0))"
      by (simp add: examined_def Let_def MarkIncomplete_def unmodelled_WeakerStatus)
    show "ResolveInContext rs request (Some ctx) =
         aggregate rs (resolve_commands
           (\<lambda>i. rv_expired rs [([], DialectFor (rq_dialect request) DialectPosix, i)])
           (recognized rs request ctx) 0 (pc_commands parsed) (examined parsed out0))"
      using a by (simp add: ResolveInContext_def Let_def out0_def recognized_def [abs_def])
  qed
qed

text \<open>A command of the line that could not be modelled makes the action unmodelled.\<close>

lemma resolve_unmodelled:
  assumes "parsed_as rs request ctx parsed" and "j < length (pc_commands parsed)"
    and "unmodelled (rc_status (recognized rs request ctx j (pc_commands parsed ! j)))"
  shows "ra_incomplete (ResolveInContext rs request (Some ctx)) \<or>
    unmodelled (ra_status (ResolveInContext rs request (Some ctx)))"
proof (rule parsed_as_resolve [OF assms(1)])
  fix out
  assume r: "ResolveInContext rs request (Some ctx) =
         aggregate rs (resolve_commands
           (\<lambda>i. rv_expired rs [([], DialectFor (rq_dialect request) DialectPosix, i)])
           (recognized rs request ctx) 0 (pc_commands parsed) out)" (is "_ = aggregate rs ?a")
  show ?thesis
  proof (cases "ra_incomplete ?a")
    case True
    then show ?thesis by (simp add: r aggregate_sels)
  next
    case False
    then have "recognized rs request ctx j (pc_commands parsed ! j) \<in> set (ra_commands ?a)"
      using resolve_commands_all [OF assms(2)] by fastforce
    with assms(3) show ?thesis by (auto simp: r aggregate_sels)
  qed
qed

text \<open>Every effect of every recognized command is an effect of the action, up to details that do not
  matter to the safety floor.\<close>

lemma resolve_effects:
  assumes "parsed_as rs request ctx parsed" and "j < length (pc_commands parsed)"
    and "e \<in> set (rc_effects (recognized rs request ctx j (pc_commands parsed ! j)))"
  shows "ra_incomplete (ResolveInContext rs request (Some ctx)) \<or>
    (\<exists>e' \<in> set (ra_effects (ResolveInContext rs request (Some ctx))). effectKey e' = effectKey e)"
proof (rule parsed_as_resolve [OF assms(1)])
  fix out
  assume r: "ResolveInContext rs request (Some ctx) =
         aggregate rs (resolve_commands
           (\<lambda>i. rv_expired rs [([], DialectFor (rq_dialect request) DialectPosix, i)])
           (recognized rs request ctx) 0 (pc_commands parsed) out)" (is "_ = aggregate rs ?a")
  show ?thesis
  proof (cases "ra_incomplete ?a")
    case True
    then show ?thesis by (simp add: r aggregate_sels)
  next
    case False
    then have "recognized rs request ctx j (pc_commands parsed ! j) \<in> set (ra_commands ?a)"
      using resolve_commands_all [OF assms(2)] by fastforce
    with assms(3) have "e \<in> set (ra_effects ?a @ concat (map rc_effects (ra_commands ?a)))" by auto
    then show ?thesis unfolding r aggregate_sels by (blast dest: dedupeEffects_covers)
  qed
qed

text \<open>Without time pressure the action is made of exactly the recognized commands.\<close>

lemma aggregate_status:
  "ra_status (aggregate rs a) =
     foldl WeakerStatus (if rv_max_commands rs < int (length (ra_commands a))
       then WeakerStatus (ra_status a) StatusUnresolved else ra_status a) (map rc_status (ra_commands a))"
proof -
  have "ra_status (foldl fold_command a cs) = foldl WeakerStatus (ra_status a) (map rc_status cs)" for a cs
    by (induction cs arbitrary: a) (simp_all add: fold_command_def)
  then show ?thesis by (simp add: aggregate_def Let_def split: option.split)
qed

lemma resolve_commands_free:
  "(\<And>i. \<not> ex i) \<Longrightarrow>
   resolve_commands ex rec i cs a = a\<lparr>ra_commands := ra_commands a @ map (\<lambda>(i, c). rec i c) (enumerate i cs)\<rparr>"
  by (induction cs arbitrary: i a) simp_all

lemma resolve_unlimited:
  assumes "parsed_as rs request ctx parsed" and "\<And>p. \<not> rv_expired rs p" and "Parsed_OK parsed"
    and "Context_OK (rx_action ctx)" and "int (length (pc_commands parsed)) \<le> rv_max_commands rs"
    and "cs = map (\<lambda>(i, c). recognized rs request ctx i c) (enumerate 0 (pc_commands parsed))"
  shows "ra_commands (ResolveInContext rs request (Some ctx)) = cs"
    and "ra_effects (ResolveInContext rs request (Some ctx)) = dedupeEffects (concat (map rc_effects cs))"
    and "ra_status (ResolveInContext rs request (Some ctx)) = foldl WeakerStatus StatusResolved (map rc_status cs)"
    and "\<not> ra_incomplete (ResolveInContext rs request (Some ctx))"
proof -
  obtain out where out: "ra_effects out = []" "ra_commands out = []" "ra_incomplete out = Truncated parsed"
      "ra_status out = StatusResolved"
      "ResolveInContext rs request (Some ctx) = aggregate rs (out\<lparr>ra_commands := cs\<rparr>)"
    using parsed_as_resolve [OF assms(1)] assms(2,3,4,6) by (simp add: resolve_commands_free) metis
  have "\<not> Truncated parsed" using assms(3) by (simp add: Parsed_OK_def Truncated_def)
  moreover have "\<not> rv_max_commands rs < int (length cs)" using assms(5,6) by simp
  ultimately show "ra_commands (ResolveInContext rs request (Some ctx)) = cs"
    and "ra_effects (ResolveInContext rs request (Some ctx)) = dedupeEffects (concat (map rc_effects cs))"
    and "ra_status (ResolveInContext rs request (Some ctx)) = foldl WeakerStatus StatusResolved (map rc_status cs)"
    and "\<not> ra_incomplete (ResolveInContext rs request (Some ctx))"
    using out by (simp_all add: aggregate_sels aggregate_status)
qed

lemma allow_passes:
  assumes "d_outcome (fst (Evaluate e inp consent s)) = OutcomeAllow" and "pi_action inp = Some a"
  shows "HardRules inp = []" and "\<not> unmodelled (ra_status a)" and "\<not> ra_incomplete a"
    and "\<not> HasAmbiguousTarget a"
proof -
  obtain b where "pi_action inp = Some b" "HardRules inp = []" "uncertain e b = None"
    using assms(1) by (auto simp: Evaluate_eq elim: EvaluateDetailed_outcome_allow)
  with assms(2) incomplete_found [OF assms(2)]
  show "HardRules inp = []" "\<not> unmodelled (ra_status a)" "\<not> ra_incomplete a" "\<not> HasAmbiguousTarget a"
    by (auto simp: uncertain_None_iff unmodelled_def)
qed

text \<open>So a line with a command that is not modelled, or that deletes something outside the project, is
  never allowed.\<close>

lemma unmodelled_refused:
  assumes "pi_action inp = Some (ResolveInContext rs request (Some ctx))" and "parsed_as rs request ctx parsed"
    and "j < length (pc_commands parsed)"
    and "unmodelled (rc_status (recognized rs request ctx j (pc_commands parsed ! j)))"
  shows "d_outcome (fst (Evaluate e inp consent s)) \<noteq> OutcomeAllow"
proof
  assume "d_outcome (fst (Evaluate e inp consent s)) = OutcomeAllow"
  from allow_passes(2,3) [OF this assms(1)] resolve_unmodelled [OF assms(2-4)] show False by simp
qed

lemma unsupported_refused:
  assumes "pi_action inp = Some (ResolveInContext rs request (Some ctx))" and "parsed_as rs request ctx parsed"
    and "\<not> Parsed_OK parsed"
  shows "d_outcome (fst (Evaluate e inp consent s)) \<noteq> OutcomeAllow"
proof
  assume allow: "d_outcome (fst (Evaluate e inp consent s)) = OutcomeAllow"
  obtain out where "unmodelled (ra_status out)"
      "ResolveInContext rs request (Some ctx) =
         aggregate rs (resolve_commands (\<lambda>i. rv_expired rs [([], DialectFor (rq_dialect request) DialectPosix, i)])
           (recognized rs request ctx) 0 (pc_commands parsed) out)"
    using parsed_as_resolve [OF assms(2)] assms(3) by metis
  then have "unmodelled (ra_status (ResolveInContext rs request (Some ctx)))"
    by (simp add: aggregate_sels resolve_commands_sels)
  with allow_passes(2) [OF allow assms(1)] show False by simp
qed

lemma deletion_refused:
  assumes "pi_action inp = Some (ResolveInContext rs request (Some ctx))" and "parsed_as rs request ctx parsed"
    and "j < length (pc_commands parsed)"
    and "d \<in> set (rc_effects (recognized rs request ctx j (pc_commands parsed ! j)))"
    and "e_type d = EffectDelete" and "target_scope d \<in> {ScopeSystem, ScopeHome, ScopeOutsideWorkspace}"
  shows "d_outcome (fst (Evaluate e inp consent s)) \<noteq> OutcomeAllow"
proof
  assume allow: "d_outcome (fst (Evaluate e inp consent s)) = OutcomeAllow"
  note passes = allow_passes [OF allow assms(1)]
  obtain e' where e': "e' \<in> set (ra_effects (ResolveInContext rs request (Some ctx)))" "effectKey e' = effectKey d"
    using resolve_effects [OF assms(2-4)] passes(3) by auto
  have f: "e_type e' = EffectDelete" "target_scope e' = target_scope d"
    using effectKey_fields [OF e'(2)] assms(5) by auto
  then obtain t' where "e_target e' = Some t'" "t_scope t' = target_scope d"
    using assms(6) by (auto simp: target_scope_def split: option.splits)
  then have "HardRules inp \<noteq> []"
    using delete_outside_found [OF assms(1) e'(1) f(1)] assms(6) by simp
  with passes(1) show False by simp
qed

text \<open>Names whose lookup key is their own lower case form.\<close>

lemma Registry_Lookup_direct:
  "r name = Some f \<Longrightarrow> ToLower name = name \<Longrightarrow> name \<noteq> [] \<Longrightarrow> Registry_Lookup r name = Some f"
  by (simp add: Registry_Lookup_def executableKeys_def Let_def split: option.split)

lemma Register_other:
  "\<forall>(names, f) \<in> set recs. name \<notin> ToLower ` set names \<Longrightarrow> Register r recs name = r name"
proof -
  have names: "name \<notin> ToLower ` set ns \<Longrightarrow> foldl (\<lambda>r n. r(ToLower n \<mapsto> f)) r ns name = r name" for ns f r
    by (induction ns arbitrary: r) auto
  show "\<forall>(names, f) \<in> set recs. name \<notin> ToLower ` set names \<Longrightarrow> ?thesis"
    unfolding Register_def
    by (induction recs arbitrary: r) (auto simp: names split: prod.splits)
qed

lemma registry_rm:
  assumes "\<forall>(names, f) \<in> set others. ''rm'' \<notin> ToLower ` set names"
  shows "NewRecognizerRegistry others ''rm'' = Some remove_Recognize"
proof -
  have "Register (Register Map.empty FilesystemRecognizers) WindowsRecognizers ''rm'' = Some remove_Recognize"
    by (simp add: Register_def FilesystemRecognizers_def WindowsRecognizers_def ToLower_def lower_char_def)
  then show ?thesis using assms by (simp add: NewRecognizerRegistry_def Register_other)
qed

lemma lookup_rm:
  assumes "\<forall>(names, f) \<in> set others. ''rm'' \<notin> ToLower ` set names"
  shows "Registry_Lookup (NewRecognizerRegistry others) ''rm'' = Some remove_Recognize"
  using registry_rm [OF assms] by (intro Registry_Lookup_direct) (simp_all add: ToLower_def lower_char_def)

section \<open>A concrete resolver\<close>

definition sample_resolver :: resolver where
  "sample_resolver = resolver_New (Parsers_Register [] DialectCmd cmd_Parse) [] (\<lambda>_. False) (\<lambda>_ _ _. None) 1"

definition sample_resolver_context :: resolver_context where
  "sample_resolver_context =
     \<lparr>rx_action = Some sample_context, rx_scope = Some (sample_fs, sample_scope)\<rparr>"

definition cmd_request :: "string \<Rightarrow> action_request" where
  "cmd_request line =
     \<lparr>rq_agent = ''claude'', rq_agent_version = [], rq_session_id = [], rq_tool_use_id = [], rq_tool = ''Bash'',
      rq_dialect = DialectCmd, rq_raw_command = line, rq_raw_command_truncated = False, rq_cwd = ''/w'',
      rq_project_hint = [], rq_agent_consent = None, rq_adapter_context = [], rq_received_at = 1\<rparr>"

definition cmd_action :: "string \<Rightarrow> resolved_action" where
  "cmd_action line = ResolveInContext sample_resolver (cmd_request line) (Some sample_resolver_context)"

lemma sample_parsed:
  assumes "cmd_Parse \<lparr>pi_Command = line, pi_Cwd = ''/w'', pi_Home = ''/home/u'', pi_TempDir = ''/tmp'', pi_Env = Map.empty\<rparr>
     = Inr parsed"
  shows "parsed_as sample_resolver (cmd_request line) sample_resolver_context parsed"
  using assms
  by (simp add: parsed_as_def sample_resolver_context_def cmd_request_def DialectFor_def run_parse_def
      sample_resolver_def resolver_New_def Parsers_Get_Register sample_context_def)

section \<open>Concrete command lines\<close>

definition simple :: "string list \<Rightarrow> string \<Rightarrow> simple_command" where
  "simple argv raw =
     \<lparr>s_argv = map text_word argv, s_env = [], s_redirections = [], s_cwd = ''/w'', s_raw_text = raw,
      s_operator = OpNone, s_piped_into = False, s_piped_from = False, s_elevated = False, s_builtin = False\<rparr>"

definition one_command :: "simple_command \<Rightarrow> parsed_command" where
  "one_command c =
     \<lparr>pc_dialect = DialectCmd, pc_commands = [c], pc_operators = [], pc_unsupported = [], pc_final_cwd = ''/w''\<rparr>"

abbreviation cmd_input :: "string \<Rightarrow> parse_input" where
  "cmd_input line \<equiv> \<lparr>pi_Command = line, pi_Cwd = ''/w'', pi_Home = ''/home/u'', pi_TempDir = ''/tmp'', pi_Env = Map.empty\<rparr>"

abbreviation cmd_req :: "simple_command \<Rightarrow> resolve_request" where
  "cmd_req c \<equiv> command_request sample_resolver sample_resolver_context DialectCmd 0 c"

text \<open>A command without redirections, prefixes and raised privileges is what its recognizer says.\<close>

lemma Recognize_plain:
  assumes "Registry_Lookup r (SimpleCommand_Name (rr_command req)) = Some f"
    and "s_redirections (rr_command req) = []" and "s_env (rr_command req) = []"
    and "\<not> s_elevated (rr_command req)" and "\<not> s_piped_from (rr_command req)"
  shows "rc_effects (Recognize r req) = dedupeEffects (rc_effects (f req))"
    and "rc_status (Recognize r req) = rc_status (f req)" and "rc_targets (Recognize r req) = rc_targets (f req)"
    and "rc_semantic_op (Recognize r req) = rc_semantic_op (f req)" and "rc_children (Recognize r req) = rc_children (f req)"
  using assms
  by (simp_all add: Recognize_def registry_dispatch_def applyRedirections_def applyEnvironmentOverrides_def
      applyStreamedInput_def applyElevation_def Let_def)

lemmas registry_simps =
  NewRecognizerRegistry_def Register_def FilesystemRecognizers_def WindowsRecognizers_def ToLower_def lower_char_def

lemma simple_Name [simp]: "SimpleCommand_Name (simple (x # xs) raw) = x"
  by (simp add: SimpleCommand_Name_def simple_def)

lemma sample_lookup:
  "Registry_Lookup (NewRecognizerRegistry []) ''head'' = Some readFile_Recognize"
  "Registry_Lookup (NewRecognizerRegistry []) ''echo'' = Some noop_Recognize"
  "Registry_Lookup (NewRecognizerRegistry []) ''cat'' = Some cat_Recognize"
  by (rule Registry_Lookup_direct; simp add: registry_simps)+

lemma one_line_resolved:
  assumes "parsed_as rs request ctx p" and "pc_commands p = [c]" and "Parsed_OK p"
    and "rs = resolver_New parsers others (\<lambda>_. False) key v" and "Context_OK (rx_action ctx)"
    and "req = command_request rs ctx (DialectFor (rq_dialect request) DialectPosix) 0 c"
    and "Registry_Lookup (NewRecognizerRegistry others) (SimpleCommand_Name c) = Some f"
    and "s_redirections c = []" and "s_env c = []" and "\<not> s_elevated c" and "\<not> s_piped_from c"
    and "a = ResolveInContext rs request (Some ctx)"
  shows "ra_effects a = dedupeEffects (dedupeEffects (rc_effects (f req)))"
    and "ra_status a = WeakerStatus StatusResolved (rc_status (f req))" and "\<not> ra_incomplete a"
    and "\<exists>d. ra_commands a = [d] \<and> rc_effects d = dedupeEffects (rc_effects (f req)) \<and>
           rc_targets d = rc_targets (f req) \<and> rc_semantic_op d = rc_semantic_op (f req) \<and>
           rc_children d = rc_children (f req)"
proof -
  have rs: "\<not> rv_expired rs p" "rv_max_commands rs = 32" for p
    by (simp_all add: assms(4) resolver_New_def MaxSimpleCommands_def)
  have d: "recognized rs request ctx 0 c = Recognize (NewRecognizerRegistry others) req"
    by (simp add: recognized_def run_recognize_def command_request_def resolver_New_def assms(4,6))
  have p: "rr_command req = c" by (simp add: command_request_def assms(6))
  note * = resolve_unlimited [OF assms(1) rs(1) assms(3,5) _ refl]
    Recognize_plain [of "NewRecognizerRegistry others" req f, unfolded p, OF assms(7-11)]
  show "ra_effects a = dedupeEffects (dedupeEffects (rc_effects (f req)))"
    and "ra_status a = WeakerStatus StatusResolved (rc_status (f req))" and "\<not> ra_incomplete a"
    and "\<exists>d. ra_commands a = [d] \<and> rc_effects d = dedupeEffects (rc_effects (f req)) \<and>
           rc_targets d = rc_targets (f req) \<and> rc_semantic_op d = rc_semantic_op (f req) \<and>
           rc_children d = rc_children (f req)"
    using * by (simp_all add: assms(2) d rs(2) assms(12))
qed

lemma one_command_line: "pc_commands (one_command c) = [c]" "Parsed_OK (one_command c)"
  by (simp_all add: one_command_def Parsed_OK_def)

lemmas one_command_resolved = one_line_resolved [OF _ one_command_line]

end
