(* ===== verification/Resolver_Properties.thy ===== *)
theory Resolver_Properties
  imports Resolver_Pipeline
begin

text \<open>
  The properties of the parsers, the recognizers and the resolution pipeline.
\<close>

section \<open>Properties\<close>

text \<open>C11. Whatever else stands on the command line, and however the time budget runs out, a line with an
  \<^verbatim>\<open>rm\<close> of something outside the project is never allowed: for every parser, every further set of
  recognizers, every store and every approval, if the line was parsed to commands one of which is
  \<^verbatim>\<open>rm\<close> with an argument that is not written as an option and that normalizes to a target in the
  system, the home directory or elsewhere outside the workspace, the engine asks or blocks.\<close>

theorem rm_outside_never_allowed:
  assumes "pi_action inp = Some (ResolveInContext (resolver_New parsers others expired key v) request (Some ctx))"
    and "parsed_as (resolver_New parsers others expired key v) request ctx parsed"
    and "\<forall>(names, f) \<in> set others. ''rm'' \<notin> ToLower ` set names"
    and "j < length (pc_commands parsed)" and "SimpleCommand_Name (pc_commands parsed ! j) = ''rm''"
    and "w \<in> set (SimpleCommand_Args (pc_commands parsed ! j))" and "\<not> grammar_isOption removeGrammar (w_text w)"
    and "t \<in> set (TargetsFor (command_request (resolver_New parsers others expired key v) ctx
            (DialectFor (rq_dialect request) DialectPosix) j (pc_commands parsed ! j)) w)"
    and "t_scope t \<in> {ScopeSystem, ScopeHome, ScopeOutsideWorkspace}"
  shows "d_outcome (fst (Evaluate e inp consent s)) \<noteq> OutcomeAllow"
proof -
  let ?rs = "resolver_New parsers others expired key v"
  let ?c = "pc_commands parsed ! j"
  let ?req = "command_request ?rs ctx (DialectFor (rq_dialect request) DialectPosix) j ?c"
  have req: "rr_command ?req = ?c" by (simp add: command_request_def)
  have rec: "recognized ?rs request ctx j ?c = Recognize (NewRecognizerRegistry others) ?req"
    by (simp add: recognized_def run_recognize_def command_request_def resolver_New_def)
  have dispatch: "registry_dispatch (NewRecognizerRegistry others) ?req = remove_Recognize ?req"
    using assms(3,5) by (simp add: registry_dispatch_def req lookup_rm)
  consider "unmodelled (rc_status (recognized ?rs request ctx j ?c))"
    | d where "d \<in> set (rc_effects (remove_Recognize ?req))" "e_type d = EffectDelete" "e_target d = Some t"
    using remove_deletes [of w ?req t] assms(6,7,8) by (auto simp: req rec Recognize_status dispatch)
  then show ?thesis
  proof cases
    case 1
    then show ?thesis by (rule unmodelled_refused [OF assms(1,2,4)])
  next
    case (2 d)
    then obtain d' where d': "d' \<in> set (rc_effects (recognized ?rs request ctx j ?c))" "e_type d' = EffectDelete"
        "target_scope d' = t_scope t"
      using Recognize_keeps [of d "NewRecognizerRegistry others" ?req] by (auto simp: rec dispatch target_scope_def)
    show ?thesis by (rule deletion_refused [OF assms(1,2,4) d'(1,2)]) (use d'(3) assms(9) in simp)
  qed
qed

theorem rm_outside_never_allowed_witness:
  "d_outcome (fst (Evaluate (stored_engine 1 5) (sample_input (cmd_action ''rm -r /home/u/old'')) None sample_store))
     \<noteq> OutcomeAllow"
proof (rule rm_outside_never_allowed [where parsers = "Parsers_Register [] DialectCmd cmd_Parse" and others = "[]"
      and expired = "\<lambda>_. False" and key = "\<lambda>_ _ _. None" and v = 1 and request = "cmd_request ''rm -r /home/u/old''"
      and ctx = sample_resolver_context and j = 0 and w = "text_word ''/home/u/old''"
      and parsed = "one_command (simple [''rm'', ''-r'', ''/home/u/old''] ''rm -r /home/u/old'')"
      and t = "Normalize sample_fs sample_scope \<lparr>in_Raw = ''/home/u/old'', in_Text = ''/home/u/old'', in_Cwd = ''/w'',
        in_Ambiguous = False, in_Glob = False, in_WindowsStyle = True\<rparr>"])
  show "parsed_as (resolver_New (Parsers_Register [] DialectCmd cmd_Parse) [] (\<lambda>_. False) (\<lambda>_ _ _. None) 1)
     (cmd_request ''rm -r /home/u/old'') sample_resolver_context
     (one_command (simple [''rm'', ''-r'', ''/home/u/old''] ''rm -r /home/u/old''))"
    unfolding sample_resolver_def [symmetric] by (rule sample_parsed) code_simp
  show "t_scope (Normalize sample_fs sample_scope \<lparr>in_Raw = ''/home/u/old'', in_Text = ''/home/u/old'', in_Cwd = ''/w'',
        in_Ambiguous = False, in_Glob = False, in_WindowsStyle = True\<rparr>)
      \<in> {ScopeSystem, ScopeHome, ScopeOutsideWorkspace}" by code_simp
qed (simp_all add: sample_input_def cmd_action_def sample_resolver_def one_command_def simple_def SimpleCommand_Name_def
    SimpleCommand_Args_def grammar_isOption_def HasPrefix_def TargetsFor_def request_scope_def command_request_def
    sample_resolver_context_def cmd_request_def DialectFor_def removeGrammar_def empty_grammar_def
    NormalizeWord_def Let_def scopeInput_def windowsPaths_def)

text \<open>C12. What cannot be judged from the text is never allowed: with every set of parsers and
  recognizers, a line one of whose commands runs with raised privileges, is an interpreter fed by a
  pipe, carries an environment assignment outside the neutral names, or names a program no
  recognizer models, is asked about or blocked.\<close>

theorem opaque_invocation_never_allowed:
  assumes "pi_action inp = Some (ResolveInContext rs request (Some ctx))"
    and "parsed_as rs request ctx parsed" and "c = pc_commands parsed ! j" and "j < length (pc_commands parsed)"
    and "s_elevated c \<or> (s_piped_from c \<and> IsStreamInterpreter (SimpleCommand_Name c)) \<or>
         (\<exists>a \<in> set (s_env c). IsDangerousEnvAssignment (ea_name a)) \<or>
         Registry_Lookup (rv_recognizers rs) (SimpleCommand_Name c) = None"
  shows "d_outcome (fst (Evaluate e inp consent s)) \<noteq> OutcomeAllow"
proof
  assume allow: "d_outcome (fst (Evaluate e inp consent s)) = OutcomeAllow"
  let ?req = "command_request rs ctx (DialectFor (rq_dialect request) DialectPosix) j c"
  have req: "rr_command ?req = c" by (simp add: command_request_def)
  have "unmodelled (rc_status (Recognize (rv_recognizers rs) ?req))"
    using assms(5) by (auto simp: Recognize_status streams_def req registry_dispatch_def)
  then have "unmodelled (rc_status (recognized rs request ctx j c))"
    by (simp add: recognized_def run_recognize_def)
  then show False
    using resolve_unmodelled [OF assms(2,4)] allow_passes(2,3) [OF allow assms(1)] assms(3) by blast
qed

theorem opaque_invocation_never_allowed_witness:
  "d_outcome (fst (Evaluate (stored_engine 1 5) (sample_input (cmd_action ''make x'')) None sample_store)) \<noteq> OutcomeAllow"
proof (rule opaque_invocation_never_allowed [where rs = sample_resolver and request = "cmd_request ''make x''" and j = 0
      and ctx = sample_resolver_context and parsed = "one_command (simple [''make'', ''x''] ''make x'')"
      and c = "simple [''make'', ''x''] ''make x''"])
  show "parsed_as sample_resolver (cmd_request ''make x'') sample_resolver_context
     (one_command (simple [''make'', ''x''] ''make x''))"
    by (rule sample_parsed) code_simp
  have "executableKeys ''make'' = [''make'']" by code_simp
  then have "Registry_Lookup (NewRecognizerRegistry []) ''make'' = None"
    by (simp add: Registry_Lookup_def registry_simps)
  then have "Registry_Lookup (rv_recognizers sample_resolver)
      (SimpleCommand_Name (simple [''make'', ''x''] ''make x'')) = None"
    by (simp add: sample_resolver_def resolver_New_def simple_def SimpleCommand_Name_def)
  then show "s_elevated (simple [''make'', ''x''] ''make x'') \<or>
      (s_piped_from (simple [''make'', ''x''] ''make x'') \<and>
         IsStreamInterpreter (SimpleCommand_Name (simple [''make'', ''x''] ''make x''))) \<or>
      (\<exists>a \<in> set (s_env (simple [''make'', ''x''] ''make x'')). IsDangerousEnvAssignment (ea_name a)) \<or>
      Registry_Lookup (rv_recognizers sample_resolver) (SimpleCommand_Name (simple [''make'', ''x''] ''make x'')) = None"
    by blast
qed (simp_all add: sample_input_def cmd_action_def one_command_def)

text \<open>The option scanner loses no argument: for every grammar, a word of the command line is an
  operand, or is written as an option, or is kept as the value of an option the grammar lists as
  taking a value.\<close>

theorem scan_loses_no_word:
  assumes "w \<in> set ws"
  shows "w \<in> set (ar_operands (Scan g ws)) \<or> grammar_isOption g (w_text w) \<or>
    (\<exists>name \<in> set (SafeValue g) \<union> set (SemanticValue g). w \<in> set (ar_values (Scan g ws) name))"
  using Scan_accounts [OF assms, of g] by (auto simp: accounted_def takes_value_def)

theorem scan_loses_no_word_witness:
  "text_word ''x'' \<in> set (ar_operands (Scan removeGrammar [text_word ''-rf'', text_word ''x'']))"
  using scan_loses_no_word [of "text_word ''x''" "[text_word ''-rf'', text_word ''x'']" removeGrammar]
  by (simp add: grammar_isOption_def removeGrammar_def empty_grammar_def)

text \<open>Cutting a cmd.exe line into segments is exact: for a line without escapes, the segments with
  their operators put back together are the line, and no segment contains a separator outside quotes
  other than the \<open>&\<close> of a duplicated stream handle.\<close>

theorem cmd_segments_rejoin:
  assumes "fst (splitSegments line out) = Some segments" and "CHR ''^'' \<notin> set line"
  shows "rejoined segments = line \<and> (\<forall>x \<in> set segments. no_separator (sg_text x))"
proof -
  have "split_from 0 line [] OpNone 0 False [] = Some segments"
    using assms(1) by (simp add: splitSegments_def split: option.splits)
  from split_from_rejoined [OF this assms(2)] split_from_no_separator [OF this assms(2)]
  show ?thesis by (simp add: quoted_after_def)
qed

theorem cmd_segments_rejoin_witness:
  "rejoined (the (fst (splitSegments ''dir 2>&1 & del x'' (one_command (simple [] []))))) = ''dir 2>&1 & del x''"
proof -
  have "fst (splitSegments ''dir 2>&1 & del x'' (one_command (simple [] []))) =
      Some (the (fst (splitSegments ''dir 2>&1 & del x'' (one_command (simple [] [])))))" by code_simp
  from cmd_segments_rejoin [OF this] show ?thesis by simp
qed

text \<open>The cap on parsed commands never hides a part of a cmd.exe line: whatever the input, the
  parser does not report a truncated line, because a line within the size limit has fewer commands
  than the cap.\<close>

theorem cmd_line_never_truncated: "\<not> Truncated (projr (cmd_Parse inp))"
  by (rule cmd_Parse_untruncated)

section \<open>Where the recognizers see less than the shell runs\<close>

lemma baseline_allowed:
  assumes "pi_action inp = Some a" and "HardRules inp = []" and "uncertain e a = None" and "BaselineReadOnlyWorkspace inp"
  shows "d_outcome (fst (Evaluate e inp consent s)) = OutcomeAllow"
proof -
  have "hardOutcome e (HardRules inp) = None" using assms(2) by (simp add: hardOutcome_None_iff Findings_Outcome_def)
  then show ?thesis using assms(1,3,4) by (simp add: Evaluate_def EvaluateDetailed_def)
qed

text \<open>An action of one resolved command that only reads inside the project is allowed.\<close>

lemma reading_allowed:
  assumes "pi_action inp = Some a" and "AllowReadonlyWorkspace (Policy (pi_config inp))" and "Context_OK (pi_context inp)"
    and "ra_commands a = [d]" and "rc_children d = []"
    and "rc_semantic_op d \<notin> {OpGitPush, OpGitCheckout, OpGitReset}"
    and "ra_status a = StatusResolved" and "\<not> ra_incomplete a"
    and "ra_effects a \<noteq> [] \<or> rc_semantic_op d = OpNoop"
    and "\<forall>x \<in> set (ra_effects a) \<union> set (rc_effects d). baseline_effect x \<and> effectRules x = []"
    and "\<forall>t \<in> set (rc_targets d). \<not> Ambiguous t"
  shows "d_outcome (fst (Evaluate e inp consent s)) = OutcomeAllow"
proof (rule baseline_allowed [OF assms(1)])
  have reads: "e_type x = EffectRead \<and> \<not> target_Ambiguous (e_target x)" if "baseline_effect x" for x
    using that by (auto simp: baseline_effect_def target_Ambiguous_def split: if_splits option.splits)
  have "commandRules inp d = []"
    using assms(5,6) by (simp add: commandRules.simps [of _ d] ruleR7_def ruleR8_def opt_list_def)
  moreover have "workspaceDeleteRule inp root x = None" if "x \<in> set (ra_effects a)" for x root
    using that assms(10) reads by (auto simp: workspaceDeleteRule_def split: option.split)
  then have "workspaceDeleteRules inp a = []"
    by (simp add: workspaceDeleteRules_def opt_list_def split: option.split)
  ultimately have "set (HardRules inp) = {}"
    using assms(1,4,8,10) by (simp add: set_HardRules raw_findings_def ruleR13_def opt_list_def)
  then show "HardRules inp = []" by simp
  show "uncertain e a = None"
    using assms(4,7,10,11) reads by (auto simp: uncertain_None_iff HasAmbiguousTarget_def)
  show "BaselineReadOnlyWorkspace inp"
    using assms(1-4,7,9,10) by (auto simp: BaselineReadOnlyWorkspace_def allNoop_def)
qed

definition head_command :: simple_command where
  "head_command = simple [''head'', ''-q'', ''/home/u/.ssh/id'', ''README''] ''head -q /home/u/.ssh/id README''"

definition echo_command :: "string list \<Rightarrow> string \<Rightarrow> simple_command" where
  "echo_command argv raw = simple (''echo'' # argv) (''echo '' @ raw)"

definition quoted_command :: simple_command where
  "quoted_command = (echo_command [] ([CHR 0x22] @ '' > b.txt''))\<lparr>s_argv :=
     [text_word ''echo'', \<lparr>w_text = '' > b.txt'', w_quoted = True, w_glob = False, w_unexpanded = False\<rparr>]\<rparr>"

text \<open>A command that was recognized whole and only reads inside the project.\<close>

definition reads_only :: "resolved_command \<Rightarrow> bool" where
  "reads_only r \<longleftrightarrow>
     rc_status r = StatusResolved \<and> rc_children r = [] \<and>
     rc_semantic_op r \<noteq> OpGitPush \<and> rc_semantic_op r \<noteq> OpGitCheckout \<and> rc_semantic_op r \<noteq> OpGitReset \<and>
     (rc_effects r = [] \<longrightarrow> rc_semantic_op r = OpNoop) \<and> list_all baseline_effect (dedupeEffects (rc_effects r)) \<and>
     list_all (\<lambda>x. effectRules x = []) (dedupeEffects (rc_effects r)) \<and> list_all (\<lambda>t. \<not> Ambiguous t) (rc_targets r)"

lemma reads_only_noop: "reads_only (resolved req OpNoop)"
  by (simp add: reads_only_def resolved_def dedupeEffects_def)

lemma one_line_allowed:
  assumes "parsed_as rs request ctx p" and "pc_commands p = [c]" and "Parsed_OK p"
    and "rs = resolver_New parsers others (\<lambda>_. False) key v" and "Context_OK (rx_action ctx)"
    and "req = command_request rs ctx (DialectFor (rq_dialect request) DialectPosix) 0 c"
    and "Registry_Lookup (NewRecognizerRegistry others) (SimpleCommand_Name c) = Some f"
    and "s_redirections c = [] \<and> s_env c = [] \<and> \<not> s_elevated c \<and> \<not> s_piped_from c"
    and "reads_only (f req)"
    and "pi_action inp = Some (ResolveInContext rs request (Some ctx))"
    and "AllowReadonlyWorkspace (Policy (pi_config inp))" and "Context_OK (pi_context inp)"
  shows "d_outcome (fst (Evaluate e inp consent s)) = OutcomeAllow"
proof -
  let ?es = "rc_effects (f req)"
  note op = assms(9) [unfolded reads_only_def]
  note S = one_line_resolved [OF assms(1-7) _ _ _ _ refl]
  obtain d where d: "ra_commands (ResolveInContext rs request (Some ctx)) = [d]" "rc_effects d = dedupeEffects ?es"
      "rc_targets d = rc_targets (f req)" "rc_semantic_op d = rc_semantic_op (f req)" "rc_children d = []"
    using S(4) assms(8) op by auto
  have "set (dedupeEffects (dedupeEffects ?es)) \<subseteq> set (dedupeEffects ?es)" by (rule dedupeEffects_subset)
  moreover have "dedupeEffects xs = [] \<longleftrightarrow> xs = []" for xs by (simp add: dedupeEffects_def)
  ultimately show ?thesis
    using S(1-3) d assms(8) op
    by (intro reading_allowed [OF assms(10-12), where d = d]) (auto simp: WeakerStatus_def list_all_iff)
qed

lemmas one_command_allowed = one_line_allowed [OF _ one_command_line]

lemma one_reader_allowed:
  assumes "parsed_as rs request ctx (one_command c)"
    and "rs = resolver_New parsers others (\<lambda>_. False) key v" and "Context_OK (rx_action ctx)"
    and "req = command_request rs ctx (DialectFor (rq_dialect request) DialectPosix) 0 c"
    and "Registry_Lookup (NewRecognizerRegistry others) (SimpleCommand_Name c) = Some f"
    and "s_redirections c = [] \<and> s_env c = [] \<and> \<not> s_elevated c \<and> \<not> s_piped_from c"
    and "reads_only (f req)"
  shows "d_outcome (fst (Evaluate e (sample_input (ResolveInContext rs request (Some ctx))) consent s)) = OutcomeAllow"
  by (rule one_command_allowed [OF assms]) (simp_all add: sample_input_def Default_def Context_OK_def sample_context_def)

lemma sample_context_OK: "Context_OK (rx_action sample_resolver_context)"
  by (simp add: sample_resolver_context_def sample_context_def Context_OK_def)

lemma sample_req:
  "cmd_req c = command_request sample_resolver sample_resolver_context
     (DialectFor (rq_dialect (cmd_request line)) DialectPosix) 0 c"
  by (simp add: cmd_request_def DialectFor_def)

text \<open>A command of the reading kind without options has no effects.\<close>

lemma Scan_permissive: "PermissiveUnknown g \<Longrightarrow> \<forall>w \<in> set ws. \<not> grammar_isOption g (w_text w) \<Longrightarrow> args_OK (Scan g ws)"
proof -
  have "\<forall>w \<in> set ws. \<not> grammar_isOption g (w_text w) \<Longrightarrow> ar_unknown (scan_loop g saw ended ws out) = ar_unknown out" for saw ended out
    by (induction g saw ended ws out rule: scan_loop.induct) auto
  then show "\<forall>w \<in> set ws. \<not> grammar_isOption g (w_text w) \<Longrightarrow> args_OK (Scan g ws)"
    by (simp add: Scan_def args_OK_def empty_args_def)
qed

lemma echo_noop:
  "noop_Recognize (cmd_req (echo_command [''a'', ''3>'', ''b.txt''] ''a 3>b.txt'')) =
     resolved (cmd_req (echo_command [''a'', ''3>'', ''b.txt''] ''a 3>b.txt'')) OpNoop"
  "noop_Recognize (cmd_req quoted_command) = resolved (cmd_req quoted_command) OpNoop"
  "Registry_Lookup (NewRecognizerRegistry []) (SimpleCommand_Name (echo_command argv raw)) = Some noop_Recognize"
  "Registry_Lookup (NewRecognizerRegistry []) (SimpleCommand_Name quoted_command) = Some noop_Recognize"
  "s_redirections (echo_command argv raw) = []" "s_env (echo_command argv raw) = []"
  "\<not> s_elevated (echo_command argv raw)" "\<not> s_piped_from (echo_command argv raw)"
  "s_redirections quoted_command = []" "s_env quoted_command = []" "\<not> s_elevated quoted_command"
  "\<not> s_piped_from quoted_command" "rc_children (resolved req OpNoop) = []" "dedupeEffects [] = []"
  using sample_lookup(2)
  by (simp_all add: noop_Recognize_def Let_def Scan_permissive noopGrammar_def empty_grammar_def command_request_def
      echo_command_def quoted_command_def simple_def SimpleCommand_Args_def SimpleCommand_Name_def grammar_isOption_def
      HasPrefix_def resolved_def dedupeEffects_def)

lemma cmd_action_eq:
  "cmd_action line = ResolveInContext sample_resolver (cmd_request line) (Some sample_resolver_context)"
  by (simp add: cmd_action_def)

text \<open>The table of value-taking options of the reading tools lists switches that take no value:
  \<^verbatim>\<open>head -q\<close> swallows the path that follows it, so \<^verbatim>\<open>head -q ~/.ssh/id README\<close> is allowed as a read of
  \<^verbatim>\<open>README\<close> alone, while the read of the private key, which is asked about when it is seen, is hidden.\<close>

theorem head_hides_credential_read:
  "d_outcome (fst (Evaluate (stored_engine 1 5) (sample_input (cmd_action ''head -q /home/u/.ssh/id README'')) None
     sample_store)) = OutcomeAllow"
  unfolding cmd_action_eq
proof (rule one_reader_allowed [where f = readFile_Recognize and c = head_command,
      OF sample_parsed sample_resolver_def sample_context_OK sample_req])
  show "Registry_Lookup (NewRecognizerRegistry []) (SimpleCommand_Name head_command) = Some readFile_Recognize"
    by (simp add: sample_lookup head_command_def)
qed (code_simp+)

text \<open>The cmd.exe parser misses redirections the shell performs. It knows the handle numbers 1 and 2
  only, so \<^verbatim>\<open>echo a 3>b.txt\<close> has no redirection; and it removes the escape of a quote before it splits
  the words, so in \<^verbatim>\<open>echo ^" > b.txt\<close> the redirection counts as quoted text. Both lines make the shell
  create or empty \<^verbatim>\<open>b.txt\<close>, and both are allowed as commands that touch nothing.\<close>

theorem cmd_redirection_hidden:
  "d_outcome (fst (Evaluate (stored_engine 1 5) (sample_input (cmd_action ''echo a 3>b.txt'')) None sample_store))
     = OutcomeAllow \<and>
   d_outcome (fst (Evaluate (stored_engine 1 5) (sample_input (cmd_action (''echo ^'' @ [CHR 0x22] @ '' > b.txt'')))
     None sample_store)) = OutcomeAllow"
proof
  show "d_outcome (fst (Evaluate (stored_engine 1 5) (sample_input (cmd_action ''echo a 3>b.txt'')) None sample_store))
     = OutcomeAllow"
    unfolding cmd_action_eq
    by (rule one_reader_allowed [where f = noop_Recognize and c = "echo_command [''a'', ''3>'', ''b.txt''] ''a 3>b.txt''",
          OF sample_parsed sample_resolver_def sample_context_OK sample_req])
      (simp_all add: echo_noop reads_only_noop, code_simp)
  show "d_outcome (fst (Evaluate (stored_engine 1 5) (sample_input (cmd_action (''echo ^'' @ [CHR 0x22] @ '' > b.txt'')))
     None sample_store)) = OutcomeAllow"
    unfolding cmd_action_eq
    by (rule one_reader_allowed [where f = noop_Recognize and c = quoted_command,
          OF sample_parsed sample_resolver_def sample_context_OK sample_req])
      (simp_all add: echo_noop reads_only_noop, code_simp)
qed

text \<open>The key by which duplicate effects are removed can be forged: running a program named
  \<^verbatim>\<open>sh@streamed\<close> first makes the execution of a piped \<^verbatim>\<open>sh\<close> a duplicate, and rule R12, which holds for
  the piped execution, finds nothing in what is left.\<close>

theorem streamed_marker_forged:
  "ruleR12 (execute_effect name True) \<noteq> None \<and>
   map ruleR12 (dedupeEffects [execute_effect (name @ ''@streamed'') False, execute_effect name True]) = [None]"
  by (simp add: ruleR12_def execute_effect_def dedupeEffects_def effectKey_def effect_EnvelopeEntry_def)

text \<open>The words the POSIX parser makes of \<^verbatim>\<open>cat '$F' $F\<close>: the same text, once quoted and once as a
  variable that could not be expanded.\<close>

definition twice_command :: simple_command where
  "twice_command = (simple [] [])\<lparr>s_argv :=
     [text_word ''cat'', \<lparr>w_text = ''$F'', w_quoted = True, w_glob = False, w_unexpanded = False\<rparr>,
      \<lparr>w_text = ''$F'', w_quoted = False, w_glob = False, w_unexpanded = True\<rparr>]\<rparr>"

definition twice_resolver :: resolver where
  "twice_resolver = resolver_New [(DialectPosix, \<lambda>_. Inr (one_command twice_command))] [] (\<lambda>_. False) (\<lambda>_ _ _. None) 1"

definition twice_request :: action_request where
  "twice_request = (cmd_request [])\<lparr>rq_dialect := DialectPosix\<rparr>"

abbreviation twice_req :: resolve_request where
  "twice_req \<equiv> command_request twice_resolver sample_resolver_context DialectPosix 0 twice_command"

text \<open>A target that depends on a variable can hide behind a quoted twin: the line
  \<^verbatim>\<open>cat '$F' $F\<close> has a word with an unexpanded variable, but its target is dropped as a duplicate of
  the quoted file of the same name, and the line is allowed as a read inside the project, whatever
  file the variable names.\<close>

theorem ambiguous_operand_hidden:
  "HasUnexpandedVar twice_command \<and>
   d_outcome (fst (Evaluate (stored_engine 1 5)
     (sample_input (ResolveInContext twice_resolver twice_request (Some sample_resolver_context))) None sample_store))
   = OutcomeAllow"
proof
  show "HasUnexpandedVar twice_command" by code_simp
  show "d_outcome (fst (Evaluate (stored_engine 1 5)
     (sample_input (ResolveInContext twice_resolver twice_request (Some sample_resolver_context))) None sample_store))
   = OutcomeAllow"
  proof (rule one_reader_allowed [where f = cat_Recognize and c = twice_command and req = twice_req,
        OF _ twice_resolver_def sample_context_OK])
    show "parsed_as twice_resolver twice_request sample_resolver_context (one_command twice_command)"
      by (simp add: parsed_as_def sample_resolver_context_def twice_request_def cmd_request_def DialectFor_def
          run_parse_def twice_resolver_def resolver_New_def Parsers_Get_def)
    show "twice_req = command_request twice_resolver sample_resolver_context
        (DialectFor (rq_dialect twice_request) DialectPosix) 0 twice_command"
      by (simp add: twice_request_def DialectFor_def)
    show "Registry_Lookup (NewRecognizerRegistry []) (SimpleCommand_Name twice_command) = Some cat_Recognize"
      by (simp add: sample_lookup twice_command_def SimpleCommand_Name_def)
  qed (code_simp+)
qed

end
