(* ===== verification/Workspace_Files.thy ===== *)
theory Workspace_Files
  imports Resolver_Registry
begin

text \<open>
  What the resolver reads from the disk before it decides: \<^verbatim>\<open>internal/resolver/readfile.go\<close> (files the
  workspace controls, with the size cap), \<^verbatim>\<open>gitinfo.go\<close> (the repository metadata, without running git)
  and the path helpers of \<^verbatim>\<open>context.go\<close>. The disk itself is a parameter: what \<open>os.Stat\<close>, \<open>os.Open\<close>,
  \<open>os.ReadDir\<close>, \<open>filepath.EvalSymlinks\<close> and \<open>filepath.WalkDir\<close> report at the time of the request.
\<close>

section \<open>The disk\<close>

record stat_info =
  si_regular :: bool
  si_dir :: bool
  si_size :: int

text \<open>An opened file: what its descriptor reports and what reading it to the end gives. A failure carries
  the message of the operating system.\<close>

record opened_file =
  of_stat :: "string + stat_info"
  of_content :: "string + string"

text \<open>The tree below a directory as \<open>WalkDir\<close> visits it: entries in lexical order, links not followed, a
  directory that cannot be read without entries.\<close>

datatype walk_node = WalkFile | WalkDir "(string \<times> walk_node) list"

record disk =
  dk_fs :: host_fs
  dk_stat :: "string \<Rightarrow> stat_info option"
  dk_open :: "string \<Rightarrow> string + opened_file"
  dk_abs :: "string \<Rightarrow> string option"
  dk_home :: "string option"
  dk_tree :: "string \<Rightarrow> walk_node"

definition MaxConfigFileBytes :: int where
  "MaxConfigFileBytes = 4194304"

definition ErrNotRegularFile :: string where
  "ErrNotRegularFile = ''resolver: not a regular file''"

definition ErrFileTooLarge :: string where
  "ErrFileTooLarge = ''resolver: file exceeds the size limit''"

text \<open>Reading through a limit of one byte more than the cap yields more than the cap exactly when the
  content is longer than the cap.\<close>

definition read_limited :: "disk \<Rightarrow> int \<Rightarrow> string \<Rightarrow> string \<Rightarrow> string + string" where
  "read_limited d limit too_large path =
     (case dk_open d path of
        Inl err \<Rightarrow> Inl err
      | Inr f \<Rightarrow>
          (case of_stat f of
             Inl err \<Rightarrow> Inl err
           | Inr info \<Rightarrow>
               if \<not> si_regular info then Inl (ErrNotRegularFile @ '': '' @ path)
               else if si_size info > limit
                 then Inl (too_large @ '': '' @ path @ '' is '' @ Itoa (si_size info) @ '' bytes'')
               else case of_content f of
                      Inl err \<Rightarrow> Inl err
                    | Inr content \<Rightarrow>
                        if int (length content) > limit then Inl (too_large @ '': '' @ path) else Inr content))"

definition readConfigFile :: "disk \<Rightarrow> string \<Rightarrow> string + string" where
  "readConfigFile d path = read_limited d MaxConfigFileBytes ErrFileTooLarge path"

definition isRegularFile :: "disk \<Rightarrow> string \<Rightarrow> bool" where
  "isRegularFile d path = (case dk_stat d path of None \<Rightarrow> False | Some info \<Rightarrow> si_regular info)"

definition marker_exists :: "disk \<Rightarrow> string \<Rightarrow> bool" where
  "marker_exists d path = isRegularFile d path"

lemma read_limited_Inr:
  "read_limited d limit err path = Inr content \<Longrightarrow>
   (\<exists>f info. dk_open d path = Inr f \<and> of_stat f = Inr info \<and> si_regular info \<and> of_content f = Inr content) \<and>
   int (length content) \<le> limit"
  by (auto simp: read_limited_def split: sum.splits if_splits)

section \<open>Paths\<close>

definition canonicalize_disk :: "disk \<Rightarrow> string \<Rightarrow> string" where
  "canonicalize_disk d path =
     (if path = [] then []
      else let absolute = (if IsAbs path then path
                           else case dk_abs d path of None \<Rightarrow> path | Some p \<Rightarrow> p)
           in case EvalSymlinks (dk_fs d) absolute of
                Some resolved \<Rightarrow> Clean resolved
              | None \<Rightarrow> Clean absolute)"

function nearestGitRoot :: "disk \<Rightarrow> string \<Rightarrow> string" where
  "nearestGitRoot d current =
     (if current = [] then []
      else if dk_stat d (filepath_Join [current, ''.git'']) \<noteq> None then current
      else if Dir current = current then []
      else nearestGitRoot d (Dir current))"
  by pat_completeness auto
termination
  by (relation "measure (\<lambda>(d, current). climb_measure current)") (auto intro: Dir_climbs)

declare nearestGitRoot.simps [simp del]

section \<open>Lines\<close>

text \<open>\<open>bufio.Scanner\<close>: the lines without their line ends; a line that does not fit the buffer ends the
  scan.\<close>

definition raw_lines :: "string \<Rightarrow> string list" where
  "raw_lines s = (let ls = strings_Split s [CHR 0x0A] in if last ls = [] then butlast ls else ls)"

definition scan_lines :: "int \<Rightarrow> string \<Rightarrow> string list" where
  "scan_lines limit s =
     map (\<lambda>l. TrimSuffix l [CHR 0x0D]) (takeWhile (\<lambda>l. int (length l) < limit) (raw_lines s))"

definition Trim :: "string \<Rightarrow> string \<Rightarrow> string" where
  "Trim s cutset = TrimRight_by (\<lambda>c. c \<in> set cutset) (TrimLeft_by (\<lambda>c. c \<in> set cutset) s)"

definition strings_CutPrefix :: "string \<Rightarrow> string \<Rightarrow> string option" where
  "strings_CutPrefix s p = (if HasPrefix s p then Some (drop (length p) s) else None)"

text \<open>The part before a separator, or all of the string.\<close>

definition before :: "string \<Rightarrow> string \<Rightarrow> string" where
  "before s sep = (case strings_Cut s sep of None \<Rightarrow> s | Some (a, _) \<Rightarrow> a)"

text \<open>The verb \<^verbatim>\<open>%q\<close>: quotes, backslashes and control characters are escaped. Bytes above the ASCII range
  stay, as the printable characters they encode do.\<close>

definition hex_digit :: "nat \<Rightarrow> char" where
  "hex_digit n = (if n < 10 then char_of (48 + n) else char_of (87 + n))"

definition quote_char :: "char \<Rightarrow> string" where
  "quote_char c =
     (let n = (of_char c :: nat) in
      if c = CHR 0x22 \<or> c = CHR 0x5C then [CHR 0x5C, c]
      else if 7 \<le> n \<and> n \<le> 13 then [CHR 0x5C, ''abtnvfr'' ! (n - 7)]
      else if n < 32 \<or> n = 127 then [CHR 0x5C, CHR ''x'', hex_digit (n div 16), hex_digit (n mod 16)]
      else [c])"

definition go_quote :: "string \<Rightarrow> string" where
  "go_quote s = [CHR 0x22] @ concat (map quote_char s) @ [CHR 0x22]"

section \<open>The configuration of a repository\<close>

text \<open>The values of a configuration file by \<open>section.subsection.key\<close>, the last assignment first.\<close>

type_synonym gitConfig = "(string \<times> string) list"

definition gitConfig_get :: "gitConfig \<Rightarrow> string \<Rightarrow> string" where
  "gitConfig_get c key = (case map_of c (ToLower key) of None \<Rightarrow> [] | Some v \<Rightarrow> v)"

definition parseSectionHeader :: "string \<Rightarrow> string" where
  "parseSectionHeader line =
     (let inner = TrimSuffix (TrimPrefix line ''['') '']'' in
      case strings_Cut inner '' '' of
        None \<Rightarrow> ToLower (TrimSpace inner)
      | Some (name, sub) \<Rightarrow>
          (let name = ToLower (TrimSpace name);
               sub = Trim (TrimSpace sub) [CHR 0x22]
           in if sub = [] then name else name @ ''.'' @ sub))"

text \<open>One line of the file: the section so far and the values so far.\<close>

definition config_line :: "string \<times> gitConfig \<Rightarrow> string \<Rightarrow> string \<times> gitConfig" where
  "config_line st raw =
     (let (section', values) = st; line = TrimSpace raw in
      if line = [] \<or> HasPrefix line ''#'' \<or> HasPrefix line '';'' then st
      else if HasPrefix line ''['' \<and> HasSuffix line '']'' then (parseSectionHeader line, values)
      else case strings_Cut line ''='' of
             None \<Rightarrow> st
           | Some (key, v) \<Rightarrow>
               if section' = [] then st
               else (section', (section' @ ''.'' @ ToLower (TrimSpace key), Trim (TrimSpace v) [CHR 0x22]) # values))"

definition parse_config :: "string \<Rightarrow> gitConfig" where
  "parse_config content = snd (foldl config_line ([], []) (scan_lines 1048576 content))"

definition parseGitConfig :: "disk \<Rightarrow> string \<Rightarrow> gitConfig" where
  "parseGitConfig d path = (case readConfigFile d path of Inl _ \<Rightarrow> [] | Inr content \<Rightarrow> parse_config content)"

definition RemoteHost :: "string \<Rightarrow> string" where
  "RemoteHost raw =
     (let url = TrimSpace raw in
      if url = [] then []
      else case strings_Cut url ''://'' of
             Some (_, rest) \<Rightarrow>
               (let rest = (case strings_Cut rest ''@'' of None \<Rightarrow> rest | Some (_, after) \<Rightarrow> after)
                in before (before rest ''/'') '':'')
           | None \<Rightarrow>
               (case strings_Cut url '':'' of
                  None \<Rightarrow> []
                | Some (b, _) \<Rightarrow>
                    (case strings_Cut b ''@'' of
                       Some (_, after) \<Rightarrow> after
                     | None \<Rightarrow> if \<not> strings_Contains b ''/'' \<and> b \<noteq> [] then b else [])))"

text \<open>The remotes with their URLs. Distinct keys give distinct remotes, so the order in which the values
  are visited does not matter.\<close>

definition remote_of :: "string \<Rightarrow> string option" where
  "remote_of key =
     (case strings_CutPrefix key ''remote.'' of
        None \<Rightarrow> None
      | Some name \<Rightarrow>
          if \<not> HasSuffix name ''.url'' then None
          else let remote = TrimSuffix name ''.url'' in if remote = [] then None else Some remote)"

definition remote_urls :: "gitConfig \<Rightarrow> (string \<times> string) list" where
  "remote_urls c =
     map (\<lambda>key. (the (remote_of key), the (map_of c key)))
       (filter (\<lambda>key. remote_of key \<noteq> None) (remdups (map fst c)))"

definition remoteHosts :: "gitConfig \<Rightarrow> (string \<times> string) list \<times> (string \<times> string) list" where
  "remoteHosts c =
     (filter (\<lambda>(_, host). host \<noteq> []) (map (\<lambda>(remote, url). (remote, RemoteHost url)) (remote_urls c)),
      remote_urls c)"

section \<open>The repository\<close>

definition resolveGitDir :: "disk \<Rightarrow> string \<Rightarrow> string \<Rightarrow> string option" where
  "resolveGitDir d gitPath repoRoot =
     (case dk_stat d gitPath of
        None \<Rightarrow> None
      | Some info \<Rightarrow>
          if si_dir info then Some gitPath
          else case readConfigFile d gitPath of
                 Inl _ \<Rightarrow> None
               | Inr raw \<Rightarrow>
                   (case strings_CutPrefix (TrimSpace raw) ''gitdir:'' of
                      None \<Rightarrow> None
                    | Some target \<Rightarrow>
                        let target = TrimSpace target;
                            target = (if IsAbs target then target else filepath_Join [repoRoot, target])
                        in Some (Clean target)))"

definition head_ref :: "disk \<Rightarrow> string \<Rightarrow> string option" where
  "head_ref d path =
     (case readConfigFile d path of
        Inl _ \<Rightarrow> None
      | Inr raw \<Rightarrow> map_option TrimSpace (strings_CutPrefix (TrimSpace raw) ''ref:''))"

definition readCurrentBranch :: "disk \<Rightarrow> string \<Rightarrow> string" where
  "readCurrentBranch d gitDir =
     (case head_ref d (filepath_Join [gitDir, ''HEAD'']) of
        None \<Rightarrow> []
      | Some ref \<Rightarrow> TrimPrefix ref ''refs/heads/'')"

fun first_default :: "disk \<Rightarrow> string \<Rightarrow> string list \<Rightarrow> string" where
  "first_default d gitDir [] = []"
| "first_default d gitDir (remote # names) =
     (case head_ref d (filepath_Join [gitDir, ''refs'', ''remotes'', remote, ''HEAD'']) of
        None \<Rightarrow> first_default d gitDir names
      | Some ref \<Rightarrow>
          let branch = TrimPrefix ref (''refs/remotes/'' @ remote @ ''/'')
          in if branch \<noteq> ref then branch else first_default d gitDir names)"

definition readDefaultBranch :: "disk \<Rightarrow> string \<Rightarrow> string list \<Rightarrow> string" where
  "readDefaultBranch d gitDir remotes =
     first_default d gitDir
       ((if ''origin'' \<in> set remotes then [''origin''] else []) @ sort (filter (\<lambda>n. n \<noteq> ''origin'') remotes))"

definition absoluteHooksPath :: "disk \<Rightarrow> string \<Rightarrow> string \<Rightarrow> string" where
  "absoluteHooksPath d configured base =
     (let configured = (if HasPrefix configured ''~/'' \<or> configured = ''~''
                        then case dk_home d of
                               Some home \<Rightarrow> filepath_Join [home, TrimPrefix configured ''~'']
                             | None \<Rightarrow> configured
                        else configured)
      in if IsAbs configured then Clean configured else Clean (filepath_Join [base, configured]))"

definition globalGitConfigPaths :: "string \<Rightarrow> string list" where
  "globalGitConfigPaths home =
     (if home = [] then []
      else [filepath_Join [home, ''.gitconfig''], filepath_Join [home, ''.config'', ''git'', ''config'']])"

definition resolveHooksDir :: "disk \<Rightarrow> string \<Rightarrow> string \<Rightarrow> gitConfig \<Rightarrow> string \<Rightarrow> string" where
  "resolveHooksDir d repoRoot gitDir config home =
     (let configured = gitConfig_get config ''core.hookspath'' in
      if configured \<noteq> [] then absoluteHooksPath d configured repoRoot
      else case find (\<lambda>v. v \<noteq> [])
                  (map (\<lambda>path. gitConfig_get (parseGitConfig d path) ''core.hookspath'') (globalGitConfigPaths home)) of
             Some configured \<Rightarrow> absoluteHooksPath d configured home
           | None \<Rightarrow> filepath_Join [gitDir, ''hooks''])"

definition presentHooks :: "disk \<Rightarrow> string \<Rightarrow> string list" where
  "presentHooks d hooksDir =
     (if hooksDir = [] then []
      else case ReadDir (dk_fs d) hooksDir of
             None \<Rightarrow> []
           | Some entries \<Rightarrow>
               sort (map fst (filter (\<lambda>(name, isDir). \<not> (isDir \<or> HasSuffix name ''.sample'')) entries)))"

definition ReadGitInfo :: "disk \<Rightarrow> string \<Rightarrow> string \<Rightarrow> git_info option" where
  "ReadGitInfo d repoRoot home =
     (case resolveGitDir d (filepath_Join [repoRoot, ''.git'']) repoRoot of
        None \<Rightarrow> None
      | Some gitDir \<Rightarrow>
          let config = parseGitConfig d (filepath_Join [gitDir, ''config'']);
              (hosts, urls) = remoteHosts config;
              hooksDir = resolveHooksDir d repoRoot gitDir config home
          in Some \<lparr>gi_git_dir = gitDir, gi_default_branch = readDefaultBranch d gitDir (map fst hosts),
                   gi_current_branch = readCurrentBranch d gitDir, gi_remotes = map_of hosts,
                   gi_remote_urls = map_of urls, gi_hooks_dir = hooksDir,
                   gi_hooks_present = presentHooks d hooksDir\<rparr>)"

end
