(* ===== verification/Fingerprints.thy ===== *)
theory Fingerprints
  imports Workspace_Files
begin

text \<open>
  \<^verbatim>\<open>internal/resolver/fingerprint.go\<close> and \<^verbatim>\<open>buildconfig.go\<close> with the hashing helpers of
  \<^verbatim>\<open>internal/action/canonical.go\<close>: which files decide what a build does, and the value that stands for
  their contents in an approval. SHA-256 is the parameter \<open>sha\<close>. The lemmas show that the value of a set
  of files determines every path and every content in it, given that the hash does not collide.
\<close>

section \<open>Hashing\<close>

definition NormalizeText :: "string \<Rightarrow> string" where
  "NormalizeText b =
     (if CHR 0x0D \<notin> set b then b else ReplaceAll b [CHR 0x0D, CHR 0x0A] [CHR 0x0A])"

definition HashText :: "(string \<Rightarrow> string) \<Rightarrow> string \<Rightarrow> string" where
  "HashText sha b = sha (NormalizeText b)"

definition HashString :: "(string \<Rightarrow> string) \<Rightarrow> string \<Rightarrow> string" where
  "HashString sha s = HashText sha s"

definition ProjectID :: "(string \<Rightarrow> string) \<Rightarrow> string \<Rightarrow> string" where
  "ProjectID sha root = sha root"

text \<open>The pairs are a Go map: an association list in which the first entry of a key counts.\<close>

definition pairs_text :: "(string \<times> string) list \<Rightarrow> string" where
  "pairs_text pairs =
     concat (map (\<lambda>k. k @ [CHR 0x00] @ the (map_of pairs k) @ [CHR 0x0A]) (sort (remdups (map fst pairs))))"

definition HashPairs :: "(string \<Rightarrow> string) \<Rightarrow> (string \<times> string) list \<Rightarrow> string" where
  "HashPairs sha pairs = sha (pairs_text pairs)"

section \<open>Single fingerprints\<close>

definition MaxFingerprintFiles :: int where
  "MaxFingerprintFiles = 500"

definition MaxFingerprintBytes :: int where
  "MaxFingerprintBytes = 52428800"

definition ErrFingerprintTooLarge :: string where
  "ErrFingerprintTooLarge = ''resolver: fingerprint input exceeds the configured limits''"

definition KeyGradleConfig :: string where
  "KeyGradleConfig = ''gradle-config''"

definition KeyMavenConfig :: string where
  "KeyMavenConfig = ''maven-config''"

definition NpmScriptKey :: "string \<Rightarrow> string \<Rightarrow> string" where
  "NpmScriptKey relPackageJSON scriptName = ''npm-script:'' @ relPackageJSON @ ''#scripts.'' @ scriptName"

definition NpmScriptShellKey :: string where
  "NpmScriptShellKey = ''npm-config:'' @ ''.npmrc#script-shell''"

definition NpmPackageManagerKey :: string where
  "NpmPackageManagerKey = ''npm-config:'' @ ''package.json#packageManager''"

definition ValueFingerprint :: "(string \<Rightarrow> string) \<Rightarrow> string \<Rightarrow> string \<Rightarrow> string \<Rightarrow> fingerprint" where
  "ValueFingerprint sha key v description =
     \<lparr>f_key = key, f_value = HashString sha (if v = [] then ''<unset>'' else v), f_description = description\<rparr>"

definition TextFingerprint :: "(string \<Rightarrow> string) \<Rightarrow> string \<Rightarrow> string \<Rightarrow> string \<Rightarrow> fingerprint" where
  "TextFingerprint sha key txt description =
     \<lparr>f_key = key, f_value = HashText sha txt, f_description = description\<rparr>"

definition readFingerprintInput :: "disk \<Rightarrow> string \<Rightarrow> int \<Rightarrow> string + string" where
  "readFingerprintInput d path limit = read_limited d limit ErrFingerprintTooLarge path"

definition input_error :: "string \<Rightarrow> string \<Rightarrow> string" where
  "input_error path err = ''resolver: read fingerprint input '' @ path @ '': '' @ err"

definition FileFingerprint ::
    "disk \<Rightarrow> (string \<Rightarrow> string) \<Rightarrow> string \<Rightarrow> string \<Rightarrow> string \<Rightarrow> string + fingerprint" where
  "FileFingerprint d sha key path description =
     (case dk_stat d path of
        None \<Rightarrow> Inr \<lparr>f_key = key, f_value = HashString sha ''<missing>'', f_description = description\<rparr>
      | Some info \<Rightarrow>
          if si_size info > MaxFingerprintBytes
          then Inl (ErrFingerprintTooLarge @ '': '' @ path @ '' is '' @ Itoa (si_size info) @ '' bytes'')
          else case readFingerprintInput d path MaxFingerprintBytes of
                 Inl err \<Rightarrow> Inl (input_error path err)
               | Inr content \<Rightarrow>
                   Inr \<lparr>f_key = key, f_value = HashText sha content, f_description = description\<rparr>)"

section \<open>Sets of files\<close>

definition relativeKey :: "string \<Rightarrow> string \<Rightarrow> string" where
  "relativeKey workspace path =
     (if workspace = [] then path else case Rel workspace path of None \<Rightarrow> path | Some rel \<Rightarrow> rel)"

text \<open>The loop over the sorted files: the bytes so far and the pairs so far.\<close>

fun hash_files ::
    "disk \<Rightarrow> (string \<Rightarrow> string) \<Rightarrow> string \<Rightarrow> string list \<Rightarrow> int \<Rightarrow> (string \<times> string) list \<Rightarrow>
     string + (string \<times> string) list" where
  "hash_files d sha workspace [] bytes pairs = Inr pairs"
| "hash_files d sha workspace (path # paths) bytes pairs =
     (case dk_stat d path of
        None \<Rightarrow> hash_files d sha workspace paths bytes pairs
      | Some info \<Rightarrow>
          if \<not> si_regular info then hash_files d sha workspace paths bytes pairs
          else
            let bytes = bytes + si_size info in
            if bytes > MaxFingerprintBytes
            then Inl (ErrFingerprintTooLarge @ '': '' @ Itoa bytes @ '' bytes (limit '' @ Itoa MaxFingerprintBytes @ '')'')
            else case readFingerprintInput d path (MaxFingerprintBytes - bytes + si_size info) of
                   Inl err \<Rightarrow> Inl (input_error path err)
                 | Inr content \<Rightarrow>
                     hash_files d sha workspace paths bytes
                       ((relativeKey workspace path, HashText sha content) # pairs))"

definition FileSetFingerprint ::
    "disk \<Rightarrow> (string \<Rightarrow> string) \<Rightarrow> string \<Rightarrow> string \<Rightarrow> string list \<Rightarrow> string \<Rightarrow> string + fingerprint" where
  "FileSetFingerprint d sha key workspace paths description =
     (let ordered = dedupe_on (\<lambda>p. p) (map Clean paths) in
      if int (length ordered) > MaxFingerprintFiles
      then Inl (ErrFingerprintTooLarge @ '': '' @ Itoa (int (length ordered)) @ '' files (limit '' @
                Itoa MaxFingerprintFiles @ '')'')
      else case hash_files d sha workspace (sort ordered) 0 [] of
             Inl err \<Rightarrow> Inl err
           | Inr pairs \<Rightarrow> Inr \<lparr>f_key = key, f_value = HashPairs sha pairs, f_description = description\<rparr>)"

record fileSetOptions =
  fo_roots :: "string list"
  fo_files :: "string list"
  fo_match :: "string \<Rightarrow> bool"
  fo_skip :: "string \<Rightarrow> bool"

definition collect_add :: "disk \<Rightarrow> string list \<Rightarrow> string \<Rightarrow> string + string list" where
  "collect_add d out path =
     (let clean = Clean path in
      if clean \<in> set out then Inr out
      else if \<not> isRegularFile d clean then Inr out
      else let out = out @ [clean] in
           if int (length out) > MaxFingerprintFiles
           then Inl (ErrFingerprintTooLarge @ '': more than '' @ Itoa MaxFingerprintFiles @ '' files'')
           else Inr out)"

fun collect_all :: "disk \<Rightarrow> string list \<Rightarrow> string list \<Rightarrow> string + string list" where
  "collect_all d [] out = Inr out"
| "collect_all d (path # paths) out =
     (case collect_add d out path of Inl err \<Rightarrow> Inl err | Inr out \<Rightarrow> collect_all d paths out)"

text \<open>The files \<open>WalkDir\<close> offers below a path, in the order it visits them: a directory that is to be
  skipped contributes nothing, a file contributes itself when its name matches.\<close>

fun walk_files :: "fileSetOptions \<Rightarrow> string \<Rightarrow> string \<Rightarrow> walk_node \<Rightarrow> string list" where
  "walk_files opts path name WalkFile = (if fo_match opts name then [path] else [])"
| "walk_files opts path name (WalkDir entries) =
     (if fo_skip opts path then []
      else concat (map (\<lambda>(n, node). walk_files opts (filepath_Join [path, n]) n node) entries))"

definition root_files :: "disk \<Rightarrow> fileSetOptions \<Rightarrow> string \<Rightarrow> string list" where
  "root_files d opts root =
     (case dk_stat d root of
        None \<Rightarrow> []
      | Some info \<Rightarrow> if \<not> si_dir info then [] else walk_files opts root (Base root) (dk_tree d root))"

definition CollectFiles :: "disk \<Rightarrow> fileSetOptions \<Rightarrow> string + string list" where
  "CollectFiles d opts =
     (case collect_all d (fo_files opts @ concat (map (root_files d opts) (fo_roots opts))) [] of
        Inl err \<Rightarrow> Inl err
      | Inr out \<Rightarrow> Inr (sort out))"

definition SkipGeneratedAndVendor :: "string \<Rightarrow> bool" where
  "SkipGeneratedAndVendor name =
     (ToLower name \<in> {''node_modules'', ''.git'', ''build'', ''dist'', ''target'', ''.gradle'', ''out'',
                      ''coverage'', ''.idea'', ''.vscode''})"

section \<open>The files that decide a build\<close>

definition skipBuildConfigDir :: "string \<Rightarrow> string \<Rightarrow> bool" where
  "skipBuildConfigDir workspace dir =
     (if Clean dir = Clean workspace then False else SkipGeneratedAndVendor (Base dir))"

definition gradle_name :: "string \<Rightarrow> bool" where
  "gradle_name name = (HasSuffix name ''.gradle'' \<or> HasSuffix name ''.gradle.kts'')"

definition gradle_fixed :: "string \<Rightarrow> string \<Rightarrow> string list" where
  "gradle_fixed workspace home =
     [filepath_Join [workspace, ''gradlew''], filepath_Join [workspace, ''gradlew.bat''],
      filepath_Join [workspace, ''gradle'', ''wrapper'', ''gradle-wrapper.properties''],
      filepath_Join [workspace, ''gradle'', ''wrapper'', ''gradle-wrapper.jar''],
      filepath_Join [workspace, ''settings.gradle''], filepath_Join [workspace, ''settings.gradle.kts''],
      filepath_Join [workspace, ''gradle.properties'']] @
     (if home = [] then []
      else [filepath_Join [home, ''.gradle'', ''gradle.properties''],
            filepath_Join [home, ''.gradle'', ''init.gradle''],
            filepath_Join [home, ''.gradle'', ''init.gradle.kts'']])"

text \<open>The three collections, then the fingerprint of their union. A failure of any is the result.\<close>

definition GradleConfigFingerprint ::
    "disk \<Rightarrow> (string \<Rightarrow> string) \<Rightarrow> string \<Rightarrow> string \<Rightarrow> string + fingerprint" where
  "GradleConfigFingerprint d sha workspace home =
     (case CollectFiles d
             \<lparr>fo_roots = [workspace, filepath_Join [workspace, ''buildSrc'']], fo_files = gradle_fixed workspace home,
              fo_match = gradle_name, fo_skip = skipBuildConfigDir workspace\<rparr> of
        Inl err \<Rightarrow> Inl err
      | Inr files \<Rightarrow>
          (case CollectFiles d
                  \<lparr>fo_roots = [filepath_Join [workspace, ''buildSrc'']], fo_files = [],
                   fo_match = (\<lambda>_. True), fo_skip = skipBuildConfigDir workspace\<rparr> of
             Inl err \<Rightarrow> Inl err
           | Inr buildSrc \<Rightarrow>
               (case (if home = [] then Inr []
                      else CollectFiles d
                             \<lparr>fo_roots = [filepath_Join [home, ''.gradle'', ''init.d'']], fo_files = [],
                              fo_match = gradle_name, fo_skip = (\<lambda>_. False)\<rparr>) of
                  Inl err \<Rightarrow> Inl err
                | Inr initDir \<Rightarrow>
                    FileSetFingerprint d sha KeyGradleConfig workspace (files @ buildSrc @ initDir)
                      ''Gradle wrapper, settings, build scripts, buildSrc and the user-level init scripts and properties'')))"

definition MavenConfigFingerprint ::
    "disk \<Rightarrow> (string \<Rightarrow> string) \<Rightarrow> string \<Rightarrow> string \<Rightarrow> string + fingerprint" where
  "MavenConfigFingerprint d sha workspace home =
     (case CollectFiles d
             \<lparr>fo_roots = [workspace],
              fo_files = [filepath_Join [workspace, ''mvnw''], filepath_Join [workspace, ''mvnw.cmd'']] @
                (if home = [] then []
                 else [filepath_Join [home, ''.m2'', ''settings.xml''],
                       filepath_Join [home, ''.m2'', ''toolchains.xml'']]),
              fo_match = (\<lambda>name. name = ''pom.xml''), fo_skip = skipBuildConfigDir workspace\<rparr> of
        Inl err \<Rightarrow> Inl err
      | Inr poms \<Rightarrow>
          (case CollectFiles d
                  \<lparr>fo_roots = [filepath_Join [workspace, ''.mvn'']], fo_files = [],
                   fo_match = (\<lambda>_. True), fo_skip = skipBuildConfigDir workspace\<rparr> of
             Inl err \<Rightarrow> Inl err
           | Inr mvnDir \<Rightarrow>
               FileSetFingerprint d sha KeyMavenConfig workspace (poms @ mvnDir)
                 ''Maven wrapper, .mvn, every pom.xml and the user-level settings and toolchains''))"

section \<open>The value of a set determines its files\<close>

abbreviation entry_text :: "string \<times> string \<Rightarrow> string" where
  "entry_text kv \<equiv> fst kv @ CHR 0x00 # snd kv @ [CHR 0x0A]"

definition plain_entry :: "string \<times> string \<Rightarrow> bool" where
  "plain_entry kv = (CHR 0x00 \<notin> set (fst kv) \<and> CHR 0x0A \<notin> set (snd kv))"

lemma entry_text_split:
  assumes "plain_entry x" and "plain_entry y" and "entry_text x @ us = entry_text y @ vs"
  shows "x = y \<and> us = vs"
proof -
  have "fst x = fst y \<and> snd x @ CHR 0x0A # us = snd y @ CHR 0x0A # vs"
    using assms by (auto simp: plain_entry_def split_at_char)
  then show ?thesis using assms(1,2) by (auto simp: plain_entry_def split_at_char prod_eq_iff)
qed

lemma entries_inject:
  "list_all plain_entry xs \<Longrightarrow> list_all plain_entry ys \<Longrightarrow> concat (map entry_text xs) = concat (map entry_text ys) \<Longrightarrow> xs = ys"
proof (induction xs arbitrary: ys)
  case Nil
  then show ?case by (cases ys) auto
next
  case (Cons x xs)
  then obtain y ys' where ys: "ys = y # ys'" by (cases ys) auto
  with Cons.prems have "entry_text x @ concat (map entry_text xs) = entry_text y @ concat (map entry_text ys')" by simp
  with Cons.prems ys have "x = y \<and> concat (map entry_text xs) = concat (map entry_text ys')"
    by (intro entry_text_split) simp_all
  with Cons ys show ?case by simp
qed

definition sorted_entries :: "(string \<times> string) list \<Rightarrow> (string \<times> string) list" where
  "sorted_entries pairs = map (\<lambda>k. (k, the (map_of pairs k))) (sort (remdups (map fst pairs)))"

lemma pairs_text_entries: "pairs_text pairs = concat (map entry_text (sorted_entries pairs))"
  by (simp add: pairs_text_def sorted_entries_def comp_def)

lemma map_of_sorted_entries: "map_of (sorted_entries pairs) = map_of pairs"
proof
  fix k
  show "map_of (sorted_entries pairs) k = map_of pairs k"
  proof (cases "k \<in> fst ` set pairs")
    case True
    then obtain v where "map_of pairs k = Some v" by (metis map_of_eq_None_iff not_None_eq)
    moreover have "distinct (map fst (sorted_entries pairs))" by (simp add: sorted_entries_def comp_def)
    moreover have "(k, v) \<in> set (sorted_entries pairs)"
      using True \<open>map_of pairs k = Some v\<close> by (force simp: sorted_entries_def)
    ultimately show ?thesis by (simp add: map_of_eq_Some_iff)
  next
    case False
    then have "map_of pairs k = None" by (simp add: map_of_eq_None_iff)
    moreover have "map_of (sorted_entries pairs) k = None"
      using False by (auto simp: map_of_eq_None_iff sorted_entries_def) force
    ultimately show ?thesis by simp
  qed
qed

lemma HashPairs_inject:
  assumes "inj sha" and "list_all plain_entry ps" and "list_all plain_entry qs" and "HashPairs sha ps = HashPairs sha qs"
  shows "map_of ps = map_of qs"
proof -
  have plain: "list_all plain_entry (sorted_entries xs)" if "list_all plain_entry xs" for xs
    using that by (auto simp: list_all_iff sorted_entries_def plain_entry_def dest!: map_of_SomeD)
      (metis fst_conv map_of_SomeD option.sel snd_conv weak_map_of_SomeI)+
  have "pairs_text ps = pairs_text qs" using assms(1,4) by (simp add: HashPairs_def inj_eq)
  then have "sorted_entries ps = sorted_entries qs"
    unfolding pairs_text_entries by (rule entries_inject [OF plain [OF assms(2)] plain [OF assms(3)]])
  then show ?thesis by (metis map_of_sorted_entries)
qed

text \<open>What a file on the disk holds, and the map from relative paths to normalized contents that a set of files
  stands for.\<close>

definition disk_content :: "disk \<Rightarrow> string \<Rightarrow> string" where
  "disk_content d path =
     (case dk_open d path of Inl _ \<Rightarrow> [] | Inr f \<Rightarrow> (case of_content f of Inl _ \<Rightarrow> [] | Inr content \<Rightarrow> content))"

definition set_files :: "disk \<Rightarrow> string list \<Rightarrow> string list" where
  "set_files d paths = rev (filter (isRegularFile d) (sort (dedupe_on (\<lambda>p. p) (map Clean paths))))"

definition set_contents :: "disk \<Rightarrow> string \<Rightarrow> string list \<Rightarrow> (string \<rightharpoonup> string)" where
  "set_contents d workspace paths =
     map_of (map (\<lambda>p. (relativeKey workspace p, NormalizeText (disk_content d p))) (set_files d paths))"

lemma hash_files_Inr:
  "hash_files d sha workspace paths n ps = Inr qs \<Longrightarrow>
   qs = map (\<lambda>p. (relativeKey workspace p, HashText sha (disk_content d p))) (rev (filter (isRegularFile d) paths)) @ ps"
proof (induction paths arbitrary: n ps)
  case (Cons p paths)
  show ?case
  proof (cases "isRegularFile d p")
    case False
    then have "hash_files d sha workspace (p # paths) n ps = hash_files d sha workspace paths n ps"
      by (simp add: isRegularFile_def split: option.splits)
    with Cons.IH [of n ps] Cons.prems False show ?thesis by simp
  next
    case True
    then obtain info where info: "dk_stat d p = Some info" "si_regular info"
      by (auto simp: isRegularFile_def split: option.splits)
    with Cons.prems obtain content where
      c: "readFingerprintInput d p (MaxFingerprintBytes - (n + si_size info) + si_size info) = Inr content"
        "hash_files d sha workspace paths (n + si_size info) ((relativeKey workspace p, HashText sha content) # ps) = Inr qs"
      by (auto simp: Let_def split: if_splits sum.splits)
    have "disk_content d p = content"
      using read_limited_Inr [OF c(1) [unfolded readFingerprintInput_def]] by (auto simp: disk_content_def)
    with Cons.IH [OF c(2)] True show ?thesis by simp
  qed
qed simp

lemma FileSetFingerprint_Inr:
  assumes "FileSetFingerprint d sha key workspace paths description = Inr f"
  shows "f_key f = key" and "f_value f = HashPairs sha
    (map (\<lambda>p. (relativeKey workspace p, HashText sha (disk_content d p))) (set_files d paths))"
  using assms by (auto simp: FileSetFingerprint_def Let_def set_files_def split: if_splits sum.splits dest!: hash_files_Inr)

text \<open>A set of files without zero bytes in their names, as no file name has one.\<close>

definition plain_names :: "disk \<Rightarrow> string \<Rightarrow> string list \<Rightarrow> bool" where
  "plain_names d workspace paths = list_all (\<lambda>p. CHR 0x00 \<notin> set (relativeKey workspace p)) (set_files d paths)"

lemma fingerprint_pins:
  assumes "inj sha" and "\<And>s. CHR 0x0A \<notin> set (sha s)"
    and "FileSetFingerprint d sha key workspace paths description = Inr f"
    and "FileSetFingerprint d' sha key' workspace' paths' description' = Inr f'"
    and "plain_names d workspace paths" and "plain_names d' workspace' paths'" and "f_value f = f_value f'"
  shows "set_contents d workspace paths = set_contents d' workspace' paths'"
proof -
  let ?ps = "\<lambda>d workspace paths. map (\<lambda>p. (relativeKey workspace p, HashText sha (disk_content d p))) (set_files d paths)"
  have "list_all plain_entry (?ps d workspace paths)" "list_all plain_entry (?ps d' workspace' paths')"
    using assms(2,5,6) by (auto simp: list_all_iff plain_names_def plain_entry_def HashText_def)
  then have "map_of (?ps d workspace paths) = map_of (?ps d' workspace' paths')"
    using HashPairs_inject [OF assms(1)] FileSetFingerprint_Inr(2) [OF assms(3)] FileSetFingerprint_Inr(2) [OF assms(4)]
      assms(7) by metis
  moreover have "map_of (?ps d workspace paths) = map_option sha \<circ> set_contents d workspace paths" for d workspace paths
    unfolding set_contents_def by (subst map_of_map [symmetric]) (simp add: HashText_def comp_def)
  ultimately have "map_option sha \<circ> set_contents d workspace paths = map_option sha \<circ> set_contents d' workspace' paths'" by simp
  then show ?thesis using option.inj_map [OF assms(1)] by (simp add: fun_eq_iff inj_eq)
qed

end
