(* ===== verification/Resolver_Git.thy ===== *)
theory Resolver_Git
  imports Workspace_Files Resolver_Fs
begin

text \<open>
  \<^verbatim>\<open>internal/resolver/git.go\<close>: the git subcommands. No git process runs: the repository is what
  \<open>ReadGitInfo\<close> finds on the disk, which is a parameter of the recognizer. Short write-ups of the
  loops over words and targets are those of the file system recognizers.
\<close>

section \<open>Global options\<close>

definition isOption :: "string \<Rightarrow> bool" where
  "isOption t = (1 < length t \<and> HasPrefix t ''-'')"

definition gitSafeGlobals :: "string list" where
  "gitSafeGlobals =
     [''--no-pager'', ''-P'', ''--no-replace-objects'', ''--literal-pathspecs'', ''--no-optional-locks'',
      ''--glob-pathspecs'', ''--noglob-pathspecs'']"

text \<open>The directory of \<open>-C\<close>, the words from the subcommand on when there is one, and the global options
  outside the safe set.\<close>

fun gitGlobalOptions :: "word \<Rightarrow> string list \<Rightarrow> word list \<Rightarrow> word \<times> word list option \<times> string list" where
  "gitGlobalOptions repoDir unknown [] = (repoDir, None, unknown)"
| "gitGlobalOptions repoDir unknown (w # ws) =
     (let t = w_text w in
      if \<not> isOption t then (repoDir, Some (w # ws), unknown)
      else if t \<in> set gitSafeGlobals then gitGlobalOptions repoDir unknown ws
      else if t = ''-C'' then
        (case ws of
           [] \<Rightarrow> (repoDir, None, unknown @ [''-C''])
         | dir # rest \<Rightarrow> gitGlobalOptions dir unknown rest)
      else if HasPrefix t ''-C'' \<and> 2 < length t then
        gitGlobalOptions (zero_word\<lparr>w_text := drop 2 t, w_unexpanded := w_unexpanded w\<rparr>) unknown ws
      else gitGlobalOptions repoDir (unknown @ [t]) ws)"

section \<open>The repository\<close>

record gitRepo =
  gr_root :: string
  gr_info :: "git_info option"

definition gitRepositoryFor :: "disk \<Rightarrow> resolve_request \<Rightarrow> gitRepo" where
  "gitRepositoryFor d req =
     (let cwd = canonicalize_disk d (s_cwd (rr_command req));
          root = nearestGitRoot d cwd
      in if root = [] then \<lparr>gr_root = cwd, gr_info = None\<rparr>
         else case Option.bind (rr_context req) rx_action of
                None \<Rightarrow> \<lparr>gr_root = root, gr_info = None\<rparr>
              | Some actx \<Rightarrow>
                  if root = cx_workspace_root actx then \<lparr>gr_root = root, gr_info = cx_git actx\<rparr>
                  else \<lparr>gr_root = root, gr_info = ReadGitInfo d root (cx_home_dir actx)\<rparr>)"

definition gitDir :: "gitRepo \<Rightarrow> string" where
  "gitDir g =
     (case gr_info g of
        Some info \<Rightarrow>
          if gi_git_dir info \<noteq> [] then gi_git_dir info
          else if gr_root g = [] then [] else filepath_Join [gr_root g, ''.git'']
      | None \<Rightarrow> if gr_root g = [] then [] else filepath_Join [gr_root g, ''.git''])"

definition HooksForOperation :: "semantic_op \<Rightarrow> string list" where
  "HooksForOperation op =
     (if op = OpGitCommit then [''pre-commit'', ''prepare-commit-msg'', ''commit-msg'', ''post-commit'']
      else if op = OpGitPush then [''pre-push'']
      else if op = OpGitCheckout then [''post-checkout'']
      else [])"

definition hookRunning :: "gitRepo \<Rightarrow> semantic_op \<Rightarrow> string list \<Rightarrow> string option" where
  "hookRunning g op skipped =
     find (\<lambda>name. name \<notin> set skipped \<and> HasHook (gr_info g) name) (HooksForOperation op)"

definition add_path_effect ::
    "resolve_request \<Rightarrow> string \<Rightarrow> effect_type \<Rightarrow> effect_flag list \<Rightarrow> resolved_command \<Rightarrow> resolved_command" where
  "add_path_effect req path kind flags out =
     (case PathTarget req path of None \<Rightarrow> out | Some t \<Rightarrow> addEffect kind flags t out)"

definition addRepoEffect ::
    "resolve_request \<Rightarrow> gitRepo \<Rightarrow> effect_type \<Rightarrow> effect_flag list \<Rightarrow> resolved_command \<Rightarrow> resolved_command" where
  "addRepoEffect req repo kind flags out = add_path_effect req (gr_root repo) kind flags out"

definition addGitDirEffect ::
    "resolve_request \<Rightarrow> gitRepo \<Rightarrow> effect_type \<Rightarrow> effect_flag list \<Rightarrow> resolved_command \<Rightarrow> resolved_command" where
  "addGitDirEffect req repo kind flags out = add_path_effect req (gitDir repo) kind flags out"

definition append_effect :: "effect \<Rightarrow> resolved_command \<Rightarrow> resolved_command" where
  "append_effect e out = set_effects (rc_effects out @ [e]) out"

definition addHookEffect :: "gitRepo \<Rightarrow> semantic_op \<Rightarrow> string list \<Rightarrow> resolved_command \<Rightarrow> resolved_command" where
  "addHookEffect repo op skipped out =
     (case hookRunning repo op skipped of
        None \<Rightarrow> out
      | Some hook \<Rightarrow>
          degrade (append_effect (execute_effect (''git hook '' @ hook) False) out)
            (''the '' @ hook @ '' hook runs code Intenter cannot model''))"

section \<open>Pathspecs\<close>

definition gitPathspecs :: "word list \<Rightarrow> word list" where
  "gitPathspecs args = drop 1 (dropWhile (\<lambda>w. w_text w \<noteq> ''--'') args)"

definition hasPathspecSeparator :: "word list \<Rightarrow> bool" where
  "hasPathspecSeparator args = (\<exists>w \<in> set args. w_text w = ''--'')"

section \<open>Subcommands that read\<close>

definition gitStatusGrammar :: grammar where
  "gitStatusGrammar = empty_grammar\<lparr>
     Safe := [''-s'', ''--short'', ''-b'', ''--branch'', ''-v'', ''--verbose'', ''-z'', ''--long'',
              ''--no-renames'', ''--renames'', ''--ahead-behind'', ''--no-ahead-behind'',
              ''--no-column'', ''-u'', ''-uno'', ''-unormal'', ''-uall'', ''--find-renames''],
     SafeOptionalValue := [''--porcelain'', ''--untracked-files'', ''--ignored'', ''--column'', ''--ignore-submodules'']\<rparr>"

definition gitLogGrammar :: grammar where
  "gitLogGrammar = empty_grammar\<lparr>
     Safe := [''--oneline'', ''--graph'', ''--decorate'', ''--no-decorate'', ''--stat'', ''-p'',
              ''--patch'', ''--no-patch'', ''--all'', ''--no-merges'', ''--merges'',
              ''--first-parent'', ''--reverse'', ''--follow'', ''--name-only'',
              ''--name-status'', ''--numstat'', ''--shortstat'', ''--abbrev-commit'',
              ''--topo-order'', ''--date-order'', ''--full-history'', ''--source'', ''-z''],
     SafeValue := [''-n'', ''--max-count'', ''--skip''],
     SafeOptionalValue := [''--pretty'', ''--format'', ''--date'', ''--since'', ''--until'', ''--author'',
                           ''--grep'', ''--committer'', ''--decorate''],
     SafeNumericShort := True\<rparr>"

definition gitShowGrammar :: grammar where
  "gitShowGrammar = empty_grammar\<lparr>
     Safe := [''--stat'', ''-p'', ''--patch'', ''--no-patch'', ''-s'', ''--name-only'',
              ''--name-status'', ''--numstat'', ''--shortstat'', ''--abbrev-commit'', ''-z''],
     SafeOptionalValue := [''--pretty'', ''--format'', ''--date'']\<rparr>"

definition gitRevParseGrammar :: grammar where
  "gitRevParseGrammar = empty_grammar\<lparr>PermissiveUnknown := True\<rparr>"

definition gitDiffGrammar :: grammar where
  "gitDiffGrammar = empty_grammar\<lparr>
     Safe := [''--stat'', ''--cached'', ''--staged'', ''--name-only'', ''--name-status'',
              ''--numstat'', ''--shortstat'', ''-p'', ''--patch'', ''--no-patch'', ''--raw'',
              ''--check'', ''--summary'', ''--quiet'', ''--exit-code'', ''--no-index'', ''-z'',
              ''-w'', ''--ignore-all-space'', ''-b'', ''--ignore-space-change'',
              ''--ignore-blank-lines'', ''--word-diff'', ''--no-color'', ''--color-words'',
              ''-M'', ''--find-renames'', ''--find-copies'', ''--full-index'', ''--binary''],
     SafeValue := [''-U'', ''--unified''],
     SafeOptionalValue := [''--color'', ''--diff-filter'', ''--word-diff'', ''--stat''],
     SemanticValue := [''-o'', ''--output'']\<rparr>"

text \<open>The name of an operation, as the refusals of \<open>gitRead\<close> print it.\<close>

definition git_refused :: "resolve_request \<Rightarrow> semantic_op \<Rightarrow> args \<Rightarrow> string \<Rightarrow> resolved_command" where
  "git_refused req op scan what = Unresolved req op (UnknownReason scan (''git '' @ what))"

definition gitRead ::
    "resolve_request \<Rightarrow> gitRepo \<Rightarrow> semantic_op \<Rightarrow> grammar \<Rightarrow> word list \<Rightarrow> resolved_command" where
  "gitRead req repo op g args =
     (let scan = Scan g args in
      if \<not> args_OK scan then git_refused req op scan (semantic_op_str op)
      else addEffects req EffectRead [] (gitPathspecs args)
             (addRepoEffect req repo EffectRead [] (resolved req op)))"

definition diff_output :: "resolve_request \<Rightarrow> args \<Rightarrow> resolved_command \<Rightarrow> string \<Rightarrow> resolved_command" where
  "diff_output req scan out option' =
     (if \<not> args_Has scan option' then out
      else case TargetFor req (args_Value scan option') of
             None \<Rightarrow> out
           | Some t \<Rightarrow> addEffect EffectWrite [] t (addEffect EffectCreate [] t out))"

definition gitDiff :: "resolve_request \<Rightarrow> gitRepo \<Rightarrow> word list \<Rightarrow> resolved_command" where
  "gitDiff req repo args =
     (let scan = Scan gitDiffGrammar args in
      if \<not> args_OK scan then git_refused req OpGitDiff scan ''diff''
      else if args_Has scan ''--no-index'' \<and> length (ar_operands scan) \<noteq> 2
        then Unresolved req OpGitDiff ''git diff --no-index needs exactly two paths''
      else
        let out = (if args_Has scan ''--no-index''
                   then addEffects req EffectRead [] (not_stdin (ar_operands scan)) (resolved req OpGitDiff)
                   else addRepoEffect req repo EffectRead [] (resolved req OpGitDiff));
            out = addEffects req EffectRead [] (gitPathspecs args) out
        in foldl (diff_output req scan) out [''-o'', ''--output''])"

definition gitBranchGrammar :: grammar where
  "gitBranchGrammar = empty_grammar\<lparr>
     Safe := [''-a'', ''--all'', ''-r'', ''--remotes'', ''-v'', ''-vv'', ''--verbose'', ''--list'',
              ''--show-current'', ''-q'', ''--quiet'', ''--no-color'', ''-i'', ''--ignore-case''],
     SafeValue := [''--contains'', ''--no-contains'', ''--merged'', ''--no-merged'', ''--sort'', ''--points-at''],
     SafeOptionalValue := [''--format'', ''--color'', ''--column'']\<rparr>"

definition gitBranchWriteOptions :: "string list" where
  "gitBranchWriteOptions =
     [''-d'', ''-D'', ''--delete'', ''-m'', ''-M'', ''--move'', ''-c'', ''-C'', ''--copy'',
      ''--set-upstream-to'', ''-u'', ''--unset-upstream'', ''--edit-description'',
      ''-f'', ''--force'', ''--create-reflog'']"

definition gitBranch :: "resolve_request \<Rightarrow> gitRepo \<Rightarrow> word list \<Rightarrow> resolved_command" where
  "gitBranch req repo args =
     (case find (\<lambda>name. name \<in> set gitBranchWriteOptions) (map (\<lambda>w. before (w_text w) ''='') args) of
        Some name \<Rightarrow>
          Unresolved req OpGitBranch
            (''git branch '' @ name @ '' changes refs, which Intenter models only as a listing'')
      | None \<Rightarrow>
          (let scan = Scan gitBranchGrammar args in
           if \<not> args_OK scan then git_refused req OpGitBranch scan ''branch''
           else addRepoEffect req repo EffectRead [] (resolved req OpGitBranch)))"

section \<open>Subcommands that write\<close>

definition gitAddGrammar :: grammar where
  "gitAddGrammar = empty_grammar\<lparr>
     Safe := [''-A'', ''--all'', ''-u'', ''--update'', ''-v'', ''--verbose'', ''-f'', ''--force'',
              ''-n'', ''--dry-run'', ''--ignore-removal'', ''--no-ignore-removal'',
              ''--renormalize'', ''-N'', ''--intent-to-add'', ''--refresh'', ''--ignore-errors''],
     SemanticValue := [''--pathspec-from-file'']\<rparr>"

definition gitAdd :: "resolve_request \<Rightarrow> gitRepo \<Rightarrow> word list \<Rightarrow> resolved_command" where
  "gitAdd req repo args =
     (let scan = Scan gitAddGrammar args in
      if \<not> args_OK scan then git_refused req OpGitAdd scan ''add''
      else
        let out = (if ar_operands scan = [] then addRepoEffect req repo EffectRead [] (resolved req OpGitAdd)
                   else resolved req OpGitAdd);
            out = addEffects req EffectRead [] (ar_operands scan) out;
            out = (if args_Has scan ''--pathspec-from-file''
                   then addEffects req EffectRead [] [args_Value scan ''--pathspec-from-file''] out else out)
        in addGitDirEffect req repo EffectWrite [] out)"

definition gitCommitGrammar :: grammar where
  "gitCommitGrammar = empty_grammar\<lparr>
     Safe := [''--no-edit'', ''-q'', ''--quiet'', ''-v'', ''--verbose'', ''-s'', ''--signoff'',
              ''--allow-empty'', ''--allow-empty-message'', ''--no-verify'', ''-n'',
              ''--verify'', ''--amend'', ''--no-post-rewrite'', ''--short'', ''--porcelain'',
              ''--dry-run'', ''--status'', ''--no-status'', ''-a'', ''--all''],
     SafeValue := [''-m'', ''--message'', ''-am'', ''-c'', ''-C'', ''--reuse-message'',
                   ''--reedit-message'', ''--fixup'', ''--squash''],
     SafeOptionalValue := [''--author'', ''--date'', ''--cleanup'', ''--untracked-files''],
     SemanticValue := [''-F'', ''--file'', ''-t'', ''--template'']\<rparr>"

definition gitCommit :: "resolve_request \<Rightarrow> gitRepo \<Rightarrow> word list \<Rightarrow> resolved_command" where
  "gitCommit req repo args =
     (let scan = Scan gitCommitGrammar args in
      if \<not> args_OK scan then git_refused req OpGitCommit scan ''commit''
      else
        let out = (if HasAny scan [''-a'', ''--all'', ''-am'']
                   then addRepoEffect req repo EffectRead [] (resolved req OpGitCommit)
                   else resolved req OpGitCommit);
            out = addEffects req EffectRead [] (ar_operands scan) out;
            out = addEffects req EffectRead []
                    (map (args_Value scan) (filter (args_Has scan) [''-F'', ''--file'', ''-t'', ''--template''])) out;
            out = addGitDirEffect req repo EffectWrite [] out;
            skipped = (if HasAny scan [''--no-verify'', ''-n''] then [''pre-commit'', ''commit-msg''] else [])
        in addHookEffect repo OpGitCommit skipped out)"

definition gitCheckoutGrammar :: grammar where
  "gitCheckoutGrammar = empty_grammar\<lparr>
     Safe := [''-q'', ''--quiet'', ''--progress'', ''--no-progress'', ''--track'', ''--no-track'',
              ''--detach'', ''-f'', ''--force'', ''--discard-changes'', ''--ours'', ''--theirs'',
              ''-m'', ''--merge'', ''--overwrite-ignore'', ''--no-overwrite-ignore'',
              ''--recurse-submodules'', ''--no-recurse-submodules'', ''-p'', ''--patch'',
              ''-S'', ''--staged'', ''-W'', ''--worktree'', ''--overlay'', ''--no-overlay''],
     SafeValue := [''-b'', ''-B'', ''-c'', ''-C'', ''--orphan'', ''--conflict''],
     SemanticValue := [''--source'', ''--pathspec-from-file'']\<rparr>"

definition gitCheckout :: "resolve_request \<Rightarrow> gitRepo \<Rightarrow> string \<Rightarrow> word list \<Rightarrow> resolved_command" where
  "gitCheckout req repo subcommand args =
     (let scan = Scan gitCheckoutGrammar args in
      if \<not> args_OK scan then git_refused req OpGitCheckout scan subcommand
      else
        let flags = flag_if (HasAny scan [''-f'', ''--force'', ''--discard-changes''] \<or>
                             subcommand = ''restore'' \<or> hasPathspecSeparator args) EffectFlagDiscardsChanges;
            out = addRepoEffect req repo EffectWrite flags (resolved req OpGitCheckout);
            out = addEffects req EffectWrite flags (gitPathspecs args) out;
            out = addGitDirEffect req repo EffectWrite [] out
        in addHookEffect repo OpGitCheckout [] out)"

definition gitResetGrammar :: grammar where
  "gitResetGrammar = empty_grammar\<lparr>
     Safe := [''--soft'', ''--mixed'', ''-q'', ''--quiet'', ''--no-refresh'', ''--pathspec-file-nul''],
     Semantic := [''--hard'', ''--merge'', ''--keep''],
     SemanticValue := [''--pathspec-from-file'']\<rparr>"

definition gitReset :: "resolve_request \<Rightarrow> gitRepo \<Rightarrow> word list \<Rightarrow> resolved_command" where
  "gitReset req repo args =
     (let scan = Scan gitResetGrammar args in
      if \<not> args_OK scan then git_refused req OpGitReset scan ''reset''
      else
        let out = addGitDirEffect req repo EffectWrite [] (resolved req OpGitReset)
        in if HasAny scan [''--hard'', ''--merge'', ''--keep'']
           then addRepoEffect req repo EffectWrite [EffectFlagDiscardsChanges] out else out)"

section \<open>Push\<close>

definition gitPushGrammar :: grammar where
  "gitPushGrammar = empty_grammar\<lparr>
     Safe := [''-u'', ''--set-upstream'', ''-q'', ''--quiet'', ''-v'', ''--verbose'',
              ''--porcelain'', ''-n'', ''--dry-run'', ''--no-verify'', ''--verify'',
              ''--follow-tags'', ''--atomic'', ''--no-atomic'', ''--progress'',
              ''--no-progress'', ''--thin'', ''--no-thin'', ''--ipv4'', ''--ipv6''],
     SafeValue := [''--repo'', ''--exec'', ''--receive-pack''],
     SafeOptionalValue := [''--recurse-submodules'', ''--push-option'', ''-o''],
     Semantic := [''-f'', ''--force'', ''--delete'', ''-d'', ''--all'', ''--mirror'', ''--tags'', ''--prune''],
     SemanticOptionalValue := [''--force-with-lease'', ''--force-if-includes'']\<rparr>"

definition gitRemoteHost :: "gitRepo \<Rightarrow> string \<Rightarrow> string option" where
  "gitRemoteHost repo remote =
     (case Option.bind (gr_info repo) (\<lambda>info. Option.bind (gi_remotes info remote) (\<lambda>h. if h \<noteq> [] then Some h else None)) of
        Some host \<Rightarrow> Some host
      | None \<Rightarrow>
          if (strings_Contains remote '':'' \<or> strings_Contains remote ''://'') \<and> RemoteHost remote \<noteq> []
          then Some (RemoteHost remote) else None)"

definition gitShortRef :: "string \<Rightarrow> string" where
  "gitShortRef ref = TrimPrefix (TrimPrefix ref ''refs/heads/'') ''heads/''"

fun gitPushBranch :: "gitRepo \<Rightarrow> word list \<Rightarrow> string option" where
  "gitPushBranch repo [] =
     Option.bind (gr_info repo) (\<lambda>info. if gi_current_branch info \<noteq> [] then Some (gi_current_branch info) else None)"
| "gitPushBranch repo (refspec # refspecs) =
     (let t = TrimPrefix (w_text refspec) ''+'' in
      case strings_Cut t '':'' of
        Some (_, destination) \<Rightarrow>
          (if TrimSpace destination = [] then None else Some (gitShortRef (TrimSpace destination)))
      | None \<Rightarrow> if t \<noteq> [] then Some (gitShortRef t) else gitPushBranch repo refspecs)"

definition hasForcedRefspec :: "word list \<Rightarrow> bool" where
  "hasForcedRefspec refspecs = (\<exists>r \<in> set refspecs. HasPrefix (w_text r) ''+'')"

definition hasDeleteRefspec :: "word list \<Rightarrow> bool" where
  "hasDeleteRefspec refspecs = (\<exists>r \<in> set refspecs. HasPrefix (TrimPrefix (w_text r) ''+'') '':'')"

definition set_git :: "git_detail option \<Rightarrow> resolved_command \<Rightarrow> resolved_command" where
  "set_git x c = ResolvedCommand (rc_executable c) (rc_semantic_op c) (rc_targets c) (rc_effects c) (rc_status c)
     (rc_status_reason c) (rc_fingerprints c) (rc_resolved_from c) (rc_children c) (rc_raw_text c) x"

definition push_effect :: "string \<Rightarrow> effect_flag list \<Rightarrow> effect" where
  "push_effect host flags =
     effect_AddFlags
       \<lparr>e_type = EffectNetwork, e_target = None,
        e_network = Some \<lparr>n_host = host, n_port = 0, n_scheme = ''git'', n_method = [], n_declared_kind = []\<rparr>,
        e_program = None, e_flags = []\<rparr> flags"

definition push_flags :: "args \<Rightarrow> word list \<Rightarrow> effect_flag list" where
  "push_flags scan refspecs =
     flag_if (HasAny scan [''-f'', ''--force'', ''--force-with-lease'', ''--force-if-includes''] \<or>
              hasForcedRefspec refspecs) EffectFlagForce @
     flag_if (HasAny scan [''--delete'', ''-d''] \<or> hasDeleteRefspec refspecs) EffectFlagDelete @
     flag_if (HasAny scan [''--all'', ''--mirror'', ''--tags'']) EffectFlagBroad"

definition gitPush :: "resolve_request \<Rightarrow> gitRepo \<Rightarrow> word list \<Rightarrow> resolved_command" where
  "gitPush req repo args =
     (let scan = Scan gitPushGrammar args in
      if \<not> args_OK scan then git_refused req OpGitPush scan ''push''
      else
        let remote = (case ar_operands scan of [] \<Rightarrow> ''origin'' | w # _ \<Rightarrow> w_text w);
            refspecs = drop 1 (ar_operands scan)
        in case gitRemoteHost repo remote of
             None \<Rightarrow>
               Unresolved req OpGitPush
                 (''the git remote '' @ go_quote remote @ '' is not configured in this repository'')
           | Some host \<Rightarrow>
               let branch = gitPushBranch repo refspecs;
                   out = append_effect (push_effect host (push_flags scan refspecs)) (resolved req OpGitPush);
                   out = set_git (Some \<lparr>g_remote = remote, g_branch = (case branch of None \<Rightarrow> [] | Some b \<Rightarrow> b),
                                        g_branch_known = (branch \<noteq> None)\<rparr>) out;
                   out = addGitDirEffect req repo EffectRead [] out;
                   skipped = (if args_Has scan ''--no-verify'' then [''pre-push''] else [])
               in addHookEffect repo OpGitPush skipped out)"

section \<open>The recognizer\<close>

definition git_dispatch :: "resolve_request \<Rightarrow> gitRepo \<Rightarrow> string \<Rightarrow> word list \<Rightarrow> resolved_command" where
  "git_dispatch req repo subcommand rest =
     (if subcommand = ''status'' then gitRead req repo OpGitStatus gitStatusGrammar rest
      else if subcommand = ''diff'' then gitDiff req repo rest
      else if subcommand = ''log'' then gitRead req repo OpGitLog gitLogGrammar rest
      else if subcommand = ''show'' then gitRead req repo OpGitShow gitShowGrammar rest
      else if subcommand = ''rev-parse'' then gitRead req repo OpGitRevParse gitRevParseGrammar rest
      else if subcommand = ''branch'' then gitBranch req repo rest
      else if subcommand = ''add'' then gitAdd req repo rest
      else if subcommand = ''commit'' then gitCommit req repo rest
      else if subcommand \<in> {''checkout'', ''switch'', ''restore''} then gitCheckout req repo subcommand rest
      else if subcommand = ''reset'' then gitReset req repo rest
      else if subcommand = ''push'' then gitPush req repo rest
      else Unresolved req OpUnknown (''git '' @ subcommand @ '' is not a subcommand Intenter models''))"

text \<open>\<open>-C\<close> moves the command to another directory; a directory that cannot be resolved refuses it.\<close>

definition git_moved :: "resolve_request \<Rightarrow> word \<Rightarrow> resolve_request option" where
  "git_moved req repoDir =
     (if w_text repoDir = [] then Some req
      else case TargetFor req repoDir of
             None \<Rightarrow> None
           | Some t \<Rightarrow>
               if t_canonical t = [] then None
               else Some (req\<lparr>rr_command := (rr_command req)\<lparr>s_cwd := t_canonical t\<rparr>\<rparr>))"

definition git_Recognize :: "disk \<Rightarrow> resolve_request \<Rightarrow> resolved_command" where
  "git_Recognize d req =
     (case gitGlobalOptions zero_word [] (SimpleCommand_Args (rr_command req)) of
        (repoDir, found, unknown) \<Rightarrow>
          if unknown \<noteq> [] then
            Unresolved req OpUnknown
              (''the git global option '' @ strings_Join unknown '' '' @ '' changes what the command does'')
          else case found of
            Some (sub # rest) \<Rightarrow>
              (case git_moved req repoDir of
                 None \<Rightarrow> Unresolved req OpUnknown ''git -C names a directory Intenter cannot resolve''
               | Some req' \<Rightarrow> git_dispatch req' (gitRepositoryFor d req') (w_text sub) rest)
          | _ \<Rightarrow> Unresolved req OpUnknown ''git was called without a subcommand'')"

definition GitRecognizer :: "disk \<Rightarrow> recognizer" where
  "GitRecognizer d = ([''git''], git_Recognize d)"

section \<open>What the subcommands report\<close>

lemma rc_git_kept [simp]:
  "rc_git (set_effects x c) = rc_git c" "rc_git (set_targets y c) = rc_git c" "rc_git (set_status st r c) = rc_git c"
  "rc_git (set_executable n c) = rc_git c" "rc_git (set_raw_text n c) = rc_git c" "rc_git (degrade c reason) = rc_git c"
  "rc_git (appendTarget t c) = rc_git c" "rc_git (addEffect k fs t c) = rc_git c" "rc_git (set_git g c) = g"
  by (simp_all add: set_defs degrade_def appendTarget_def addEffect_def Let_def set_git_def)

lemma set_git_sels [simp]:
  "rc_effects (set_git g c) = rc_effects c" "rc_status (set_git g c) = rc_status c"
  "rc_semantic_op (set_git g c) = rc_semantic_op c"
  by (simp_all add: set_git_def)

lemma degrade_op [simp]: "rc_semantic_op (degrade c reason) = rc_semantic_op c"
  by (simp add: degrade_def)

lemma add_path_effect_sels [simp]:
  "rc_git (add_path_effect req path k fs c) = rc_git c"
  "rc_semantic_op (add_path_effect req path k fs c) = rc_semantic_op c"
  "rc_status (add_path_effect req path k fs c) = rc_status c"
  "rc_effects (add_path_effect req path k fs c) =
     rc_effects c @ (case PathTarget req path of None \<Rightarrow> [] | Some t \<Rightarrow> [file_effect_for k fs t])"
  by (simp_all add: add_path_effect_def split: option.split)

lemma append_effect_sels [simp]:
  "rc_effects (append_effect e c) = rc_effects c @ [e]" "rc_git (append_effect e c) = rc_git c"
  "rc_semantic_op (append_effect e c) = rc_semantic_op c" "rc_status (append_effect e c) = rc_status c"
  by (simp_all add: append_effect_def)

lemma addHookEffect_sels:
  "rc_git (addHookEffect repo op skipped c) = rc_git c"
  "rc_semantic_op (addHookEffect repo op skipped c) = rc_semantic_op c"
  "set (rc_effects c) \<subseteq> set (rc_effects (addHookEffect repo op skipped c))"
  by (auto simp: addHookEffect_def split: option.split)

lemma addHookEffect_status:
  "hookRunning repo op skipped \<noteq> None \<Longrightarrow> unmodelled (rc_status (addHookEffect repo op skipped c))"
  by (auto simp: addHookEffect_def degrade_def unmodelled_WeakerStatus)

lemma hookRunning_found:
  "hook \<in> set (HooksForOperation op) \<Longrightarrow> HasHook (gr_info repo) hook \<Longrightarrow> hook \<notin> set skipped \<Longrightarrow>
   hookRunning repo op skipped \<noteq> None"
  by (auto simp: hookRunning_def find_None_iff)

lemma addEffects_op [simp]: "rc_semantic_op (addEffects req k fs ws c) = rc_semantic_op c"
proof -
  have "rc_semantic_op (foldl (\<lambda>c t. addEffect k fs t c) c ts) = rc_semantic_op c" for ts
    by (induction ts arbitrary: c) simp_all
  then show ?thesis by (simp add: addEffects_def)
qed

text \<open>A push reports one network effect with its flags and the branch it updates, or it is not modelled.\<close>

lemma gitPush_reports:
  assumes "scan = Scan gitPushGrammar args" and "refspecs = drop 1 (ar_operands scan)"
  shows "unmodelled (rc_status (gitPush req repo args)) \<or>
    (\<exists>e \<in> set (rc_effects (gitPush req repo args)). set (push_flags scan refspecs) \<subseteq> set (e_flags e)) \<and>
    rc_semantic_op (gitPush req repo args) = OpGitPush \<and>
    (\<exists>remote. rc_git (gitPush req repo args) =
       Some \<lparr>g_remote = remote, g_branch = (case gitPushBranch repo refspecs of None \<Rightarrow> [] | Some b \<Rightarrow> b),
             g_branch_known = (gitPushBranch repo refspecs \<noteq> None)\<rparr>)"
proof (cases "gitRemoteHost repo (case ar_operands scan of [] \<Rightarrow> ''origin'' | w # _ \<Rightarrow> w_text w)")
  case None
  then show ?thesis by (simp add: gitPush_def git_refused_def assms(1) [symmetric] Let_def unmodelled_def)
next
  case (Some host)
  show ?thesis
  proof (cases "args_OK scan")
    case False
    then show ?thesis by (simp add: gitPush_def git_refused_def assms(1) [symmetric] Let_def unmodelled_def)
  next
    case True
    let ?skipped = "if args_Has scan ''--no-verify'' then [''pre-push''] else []"
    let ?x = "push_effect host (push_flags scan refspecs)"
    obtain out where out: "gitPush req repo args = addHookEffect repo OpGitPush ?skipped out" "?x \<in> set (rc_effects out)"
        "rc_semantic_op out = OpGitPush" "\<exists>remote. rc_git out = Some \<lparr>g_remote = remote,
          g_branch = (case gitPushBranch repo refspecs of None \<Rightarrow> [] | Some b \<Rightarrow> b),
          g_branch_known = (gitPushBranch repo refspecs \<noteq> None)\<rparr>"
      using Some True assms by (simp add: gitPush_def Let_def addGitDirEffect_def)
    moreover have "set (push_flags scan refspecs) \<subseteq> set (e_flags ?x)" by (auto simp: push_effect_def)
    ultimately show ?thesis using addHookEffect_sels [where repo = repo and op = OpGitPush and skipped = ?skipped and c = out] by auto
  qed
qed

text \<open>Checking out or resetting over uncommitted work is reported as such.\<close>

definition discards :: "string \<Rightarrow> word list \<Rightarrow> bool" where
  "discards subcommand rest =
     (subcommand = ''reset'' \<and> HasAny (Scan gitResetGrammar rest) [''--hard'', ''--merge'', ''--keep''] \<or>
      subcommand = ''restore'' \<or>
      subcommand \<in> {''checkout'', ''switch''} \<and>
        (HasAny (Scan gitCheckoutGrammar rest) [''-f'', ''--force'', ''--discard-changes''] \<or> hasPathspecSeparator rest))"

lemma git_dispatch_discards:
  assumes "discards subcommand rest" and "PathTarget req (gr_root repo) = Some t"
  shows "unmodelled (rc_status (git_dispatch req repo subcommand rest)) \<or>
    rc_semantic_op (git_dispatch req repo subcommand rest) \<in> {OpGitCheckout, OpGitReset} \<and>
    (\<exists>e \<in> set (rc_effects (git_dispatch req repo subcommand rest)). EffectFlagDiscardsChanges \<in> set (e_flags e))"
proof -
  have flag: "EffectFlagDiscardsChanges \<in> set (e_flags (file_effect_for k [EffectFlagDiscardsChanges] t))" for k
    using file_effect_for_flags [of "[EffectFlagDiscardsChanges]" k t] by auto
  consider (reset) "subcommand = ''reset''" "HasAny (Scan gitResetGrammar rest) [''--hard'', ''--merge'', ''--keep'']"
    | (checkout) "subcommand \<in> {''checkout'', ''switch'', ''restore''}"
      "HasAny (Scan gitCheckoutGrammar rest) [''-f'', ''--force'', ''--discard-changes''] \<or> subcommand = ''restore'' \<or>
       hasPathspecSeparator rest"
    using assms(1) by (auto simp: discards_def)
  then show ?thesis
  proof cases
    case reset
    then show ?thesis
      using assms(2) flag
      by (auto simp: git_dispatch_def gitReset_def git_refused_def Let_def addRepoEffect_def addGitDirEffect_def unmodelled_def)
  next
    case checkout
    let ?F = "[EffectFlagDiscardsChanges]"
    define out where "out = addGitDirEffect req repo EffectWrite []
        (addEffects req EffectWrite ?F (gitPathspecs rest) (addRepoEffect req repo EffectWrite ?F (resolved req OpGitCheckout)))"
    have "git_dispatch req repo subcommand rest = gitCheckout req repo subcommand rest"
      using checkout(1) by (auto simp: git_dispatch_def)
    also have "\<dots> = (if args_OK (Scan gitCheckoutGrammar rest) then addHookEffect repo OpGitCheckout [] out
        else git_refused req OpGitCheckout (Scan gitCheckoutGrammar rest) subcommand)"
      using checkout(2) by (simp add: gitCheckout_def Let_def out_def)
    finally have d: "git_dispatch req repo subcommand rest = (if args_OK (Scan gitCheckoutGrammar rest)
        then addHookEffect repo OpGitCheckout [] out else git_refused req OpGitCheckout (Scan gitCheckoutGrammar rest) subcommand)" .
    have "\<exists>e \<in> set (rc_effects out). EffectFlagDiscardsChanges \<in> set (e_flags e)"
      using assms(2) flag by (auto simp: out_def addRepoEffect_def addGitDirEffect_def)
    moreover have "rc_semantic_op out = OpGitCheckout"
      by (simp add: out_def addGitDirEffect_def addRepoEffect_def addEffects_op)
    ultimately show ?thesis
      unfolding d using addHookEffect_sels(2,3) [where repo = repo and op = OpGitCheckout and skipped = "[]" and c = out] by (auto simp: git_refused_def unmodelled_def)
  qed
qed

end
