(* ===== verification/Resolver_Npm.thy ===== *)
theory Resolver_Npm
  imports Fingerprints Resolver_Git
begin

text \<open>
  \<^verbatim>\<open>internal/resolver/npm.go\<close> and \<^verbatim>\<open>pkgmgr.go\<close>: the JavaScript package managers. A script is resolved to the
  commands it runs through the script resolver of the request, and the files that decided the outcome
  are fingerprinted. Decoding \<^verbatim>\<open>package.json\<close> is a parameter (\<open>encoding/json\<close>), as are the disk and the hash.
\<close>

section \<open>The package manager of a workspace\<close>

record packageManifest =
  mf_scripts :: "string \<rightharpoonup> string"
  mf_package_manager :: string

text \<open>Decoding into the manifest, with the decoder's message on failure, and into the one field
  \<open>packageManager\<close>.\<close>

record package_json =
  pj_manifest :: "string \<Rightarrow> string + packageManifest"
  pj_package_manager :: "string \<Rightarrow> string option"

definition isYarnBerryVersion :: "string \<Rightarrow> bool" where
  "isYarnBerryVersion version =
     (let version = TrimSpace version; major = before version ''.'' in
      version \<noteq> [] \<and> major \<noteq> [] \<and> major \<noteq> ''0'' \<and> major \<noteq> ''1'')"

definition readPackageManagerField :: "disk \<Rightarrow> package_json \<Rightarrow> string \<Rightarrow> string" where
  "readPackageManagerField d pj workspace =
     (case readConfigFile d (filepath_Join [workspace, ''package.json'']) of
        Inl _ \<Rightarrow> []
      | Inr raw \<Rightarrow> (case pj_package_manager pj raw of None \<Rightarrow> [] | Some v \<Rightarrow> v))"

text \<open>The kind the field declares, when it names a manager the code knows.\<close>

definition declared_kind :: "string \<Rightarrow> package_manager_kind option" where
  "declared_kind declared =
     (if declared = [] then None
      else let (name, version) = (case strings_Cut declared ''@'' of None \<Rightarrow> (declared, []) | Some p \<Rightarrow> p);
               name = ToLower (TrimSpace name)
           in if name = ''yarn'' then Some (if isYarnBerryVersion version then PMYarnBerry else PMYarnClassic)
              else if name = ''pnpm'' then Some PMPnpm
              else if name = ''npm'' then Some PMNpm
              else None)"

definition detectManagerKind :: "disk \<Rightarrow> package_json \<Rightarrow> string \<Rightarrow> package_manager_kind" where
  "detectManagerKind d pj workspace =
     (if workspace = [] then PMUnknown
      else if marker_exists d (filepath_Join [workspace, ''.yarnrc.yml'']) then PMYarnBerry
      else case declared_kind (readPackageManagerField d pj workspace) of
             Some kind \<Rightarrow> kind
           | None \<Rightarrow>
               if marker_exists d (filepath_Join [workspace, ''pnpm-lock.yaml'']) then PMPnpm
               else if marker_exists d (filepath_Join [workspace, ''yarn.lock'']) then PMYarnClassic
               else if marker_exists d (filepath_Join [workspace, ''package-lock.json'']) then PMNpm
               else if marker_exists d (filepath_Join [workspace, ''npm-shrinkwrap.json'']) then PMNpm
               else if marker_exists d (filepath_Join [workspace, ''package.json'']) then PMNpm
               else PMUnknown)"

text \<open>The loop of the two key readers over the lines: the first line that assigns the key.\<close>

fun key_value :: "string list \<Rightarrow> string \<Rightarrow> string \<Rightarrow> string list \<Rightarrow> string" where
  "key_value comments sep key [] = []"
| "key_value comments sep key (raw # lines) =
     (let line = TrimSpace raw in
      if line = [] \<or> (\<exists>c \<in> set comments. HasPrefix line c) then key_value comments sep key lines
      else case strings_Cut line sep of
             None \<Rightarrow> key_value comments sep key lines
           | Some (name, v) \<Rightarrow>
               if EqualFold (TrimSpace name) key then Trim (TrimSpace v) [CHR 0x22, CHR 0x27]
               else key_value comments sep key lines)"

definition readYarnrcKey :: "disk \<Rightarrow> string \<Rightarrow> string \<Rightarrow> string" where
  "readYarnrcKey d path key =
     (case readConfigFile d path of
        Inl _ \<Rightarrow> []
      | Inr content \<Rightarrow> key_value [''#''] '':'' key (scan_lines 65536 content))"

definition readNpmrcKey :: "disk \<Rightarrow> string \<Rightarrow> string \<Rightarrow> string" where
  "readNpmrcKey d path key =
     (case readConfigFile d path of
        Inl _ \<Rightarrow> []
      | Inr content \<Rightarrow> key_value [''#'', '';''] ''='' key (scan_lines 65536 content))"

definition detectScriptShell :: "disk \<Rightarrow> string \<Rightarrow> string \<Rightarrow> string \<times> string" where
  "detectScriptShell d workspace home =
     (let candidates = (if workspace \<noteq> [] then [filepath_Join [workspace, ''.npmrc'']] else []) @
                       (if home \<noteq> [] then [filepath_Join [home, ''.npmrc'']] else [])
      in case find (\<lambda>path. readNpmrcKey d path ''script-shell'' \<noteq> []) candidates of
           None \<Rightarrow> ([], [])
         | Some path \<Rightarrow> (readNpmrcKey d path ''script-shell'', path))"

definition readYarnPath :: "disk \<Rightarrow> string \<Rightarrow> string" where
  "readYarnPath d workspace =
     (if workspace = [] then [] else readYarnrcKey d (filepath_Join [workspace, ''.yarnrc.yml'']) ''yarnPath'')"

definition readPnpmFile :: "disk \<Rightarrow> string \<Rightarrow> string" where
  "readPnpmFile d workspace =
     (if workspace = [] then []
      else let name = readNpmrcKey d (filepath_Join [workspace, ''.npmrc'']) ''pnpmfile'';
               name = (if name = [] then ''.pnpmfile.cjs'' else name)
           in if marker_exists d (filepath_Join [workspace, name]) then name else [])"

definition DetectPackageManager :: "disk \<Rightarrow> package_json \<Rightarrow> string \<Rightarrow> string \<Rightarrow> package_manager_info" where
  "DetectPackageManager d pj workspace home =
     \<lparr>pm_kind = detectManagerKind d pj workspace, pm_script_shell = fst (detectScriptShell d workspace home),
      pm_script_shell_source = snd (detectScriptShell d workspace home), pm_yarn_path = readYarnPath d workspace,
      pm_pnpm_file = readPnpmFile d workspace\<rparr>"

definition shellDialect :: "string \<Rightarrow> dialect option" where
  "shellDialect shell =
     (let trimmed = Trim shell [CHR 0x22, CHR 0x27];
          trimmed = rev (takeWhile (\<lambda>c. c \<notin> {CHR ''/'', CHR 0x5C}) (rev trimmed));
          base = TrimSuffix (ToLower trimmed) ''.exe''
      in if base \<in> {''sh'', ''bash'', ''zsh'', ''dash''} then Some DialectPosix
         else if base \<in> {''pwsh'', ''powershell''} then Some DialectPowerShell
         else if base = ''cmd'' then Some DialectCmd
         else None)"

definition ScriptDialects :: "package_manager_info \<Rightarrow> string \<Rightarrow> dialect list option" where
  "ScriptDialects info hostOS =
     (if pm_script_shell info \<noteq> [] then map_option (\<lambda>d. [d]) (shellDialect (pm_script_shell info))
      else if pm_kind info = PMYarnBerry then Some [DialectPosix]
      else if hostOS = ''windows'' then Some [DialectCmd, DialectPosix]
      else Some [DialectPosix])"

section \<open>Tables\<close>

definition npmInstallSubcommands :: "string list" where
  "npmInstallSubcommands =
     [''install'', ''i'', ''ci'', ''add'', ''update'', ''up'', ''upgrade'', ''uninstall'', ''remove'', ''rm'',
      ''install-test'', ''it'']"

definition npmLifecycleScripts :: "string \<rightharpoonup> string" where
  "npmLifecycleScripts =
     [''test'' \<mapsto> ''test'', ''t'' \<mapsto> ''test'', ''tst'' \<mapsto> ''test'', ''start'' \<mapsto> ''start'', ''stop'' \<mapsto> ''stop'',
      ''restart'' \<mapsto> ''restart'']"

definition npmBuiltins :: "string list" where
  "npmBuiltins =
     [''access'', ''adduser'', ''audit'', ''bin'', ''bugs'', ''cache'', ''config'', ''create'', ''dedupe'',
      ''deprecate'', ''dist-tag'', ''docs'', ''doctor'', ''edit'', ''explore'', ''fund'', ''help'', ''hook'',
      ''info'', ''init'', ''link'', ''list'', ''login'', ''logout'', ''ls'', ''org'', ''outdated'', ''owner'',
      ''pack'', ''patch'', ''ping'', ''prefix'', ''profile'', ''prune'', ''publish'', ''rebuild'', ''repo'',
      ''root'', ''search'', ''set'', ''star'', ''store'', ''team'', ''token'', ''unlink'', ''unpublish'',
      ''unstar'', ''version'', ''view'', ''whoami'', ''why'', ''workspace'', ''workspaces'', ''import'',
      ''licenses'', ''env'', ''server'', ''setup'']"

definition npmWorkspaceFlags :: "string list" where
  "npmWorkspaceFlags =
     [''-w'', ''--workspace'', ''--workspaces'', ''--filter'', ''-r'', ''--recursive'', ''--if-present'',
      ''--include-workspace-root'', ''-F'']"

definition npmDirectoryFlags :: "string list" where
  "npmDirectoryFlags = [''--prefix'', ''-C'', ''--dir'', ''--cwd'']"

definition npmConfigOverrideFlags :: "string list" where
  "npmConfigOverrideFlags = [''--userconfig'', ''--globalconfig'', ''--script-shell'', ''--registry'']"

definition npmExecSafeFlags :: "string list" where
  "npmExecSafeFlags = [''-y'', ''--yes'', ''--no-install'']"

section \<open>Helpers\<close>

definition npmManagerName :: "string \<Rightarrow> string" where
  "npmManagerName executable =
     foldl TrimSuffix (ToLower (Base (ReplaceAll executable [CHR 0x5C] ''/''))) [''.exe'', ''.cmd'', ''.bat'', ''.ps1'']"

definition npmPackageManagerInfo :: "resolve_request \<Rightarrow> package_manager_info" where
  "npmPackageManagerInfo req =
     (case Option.bind (rr_context req) rx_action of None \<Rightarrow> no_package_manager | Some a \<Rightarrow> cx_package_manager a)"

definition npmHostOS :: "resolve_request \<Rightarrow> string" where
  "npmHostOS req = (case Option.bind (rr_context req) rx_action of None \<Rightarrow> [] | Some a \<Rightarrow> cx_platform a)"

definition npmWordTexts :: "word list \<Rightarrow> string list" where
  "npmWordTexts ws = map w_text ws"

definition npmPassthrough :: "word list \<Rightarrow> string" where
  "npmPassthrough rest = strings_Join (npmWordTexts (drop 1 (dropWhile (\<lambda>w. w_text w \<noteq> ''--'') rest))) '' ''"

abbreviation before_separator :: "word list \<Rightarrow> word list" where
  "before_separator ws \<equiv> takeWhile (\<lambda>w. w_text w \<noteq> ''--'') ws"

definition npmFlagPresent :: "word list \<Rightarrow> string list \<Rightarrow> string option" where
  "npmFlagPresent rest flags =
     find (\<lambda>name. name \<in> set flags) (map (\<lambda>w. before (w_text w) ''='') (before_separator rest))"

definition npmHasFlag :: "word list \<Rightarrow> string \<Rightarrow> bool" where
  "npmHasFlag rest flag = (\<exists>w \<in> set (before_separator rest). w_text w = flag)"

definition npmLocalBinaryExists :: "disk \<Rightarrow> string \<Rightarrow> bool" where
  "npmLocalBinaryExists d binary =
     (\<exists>p \<in> set [binary, binary @ ''.cmd'', binary @ ''.ps1'', binary @ ''.exe'']. Lstat (dk_fs d) p \<noteq> None)"

function climb_package :: "disk \<Rightarrow> string \<Rightarrow> string \<Rightarrow> string option" where
  "climb_package d root current =
     (if marker_exists d (filepath_Join [current, ''package.json''])
      then Some (filepath_Join [current, ''package.json''])
      else if current = root then None
      else if Dir current = current \<or> length (Dir current) < length root then None
      else climb_package d root (Dir current))"
  by pat_completeness auto
termination
  by (relation "measure (\<lambda>(d, root, current). climb_measure current)") (auto intro: Dir_climbs)

declare climb_package.simps [simp del]

definition nearestPackageJSON :: "disk \<Rightarrow> string \<Rightarrow> string \<Rightarrow> string option" where
  "nearestPackageJSON d dir workspace =
     (let current = canonicalize_disk d dir; root = canonicalize_disk d workspace in
      if current = [] \<or> root = [] then None else climb_package d root current)"

definition readPackageManifest :: "disk \<Rightarrow> package_json \<Rightarrow> string \<Rightarrow> string + packageManifest" where
  "readPackageManifest d pj path =
     (case readConfigFile d path of
        Inl err \<Rightarrow> Inl err
      | Inr content \<Rightarrow>
          (case pj_manifest pj content of Inl err \<Rightarrow> Inl (''invalid JSON: '' @ err) | Inr m \<Rightarrow> Inr m))"

definition npmScriptStages :: "packageManifest \<Rightarrow> string \<Rightarrow> string list" where
  "npmScriptStages manifest scriptName =
     (if mf_scripts manifest (''pre'' @ scriptName) \<noteq> None then [''pre'' @ scriptName] else []) @ [scriptName] @
     (if mf_scripts manifest (''post'' @ scriptName) \<noteq> None then [''post'' @ scriptName] else [])"

section \<open>Scripts\<close>

definition set_fingerprints :: "fingerprint list \<Rightarrow> resolved_command \<Rightarrow> resolved_command" where
  "set_fingerprints x c = ResolvedCommand (rc_executable c) (rc_semantic_op c) (rc_targets c) (rc_effects c) (rc_status c)
     (rc_status_reason c) x (rc_resolved_from c) (rc_children c) (rc_raw_text c) (rc_git c)"

definition set_children :: "resolved_command list \<Rightarrow> resolved_command \<Rightarrow> resolved_command" where
  "set_children x c = ResolvedCommand (rc_executable c) (rc_semantic_op c) (rc_targets c) (rc_effects c) (rc_status c)
     (rc_status_reason c) (rc_fingerprints c) (rc_resolved_from c) x (rc_raw_text c) (rc_git c)"

abbreviation add_fingerprints :: "fingerprint list \<Rightarrow> resolved_command \<Rightarrow> resolved_command" where
  "add_fingerprints fs out \<equiv> set_fingerprints (MergeFingerprints (rc_fingerprints out) fs) out"

definition absorb :: "resolved_command \<Rightarrow> resolved_command \<Rightarrow> resolved_command" where
  "absorb out child =
     (let out = set_effects (rc_effects out @ rc_effects child) out;
          out = foldl (\<lambda>out t. appendTarget t out) out (rc_targets child);
          out = add_fingerprints (rc_fingerprints child) out
      in set_status (WeakerStatus (rc_status out) (rc_status child))
           (if rc_status_reason out = [] \<and> rc_status child \<noteq> StatusResolved then rc_status_reason child
            else rc_status_reason out) out)"

definition npmAbsorbChildren :: "resolved_command \<Rightarrow> resolved_command" where
  "npmAbsorbChildren out = foldl absorb out (rc_children out)"

text \<open>The commands of a resolved script become children, its status weakens the status.\<close>

definition add_script :: "script_result \<Rightarrow> string \<Rightarrow> resolved_command \<Rightarrow> resolved_command" where
  "add_script result from out =
     (let out = set_children (rc_children out @ sr_commands result) out;
          out = set_resolved_from (rc_resolved_from out @ [from]) out
      in if sr_status result \<noteq> StatusUnset \<and> sr_status result \<noteq> StatusResolved
         then set_status (WeakerStatus (rc_status out) (sr_status result))
                (if rc_status_reason out = [] then sr_status_reason result else rc_status_reason out) out
         else out)"

definition npm_stage ::
    "(string \<Rightarrow> string) \<Rightarrow> resolve_request \<Rightarrow> string \<Rightarrow> packageManifest \<Rightarrow> string \<Rightarrow> string \<Rightarrow> dialect list \<Rightarrow> string \<Rightarrow>
     string \<Rightarrow> resolved_command \<Rightarrow> string \<Rightarrow> resolved_command" where
  "npm_stage sha req manager manifest relative scriptName dialects manifestDir passthrough out stage =
     (let defined = (case mf_scripts manifest stage of None \<Rightarrow> [] | Some t \<Rightarrow> t);
          t = (if stage = scriptName \<and> passthrough \<noteq> [] then defined @ '' '' @ passthrough else defined);
          out = add_fingerprints [TextFingerprint sha (NpmScriptKey relative stage) defined
                  (relative @ '' script '' @ stage)] out;
          label = manager @ '' run '' @ stage;
          result = ResolveScript req
            \<lparr>sx_text = t, sx_cwd = manifestDir, sx_dialects = dialects, sx_label = label, sx_key = relative @ ''#'' @ stage\<rparr>
      in add_script result (label @ '' -> '' @ t) out)"

definition npm_flag_refusal :: "resolve_request \<Rightarrow> semantic_op \<Rightarrow> word list \<Rightarrow> resolved_command option" where
  "npm_flag_refusal req op rest =
     (case npmFlagPresent rest npmWorkspaceFlags of
        Some flag \<Rightarrow>
          Some (Unresolved req op (flag @ '' selects another workspace package, which Intenter does not model''))
      | None \<Rightarrow>
          (case npmFlagPresent rest npmDirectoryFlags of
             Some flag \<Rightarrow>
               Some (Unresolved req op (flag @ '' changes which project's manifest is used, which Intenter does not model''))
           | None \<Rightarrow>
               (case npmFlagPresent rest npmConfigOverrideFlags of
                  Some flag \<Rightarrow>
                    Some (Unresolved req op
                      (flag @ '' overrides npm configuration Intenter reads from disk, which Intenter does not model''))
                | None \<Rightarrow> None)))"

definition npmRunScript ::
    "disk \<Rightarrow> package_json \<Rightarrow> (string \<Rightarrow> string) \<Rightarrow> resolve_request \<Rightarrow> string \<Rightarrow> string \<Rightarrow> word list \<Rightarrow> resolved_command" where
  "npmRunScript d pj sha req manager scriptName rest =
     (case npm_flag_refusal req OpRunScript rest of
        Some refused' \<Rightarrow> refused'
      | None \<Rightarrow>
          if Workspace req = []
          then Unresolved req OpRunScript ''no workspace root was established for this request''
          else case nearestPackageJSON d (s_cwd (rr_command req)) (Workspace req) of
            None \<Rightarrow> Unresolved req OpRunScript
                      ''no package.json was found between the working directory and the workspace root''
          | Some manifestPath \<Rightarrow>
              (case readPackageManifest d pj manifestPath of
                 Inl err \<Rightarrow> Unresolved req OpRunScript (''package.json could not be read: '' @ err)
               | Inr manifest \<Rightarrow>
                   let relative = relativeKey (Workspace req) manifestPath;
                       info = npmPackageManagerInfo req in
                   if InChain req (relative @ ''#'' @ scriptName)
                   then Unresolved req OpRunScript (''the '' @ scriptName @ '' script calls itself in a loop'')
                   else if mf_scripts manifest scriptName = None
                   then Unresolved req OpRunScript (relative @ '' defines no '' @ go_quote scriptName @ '' script'')
                   else case ScriptDialects info (npmHostOS req) of
                     None \<Rightarrow> Unresolved req OpRunScript
                               (''the configured script-shell '' @ go_quote (pm_script_shell info) @
                                '' is not a shell Intenter understands'')
                   | Some dialects \<Rightarrow>
                       let out = add_fingerprints
                                   [ValueFingerprint sha NpmScriptShellKey (pm_script_shell info) ''npm script-shell'',
                                    ValueFingerprint sha NpmPackageManagerKey (mf_package_manager manifest)
                                      ''package.json packageManager'']
                                   (resolved req OpRunScript)
                       in npmAbsorbChildren
                            (foldl (npm_stage sha req manager manifest relative scriptName dialects (Dir manifestPath)
                                      (npmPassthrough rest)) out (npmScriptStages manifest scriptName))))"

section \<open>Installation\<close>

definition registry_effect :: effect where
  "registry_effect =
     \<lparr>e_type = EffectNetwork, e_target = None,
      e_network = Some \<lparr>n_host = [], n_port = 0, n_scheme = [], n_method = [], n_declared_kind = ''dependency-registry''\<rparr>,
      e_program = None, e_flags = []\<rparr>"

abbreviation npm_lockfiles :: "string list" where
  "npm_lockfiles \<equiv> [''package-lock.json'', ''pnpm-lock.yaml'', ''yarn.lock'', ''npm-shrinkwrap.json'']"

definition npmInstall ::
    "disk \<Rightarrow> resolve_request \<Rightarrow> string \<Rightarrow> string \<Rightarrow> word list \<Rightarrow> resolved_command" where
  "npmInstall d req manager subcommand rest =
     (case npm_flag_refusal req OpInstallDependencies rest of
        Some refused' \<Rightarrow> refused'
      | None \<Rightarrow>
          if Workspace req = []
          then Unresolved req OpInstallDependencies ''no workspace root was established for this request''
          else case nearestPackageJSON d (s_cwd (rr_command req)) (Workspace req) of
            None \<Rightarrow> Unresolved req OpInstallDependencies
                      ''no package.json was found between the working directory and the workspace root''
          | Some manifestPath \<Rightarrow>
              let manifestDir = Dir manifestPath;
                  out = set_status StatusDeclared [] (resolved req OpInstallDependencies);
                  out = append_effect registry_effect out;
                  out = (case PathTarget req (filepath_Join [manifestDir, ''node_modules'']) of
                           None \<Rightarrow> out
                         | Some t \<Rightarrow> addEffect EffectWrite [EffectFlagRecursive] t
                                      (addEffect EffectCreate [EffectFlagRecursive] t out));
                  out = add_path_effect req manifestPath EffectWrite [] out;
                  out = foldl (\<lambda>out path. add_path_effect req path EffectWrite [] out) out
                          (filter (marker_exists d) (map (\<lambda>f. filepath_Join [manifestDir, f]) npm_lockfiles))
              in if npmHasFlag rest ''--ignore-scripts'' then out
                 else degrade (append_effect (execute_effect (manager @ '' lifecycle scripts'') False) out)
                        (manager @ '' '' @ subcommand @
                         '' runs the lifecycle scripts of every installed package; --ignore-scripts avoids that''))"

section \<open>Local binaries\<close>

text \<open>The package name and its arguments after the options, an option that is not modelled, or neither.\<close>

fun exec_words :: "bool \<Rightarrow> word list \<Rightarrow> string + (word \<times> word list) option" where
  "exec_words ended [] = Inr None"
| "exec_words ended (w # ws) =
     (if \<not> ended \<and> w_text w = ''--'' then exec_words True ws
      else if \<not> ended \<and> isOption (w_text w) then
        (if before (w_text w) ''='' \<in> set npmExecSafeFlags then exec_words ended ws else Inl (w_text w))
      else Inr (Some (w, ws)))"

definition npmExec :: "disk \<Rightarrow> resolve_request \<Rightarrow> string \<Rightarrow> word list \<Rightarrow> resolved_command" where
  "npmExec d req label rest =
     (case exec_words False rest of
        Inl flag \<Rightarrow> Unresolved req OpUnknown (label @ '' '' @ flag @ '' is a flag Intenter does not model'')
      | Inr None \<Rightarrow> Unresolved req OpUnknown (label @ '' was called without a package'')
      | Inr (Some (name, invocation)) \<Rightarrow>
          if Workspace req = []
          then Unresolved req OpUnknown ''no workspace root was established for this request''
          else case nearestPackageJSON d (s_cwd (rr_command req)) (Workspace req) of
            None \<Rightarrow> Unresolved req OpUnknown
                      ''no package.json was found between the working directory and the workspace root''
          | Some manifestPath \<Rightarrow>
              let binary = filepath_Join [Dir manifestPath, ''node_modules'', ''.bin'', w_text name] in
              if \<not> npmLocalBinaryExists d binary
              then Unresolved req OpUnknown
                     (label @ '' '' @ w_text name @ '' would download and run a package that is not installed locally'')
              else
                let t = strings_Join (npmWordTexts (name # invocation)) '' '';
                    result = ResolveScript req
                      \<lparr>sx_text = t, sx_cwd = s_cwd (rr_command req), sx_dialects = [rr_dialect req],
                       sx_label = label @ '' '' @ w_text name, sx_key = ''exec:'' @ binary\<rparr>
                in npmAbsorbChildren
                     (add_script result (label @ '' '' @ w_text name @ '' -> '' @ t) (resolved req OpRunScript)))"

section \<open>The recognizer\<close>

definition npm_subcommand ::
    "disk \<Rightarrow> package_json \<Rightarrow> (string \<Rightarrow> string) \<Rightarrow> resolve_request \<Rightarrow> string \<Rightarrow> string \<Rightarrow> word list \<Rightarrow> resolved_command" where
  "npm_subcommand d pj sha req manager subcommand rest =
     (if subcommand \<in> set npmInstallSubcommands then npmInstall d req manager subcommand rest
      else if subcommand = ''exec'' \<or> subcommand = ''dlx'' then npmExec d req (manager @ '' '' @ subcommand) rest
      else if subcommand = ''run'' \<or> subcommand = ''run-script'' then
        (case rest of
           [] \<Rightarrow> Unresolved req OpRunScript (manager @ '' run was called without a script name'')
         | name # words \<Rightarrow> npmRunScript d pj sha req manager (w_text name) words)
      else case npmLifecycleScripts subcommand of
             Some script \<Rightarrow> npmRunScript d pj sha req manager script rest
           | None \<Rightarrow>
               if subcommand \<notin> set npmBuiltins \<and> (manager = ''pnpm'' \<or> manager = ''yarn'')
               then npmRunScript d pj sha req manager subcommand rest
               else Unresolved req OpUnknown
                      (manager @ '' '' @ subcommand @ '' is not a subcommand Intenter models''))"

definition npm_Recognize ::
    "disk \<Rightarrow> package_json \<Rightarrow> (string \<Rightarrow> string) \<Rightarrow> resolve_request \<Rightarrow> resolved_command" where
  "npm_Recognize d pj sha req =
     (let manager = npmManagerName (SimpleCommand_Name (rr_command req));
          info = npmPackageManagerInfo req
      in if manager = ''yarn'' \<and> pm_yarn_path info \<noteq> [] then
           Unresolved req OpUnknown
             (''.yarnrc.yml pins yarn to '' @ pm_yarn_path info @
              '', a project-supplied implementation Intenter cannot model'')
         else if manager = ''pnpm'' \<and> pm_pnpm_file info \<noteq> [] then
           Unresolved req OpUnknown
             (pm_pnpm_file info @
              '' hooks run on every pnpm command regardless of --ignore-scripts, and Intenter cannot model what they do'')
         else if manager = ''npx'' then npmExec d req ''npx'' (SimpleCommand_Args (rr_command req))
         else case SimpleCommand_Args (rr_command req) of
                [] \<Rightarrow> Unresolved req OpUnknown (manager @ '' was called without a subcommand'')
              | sub # rest \<Rightarrow> npm_subcommand d pj sha req manager (w_text sub) rest)"

definition NpmRecognizer :: "disk \<Rightarrow> package_json \<Rightarrow> (string \<Rightarrow> string) \<Rightarrow> recognizer" where
  "NpmRecognizer d pj sha = ([''npm'', ''pnpm'', ''yarn'', ''npx''], npm_Recognize d pj sha)"

section \<open>A script is at least what its commands are\<close>

lemma set_fingerprints_sels [simp]:
  "rc_executable (set_fingerprints x c) = rc_executable c" "rc_semantic_op (set_fingerprints x c) = rc_semantic_op c"
  "rc_targets (set_fingerprints x c) = rc_targets c" "rc_effects (set_fingerprints x c) = rc_effects c"
  "rc_status (set_fingerprints x c) = rc_status c" "rc_status_reason (set_fingerprints x c) = rc_status_reason c"
  "rc_children (set_fingerprints x c) = rc_children c" "rc_fingerprints (set_fingerprints x c) = x"
  by (simp_all add: set_fingerprints_def)

lemma set_children_sels [simp]:
  "rc_effects (set_children x c) = rc_effects c" "rc_status (set_children x c) = rc_status c"
  "rc_children (set_children x c) = x" "rc_status_reason (set_children x c) = rc_status_reason c"
  "rc_fingerprints (set_children x c) = rc_fingerprints c"
  by (simp_all add: set_children_def)

lemma other_children [simp]:
  "rc_children (set_resolved_from x c) = rc_children c" "rc_children (resolved req op) = []"
  "rc_children (appendTarget t c) = rc_children c"
  by (simp_all add: set_resolved_from_def resolved_def appendTarget_def)

lemma foldl_appendTarget [simp]:
  "rc_effects (foldl (\<lambda>out t. appendTarget t out) c ts) = rc_effects c"
  "rc_status (foldl (\<lambda>out t. appendTarget t out) c ts) = rc_status c"
  "rc_children (foldl (\<lambda>out t. appendTarget t out) c ts) = rc_children c"
  by (induction ts arbitrary: c) simp_all

lemma absorb_sels [simp]:
  "rc_effects (absorb c child) = rc_effects c @ rc_effects child"
  "rc_status (absorb c child) = WeakerStatus (rc_status c) (rc_status child)"
  by (simp_all add: absorb_def Let_def)

lemma npmAbsorbChildren_effects:
  "rc_effects (npmAbsorbChildren c) = rc_effects c @ concat (map rc_effects (rc_children c))"
proof -
  have "rc_effects (foldl absorb c cs) = rc_effects c @ concat (map rc_effects cs)" for cs
    by (induction cs arbitrary: c) simp_all
  then show ?thesis by (simp add: npmAbsorbChildren_def)
qed

lemma npmAbsorbChildren_status:
  "unmodelled (rc_status (npmAbsorbChildren c)) \<longleftrightarrow>
   unmodelled (rc_status c) \<or> (\<exists>child \<in> set (rc_children c). unmodelled (rc_status child))"
proof -
  have "unmodelled (rc_status (foldl absorb c cs)) \<longleftrightarrow>
      unmodelled (rc_status c) \<or> (\<exists>child \<in> set cs. unmodelled (rc_status child))" for cs
    by (induction cs arbitrary: c) (auto simp: unmodelled_WeakerStatus)
  then show ?thesis by (simp add: npmAbsorbChildren_def)
qed

lemma add_script_sels:
  "rc_children (add_script r from c) = rc_children c @ sr_commands r"
  "unmodelled (rc_status (add_script r from c)) \<longleftrightarrow> unmodelled (rc_status c) \<or> unmodelled (sr_status r)"
proof -
  have "unmodelled (sr_status r) \<Longrightarrow> sr_status r \<noteq> StatusUnset \<and> sr_status r \<noteq> StatusResolved"
    by (auto simp: unmodelled_def)
  then show "unmodelled (rc_status (add_script r from c)) \<longleftrightarrow> unmodelled (rc_status c) \<or> unmodelled (sr_status r)"
    by (auto simp: add_script_def Let_def unmodelled_WeakerStatus)
qed (simp add: add_script_def Let_def)

lemma add_script_effects: "rc_effects (add_script r from c) = rc_effects c"
  by (simp add: add_script_def Let_def)

text \<open>The script a stage of a run hands to the script resolver.\<close>

definition stage_script ::
    "string \<Rightarrow> packageManifest \<Rightarrow> string \<Rightarrow> string \<Rightarrow> dialect list \<Rightarrow> string \<Rightarrow> string \<Rightarrow> string \<Rightarrow> script" where
  "stage_script manager manifest relative scriptName dialects manifestDir passthrough stage =
     (let defined = (case mf_scripts manifest stage of None \<Rightarrow> [] | Some t \<Rightarrow> t) in
      \<lparr>sx_text = (if stage = scriptName \<and> passthrough \<noteq> [] then defined @ '' '' @ passthrough else defined),
       sx_cwd = manifestDir, sx_dialects = dialects, sx_label = manager @ '' run '' @ stage,
       sx_key = relative @ ''#'' @ stage\<rparr>)"

lemma npm_stage_alt:
  "npm_stage sha req manager manifest relative scriptName dialects manifestDir passthrough out stage =
     (let s = stage_script manager manifest relative scriptName dialects manifestDir passthrough stage in
      add_script (ResolveScript req s) (sx_label s @ '' -> '' @ sx_text s)
        (add_fingerprints [TextFingerprint sha (NpmScriptKey relative stage)
           (case mf_scripts manifest stage of None \<Rightarrow> [] | Some t \<Rightarrow> t) (relative @ '' script '' @ stage)] out))"
  by (simp add: npm_stage_def stage_script_def Let_def)

lemma foldl_npm_stage:
  fixes manager relative scriptName manifestDir passthrough :: string and manifest :: packageManifest
    and dialects :: "dialect list" and sha :: "string \<Rightarrow> string" and req :: resolve_request
  defines "script \<equiv> stage_script manager manifest relative scriptName dialects manifestDir passthrough"
    and "run \<equiv> npm_stage sha req manager manifest relative scriptName dialects manifestDir passthrough"
  shows "rc_children (foldl run out stages) =
      rc_children out @ concat (map (\<lambda>stage. sr_commands (ResolveScript req (script stage))) stages)"
    and "unmodelled (rc_status (foldl run out stages)) \<longleftrightarrow>
      unmodelled (rc_status out) \<or> (\<exists>stage \<in> set stages. unmodelled (sr_status (ResolveScript req (script stage))))"
  by (induction stages arbitrary: out)
    (auto simp: run_def script_def npm_stage_alt Let_def add_script_sels)

end
