(* ===== verification/Resolver_Build.thy ===== *)
theory Resolver_Build
  imports Resolver_Npm
begin

text \<open>
  \<^verbatim>\<open>internal/resolver/gradle.go\<close>, \<^verbatim>\<open>maven.go\<close> and \<^verbatim>\<open>jstest.go\<close>: tools that run project code. They are declared
  rather than resolved: the recognizer states the envelope such a run acts in and fingerprints the
  files that could change it. The memo of fingerprints within one request is transparent
  (\<open>Context_Builder\<close>), so the recognizers compute the fingerprint directly.
\<close>

section \<open>The declared envelope\<close>

definition requestHome :: "resolve_request \<Rightarrow> string" where
  "requestHome req = (case Option.bind (rr_context req) rx_action of None \<Rightarrow> [] | Some a \<Rightarrow> cx_home_dir a)"

record buildEnvelope =
  be_generated_dirs :: "string list"
  be_tool_cache :: string
  be_clean :: bool

definition declared_program :: "string \<Rightarrow> effect" where
  "declared_program name =
     \<lparr>e_type = EffectExecute, e_target = None, e_network = None,
      e_program = Some \<lparr>p_name = name, p_resolution = ProgramDeclared, p_elevated = False, p_streamed = False\<rparr>,
      e_flags = []\<rparr>"

definition generated_dir :: "resolve_request \<Rightarrow> bool \<Rightarrow> resolved_command \<Rightarrow> string \<Rightarrow> resolved_command" where
  "generated_dir req clean out dir =
     (case PathTarget req dir of
        None \<Rightarrow> out
      | Some t \<Rightarrow>
          let out = addEffect EffectWrite [EffectFlagRecursive] t (addEffect EffectCreate [EffectFlagRecursive] t out)
          in if clean then addEffect EffectDelete [EffectFlagRecursive] t out else out)"

definition declareBuildEnvelope ::
    "resolve_request \<Rightarrow> string \<Rightarrow> buildEnvelope \<Rightarrow> resolved_command \<Rightarrow> resolved_command" where
  "declareBuildEnvelope req workspace envelope out =
     (let out = add_path_effect req workspace EffectRead [EffectFlagRecursive] out;
          out = foldl (generated_dir req (be_clean envelope)) out (be_generated_dirs envelope);
          out = (if be_tool_cache envelope = [] \<or> requestHome req = [] then out
                 else case PathTarget req (filepath_Join [requestHome req, be_tool_cache envelope]) of
                        None \<Rightarrow> out
                      | Some t \<Rightarrow> addEffect EffectWrite [EffectFlagRecursive] t
                                   (addEffect EffectRead [EffectFlagRecursive] t out))
      in append_effect (declared_program (displayName (rc_executable out))) (append_effect registry_effect out))"

definition build_op_rank :: "semantic_op \<Rightarrow> int" where
  "build_op_rank op =
     (if op = OpClean then 1 else if op = OpRunTests then 2 else if op = OpBuild then 3 else 0)"

definition strongerBuildOp :: "semantic_op \<Rightarrow> semantic_op \<Rightarrow> semantic_op" where
  "strongerBuildOp a b = (if build_op_rank b > build_op_rank a then b else a)"

text \<open>A system property given with or without a value.\<close>

definition unsafe_property :: "string list \<Rightarrow> string \<Rightarrow> string option" where
  "unsafe_property properties word = find (\<lambda>p. word = p \<or> HasPrefix word (p @ ''='')) properties"

definition first_unsafe :: "string list \<Rightarrow> word list \<Rightarrow> string option" where
  "first_unsafe properties ws =
     Option.bind (find (\<lambda>w. unsafe_property properties (w_text w) \<noteq> None) ws)
       (\<lambda>w. unsafe_property properties (w_text w))"

text \<open>The operation and whether an output is cleaned, from the tasks in order; an unknown task is named.\<close>

fun build_ops ::
    "(string \<Rightarrow> semantic_op option) \<Rightarrow> word list \<Rightarrow> semantic_op \<Rightarrow> bool \<Rightarrow> string + (semantic_op \<times> bool)" where
  "build_ops task_op [] op cleans = Inr (op, cleans)"
| "build_ops task_op (w # ws) op cleans =
     (case task_op (w_text w) of
        None \<Rightarrow> Inl (w_text w)
      | Some t \<Rightarrow> build_ops task_op ws (strongerBuildOp op t) (cleans \<or> t = OpClean))"

section \<open>Gradle\<close>

definition gradleTaskOps :: "string \<rightharpoonup> semantic_op" where
  "gradleTaskOps =
     [''test'' \<mapsto> OpRunTests, ''check'' \<mapsto> OpRunTests, ''integrationTest'' \<mapsto> OpRunTests, ''build'' \<mapsto> OpBuild,
      ''assemble'' \<mapsto> OpBuild, ''classes'' \<mapsto> OpBuild, ''jar'' \<mapsto> OpBuild, ''bootJar'' \<mapsto> OpBuild, ''war'' \<mapsto> OpBuild,
      ''clean'' \<mapsto> OpClean, ''wrapper'' \<mapsto> OpBuildToolInfo, ''init'' \<mapsto> OpBuildToolInfo,
      ''dependencies'' \<mapsto> OpBuildToolInfo, ''tasks'' \<mapsto> OpBuildToolInfo, ''help'' \<mapsto> OpBuildToolInfo,
      ''projects'' \<mapsto> OpBuildToolInfo]"

definition gradleGrammar :: grammar where
  "gradleGrammar = empty_grammar\<lparr>
     Safe := [''--info'', ''--debug'', ''--stacktrace'', ''--full-stacktrace'', ''--no-daemon'',
              ''--daemon'', ''--offline'', ''--continue'', ''--rerun-tasks'', ''-q'', ''--quiet'',
              ''--parallel'', ''--no-parallel'', ''--build-cache'', ''--no-build-cache'',
              ''--configuration-cache'', ''--no-configuration-cache'',
              ''--refresh-dependencies'', ''-S'', ''-i'', ''-d'', ''--scan'', ''--no-scan'',
              ''--dry-run'', ''-m'', ''--no-rebuild'', ''-a'', ''--console''],
     SafeValue := [''--tests'', ''-x'', ''--exclude-task'', ''--max-workers''],
     SafeOptionalValue := [''--warning-mode'', ''--console'', ''--priority''],
     SafePrefixes := [''-P'', ''-D'']\<rparr>"

definition gradleUnsafeSystemProperties :: "string list" where
  "gradleUnsafeSystemProperties =
     [''-Dorg.gradle.jvmargs'', ''-Duser.home'', ''-Dgradle.user.home'',
      ''-Dorg.gradle.java.home'', ''-Dorg.gradle.project.buildDir'',
      ''-Dhttp.proxyHost'', ''-Dhttp.proxyPort'', ''-Dhttp.proxyUser'', ''-Dhttp.proxyPassword'',
      ''-Dhttps.proxyHost'', ''-Dhttps.proxyPort'', ''-Dhttps.proxyUser'', ''-Dhttps.proxyPassword'',
      ''-Dsocks.proxyHost'', ''-Dsocks.proxyPort'',
      ''-Djavax.net.ssl.trustStore'', ''-Djavax.net.ssl.trustStorePassword'', ''-Djavax.net.ssl.trustStoreType'']"

definition gradleUnsafeProperty :: "string \<Rightarrow> string option" where
  "gradleUnsafeProperty word = unsafe_property gradleUnsafeSystemProperties word"

text \<open>The text after the last colon, and the text before it when there is one.\<close>

definition after_colon :: "string \<Rightarrow> string" where
  "after_colon t = rev (takeWhile (\<lambda>c. c \<noteq> CHR '':'') (rev t))"

definition before_colon :: "string \<Rightarrow> string option" where
  "before_colon t = (if CHR '':'' \<in> set t then Some (take (length t - length (after_colon t) - 1) t) else None)"

definition gradleTaskOp :: "string \<Rightarrow> semantic_op option" where
  "gradleTaskOp task =
     (let name = after_colon task in
      if name = [] then None
      else case gradleTaskOps name of
             Some op \<Rightarrow> Some op
           | None \<Rightarrow>
               if HasSuffix name ''Test'' then Some OpRunTests
               else if HasPrefix name ''compile'' then Some OpBuild
               else None)"

definition gradleModulePath :: "string \<Rightarrow> string \<Rightarrow> string option" where
  "gradleModulePath workspace task =
     (case before_colon task of
        None \<Rightarrow> None
      | Some b \<Rightarrow>
          if b = [] then None
          else let segments = strings_Split (Trim b '':'') '':''
               in if segments = [] \<or> hd segments = [] then None else Some (filepath_Join (workspace # segments)))"

definition gradleGeneratedDirs :: "string \<Rightarrow> word list \<Rightarrow> string list" where
  "gradleGeneratedDirs workspace tasks =
     [filepath_Join [workspace, ''build''], filepath_Join [workspace, ''.gradle'']] @
     map (\<lambda>m. filepath_Join [m, ''build'']) (List.map_filter (\<lambda>w. gradleModulePath workspace (w_text w)) tasks)"

fun included_build :: "disk \<Rightarrow> string list \<Rightarrow> string + bool" where
  "included_build d [] = Inr False"
| "included_build d (path # paths) =
     (if \<not> marker_exists d path then included_build d paths
      else case readConfigFile d path of
             Inl err \<Rightarrow> Inl err
           | Inr content \<Rightarrow> if strings_Contains content ''includeBuild'' then Inr True else included_build d paths)"

definition gradleHasIncludedBuild :: "disk \<Rightarrow> string \<Rightarrow> string + bool" where
  "gradleHasIncludedBuild d workspace =
     included_build d [filepath_Join [workspace, ''settings.gradle''], filepath_Join [workspace, ''settings.gradle.kts'']]"

definition gradle_Recognize :: "disk \<Rightarrow> (string \<Rightarrow> string) \<Rightarrow> resolve_request \<Rightarrow> resolved_command" where
  "gradle_Recognize d sha req =
     (let args = scanned gradleGrammar req; workspace = Workspace req in
      case first_unsafe gradleUnsafeSystemProperties (SimpleCommand_Args (rr_command req)) of
        Some property \<Rightarrow> Unresolved req OpUnknown (property @ '' changes where Gradle reads and writes'')
      | None \<Rightarrow>
          if \<not> args_OK args then refused req OpUnknown args
          else if ar_operands args = [] then Unresolved req OpUnknown ''gradle was called without a task''
          else if workspace = [] then Unresolved req OpUnknown ''no workspace root was established for this request''
          else case gradleHasIncludedBuild d workspace of
            Inl err \<Rightarrow> Unresolved req OpUnknown (''the Gradle settings file could not be read: '' @ err)
          | Inr True \<Rightarrow> Unresolved req OpUnknown
              ''the settings file declares an included build (includeBuild), whose directory Intenter does not read or fingerprint''
          | Inr False \<Rightarrow>
              (case build_ops gradleTaskOp (ar_operands args) OpBuildToolInfo False of
                 Inl task \<Rightarrow> Unresolved req OpUnknown
                   (''the Gradle task '' @ go_quote task @ '' is not one Intenter models'')
               | Inr (op, cleans) \<Rightarrow>
                   let out = set_semantic_op op (set_status StatusDeclared [] (resolved req OpBuildToolInfo));
                       out = declareBuildEnvelope req workspace
                         \<lparr>be_generated_dirs = gradleGeneratedDirs workspace (ar_operands args),
                          be_tool_cache = ''.gradle'', be_clean = cleans\<rparr> out
                   in case GradleConfigFingerprint d sha workspace (requestHome req) of
                        Inl err \<Rightarrow> Unresolved req op (''the Gradle build files could not be fingerprinted: '' @ err)
                      | Inr f \<Rightarrow> add_fingerprints [f] out))"

section \<open>Maven\<close>

definition mavenGoalOps :: "string \<rightharpoonup> semantic_op" where
  "mavenGoalOps =
     [''test'' \<mapsto> OpRunTests, ''verify'' \<mapsto> OpRunTests, ''integration-test'' \<mapsto> OpRunTests,
      ''surefire:test'' \<mapsto> OpRunTests, ''compile'' \<mapsto> OpBuild, ''test-compile'' \<mapsto> OpBuild,
      ''package'' \<mapsto> OpBuild, ''install'' \<mapsto> OpBuild, ''validate'' \<mapsto> OpBuildToolInfo, ''clean'' \<mapsto> OpClean,
      ''dependency:tree'' \<mapsto> OpBuildToolInfo, ''dependency:list'' \<mapsto> OpBuildToolInfo,
      ''dependency:analyze'' \<mapsto> OpBuildToolInfo]"

definition mavenGrammar :: grammar where
  "mavenGrammar = empty_grammar\<lparr>
     Safe := [''-q'', ''--quiet'', ''-B'', ''--batch-mode'', ''-e'', ''--errors'', ''-X'', ''--debug'',
              ''-o'', ''--offline'', ''-U'', ''--update-snapshots'', ''-am'', ''--also-make'',
              ''-amd'', ''--also-make-dependents'', ''-ntp'', ''--no-transfer-progress'',
              ''-V'', ''--show-version'', ''-C'', ''--strict-checksums'', ''-c'', ''--lax-checksums'',
              ''-fae'', ''--fail-at-end'', ''-ff'', ''--fail-fast'', ''-fn'', ''--fail-never'',
              ''-N'', ''--non-recursive'', ''-o''],
     SafeValue := [''-pl'', ''--projects'', ''-T'', ''--threads'', ''-rf'', ''--resume-from''],
     SafePrefixes := [''-D'', ''-P'']\<rparr>"

definition mavenUnsafeSystemProperties :: "string list" where
  "mavenUnsafeSystemProperties =
     [''-Dmaven.repo.local'', ''-Duser.home'', ''-Dmaven.home'',
      ''-Dhttp.proxyHost'', ''-Dhttp.proxyPort'', ''-Dhttp.proxyUser'', ''-Dhttp.proxyPassword'',
      ''-Dhttps.proxyHost'', ''-Dhttps.proxyPort'', ''-Dhttps.proxyUser'', ''-Dhttps.proxyPassword'',
      ''-Dmaven.wagon.http.ssl.insecure'', ''-Dmaven.wagon.http.ssl.allowall'',
      ''-Dmaven.wagon.http.ssl.ignore.validity.dates'']"

definition mavenGoalOp :: "string \<Rightarrow> semantic_op option" where
  "mavenGoalOp goal =
     (case mavenGoalOps goal of
        Some op \<Rightarrow> Some op
      | None \<Rightarrow>
          if HasPrefix goal ''failsafe:'' then Some OpRunTests
          else if HasPrefix goal ''help:'' \<or> HasPrefix goal ''versions:display'' then Some OpBuildToolInfo
          else None)"

definition mavenGeneratedDirs :: "disk \<Rightarrow> string \<Rightarrow> string list" where
  "mavenGeneratedDirs d workspace =
     filepath_Join [workspace, ''target''] #
     (case CollectFiles d \<lparr>fo_roots = [workspace], fo_files = [], fo_match = (\<lambda>name. name = ''pom.xml''),
                           fo_skip = skipBuildConfigDir workspace\<rparr> of
        Inl _ \<Rightarrow> []
      | Inr modules \<Rightarrow> map (\<lambda>pom. filepath_Join [Dir pom, ''target'']) modules)"

definition maven_Recognize :: "disk \<Rightarrow> (string \<Rightarrow> string) \<Rightarrow> resolve_request \<Rightarrow> resolved_command" where
  "maven_Recognize d sha req =
     (let args = scanned mavenGrammar req; workspace = Workspace req in
      case first_unsafe mavenUnsafeSystemProperties (SimpleCommand_Args (rr_command req)) of
        Some property \<Rightarrow> Unresolved req OpUnknown (property @ '' changes where Maven reads and writes'')
      | None \<Rightarrow>
          if \<not> args_OK args then refused req OpUnknown args
          else if ar_operands args = [] then Unresolved req OpUnknown ''mvn was called without a goal''
          else if workspace = [] then Unresolved req OpUnknown ''no workspace root was established for this request''
          else case build_ops mavenGoalOp (ar_operands args) OpBuildToolInfo False of
            Inl goal \<Rightarrow> Unresolved req OpUnknown
              (''the Maven goal '' @ go_quote goal @ '' is not one Intenter models'')
          | Inr (op, cleans) \<Rightarrow>
              let installs = (\<exists>w \<in> set (ar_operands args). w_text w = ''install'');
                  out = set_semantic_op op (set_status StatusDeclared [] (resolved req OpBuildToolInfo));
                  out = declareBuildEnvelope req workspace
                    \<lparr>be_generated_dirs = mavenGeneratedDirs d workspace,
                     be_tool_cache = (if installs then ''.m2'' else []), be_clean = cleans\<rparr> out;
                  out = (if installs \<or> requestHome req = [] then out
                         else add_path_effect req (filepath_Join [requestHome req, ''.m2'']) EffectRead
                                [EffectFlagRecursive] out)
              in case MavenConfigFingerprint d sha workspace (requestHome req) of
                   Inl err \<Rightarrow> Unresolved req op (''the Maven build files could not be fingerprinted: '' @ err)
                 | Inr f \<Rightarrow> add_fingerprints [f] out)"

section \<open>JavaScript test runners\<close>

definition declareTestEnvelope :: "resolve_request \<Rightarrow> string \<Rightarrow> resolved_command \<Rightarrow> resolved_command" where
  "declareTestEnvelope req workspace out =
     (let out = add_path_effect req workspace EffectRead [EffectFlagRecursive] out;
          out = foldl (generated_dir req False) out
                  (map (\<lambda>dir. filepath_Join [workspace, dir])
                     [''coverage'', ''node_modules/.cache'', ''.vitest'', ''.jest-cache''])
      in append_effect (declared_program (displayName (rc_executable out))) out)"

definition jsTestGrammar :: grammar where
  "jsTestGrammar = empty_grammar\<lparr>
     Safe := [''--coverage'', ''--no-coverage'', ''--ci'', ''--silent'', ''--verbose'',
              ''--watch=false'', ''--no-watch'', ''--run'', ''--bail'', ''--passWithNoTests'',
              ''--colors'', ''--no-colors'', ''--detectOpenHandles'', ''--forceExit'',
              ''--listTests'', ''--onlyChanged'', ''--changedSince'', ''--updateSnapshot'',
              ''-u'', ''--all'', ''--single-run'', ''--pool=threads'', ''--no-file-parallelism''],
     SafeValue := [''-t'', ''--testNamePattern'', ''--maxWorkers'', ''-w'', ''--workers'',
                   ''--shard'', ''--reporter'', ''--reporters'', ''--timeout'', ''--retries''],
     SafePrefixes := [''--reporter'', ''--testNamePattern'', ''--maxWorkers'', ''--shard''],
     SafeNumericShort := True\<rparr>"

definition jsTest_Recognize :: "resolve_request \<Rightarrow> resolved_command" where
  "jsTest_Recognize req =
     (let args = scanned jsTestGrammar req in
      if \<not> args_OK args then refused req OpRunTests args
      else if Workspace req = []
        then Unresolved req OpRunTests ''no workspace root was established for this request''
      else addEffects req EffectRead [EffectFlagRecursive]
             (filter (\<lambda>w. \<not> HasPrefix (w_text w) ''-'') (ar_operands args))
             (declareTestEnvelope req (Workspace req) (set_status StatusDeclared [] (resolved req OpRunTests))))"

definition node_Recognize :: "resolve_request \<Rightarrow> resolved_command" where
  "node_Recognize req =
     (let args = ArgTexts (rr_command req) in
      if args = [] \<or> hd args \<noteq> ''--test''
      then Unresolved req OpUnknown
             ''node runs a script Intenter has not read; only `node --test` is modeled''
      else if Workspace req = []
        then Unresolved req OpRunTests ''no workspace root was established for this request''
      else declareTestEnvelope req (Workspace req) (set_status StatusDeclared [] (resolved req OpRunTests)))"

definition rimrafGrammar :: grammar where
  "rimrafGrammar = empty_grammar\<lparr>
     Safe := [''-r'', ''--recursive'', ''-f'', ''--force'', ''-v'', ''--verbose'', ''-g'', ''--glob'',
              ''--no-glob'', ''--preserve-root'', ''--no-preserve-root'', ''--impl''],
     SafeValue := [''--max-retries'', ''--retry-delay'', ''--backoff'']\<rparr>"

definition rimraf_Recognize :: "resolve_request \<Rightarrow> resolved_command" where
  "rimraf_Recognize req =
     (let args = scanned rimrafGrammar req in
      if \<not> args_OK args then refused req OpFSDelete args
      else if ar_operands args = [] then Unresolved req OpFSDelete ''rimraf was called without a target''
      else addEffects req EffectDelete [EffectFlagRecursive, EffectFlagForce] (ar_operands args)
             (set_status StatusDeclared [] (resolved req OpFSDelete)))"

definition JSTestRecognizers :: "recognizer list" where
  "JSTestRecognizers =
     [([''jest'', ''vitest'', ''mocha''], jsTest_Recognize), ([''rimraf'', ''del-cli''], rimraf_Recognize),
      ([''node''], node_Recognize)]"

definition GradleRecognizer :: "disk \<Rightarrow> (string \<Rightarrow> string) \<Rightarrow> recognizer" where
  "GradleRecognizer d sha = ([''gradle'', ''gradlew'', ''gradlew.bat''], gradle_Recognize d sha)"

definition MavenRecognizer :: "disk \<Rightarrow> (string \<Rightarrow> string) \<Rightarrow> recognizer" where
  "MavenRecognizer d sha = ([''mvn'', ''mvnw'', ''mvnw.cmd''], maven_Recognize d sha)"

end
