(* ===== verification/Resolver_Curl.thy ===== *)
theory Resolver_Curl
  imports Resolver_Git
begin

text \<open>
  \<^verbatim>\<open>internal/resolver/curl.go\<close>: which hosts a curl command line contacts, with what method, and which files
  it reads and writes. \<open>net/url.Parse\<close> is the parameter \<open>url_parse\<close>: for a text it can read, the scheme,
  the host field, the host name and the port as written.
\<close>

record parsed_url =
  ur_scheme :: string
  ur_host :: string
  ur_hostname :: string
  ur_port :: string

type_synonym url_parser = "string \<Rightarrow> parsed_url option"

definition curlGrammar :: grammar where
  "curlGrammar = empty_grammar\<lparr>
     Safe := [''-s'', ''--silent'', ''-S'', ''--show-error'', ''-L'', ''--location'', ''-f'', ''--fail'',
              ''-v'', ''--verbose'', ''-i'', ''--include'', ''-I'', ''--head'', ''--compressed'',
              ''--http1.1'', ''--http2'', ''-4'', ''--ipv4'', ''-6'', ''--ipv6'',
              ''--fail-with-body'', ''-g'', ''--globoff'', ''-N'', ''--no-buffer'',
              ''-#'', ''--progress-bar'', ''--no-progress-meter'',
              ''-O'', ''--remote-name'', ''-J'', ''--remote-header-name'',
              ''-k'', ''--insecure'', ''--tlsv1.2'', ''--tlsv1.3''],
     SafeValue := [''-A'', ''--user-agent'', ''-e'', ''--referer'',
                   ''--retry'', ''--retry-delay'', ''--retry-max-time'', ''--max-time'',
                   ''--connect-timeout'', ''--proto'', ''--max-redirs''],
     SafePrefixes := [''--retry''],
     SemanticValue := [''-X'', ''--request'', ''-d'', ''--data'', ''--data-raw'', ''--data-binary'',
                       ''--data-urlencode'', ''--data-ascii'', ''--json'', ''-F'', ''--form'',
                       ''--form-string'', ''-T'', ''--upload-file'', ''-o'', ''--output'',
                       ''-u'', ''--user'', ''--oauth2-bearer'', ''-K'', ''--config'',
                       ''-H'', ''--header'', ''-w'', ''--write-out'',
                       ''-b'', ''--cookie'', ''-c'', ''--cookie-jar''],
     Cluster := True\<rparr>"

definition curlCredentialHeaders :: "string list" where
  "curlCredentialHeaders = [''authorization:'', ''proxy-authorization:'', ''cookie:'', ''x-api-key:'']"

definition curlHasCredentialHeader :: "args \<Rightarrow> bool" where
  "curlHasCredentialHeader args =
     (\<exists>header \<in> set (args_All args [''-H'', ''--header'']).
        \<exists>name \<in> set curlCredentialHeaders. HasPrefix (ToLower (TrimSpace (w_text header))) name)"

definition curlFormFile :: "string \<Rightarrow> string" where
  "curlFormFile v =
     (case strings_Cut v ''='' of
        None \<Rightarrow> []
      | Some (_, rest) \<Rightarrow>
          (case rest of
             [] \<Rightarrow> []
           | c # path \<Rightarrow> if c \<noteq> CHR ''@'' \<and> c \<noteq> CHR ''<'' then [] else Trim (before path '';'') [CHR 0x22]))"

definition curlDataURLEncodeFile :: "string \<Rightarrow> string" where
  "curlDataURLEncodeFile v =
     (if HasPrefix v ''='' then []
      else case strings_Cut v ''@'' of
             None \<Rightarrow> []
           | Some (name, rest) \<Rightarrow> if strings_Contains name ''='' then [] else rest)"

definition curlMethod :: "args \<Rightarrow> string" where
  "curlMethod args =
     (case find (args_Has args) [''-X'', ''--request''] of
        Some option' \<Rightarrow> ToUpper (w_text (args_Value args option'))
      | None \<Rightarrow>
          if HasAny args [''-T'', ''--upload-file''] then ''PUT''
          else if HasAny args [''-d'', ''--data'', ''--data-raw'', ''--data-binary'', ''--data-ascii'',
                               ''--data-urlencode'', ''--json'', ''-F'', ''--form'', ''--form-string''] then ''POST''
          else if HasAny args [''-I'', ''--head''] then ''HEAD''
          else ''GET'')"

definition parseCurlURL :: "url_parser \<Rightarrow> string \<Rightarrow> network_target option" where
  "parseCurlURL url_parse raw =
     (case url_parse (if strings_Contains raw ''://'' then raw else ''http://'' @ raw) of
        None \<Rightarrow> None
      | Some parsed \<Rightarrow>
          if ur_host parsed = [] then None
          else Some \<lparr>n_host = ur_hostname parsed,
                     n_port = (case Atoi (ur_port parsed) of None \<Rightarrow> 0 | Some n \<Rightarrow> n),
                     n_scheme = ur_scheme parsed, n_method = [], n_declared_kind = []\<rparr>)"

text \<open>The loop over the URLs: the effects so far, or the reason for the refusal.\<close>

fun curl_urls ::
    "url_parser \<Rightarrow> string \<Rightarrow> effect_flag list \<Rightarrow> word list \<Rightarrow> resolved_command \<Rightarrow> string + resolved_command" where
  "curl_urls url_parse method flags [] out = Inr out"
| "curl_urls url_parse method flags (w # ws) out =
     (if w_unexpanded w then Inl ''the URL depends on a variable Intenter cannot expand''
      else case parseCurlURL url_parse (w_text w) of
             None \<Rightarrow> Inl (''curl was given a URL Intenter cannot parse: '' @ w_text w)
           | Some t \<Rightarrow>
               curl_urls url_parse method flags ws
                 (append_effect
                    (effect_AddFlags \<lparr>e_type = EffectNetwork, e_target = None, e_network = Some (t\<lparr>n_method := method\<rparr>),
                                      e_program = None, e_flags = []\<rparr> flags) out))"

text \<open>The file a value names after an at sign.\<close>

definition at_file :: "string \<Rightarrow> string option" where
  "at_file v = Option.bind (strings_CutPrefix v ''@'') (\<lambda>path. if path = [] then None else Some path)"

definition curl_reads :: "args \<Rightarrow> word list" where
  "curl_reads args =
     args_All args [''-T'', ''--upload-file''] @
     map text_word (List.map_filter (\<lambda>w. at_file (w_text w))
       (args_All args [''-d'', ''--data'', ''--data-binary'', ''--data-ascii'', ''--json''])) @
     map text_word (filter (\<lambda>p. p \<noteq> [])
       (map (\<lambda>w. curlDataURLEncodeFile (w_text w)) (args_All args [''--data-urlencode'']))) @
     map text_word (filter (\<lambda>p. p \<noteq> []) (map (\<lambda>w. curlFormFile (w_text w)) (args_All args [''-F'', ''--form'']))) @
     map text_word (filter (\<lambda>p. p \<noteq> ''-'')
       (List.map_filter (\<lambda>w. at_file (w_text w)) (args_All args [''-w'', ''--write-out'']))) @
     filter (\<lambda>w. \<not> strings_Contains (w_text w) ''='' \<and> w_text w \<noteq> [] \<and> w_text w \<noteq> ''-'')
       (args_All args [''-b'', ''--cookie''])"

definition curl_write :: "target option \<Rightarrow> resolved_command \<Rightarrow> resolved_command" where
  "curl_write t out =
     (case t of None \<Rightarrow> out | Some t \<Rightarrow> addEffect EffectWrite [] t (addEffect EffectCreate [] t out))"

definition curl_Recognize :: "url_parser \<Rightarrow> resolve_request \<Rightarrow> resolved_command" where
  "curl_Recognize url_parse req =
     (let args = scanned curlGrammar req in
      if \<not> args_OK args then refused req OpHTTPRequest args
      else if HasAny args [''-K'', ''--config''] then
        Unresolved req OpHTTPRequest ''curl --config reads options from a file Intenter has not read''
      else if ar_operands args = [] then Unresolved req OpHTTPRequest ''curl was called without a URL''
      else
        let flags = flag_if (HasAny args [''-u'', ''--user'', ''--oauth2-bearer''] \<or> curlHasCredentialHeader args)
                      EffectFlagInlineCredential @
                    flag_if (HasAny args [''-k'', ''--insecure'']) EffectFlagInsecureTLS
        in case curl_urls url_parse (curlMethod args) flags (ar_operands args) (resolved req OpHTTPRequest) of
             Inl reason \<Rightarrow> Unresolved req OpHTTPRequest reason
           | Inr out \<Rightarrow>
               let out = addEffects req EffectRead [] (curl_reads args) out;
                   out = foldl (\<lambda>out w. curl_write (TargetFor req w) out) out
                           (not_stdin (args_All args [''-c'', ''--cookie-jar'', ''-o'', ''--output'']))
               in if HasAny args [''-O'', ''--remote-name'']
                  then curl_write (PathTarget req (s_cwd (rr_command req))) out else out)"

definition CurlRecognizer :: "url_parser \<Rightarrow> recognizer" where
  "CurlRecognizer url_parse = ([''curl''], curl_Recognize url_parse)"

end
