(* ===== verification/Context_Builder.thy ===== *)
theory Context_Builder
  imports Resolver_Npm Config
begin

text \<open>
  \<^verbatim>\<open>internal/resolver/context.go\<close>: the workspace a request is evaluated in. The builder keeps one path
  classifier per workspace root; the cache is explicit state. The platform supplies the directories and
  the path rules. The lemmas show that the workspace a context is built for is never the home directory,
  a directory that contains it, a file system root or a system location, and that the cache changes no
  answer while the configuration and the platform stay the same.
\<close>

record platform_info =
  pf_home :: string
  pf_temp :: string
  pf_data_dir :: string
  pf_config_dir :: string
  pf_runtime_dir :: string
  pf_os :: string
  pf_rules :: path_rules

record contextBuilder =
  cb_platform :: platform_info
  cb_config :: config
  cb_scope :: "string \<rightharpoonup> scope_context"

definition NewContextBuilder :: "platform_info \<Rightarrow> config \<Rightarrow> contextBuilder" where
  "NewContextBuilder p cfg = \<lparr>cb_platform = p, cb_config = cfg, cb_scope = Map.empty\<rparr>"

definition claudeSettingsPaths :: "contextBuilder \<Rightarrow> string \<Rightarrow> string list" where
  "claudeSettingsPaths b workspace =
     (let home = pf_home (cb_platform b) in
      (if home = [] then []
       else [recursivePattern (filepath_Join [home, ''.claude'']),
             filepath_Join [filepath_Join [home, ''.claude''], ''settings.json'']]) @
      (if workspace = [] then []
       else [filepath_Join [filepath_Join [workspace, ''.claude''], ''settings.json''],
             filepath_Join [filepath_Join [workspace, ''.claude''], ''settings.local.json'']]))"

definition sensitiveExtra :: "contextBuilder \<Rightarrow> string \<Rightarrow> string list" where
  "sensitiveExtra b workspace =
     (let p = cb_platform b in
      SelfProtectionPaths (pf_data_dir p) (pf_config_dir p) (pf_runtime_dir p) (claudeSettingsPaths b workspace) @
      SensitivePathsExtra (Policy (cb_config b)))"

text \<open>The classifier made for a workspace on first use.\<close>

definition fresh_scope :: "disk \<Rightarrow> contextBuilder \<Rightarrow> string \<Rightarrow> scope_context" where
  "fresh_scope d b workspace =
     NewContext (dk_fs d) (WithSensitive (pf_rules (cb_platform b)) (sensitiveExtra b workspace))
       (pf_home (cb_platform b)) workspace (pf_temp (cb_platform b)) (GeneratedDirsExtra (cb_config b))"

definition scopeContext :: "disk \<Rightarrow> contextBuilder \<Rightarrow> string \<Rightarrow> scope_context \<times> contextBuilder" where
  "scopeContext d b workspace =
     (case cb_scope b workspace of
        Some cached \<Rightarrow> (cached, b)
      | None \<Rightarrow> (fresh_scope d b workspace, b\<lparr>cb_scope := (cb_scope b)(workspace \<mapsto> fresh_scope d b workspace)\<rparr>))"

definition invalidWorkspaceReason :: "path_rules \<Rightarrow> string \<Rightarrow> string \<Rightarrow> string" where
  "invalidWorkspaceReason rules candidate home =
     (if IsRoot candidate then ''the working directory is a filesystem root''
      else if home \<noteq> [] \<and> EqualPath rules candidate home then ''the working directory is the home directory''
      else if home \<noteq> [] \<and> Under rules home candidate then ''the working directory contains the home directory''
      else if IsSystem rules candidate then ''the working directory is a system location''
      else [])"

text \<open>The workspace, or the reason why there is none.\<close>

definition findWorkspace :: "disk \<Rightarrow> path_rules \<Rightarrow> string \<Rightarrow> string \<Rightarrow> string \<Rightarrow> string + string" where
  "findWorkspace d rules cwd hint home =
     (let root = nearestGitRoot d cwd;
          candidate = (if root \<noteq> [] then root
                       else if hint \<noteq> [] \<and> Under rules cwd hint then hint else cwd)
      in if candidate = [] then Inl ''no working directory was reported''
         else if invalidWorkspaceReason rules candidate home \<noteq> []
           then Inl (invalidWorkspaceReason rules candidate home)
         else Inr candidate)"

definition undefined_context :: "platform_info \<Rightarrow> string \<Rightarrow> request_context" where
  "undefined_context p reason =
     \<lparr>cx_workspace_root = [], cx_project_id = [], cx_home_dir = pf_home p, cx_temp_dir = pf_temp p,
      cx_platform = pf_os p, cx_generated_roots = [], cx_git = None, cx_package_manager = no_package_manager,
      cx_status = ContextWorkspaceUndefined, cx_status_reason = reason\<rparr>"

definition workspace_context ::
    "disk \<Rightarrow> package_json \<Rightarrow> (string \<Rightarrow> string) \<Rightarrow> platform_info \<Rightarrow> scope_context \<Rightarrow> string \<Rightarrow> request_context" where
  "workspace_context d pj sha p sc workspace =
     \<lparr>cx_workspace_root = workspace, cx_project_id = ProjectID sha workspace, cx_home_dir = pf_home p,
      cx_temp_dir = pf_temp p, cx_platform = pf_os p, cx_generated_roots = GeneratedRoots (dk_fs d) sc,
      cx_git = ReadGitInfo d workspace (pf_home p),
      cx_package_manager = DetectPackageManager d pj workspace (pf_home p), cx_status = ContextOK,
      cx_status_reason = []\<rparr>"

definition context_Build ::
    "disk \<Rightarrow> package_json \<Rightarrow> (string \<Rightarrow> string) \<Rightarrow> contextBuilder \<Rightarrow> string \<Rightarrow> string \<Rightarrow>
     resolver_context \<times> contextBuilder" where
  "context_Build d pj sha b cwd projectHint =
     (let p = cb_platform b in
      case findWorkspace d (pf_rules p) (canonicalize_disk d cwd) (canonicalize_disk d projectHint) (pf_home p) of
        Inl reason \<Rightarrow>
          (let (sc, b) = scopeContext d b []
           in (\<lparr>rx_action = Some (undefined_context p reason), rx_scope = Some (dk_fs d, sc)\<rparr>, b))
      | Inr workspace \<Rightarrow>
          (let (sc, b) = scopeContext d b workspace
           in (\<lparr>rx_action = Some (workspace_context d pj sha p sc workspace), rx_scope = Some (dk_fs d, sc)\<rparr>, b)))"

section \<open>The memo of fingerprints\<close>

text \<open>\<open>Context.Fingerprint\<close>: the result of a computation is kept for the life of one request.\<close>

type_synonym fingerprint_memo = "string \<rightharpoonup> (string + fingerprint)"

definition context_Fingerprint ::
    "fingerprint_memo \<Rightarrow> string \<Rightarrow> (unit \<Rightarrow> string + fingerprint) \<Rightarrow> (string + fingerprint) \<times> fingerprint_memo" where
  "context_Fingerprint memo key compute =
     (case memo key of
        Some r \<Rightarrow> (r, memo)
      | None \<Rightarrow> (compute (), memo(key \<mapsto> compute ())))"

text \<open>Within one request the disk does not change, so the memo returns what computing again would return.\<close>

lemma context_Fingerprint_transparent:
  assumes "\<forall>key r. memo key = Some r \<longrightarrow> r = compute key ()"
  shows "fst (context_Fingerprint memo key (compute key)) = compute key ()"
    and "\<forall>key' r. snd (context_Fingerprint memo key (compute key)) key' = Some r \<longrightarrow> r = compute key' ()"
  using assms by (auto simp: context_Fingerprint_def split: option.splits)

section \<open>The workspace is narrow\<close>

lemma nearestGitRoot_has_git:
  "nearestGitRoot d dir \<noteq> [] \<Longrightarrow> dk_stat d (filepath_Join [nearestGitRoot d dir, ''.git'']) \<noteq> None"
  by (induction d dir rule: nearestGitRoot.induct) (subst (asm) (2) nearestGitRoot.simps, subst nearestGitRoot.simps, auto split: if_splits)

lemma invalidWorkspaceReason_None:
  "invalidWorkspaceReason rules c home = [] \<longleftrightarrow>
     \<not> IsRoot c \<and> \<not> IsSystem rules c \<and> (home \<noteq> [] \<longrightarrow> \<not> Under rules home c \<and> \<not> EqualPath rules c home)"
  unfolding invalidWorkspaceReason_def by auto

lemma guarded_result:
  "(if c = [] then Inl a else if r c \<noteq> [] then Inl (r c) else Inr c) = Inr w \<Longrightarrow> w \<noteq> [] \<and> r w = []"
  by (auto split: if_splits)

lemma findWorkspace_valid:
  assumes "findWorkspace d rules cwd hint home = Inr workspace"
  shows "workspace \<noteq> []" and "\<not> IsRoot workspace" and "\<not> IsSystem rules workspace"
    and "home \<noteq> [] \<Longrightarrow> \<not> Under rules home workspace" and "home \<noteq> [] \<Longrightarrow> \<not> EqualPath rules workspace home"
proof -
  have "workspace \<noteq> [] \<and> invalidWorkspaceReason rules workspace home = []"
    using guarded_result [where r = "\<lambda>c. invalidWorkspaceReason rules c home", OF assms [unfolded findWorkspace_def Let_def]] by blast
  then show "workspace \<noteq> []" "\<not> IsRoot workspace" "\<not> IsSystem rules workspace"
      "home \<noteq> [] \<Longrightarrow> \<not> Under rules home workspace" "home \<noteq> [] \<Longrightarrow> \<not> EqualPath rules workspace home"
    by (simp_all add: invalidWorkspaceReason_None)
qed

section \<open>The cache is transparent\<close>

definition scopes_ok :: "disk \<Rightarrow> contextBuilder \<Rightarrow> bool" where
  "scopes_ok d b = (\<forall>w sc. cb_scope b w = Some sc \<longrightarrow> sc = fresh_scope d b w)"

lemma scopes_ok_New: "scopes_ok d (NewContextBuilder p cfg)"
  by (simp add: scopes_ok_def NewContextBuilder_def)

lemma fresh_scope_cache: "fresh_scope d (b\<lparr>cb_scope := m\<rparr>) w = fresh_scope d b w"
  by (simp add: fresh_scope_def sensitiveExtra_def claudeSettingsPaths_def)

lemma scopeContext_ok:
  assumes "scopes_ok d b"
  shows "fst (scopeContext d b w) = fresh_scope d b w" and "scopes_ok d (snd (scopeContext d b w))"
    and "cb_platform (snd (scopeContext d b w)) = cb_platform b" and "cb_config (snd (scopeContext d b w)) = cb_config b"
  using assms by (auto simp: scopeContext_def scopes_ok_def fresh_scope_cache split: option.splits)

end
