(* ===== verification/Script_Pipeline.thy ===== *)
theory Script_Pipeline
  imports Resolver_Pipeline Resolver_Build Resolver_Curl Context_Builder
begin

text \<open>
  From a command line to the scripts it runs: the registry with every recognizer of
  \<^verbatim>\<open>internal/resolver/dialect.go\<close>, what the script resolver keeps of the commands of a script, and what a
  package manager's command keeps of its scripts.
\<close>

section \<open>All recognizers\<close>

definition ToolRecognizers ::
    "disk \<Rightarrow> package_json \<Rightarrow> (string \<Rightarrow> string) \<Rightarrow> url_parser \<Rightarrow> recognizer list" where
  "ToolRecognizers d pj sha url =
     JSTestRecognizers @ [GitRecognizer d, NpmRecognizer d pj sha, GradleRecognizer d sha, MavenRecognizer d sha,
                          CurlRecognizer url]"

lemmas tool_defs =
  ToolRecognizers_def JSTestRecognizers_def GitRecognizer_def NpmRecognizer_def GradleRecognizer_def
  MavenRecognizer_def CurlRecognizer_def

lemma tools_leave_rm: "\<forall>(names, f) \<in> set (ToolRecognizers d pj sha url). ''rm'' \<notin> ToLower ` set names"
  by (simp add: tool_defs ToLower_def lower_char_def)

lemma registry_tools:
  "NewRecognizerRegistry (ToolRecognizers d pj sha url) ''git'' = Some (git_Recognize d)"
  "NewRecognizerRegistry (ToolRecognizers d pj sha url) ''npm'' = Some (npm_Recognize d pj sha)"
  "NewRecognizerRegistry (ToolRecognizers d pj sha url) ''pnpm'' = Some (npm_Recognize d pj sha)"
  "NewRecognizerRegistry (ToolRecognizers d pj sha url) ''yarn'' = Some (npm_Recognize d pj sha)"
  "NewRecognizerRegistry (ToolRecognizers d pj sha url) ''npx'' = Some (npm_Recognize d pj sha)"
  "NewRecognizerRegistry (ToolRecognizers d pj sha url) ''rimraf'' = Some rimraf_Recognize"
  "NewRecognizerRegistry (ToolRecognizers d pj sha url) ''curl'' = Some (curl_Recognize url)"
  by (simp_all add: NewRecognizerRegistry_def Register_def tool_defs ToLower_def lower_char_def)

lemma lookup_tools:
  "Registry_Lookup (NewRecognizerRegistry (ToolRecognizers d pj sha url)) ''git'' = Some (git_Recognize d)"
  "Registry_Lookup (NewRecognizerRegistry (ToolRecognizers d pj sha url)) ''npm'' = Some (npm_Recognize d pj sha)"
  "Registry_Lookup (NewRecognizerRegistry (ToolRecognizers d pj sha url)) ''pnpm'' = Some (npm_Recognize d pj sha)"
  "Registry_Lookup (NewRecognizerRegistry (ToolRecognizers d pj sha url)) ''yarn'' = Some (npm_Recognize d pj sha)"
  "Registry_Lookup (NewRecognizerRegistry (ToolRecognizers d pj sha url)) ''npx'' = Some (npm_Recognize d pj sha)"
  "Registry_Lookup (NewRecognizerRegistry (ToolRecognizers d pj sha url)) ''rimraf'' = Some rimraf_Recognize"
  "Registry_Lookup (NewRecognizerRegistry (ToolRecognizers d pj sha url)) ''curl'' = Some (curl_Recognize url)"
  by (rule Registry_Lookup_direct; simp add: registry_tools ToLower_def lower_char_def)+

lemma lookup_echo:
  "Registry_Lookup (NewRecognizerRegistry (ToolRecognizers d pj sha url)) ''echo'' = Some noop_Recognize"
  by (rule Registry_Lookup_direct)
    (simp_all add: NewRecognizerRegistry_def Register_def FilesystemRecognizers_def WindowsRecognizers_def tool_defs
      ToLower_def lower_char_def)

lemma manager_names:
  "npmManagerName ''npx'' = ''npx''"
  "npmManagerName ''npm'' = ''npm''" "npmManagerName ''pnpm'' = ''pnpm''" "npmManagerName ''yarn'' = ''yarn''"
  by code_simp+

section \<open>What the script resolver keeps\<close>

lemma script_commands_keeps:
  assumes "script_commands ex rec i cs r = (r', returned)"
  shows "set (sr_commands r) \<subseteq> set (sr_commands r')"
    and "unmodelled (sr_status r) \<Longrightarrow> unmodelled (sr_status r')"
    and "returned \<Longrightarrow> unmodelled (sr_status r')"
    and "\<not> returned \<Longrightarrow> j < length cs \<Longrightarrow> rec (i + j) (cs ! j) \<in> set (sr_commands r')"
proof -
  have "set (sr_commands r) \<subseteq> set (sr_commands r') \<and> (unmodelled (sr_status r) \<longrightarrow> unmodelled (sr_status r')) \<and>
      (returned \<longrightarrow> unmodelled (sr_status r')) \<and>
      (\<not> returned \<longrightarrow> (\<forall>j < length cs. rec (i + j) (cs ! j) \<in> set (sr_commands r')))"
    using assms
  proof (induction ex rec i cs r rule: script_commands.induct)
    case (2 ex rec i c cs r)
    show ?case
    proof (cases "ex i")
      case True
      with 2(2) show ?thesis by (auto simp: unmodelled_WeakerStatus)
    next
      case False
      have IH: "script_commands ex rec (i + 1) cs (r\<lparr>sr_commands := sr_commands r @ [rec i c]\<rparr>) = (r', returned)"
        using 2(2) False by simp
      from 2(1) [OF False IH] show ?thesis by (auto simp: less_Suc_eq_0_disj nth_Cons')
    qed
  qed simp
  then show "set (sr_commands r) \<subseteq> set (sr_commands r')"
    and "unmodelled (sr_status r) \<Longrightarrow> unmodelled (sr_status r')"
    and "returned \<Longrightarrow> unmodelled (sr_status r')"
    and "\<not> returned \<Longrightarrow> j < length cs \<Longrightarrow> rec (i + j) (cs ! j) \<in> set (sr_commands r')"
    by auto
qed

definition script_grows :: "script_result \<Rightarrow> script_result \<Rightarrow> bool" where
  "script_grows r r' = (set (sr_commands r) \<subseteq> set (sr_commands r') \<and> (unmodelled (sr_status r) \<longrightarrow> unmodelled (sr_status r')))"

lemma script_grows_trans: "script_grows a b \<Longrightarrow> script_grows b c \<Longrightarrow> script_grows a c"
  by (auto simp: script_grows_def)

lemma script_grows_refl: "script_grows r r"
  by (simp add: script_grows_def)

lemma script_grows_weaken: "script_grows r (weaken st reason r)"
  by (simp add: script_grows_def unmodelled_WeakerStatus)

declare script_dialects.simps(2) [simp del]

lemma script_dialects_step:
  obtains r2 where "script_grows r r2"
    and "script_dialects parse ex rec label (d # ds) r = r2 \<and> unmodelled (sr_status r2) \<or>
      script_dialects parse ex rec label (d # ds) r = script_dialects parse ex rec label ds r2 \<and>
      (\<forall>p j. parse d = Some p \<longrightarrow> j < length (pc_commands p) \<longrightarrow> rec d j (pc_commands p ! j) \<in> set (sr_commands r2))"
proof (cases "parse d")
  case None
  then have "script_dialects parse ex rec label (d # ds) r = script_dialects parse ex rec label ds
      (weaken StatusUnresolved (''no parser is available for the '' @ dialect_str d @ '' dialect'') r)"
    by (simp only: script_dialects.simps option.case)
  with None show ?thesis by (intro that [OF script_grows_weaken] disjI2 conjI) simp_all
next
  case (Some p)
  define r1 where "r1 = (if Parsed_OK p then r else weaken StatusParseFailed
      (label @ '' uses syntax Intenter does not interpret: '' @ strings_Join (UnsupportedSummary p) '', '') r)"
  obtain r2 returned where sc: "script_commands (ex d) (rec d) 0 (pc_commands p) r1 = (r2, returned)" by fastforce
  have "script_grows r r1" unfolding r1_def by (cases "Parsed_OK p") (simp_all only: if_True if_False script_grows_weaken script_grows_refl)
  moreover have "script_grows r1 r2" using script_commands_keeps(1,2) [OF sc] by (simp add: script_grows_def)
  ultimately have g: "script_grows r r2" by (rule script_grows_trans)
  have step: "script_dialects parse ex rec label (d # ds) r =
      (if returned then r2 else script_dialects parse ex rec label ds r2)"
    by (simp only: script_dialects.simps Some option.case r1_def [symmetric] sc Let_def prod.case)
  show ?thesis
  proof (rule that [OF g], cases returned)
    case True
    then show "script_dialects parse ex rec label (d # ds) r = r2 \<and> unmodelled (sr_status r2) \<or>
      script_dialects parse ex rec label (d # ds) r = script_dialects parse ex rec label ds r2 \<and>
      (\<forall>p j. parse d = Some p \<longrightarrow> j < length (pc_commands p) \<longrightarrow> rec d j (pc_commands p ! j) \<in> set (sr_commands r2))"
      unfolding step using script_commands_keeps(3) [OF sc] by simp
  next
    case False
    then show "script_dialects parse ex rec label (d # ds) r = r2 \<and> unmodelled (sr_status r2) \<or>
      script_dialects parse ex rec label (d # ds) r = script_dialects parse ex rec label ds r2 \<and>
      (\<forall>p j. parse d = Some p \<longrightarrow> j < length (pc_commands p) \<longrightarrow> rec d j (pc_commands p ! j) \<in> set (sr_commands r2))"
      unfolding step using script_commands_keeps(4) [OF sc False] Some by simp
  qed
qed

lemma script_dialects_grows: "script_grows r (script_dialects parse ex rec label ds r)"
proof (induction ds arbitrary: r)
  case (Cons d ds)
  show ?case by (rule script_dialects_step [of r parse ex rec label d ds]) (metis Cons script_grows_trans)
qed (simp add: script_grows_def)

lemma script_dialects_all:
  assumes "d \<in> set ds" and "parse d = Some p" and "j < length (pc_commands p)"
  shows "unmodelled (sr_status (script_dialects parse ex rec label ds r)) \<or>
    rec d j (pc_commands p ! j) \<in> set (sr_commands (script_dialects parse ex rec label ds r))"
  using assms(1)
proof (induction ds arbitrary: r)
  case (Cons d' ds)
  obtain r2 where r2: "script_dialects parse ex rec label (d' # ds) r = r2 \<and> unmodelled (sr_status r2) \<or>
      script_dialects parse ex rec label (d' # ds) r = script_dialects parse ex rec label ds r2 \<and>
      (\<forall>p j. parse d' = Some p \<longrightarrow> j < length (pc_commands p) \<longrightarrow> rec d' j (pc_commands p ! j) \<in> set (sr_commands r2))"
    by (rule script_dialects_step)
  have g: "script_grows r2 (script_dialects parse ex rec label ds r2)" by (rule script_dialects_grows)
  show ?case
  proof (cases "d = d'")
    case True
    with r2 assms(2,3) g show ?thesis by (auto simp: script_grows_def)
  next
    case False
    with Cons.prems have "d \<in> set ds" by simp
    with r2 Cons.IH [of r2] show ?thesis by auto
  qed
qed simp

text \<open>The request made of the \<open>k\<close>-th command of a script in one dialect.\<close>

definition script_request ::
    "resolver \<Rightarrow> resolver_context \<Rightarrow> position \<Rightarrow> int \<Rightarrow> string list \<Rightarrow> script \<Rightarrow> dialect \<Rightarrow> nat \<Rightarrow> simple_command \<Rightarrow>
     resolve_request" where
  "script_request rs ctx pos depth chain scr d k c =
     \<lparr>rr_command = c, rr_context = Some ctx, rr_dialect = d, rr_depth = depth + 1, rr_chain = chain @ [sx_key scr],
      rr_script = Some (resolveScript rs ctx (pos @ [(sx_key scr, d, k)]) (depth + 1) (chain @ [sx_key scr]))\<rparr>"

lemma resolveScript_all:
  assumes "rx_action ctx = Some actx" and "d \<in> set (sx_dialects scr)"
    and "run_parse rs actx d (sx_text scr) (sx_cwd scr) = Some p" and "k < length (pc_commands p)"
    and "req = script_request rs ctx pos depth chain scr d k (pc_commands p ! k)"
  shows "unmodelled (sr_status (resolveScript rs ctx pos depth chain scr)) \<or>
    (\<exists>child \<in> set (sr_commands (resolveScript rs ctx pos depth chain scr)).
       rc_effects child = rc_effects (run_recognize rs req) \<and> rc_status child = rc_status (run_recognize rs req))"
proof -
  let ?rec = "\<lambda>d i c. let child = run_recognize rs (script_request rs ctx pos depth chain scr d i c)
     in set_resolved_from (sx_label scr # rc_resolved_from child) child"
  let ?r = "script_dialects (\<lambda>d. run_parse rs actx d (sx_text scr) (sx_cwd scr))
     (\<lambda>d i. rv_expired rs (pos @ [(sx_key scr, d, i)])) ?rec (sx_label scr) (sx_dialects scr)
     \<lparr>sr_commands = [], sr_status = StatusResolved, sr_status_reason = []\<rparr>"
  have "unmodelled (sr_status (resolveScript rs ctx pos depth chain scr)) \<or> resolveScript rs ctx pos depth chain scr = ?r"
    using assms(1)
    by (subst (1 2) resolveScript.simps) (simp add: Let_def script_request_def unmodelled_def)
  moreover have "unmodelled (sr_status ?r) \<or> ?rec d k (pc_commands p ! k) \<in> set (sr_commands ?r)"
    by (rule script_dialects_all [where p = p]) (use assms in simp_all)
  moreover have "rc_effects (?rec d k (pc_commands p ! k)) = rc_effects (run_recognize rs req)"
      "rc_status (?rec d k (pc_commands p ! k)) = rc_status (run_recognize rs req)"
    by (simp_all add: assms(5) Let_def)
  ultimately show ?thesis by (auto simp del: Let_def intro!: bexI [of _ "?rec d k (pc_commands p ! k)"])
qed

text \<open>Without time pressure a script of one dialect is exactly its recognized commands.\<close>

lemma script_commands_free:
  "(\<And>i. \<not> ex i) \<Longrightarrow>
   script_commands ex rec i cs r = (r\<lparr>sr_commands := sr_commands r @ map (\<lambda>(i, c). rec i c) (enumerate i cs)\<rparr>, False)"
  by (induction cs arbitrary: i r) simp_all

lemma resolveScript_unlimited:
  assumes "rx_action ctx = Some actx" and "sx_dialects scr = [d]" and "\<And>p. \<not> rv_expired rs p" and "depth < rv_max_depth rs"
    and "run_parse rs actx d (sx_text scr) (sx_cwd scr) = Some p" and "Parsed_OK p"
  shows "sr_commands (resolveScript rs ctx pos depth chain scr) =
      map (\<lambda>(k, c). let child = run_recognize rs (script_request rs ctx pos depth chain scr d k c)
             in set_resolved_from (sx_label scr # rc_resolved_from child) child) (enumerate 0 (pc_commands p))"
    and "sr_status (resolveScript rs ctx pos depth chain scr) = StatusResolved"
  using assms
  by (simp_all add: resolveScript.simps [of rs ctx pos depth chain scr] Let_def script_dialects.simps script_commands_free
      script_request_def)

section \<open>What a package manager keeps of its scripts\<close>

text \<open>The command of the request is \<open>npm run\<close> (or \<open>pnpm\<close>, \<open>yarn\<close>) of a script one of whose stages is \<open>scr\<close>.\<close>

definition runs_script :: "disk \<Rightarrow> package_json \<Rightarrow> resolve_request \<Rightarrow> script \<Rightarrow> bool" where
  "runs_script d pj req scr =
     (\<exists>run name rest manifestPath manifest dialects stage.
        SimpleCommand_Args (rr_command req) = run # name # rest \<and> w_text run \<in> {''run'', ''run-script''} \<and>
        nearestPackageJSON d (s_cwd (rr_command req)) (Workspace req) = Some manifestPath \<and>
        readPackageManifest d pj manifestPath = Inr manifest \<and>
        ScriptDialects (npmPackageManagerInfo req) (npmHostOS req) = Some dialects \<and>
        stage \<in> set (npmScriptStages manifest (w_text name)) \<and>
        scr = stage_script (npmManagerName (SimpleCommand_Name (rr_command req))) manifest
                (relativeKey (Workspace req) manifestPath) (w_text name) dialects (Dir manifestPath)
                (npmPassthrough rest) stage)"

lemma Unresolved_unmodelled [simp]: "unmodelled (rc_status (Unresolved req op reason))"
  by (simp add: unmodelled_def)

lemma flag_refusal_unmodelled: "npm_flag_refusal req op rest = Some c \<Longrightarrow> unmodelled (rc_status c)"
  by (auto simp: npm_flag_refusal_def split: option.splits)

lemma npm_run_keeps:
  assumes "runs_script d pj req scr" and "npmManagerName (SimpleCommand_Name (rr_command req)) \<noteq> ''npx''"
  shows "unmodelled (rc_status (npm_Recognize d pj sha req)) \<or>
    \<not> unmodelled (sr_status (ResolveScript req scr)) \<and>
    (\<forall>child \<in> set (sr_commands (ResolveScript req scr)).
       set (rc_effects child) \<subseteq> set (rc_effects (npm_Recognize d pj sha req)) \<and> \<not> unmodelled (rc_status child))"
proof -
  let ?manager = "npmManagerName (SimpleCommand_Name (rr_command req))"
  obtain run name rest path manifest dialects stage where
    a: "SimpleCommand_Args (rr_command req) = run # name # rest" "w_text run \<in> {''run'', ''run-script''}"
      "nearestPackageJSON d (s_cwd (rr_command req)) (Workspace req) = Some path"
      "readPackageManifest d pj path = Inr manifest"
      "ScriptDialects (npmPackageManagerInfo req) (npmHostOS req) = Some dialects"
      "stage \<in> set (npmScriptStages manifest (w_text name))"
    and scr: "scr = stage_script ?manager manifest (relativeKey (Workspace req) path) (w_text name) dialects (Dir path)
      (npmPassthrough rest) stage"
    using assms(1) unfolding runs_script_def by blast
  have "unmodelled (rc_status (npm_Recognize d pj sha req)) \<or>
      npm_Recognize d pj sha req = npmRunScript d pj sha req ?manager (w_text name) rest"
    using a(1,2) assms(2)
    by (auto simp: npm_Recognize_def npm_subcommand_def npmInstallSubcommands_def Let_def)
  moreover define out where "out = foldl (npm_stage sha req ?manager manifest (relativeKey (Workspace req) path)
      (w_text name) dialects (Dir path) (npmPassthrough rest))
      (add_fingerprints
         [ValueFingerprint sha NpmScriptShellKey (pm_script_shell (npmPackageManagerInfo req)) ''npm script-shell'',
          ValueFingerprint sha NpmPackageManagerKey (mf_package_manager manifest) ''package.json packageManager'']
         (resolved req OpRunScript)) (npmScriptStages manifest (w_text name))"
  have "unmodelled (rc_status (npmRunScript d pj sha req ?manager (w_text name) rest)) \<or>
      npmRunScript d pj sha req ?manager (w_text name) rest = npmAbsorbChildren out"
    using a(3-5)
    by (cases "npm_flag_refusal req OpRunScript rest")
      (simp_all add: npmRunScript_def Let_def out_def flag_refusal_unmodelled)
  moreover have "set (sr_commands (ResolveScript req scr)) \<subseteq> set (rc_children out)"
    using a(6) by (auto simp: out_def foldl_npm_stage scr)
  then have "set (rc_effects child) \<subseteq> set (rc_effects (npmAbsorbChildren out))"
      "unmodelled (rc_status child) \<Longrightarrow> unmodelled (rc_status (npmAbsorbChildren out))"
    if "child \<in> set (sr_commands (ResolveScript req scr))" for child
    using that by (auto simp: npmAbsorbChildren_effects npmAbsorbChildren_status)
  moreover have "unmodelled (sr_status (ResolveScript req scr)) \<Longrightarrow> unmodelled (rc_status (npmAbsorbChildren out))"
    using a(6) by (auto simp: npmAbsorbChildren_status out_def foldl_npm_stage scr)
  ultimately show ?thesis by metis
qed

text \<open>Every command of every stage of a script that a line runs surfaces in the package manager's command.\<close>

lemma script_child_surfaces:
  assumes "runs_script d pj req scr" and "npmManagerName (SimpleCommand_Name (rr_command req)) \<noteq> ''npx''"
    and "rr_script req = Some (resolveScript rs ctx pos depth chain)" and "rx_action ctx = Some actx"
    and "dl \<in> set (sx_dialects scr)" and "run_parse rs actx dl (sx_text scr) (sx_cwd scr) = Some p"
    and "k < length (pc_commands p)" and "child = script_request rs ctx pos depth chain scr dl k (pc_commands p ! k)"
  shows "unmodelled (rc_status (npm_Recognize d pj sha req)) \<or>
    set (rc_effects (run_recognize rs child)) \<subseteq> set (rc_effects (npm_Recognize d pj sha req)) \<and>
    \<not> unmodelled (rc_status (run_recognize rs child))"
proof -
  have "ResolveScript req scr = resolveScript rs ctx pos depth chain scr" by (simp add: ResolveScript_def assms(3))
  with resolveScript_all [OF assms(4-8)] npm_run_keeps [OF assms(1,2), of sha] show ?thesis by metis
qed

section \<open>Rules on git commands reach the decision\<close>

lemma foldl_redirections_git:
  "rc_git (applyRedirections req c) = rc_git c" "rc_semantic_op (applyRedirections req c) = rc_semantic_op c"
proof -
  have t: "rc_git (foldl (redirect_target op) c ts) = rc_git c \<and>
      rc_semantic_op (foldl (redirect_target op) c ts) = rc_semantic_op c" for op ts c
    by (induction ts arbitrary: c) (simp_all add: redirect_target_def)
  have "rc_git (foldl (redirect req) c rds) = rc_git c \<and> rc_semantic_op (foldl (redirect req) c rds) = rc_semantic_op c" for rds
    by (induction rds arbitrary: c) (simp_all add: redirect_def t)
  then show "rc_git (applyRedirections req c) = rc_git c" "rc_semantic_op (applyRedirections req c) = rc_semantic_op c"
    by (simp_all add: applyRedirections_def)
qed

lemma Recognize_git:
  "rc_git (Recognize r req) = rc_git (registry_dispatch r req)"
  "rc_semantic_op (Recognize r req) = rc_semantic_op (registry_dispatch r req)"
  by (simp_all add: Recognize_def Let_def applyElevation_def applyStreamedInput_def applyEnvironmentOverrides_def
      foldl_redirections_git split: option.split)

lemma command_rule_refused:
  assumes "pi_action inp = Some (ResolveInContext rs request (Some ctx))" and "parsed_as rs request ctx parsed"
    and "j < length (pc_commands parsed)"
    and "ruleR7 (recognized rs request ctx j (pc_commands parsed ! j)) inp \<noteq> None \<or>
         ruleR8 (recognized rs request ctx j (pc_commands parsed ! j)) \<noteq> None"
  shows "d_outcome (fst (Evaluate e inp consent s)) \<noteq> OutcomeAllow"
proof
  assume allow: "d_outcome (fst (Evaluate e inp consent s)) = OutcomeAllow"
  note passes = allow_passes [OF allow assms(1)]
  let ?a = "ResolveInContext rs request (Some ctx)" and ?c = "recognized rs request ctx j (pc_commands parsed ! j)"
  have "?c \<in> set (ra_commands ?a)"
  proof (rule parsed_as_resolve [OF assms(2)])
    fix out
    assume r: "?a = aggregate rs (resolve_commands
           (\<lambda>i. rv_expired rs [([], DialectFor (rq_dialect request) DialectPosix, i)])
           (recognized rs request ctx) 0 (pc_commands parsed) out)" (is "_ = aggregate rs ?b")
    have "\<not> ra_incomplete ?b" using passes(3) by (simp add: r aggregate_sels)
    then show ?thesis using resolve_commands_all [OF assms(3)] by (fastforce simp: r aggregate_sels)
  qed
  moreover have "set (commandRules inp ?c) \<noteq> {}"
    using assms(4) by (auto simp: commandRules.simps [of _ ?c])
  ultimately have "set (raw_findings inp ?a) \<noteq> {}" by (auto simp: raw_findings_def)
  with set_HardRules [OF assms(1)] passes(1) show False by simp
qed

text \<open>The git command of a line, after its global options.\<close>

definition git_line ::
    "disk \<Rightarrow> resolve_request \<Rightarrow> resolve_request \<Rightarrow> gitRepo \<Rightarrow> string \<Rightarrow> word list \<Rightarrow> bool" where
  "git_line d req req' repo subcommand rest =
     (SimpleCommand_Name (rr_command req) = ''git'' \<and>
      (\<exists>repoDir sub. gitGlobalOptions zero_word [] (SimpleCommand_Args (rr_command req)) = (repoDir, Some (sub # rest), []) \<and>
         w_text sub = subcommand \<and> git_moved req repoDir = Some req' \<and> repo = gitRepositoryFor d req'))"

lemma git_line_dispatch:
  assumes "git_line d req req' repo subcommand rest"
  shows "registry_dispatch (NewRecognizerRegistry (ToolRecognizers d pj sha url)) req = git_dispatch req' repo subcommand rest"
  using assms by (auto simp: git_line_def registry_dispatch_def lookup_tools git_Recognize_def)

lemma tool_recognized:
  "recognized (resolver_New parsers (ToolRecognizers d pj sha url) expired key v) request ctx j c =
     Recognize (NewRecognizerRegistry (ToolRecognizers d pj sha url))
       (command_request (resolver_New parsers (ToolRecognizers d pj sha url) expired key v) ctx
          (DialectFor (rq_dialect request) DialectPosix) j c)"
  by (simp add: recognized_def run_recognize_def command_request_def resolver_New_def)

end
