(* ===== verification/Tool_Samples.thy ===== *)
theory Tool_Samples
  imports Script_Pipeline
begin

text \<open>
  A project on disk for the witnesses: a repository with one remote and a \<^verbatim>\<open>package.json\<close> whose scripts run in
  cmd.exe, with \<^verbatim>\<open>rimraf\<close> installed.
\<close>

definition sample_file :: "string \<Rightarrow> opened_file" where
  "sample_file content =
     \<lparr>of_stat = Inr \<lparr>si_regular = True, si_dir = False, si_size = int (length content)\<rparr>, of_content = Inr content\<rparr>"

definition disk_of :: "(string \<times> string) list \<Rightarrow> string list \<Rightarrow> disk" where
  "disk_of files dirs =
     \<lparr>dk_fs = sample_fs\<lparr>Lstat := (\<lambda>p. if map_of files p \<noteq> None then Some \<lparr>fi_is_symlink = False, fi_is_dir = False\<rparr>
                                     else None)\<rparr>,
      dk_stat = (\<lambda>p. case map_of files p of
                       Some c \<Rightarrow> Some \<lparr>si_regular = True, si_dir = False, si_size = int (length c)\<rparr>
                     | None \<Rightarrow> if p \<in> set dirs then Some \<lparr>si_regular = False, si_dir = True, si_size = 0\<rparr> else None),
      dk_open = (\<lambda>p. case map_of files p of None \<Rightarrow> Inl ''no such file'' | Some c \<Rightarrow> Inr (sample_file c)),
      dk_abs = Some, dk_home = Some ''/home/u'', dk_tree = (\<lambda>_. WalkDir [])\<rparr>"

definition tool_disk :: disk where
  "tool_disk = disk_of
     [(''/w/package.json'', ''{}''), (''/w/node_modules/.bin/rimraf'', ''#''),
      (''/w/.git/HEAD'', ''ref: refs/heads/feature''),
      (''/w/.git/config'', ''[remote \"origin\"]'' @ [CHR 0x0A] @ ''url = git@github.com:a/b.git'')]
     [''/w'', ''/w/.git'']"

definition tool_package :: package_json where
  "tool_package =
     \<lparr>pj_manifest = (\<lambda>_. Inr \<lparr>mf_scripts = [''clean'' \<mapsto> ''rm -r /home/u/old''], mf_package_manager = []\<rparr>),
      pj_package_manager = (\<lambda>_. None)\<rparr>"

text \<open>A hash that does not collide: two hexadecimal digits per character.\<close>

definition sample_sha :: "string \<Rightarrow> string" where
  "sample_sha s = concat (map (\<lambda>c. [hex_digit (of_char c div 16), hex_digit (of_char c mod 16)]) s)"

definition tool_context :: request_context where
  "tool_context = sample_context\<lparr>cx_git := ReadGitInfo tool_disk ''/w'' ''/home/u'',
     cx_package_manager := no_package_manager\<lparr>pm_script_shell := ''cmd''\<rparr>\<rparr>"

definition tool_resolver :: resolver where
  "tool_resolver = resolver_New (Parsers_Register [] DialectCmd cmd_Parse)
     (ToolRecognizers tool_disk tool_package sample_sha (\<lambda>_. None)) (\<lambda>_. False) (\<lambda>_ _ _. None) 1"

definition tool_resolver_context :: resolver_context where
  "tool_resolver_context = \<lparr>rx_action = Some tool_context, rx_scope = Some (dk_fs tool_disk, sample_scope)\<rparr>"

definition tool_action :: "string \<Rightarrow> resolved_action" where
  "tool_action line = ResolveInContext tool_resolver (cmd_request line) (Some tool_resolver_context)"

definition tool_input :: "resolved_action \<Rightarrow> policy_input" where
  "tool_input a = (sample_input a)\<lparr>pi_context := Some tool_context\<rparr>"

lemma tool_parsed:
  assumes "cmd_Parse (cmd_input line) = Inr parsed"
  shows "parsed_as tool_resolver (cmd_request line) tool_resolver_context parsed"
  using assms
  by (simp add: parsed_as_def tool_resolver_context_def cmd_request_def DialectFor_def run_parse_def
      tool_resolver_def resolver_New_def Parsers_Get_Register tool_context_def sample_context_def)

lemma tool_context_sels [simp]:
  "cx_workspace_root tool_context = ''/w''" "cx_home_dir tool_context = ''/home/u''" "cx_temp_dir tool_context = ''/tmp''"
  "cx_platform tool_context = ''linux''" "cx_status tool_context = ContextOK"
  "cx_git tool_context = ReadGitInfo tool_disk ''/w'' ''/home/u''"
  "pm_script_shell (cx_package_manager tool_context) = ''cmd''"
  by (simp_all add: tool_context_def sample_context_def)

definition clean_script :: script where
  "clean_script = \<lparr>sx_text = ''rm -r /home/u/old'', sx_cwd = ''/w'', sx_dialects = [DialectCmd],
     sx_label = ''npm run clean'', sx_key = ''package.json#clean''\<rparr>"

end
