(* ===== verification/Git_Properties.thy ===== *)
theory Git_Properties
  imports Tool_Samples
begin





section \<open>Concrete git commands\<close>






section \<open>Properties\<close>










end
