(* ===== verification/Tools_Properties.thy ===== *)
theory Tools_Properties
  imports Tool_Samples Resolver_Properties
begin

text \<open>
  The properties of the tool recognizers, of the scripts they run, of the fingerprints and of the context a
  request is evaluated in.
\<close>

section \<open>Scripts\<close>






section \<open>Where the tool recognizers see less than the tool does\<close>

abbreviation tool_req :: "simple_command \<Rightarrow> resolve_request" where
  "tool_req c \<equiv> command_request tool_resolver tool_resolver_context DialectCmd 0 c"

lemma tool_req_sels [simp]:
  "rr_command (tool_req c) = c" "rr_dialect (tool_req c) = DialectCmd" "Workspace (tool_req c) = ''/w''"
  "npmPackageManagerInfo (tool_req c) = cx_package_manager tool_context"
  "rr_script (tool_req c) = Some (resolveScript tool_resolver tool_resolver_context [([], DialectCmd, 0)] 0 [])"
  by (simp_all add: command_request_def Workspace_def npmPackageManagerInfo_def tool_resolver_context_def)

text \<open>The command line \<^verbatim>\<open>npx rimraf dist "&" echo /home/u/old\<close>, and the script it is taken for.\<close>

definition npx_command :: simple_command where
  "npx_command = (simple [] (''npx rimraf dist '' @ [CHR 0x22, CHR ''&'', CHR 0x22] @ '' echo /home/u/old''))\<lparr>s_argv :=
     [text_word ''npx'', text_word ''rimraf'', text_word ''dist'', (text_word ''&'')\<lparr>w_quoted := True\<rparr>,
      text_word ''echo'', text_word ''/home/u/old'']\<rparr>"

definition npx_script :: script where
  "npx_script = \<lparr>sx_text = ''rimraf dist & echo /home/u/old'', sx_cwd = ''/w'', sx_dialects = [DialectCmd],
     sx_label = ''npx rimraf'', sx_key = ''exec:/w/node_modules/.bin/rimraf''\<rparr>"

definition npx_parsed :: parsed_command where
  "npx_parsed = (one_command (simple [''rimraf'', ''dist''] ''rimraf dist''))\<lparr>
     pc_commands := [simple [''rimraf'', ''dist''] ''rimraf dist'',
       (simple [''echo'', ''/home/u/old''] ''echo /home/u/old'')\<lparr>s_operator := OpSequence\<rparr>],
     pc_operators := [OpSequence]\<rparr>"

abbreviation npx_child :: "nat \<Rightarrow> simple_command \<Rightarrow> resolve_request" where
  "npx_child \<equiv> script_request tool_resolver tool_resolver_context [([], DialectCmd, 0)] 0 [] npx_script DialectCmd"

lemma npx_script_parsed:
  "run_parse tool_resolver tool_context DialectCmd (sx_text npx_script) (sx_cwd npx_script) = Some npx_parsed"
proof -
  have "cmd_Parse (cmd_input ''rimraf dist & echo /home/u/old'') = Inr npx_parsed" by code_simp
  then show ?thesis
    by (simp add: run_parse_def tool_resolver_def resolver_New_def Parsers_Get_Register npx_script_def)
qed

lemma npx_reparses:
  "npm_Recognize tool_disk tool_package sample_sha (tool_req npx_command) =
     npmAbsorbChildren (add_script (ResolveScript (tool_req npx_command) npx_script)
       (''npx rimraf -> rimraf dist & echo /home/u/old'') (resolved (tool_req npx_command) OpRunScript))"
proof -
  have n: "npmManagerName (SimpleCommand_Name npx_command) = ''npx''" by code_simp
  have e: "exec_words False (SimpleCommand_Args npx_command) =
      Inr (Some (text_word ''rimraf'', [text_word ''dist'', (text_word ''&'')\<lparr>w_quoted := True\<rparr>,
        text_word ''echo'', text_word ''/home/u/old'']))" by code_simp
  have p: "nearestPackageJSON tool_disk (s_cwd npx_command) ''/w'' = Some ''/w/package.json''" by code_simp
  have b: "npmLocalBinaryExists tool_disk ''/w/node_modules/.bin/rimraf''"
      "filepath_Join [Dir ''/w/package.json'', ''node_modules'', ''.bin'', ''rimraf''] = ''/w/node_modules/.bin/rimraf''"
      "s_cwd npx_command = ''/w''" by code_simp+
  show ?thesis using e p b
    by (simp add: npm_Recognize_def n npmExec_def Let_def npmWordTexts_def npx_script_def)
qed

definition deletes_dist :: "resolved_command \<Rightarrow> bool" where
  "deletes_dist r \<longleftrightarrow> \<not> unmodelled (rc_status r) \<and>
     map (\<lambda>e. (e_type e, map_option t_canonical (e_target e))) (dedupeEffects (rc_effects r)) = [(EffectDelete, Some ''/w/dist'')]"

definition touches_nothing :: "resolved_command \<Rightarrow> bool" where
  "touches_nothing r \<longleftrightarrow> \<not> unmodelled (rc_status r) \<and> dedupeEffects (rc_effects r) = []"

text \<open>Quoting is lost when a local binary is run through \<^verbatim>\<open>npx\<close>: its arguments are joined with spaces and
  parsed again. \<^verbatim>\<open>npx rimraf dist "&" echo /home/u/old\<close>, which deletes \<^verbatim>\<open>/home/u/old\<close> among its arguments, is
  taken for the two commands \<^verbatim>\<open>rimraf dist\<close> and \<^verbatim>\<open>echo /home/u/old\<close> and declared to delete \<^verbatim>\<open>dist\<close> alone.\<close>

theorem npx_quoting_lost:
  "cmd_Parse (cmd_input (''npx rimraf dist '' @ [CHR 0x22, CHR ''&'', CHR 0x22] @ '' echo /home/u/old''))
     = Inr (one_command npx_command) \<and>
   map (\<lambda>e. (e_type e, map_option t_canonical (e_target e)))
     (rc_effects (npm_Recognize tool_disk tool_package sample_sha (tool_req npx_command))) = [(EffectDelete, Some ''/w/dist'')] \<and>
   \<not> unmodelled (rc_status (npm_Recognize tool_disk tool_package sample_sha (tool_req npx_command)))"
proof (intro conjI)
  let ?reg = "NewRecognizerRegistry (ToolRecognizers tool_disk tool_package sample_sha (\<lambda>_. None))"
  let ?rim = "simple [''rimraf'', ''dist''] ''rimraf dist''"
  let ?echo = "(simple [''echo'', ''/home/u/old''] ''echo /home/u/old'')\<lparr>s_operator := OpSequence\<rparr>"
  show "cmd_Parse (cmd_input (''npx rimraf dist '' @ [CHR 0x22, CHR ''&'', CHR 0x22] @ '' echo /home/u/old''))
     = Inr (one_command npx_command)" by code_simp
  have "rx_action tool_resolver_context = Some tool_context" "sx_dialects npx_script = [DialectCmd]"
      "\<not> rv_expired tool_resolver q" "0 < rv_max_depth tool_resolver" "Parsed_OK npx_parsed" for q
    by (simp_all add: tool_resolver_context_def npx_script_def tool_resolver_def resolver_New_def npx_parsed_def
        one_command_def Parsed_OK_def)
  note R = resolveScript_unlimited [OF this(1-4) npx_script_parsed this(5), where pos = "[([], DialectCmd, 0)]" and chain = "[]"]
  have run: "run_recognize tool_resolver (npx_child k c) = Recognize ?reg (npx_child k c)" for k c
    by (simp add: run_recognize_def script_request_def tool_resolver_def resolver_New_def)
  have names: "SimpleCommand_Name ?rim = ''rimraf''" "SimpleCommand_Name ?echo = ''echo''" by code_simp+
  have c: "rc_effects (Recognize ?reg (npx_child 0 ?rim)) = dedupeEffects (rc_effects (rimraf_Recognize (npx_child 0 ?rim)))"
      "rc_status (Recognize ?reg (npx_child 0 ?rim)) = rc_status (rimraf_Recognize (npx_child 0 ?rim))"
      "rc_effects (Recognize ?reg (npx_child 1 ?echo)) = dedupeEffects (rc_effects (noop_Recognize (npx_child 1 ?echo)))"
      "rc_status (Recognize ?reg (npx_child 1 ?echo)) = rc_status (noop_Recognize (npx_child 1 ?echo))"
    by (rule Recognize_plain(1,2); simp add: script_request_def names lookup_tools lookup_echo; simp add: simple_def)+
  have "deletes_dist (rimraf_Recognize (npx_child 0 ?rim))" "touches_nothing (noop_Recognize (npx_child 1 ?echo))"
    by code_simp+
  note e = this [unfolded deletes_dist_def touches_nothing_def]
  have cs: "pc_commands npx_parsed = [?rim, ?echo]" by (simp add: npx_parsed_def)
  show "map (\<lambda>e. (e_type e, map_option t_canonical (e_target e)))
     (rc_effects (npm_Recognize tool_disk tool_package sample_sha (tool_req npx_command))) = [(EffectDelete, Some ''/w/dist'')]"
    using e c
    by (simp add: npx_reparses npmAbsorbChildren_effects add_script_sels add_script_def [of _ _ "resolved _ _"] ResolveScript_def R cs run Let_def)
  show "\<not> unmodelled (rc_status (npm_Recognize tool_disk tool_package sample_sha (tool_req npx_command)))"
    using e c
    by (simp add: npx_reparses npmAbsorbChildren_status add_script_sels ResolveScript_def R cs run Let_def unmodelled_def [of StatusResolved])
qed

text \<open>Only the first refspec of a push is looked at: \<^verbatim>\<open>git push -f origin feature main\<close> rewrites the protected
  branch \<^verbatim>\<open>main\<close> and rule R7 finds nothing, while with the refspecs in the other order it does.\<close>

theorem push_second_refspec_unseen:
  "ruleR7 (git_Recognize tool_disk (tool_req (simple [''git'', ''push'', ''-f'', ''origin'', ''feature'', ''main''] [])))
     (tool_input a) = None \<and>
   ruleR7 (git_Recognize tool_disk (tool_req (simple [''git'', ''push'', ''-f'', ''origin'', ''main'', ''feature''] [])))
     (tool_input a) \<noteq> None"
proof -
  have "isProtectedBranch b (tool_input a) = isProtectedBranch b (tool_input rm_dist)" for b
    by (simp add: tool_input_def sample_input_def isProtectedBranch_def)
  then have "ruleR7 c (tool_input a) = ruleR7 c (tool_input rm_dist)" for c
    by (cases "rc_git c") (simp_all add: ruleR7_def)
  moreover have "ruleR7 (git_Recognize tool_disk (tool_req (simple [''git'', ''push'', ''-f'', ''origin'', ''feature'', ''main''] [])))
     (tool_input rm_dist) = None" by code_simp
  moreover have "ruleR7 (git_Recognize tool_disk (tool_req (simple [''git'', ''push'', ''-f'', ''origin'', ''main'', ''feature''] [])))
     (tool_input rm_dist) \<noteq> None" by code_simp
  ultimately show ?thesis by simp
qed

definition diff_command :: simple_command where
  "diff_command = simple [''git'', ''diff'', ''/home/u/.ssh/id'', ''README''] ''git diff /home/u/.ssh/id README''"

text \<open>The paths of \<^verbatim>\<open>git diff\<close> are looked at only with \<^verbatim>\<open>--no-index\<close>, which git assumes by itself as soon as a path
  lies outside the working tree: \<^verbatim>\<open>git diff /home/u/.ssh/id README\<close> prints a private key and is allowed as a read
  of the project.\<close>

theorem diff_hides_credential_read:
  "d_outcome (fst (Evaluate (stored_engine 1 5) (tool_input (tool_action ''git diff /home/u/.ssh/id README'')) None
     sample_store)) = OutcomeAllow"
proof (rule one_command_allowed [where f = "git_Recognize tool_disk" and c = diff_command and req = "tool_req diff_command",
      OF tool_parsed tool_resolver_def])
  show "tool_req diff_command = command_request tool_resolver tool_resolver_context
      (DialectFor (rq_dialect (cmd_request ''git diff /home/u/.ssh/id README'')) DialectPosix) 0 diff_command"
    by (simp add: cmd_request_def DialectFor_def)
  show "Registry_Lookup (NewRecognizerRegistry (ToolRecognizers tool_disk tool_package sample_sha (\<lambda>_. None)))
      (SimpleCommand_Name diff_command) = Some (git_Recognize tool_disk)"
    by (simp add: diff_command_def lookup_tools)
  show "pi_action (tool_input (tool_action ''git diff /home/u/.ssh/id README'')) =
      Some (ResolveInContext tool_resolver (cmd_request ''git diff /home/u/.ssh/id README'') (Some tool_resolver_context))"
    by (simp add: tool_input_def sample_input_def tool_action_def)
  show "AllowReadonlyWorkspace (Policy (pi_config (tool_input (tool_action ''git diff /home/u/.ssh/id README''))))"
      "Context_OK (pi_context (tool_input (tool_action ''git diff /home/u/.ssh/id README'')))"
      "Context_OK (rx_action tool_resolver_context)"
    by (simp_all add: tool_input_def sample_input_def Default_def Context_OK_def tool_resolver_context_def)
qed (code_simp+)

end
