(* ===== verification/Build_Properties.thy ===== *)
theory Build_Properties
  imports Tool_Samples
begin













end
