(* ===== verification/Parser_Posix.thy ===== *)
theory Parser_Posix
  imports Parser_Cmd
begin

text \<open>
  \<^verbatim>\<open>internal/parser/posix/parser.go\<close>: the walk over the syntax tree of a bash line. The grammar is that of the
  package \<^verbatim>\<open>mvdan.cc/sh\<close> and an argument; the tree keeps of its nodes what the walk looks at, with the kinds the walk
  does not tell apart as one constructor. The walker's state and its limits are those of \<open>Parser_Cmd\<close>.
\<close>

section \<open>The syntax tree\<close>

text \<open>Where a node stands in the source: whether the position is valid, its first offset and the one after it.\<close>

type_synonym sh_span = "bool \<times> nat \<times> nat"

text \<open>The fields of a parameter expansion the walk asks for: the name, and whether anything else is set.\<close>

record sh_param =
  sp_name :: "string option"
  sp_excl :: bool
  sp_length :: bool
  sp_width :: bool
  sp_index :: bool
  sp_slice :: bool
  sp_repl :: bool
  sp_exp :: bool
  sp_names :: bool

datatype sh_part =
    Lit string
  | SglQuoted string
  | DblQuoted "sh_part list"
  | ParamExp sh_span sh_param
  | CmdSubst sh_span
  | ArithmExp sh_span
  | ProcSubst sh_span
  | ExtGlob sh_span
  | OtherPart sh_span

type_synonym sh_word = "sh_part list"

record sh_assign =
  as_span :: sh_span
  as_array :: bool
  as_index :: bool
  as_name :: "string option"
  as_value :: "sh_word option"

datatype sh_redir_op = RdrOut | AppOut | RdrIn | RdrInOut | ClbOut | RdrAll | AppAll | OtherRedir string

record sh_redirect =
  sr_op :: sh_redir_op
  sr_number :: "string option"
  sr_word :: "sh_word option"

datatype sh_binary_op = AndStmt | OrStmt | Pipe | PipeAll | OtherBinary

text \<open>A statement: its place, whether it runs in the background, its redirections, its command.\<close>

datatype sh_command =
    CallExpr "sh_assign list" "sh_word list"
  | BinaryCmd sh_binary_op sh_stmt sh_stmt
  | Block "sh_stmt list"
  | Subshell "sh_stmt list"
  | ControlClause
  | FuncDecl
  | DeclClause "string option"
  | ArithmClause
  | OtherCommand
and sh_stmt = Stmt sh_span bool "sh_redirect list" "sh_command option"

text \<open>A rejected line: an offset and a reason when the error has them, or its text.\<close>

datatype sh_error = ErrorAt nat string | ErrorText string

type_synonym sh_grammar = "string \<Rightarrow> sh_error + sh_stmt list"

section \<open>Words\<close>

definition maxExplanationText :: nat where
  "maxExplanationText = 120"

definition posix_truncate :: "string \<Rightarrow> string" where
  "posix_truncate t =
     (if length t \<le> maxExplanationText then t
      else take maxExplanationText t @ [CHR 0xE2, CHR 0x80, CHR 0xA6])"

definition node_text :: "string \<Rightarrow> sh_span \<Rightarrow> string" where
  "node_text src span =
     (case span of (valid, start, stop) \<Rightarrow>
        if \<not> valid \<or> stop < start \<or> length src < stop then [] else take (stop - start) (drop start src))"

definition unsupportedAt :: "walker \<Rightarrow> unsupported_kind \<Rightarrow> sh_span \<Rightarrow> string \<Rightarrow> walker" where
  "unsupportedAt w kind span t = unsupported w kind (fst (snd span)) (posix_truncate t)"

fun unescapeUnquoted :: "string \<Rightarrow> string \<times> bool" where
  "unescapeUnquoted [] = ([], False)"
| "unescapeUnquoted (c # cs) =
     (if c = CHR 0x5C \<and> cs \<noteq> []
      then (let (t, glob) = unescapeUnquoted (tl cs) in (hd cs # t, glob))
      else let (t, glob) = unescapeUnquoted cs
           in (c # t, glob \<or> c = CHR ''*'' \<or> c = CHR ''?'' \<or> (c = CHR ''['' \<and> CHR '']'' \<in> set cs)))"

fun unescape_double :: "string \<Rightarrow> string" where
  "unescape_double [] = []"
| "unescape_double (c # cs) =
     (if c = CHR 0x5C \<and> cs \<noteq> [] \<and> hd cs \<in> {CHR 0x22, CHR 0x5C, CHR ''$'', CHR 0x60}
      then unescape_double cs else c # unescape_double cs)"

definition unescapeDouble :: "string \<Rightarrow> string" where
  "unescapeDouble t = (if \<not> strings_Contains t [CHR 0x5C] then t else unescape_double t)"

definition plainParamName :: "sh_param \<Rightarrow> string option" where
  "plainParamName p =
     (if sp_name p = None \<or> sp_excl p \<or> sp_length p \<or> sp_width p \<or> sp_index p \<or> sp_slice p \<or> sp_repl p \<or>
         sp_exp p \<or> sp_names p then None else sp_name p)"

text \<open>The text and the marks of a word under construction, beside the walker.\<close>

type_synonym word_state = "walker \<times> word"

definition add_text :: "string \<Rightarrow> word \<Rightarrow> word" where
  "add_text t o' = o'\<lparr>w_text := w_text o' @ t\<rparr>"

definition add_unexpanded :: "string \<Rightarrow> word \<Rightarrow> word" where
  "add_unexpanded t o' = add_text t (o'\<lparr>w_unexpanded := True\<rparr>)"

definition posix_paramExp :: "var_context \<Rightarrow> string \<Rightarrow> sh_span \<Rightarrow> sh_param \<Rightarrow> word \<Rightarrow> word" where
  "posix_paramExp vars src span p o' =
     (case plainParamName p of
        None \<Rightarrow> add_unexpanded (node_text src span) o'
      | Some name \<Rightarrow>
          (case vars_Lookup DialectPosix name vars of
             Some v \<Rightarrow> add_text v o'
           | None \<Rightarrow> add_unexpanded (node_text src span) o'))"

definition refused_part :: "string \<Rightarrow> unsupported_kind \<Rightarrow> sh_span \<Rightarrow> word_state \<Rightarrow> word_state" where
  "refused_part src kind span s =
     (unsupportedAt (fst s) kind span (node_text src span), add_unexpanded (node_text src span) (snd s))"

fun wordPart :: "var_context \<Rightarrow> string \<Rightarrow> bool \<Rightarrow> sh_part \<Rightarrow> word_state \<Rightarrow> word_state"
  and wordParts :: "var_context \<Rightarrow> string \<Rightarrow> bool \<Rightarrow> sh_part list \<Rightarrow> word_state \<Rightarrow> word_state" where
  "wordPart vars src quoted (Lit v) s =
     (if quoted then (fst s, add_text (unescapeDouble v) (snd s))
      else let (t, glob) = unescapeUnquoted v
           in (fst s, let o' = add_text t (snd s) in if glob then o'\<lparr>w_glob := True\<rparr> else o'))"
| "wordPart vars src quoted (SglQuoted v) s = (fst s, add_text v ((snd s)\<lparr>w_quoted := True\<rparr>))"
| "wordPart vars src quoted (DblQuoted parts) s =
     wordParts vars src True parts (fst s, (snd s)\<lparr>w_quoted := True\<rparr>)"
| "wordPart vars src quoted (ParamExp span p) s = (fst s, posix_paramExp vars src span p (snd s))"
| "wordPart vars src quoted (CmdSubst span) s = refused_part src UnsupportedCommandSubstitution span s"
| "wordPart vars src quoted (ArithmExp span) s = refused_part src UnsupportedArithmetic span s"
| "wordPart vars src quoted (ProcSubst span) s = refused_part src UnsupportedProcessSubstitution span s"
| "wordPart vars src quoted (ExtGlob span) s = (fst s, add_text (node_text src span) ((snd s)\<lparr>w_glob := True\<rparr>))"
| "wordPart vars src quoted (OtherPart span) s = refused_part src UnsupportedNode span s"
| "wordParts vars src quoted [] s = s"
| "wordParts vars src quoted (p # ps) s = wordParts vars src quoted ps (wordPart vars src quoted p s)"

fun firstLit :: "sh_part list \<Rightarrow> string option" where
  "firstLit (Lit v # _) = Some v"
| "firstLit _ = None"

definition posix_word :: "var_context \<Rightarrow> string \<Rightarrow> walker \<Rightarrow> sh_word \<Rightarrow> walker \<times> word" where
  "posix_word vars src w parts =
     (let (w, o') = wordParts vars src False parts (w, zero_word) in
      (w, case firstLit parts of
            Some v \<Rightarrow> if HasPrefix v ''~'' then o'\<lparr>w_text := ExpandTilde (w_text o') (vc_Home vars)\<rparr> else o'
          | None \<Rightarrow> o'))"

fun posix_words :: "var_context \<Rightarrow> string \<Rightarrow> walker \<Rightarrow> sh_word list \<Rightarrow> walker \<times> word list" where
  "posix_words vars src w [] = (w, [])"
| "posix_words vars src w (x # xs) =
     (let (w, y) = posix_word vars src w x; (w, ys) = posix_words vars src w xs in (w, y # ys))"

section \<open>Redirections and assignments\<close>

fun fileRedirection :: "sh_redir_op \<Rightarrow> bool" where
  "fileRedirection (OtherRedir _) = False"
| "fileRedirection _ = True"

fun redir_op_str :: "sh_redir_op \<Rightarrow> string" where
  "redir_op_str RdrOut = ''>''"
| "redir_op_str AppOut = ''>>''"
| "redir_op_str RdrIn = ''<''"
| "redir_op_str RdrInOut = ''<>''"
| "redir_op_str ClbOut = ''>|''"
| "redir_op_str RdrAll = ''&>''"
| "redir_op_str AppAll = ''&>>''"
| "redir_op_str (OtherRedir s) = s"

fun posix_redirections :: "var_context \<Rightarrow> string \<Rightarrow> walker \<Rightarrow> sh_redirect list \<Rightarrow> walker \<times> redirection list" where
  "posix_redirections vars src w [] = (w, [])"
| "posix_redirections vars src w (r # rs) =
     (if \<not> fileRedirection (sr_op r) then posix_redirections vars src w rs
      else case sr_word r of
             None \<Rightarrow> posix_redirections vars src w rs
           | Some x \<Rightarrow>
               let (w, target) = posix_word vars src w x;
                   (w, out) = posix_redirections vars src w rs
               in (w, if IsIgnoredRedirectionTarget (w_text target) then out
                      else \<lparr>rd_op = (case sr_number r of None \<Rightarrow> [] | Some n \<Rightarrow> n) @ redir_op_str (sr_op r),
                             rd_target = target\<rparr> # out))"

fun posix_assigns ::
    "var_context \<Rightarrow> string \<Rightarrow> sh_span \<Rightarrow> walker \<Rightarrow> sh_assign list \<Rightarrow> walker \<times> env_assignment list" where
  "posix_assigns vars src span w [] = (w, [])"
| "posix_assigns vars src span w (a # as) =
     (case as_name a of
        Some name \<Rightarrow>
          if as_array a \<or> as_index a
          then posix_assigns vars src span (unsupportedAt w UnsupportedNode span (node_text src (as_span a))) as
          else let (w, v) = (case as_value a of None \<Rightarrow> (w, zero_word) | Some x \<Rightarrow> posix_word vars src w x);
                   (w, out) = posix_assigns vars src span w as
               in (w, \<lparr>ea_name = name, ea_value = w_text v\<rparr> # out)
      | None \<Rightarrow> posix_assigns vars src span (unsupportedAt w UnsupportedNode span (node_text src (as_span a))) as)"

section \<open>The rules on names\<close>

definition posix_refusedBuiltins :: "(string \<times> unsupported_kind) list" where
  "posix_refusedBuiltins =
     [(''eval'', UnsupportedEval), (''source'', UnsupportedSource), (''.'', UnsupportedSource),
      (''exec'', UnsupportedExec), (''xargs'', UnsupportedXargs), (''alias'', UnsupportedAlias),
      (''unalias'', UnsupportedAlias), (''export'', UnsupportedExport), (''set'', UnsupportedExport),
      (''unset'', UnsupportedExport), (''declare'', UnsupportedExport), (''local'', UnsupportedExport),
      (''readonly'', UnsupportedExport), (''typeset'', UnsupportedExport), (''setx'', UnsupportedExport),
      (''pushd'', UnsupportedDirStack), (''popd'', UnsupportedDirStack), (''dirs'', UnsupportedDirStack),
      (''trap'', UnsupportedTrap)]"

definition posix_hasInlineScriptFlag :: "simple_command \<Rightarrow> bool" where
  "posix_hasInlineScriptFlag cmd =
     (\<exists>a \<in> set (SimpleCommand_Args cmd). w_text a \<in> {''-c'', ''--command'', ''-e'', ''--eval''})"

definition elevationValueFlags :: "string list" where
  "elevationValueFlags =
     [''-u'', ''-g'', ''-p'', ''-C'', ''-h'', ''-r'', ''-t'', ''-T'', ''-U'', ''-R'', ''-a'', ''-D'',
      ''--user'', ''--group'', ''--prompt'', ''--host'', ''--role'', ''--type'', ''--chdir'', ''--close-from'',
      ''--command-timeout'', ''--other-user'']"

fun stripElevationOptions :: "word list \<Rightarrow> word list" where
  "stripElevationOptions [] = []"
| "stripElevationOptions (x # xs) =
     (let t = w_text x in
      if t = ''--'' then xs
      else if HasPrefix t ''--'' \<and> strings_Contains t ''='' then stripElevationOptions xs
      else if t \<in> set elevationValueFlags then stripElevationOptions (tl xs)
      else if HasPrefix t ''-'' \<and> t \<noteq> ''-'' then stripElevationOptions xs
      else x # xs)"

definition posix_isAbsolute :: "string \<Rightarrow> bool" where
  "posix_isAbsolute dir =
     (HasPrefix dir ''/'' \<or> HasPrefix dir [CHR 0x5C] \<or>
      (3 \<le> length dir \<and> dir ! 1 = CHR '':'' \<and> (dir ! 2 = CHR ''/'' \<or> dir ! 2 = CHR 0x5C)))"

definition posix_joinCwd :: "string \<Rightarrow> string \<Rightarrow> string" where
  "posix_joinCwd cwd dir =
     (if dir = [] then cwd
      else if posix_isAbsolute dir \<or> cwd = [] then dir
      else let separator = (if strings_Contains cwd [CHR 0x5C] \<and> \<not> strings_Contains cwd ''/'' then [CHR 0x5C] else ''/'')
           in TrimSuffix cwd separator @ separator @ dir)"

definition posix_emit :: "walker \<Rightarrow> simple_command \<Rightarrow> walker" where
  "posix_emit w cmd =
     (let w = cap_commands w 0;
          out = wk_out w
      in if MaxParsedCommands \<le> int (length (pc_commands out)) then
           (if \<not> wk_hard_capped w
            then (unsupported w UnsupportedTruncated 0
                    (''more than '' @ Itoa MaxParsedCommands @ '' commands were not examined''))\<lparr>wk_hard_capped := True\<rparr>
            else w)
         else
           let first = (pc_commands out = []);
               cmd = (if first then cmd else cmd\<lparr>s_operator := wk_pending w\<rparr>)
           in w\<lparr>wk_out := out\<lparr>pc_operators := pc_operators out @ (if first then [] else [wk_pending w]),
                              pc_commands := pc_commands out @ [cmd]\<rparr>,
                wk_pending := OpSequence\<rparr>)"

definition posix_changeDir :: "var_context \<Rightarrow> walker \<Rightarrow> simple_command \<Rightarrow> sh_span \<Rightarrow> walker" where
  "posix_changeDir vars w cmd span =
     (let cmd = cmd\<lparr>s_builtin := True\<rparr>;
          args = (case ArgTexts cmd of a # as \<Rightarrow> if a = ''--'' then as else a # as | [] \<Rightarrow> [])
      in case args of
           [] \<Rightarrow>
             let w = posix_emit w cmd in if vc_Home vars \<noteq> [] then w\<lparr>wk_cwd := vc_Home vars\<rparr> else w
         | dir # _ \<Rightarrow>
             if dir = ''-'' then posix_emit (unsupportedAt w UnsupportedCdDash span ''cd -'') cmd
             else let w = posix_emit w cmd in w\<lparr>wk_cwd := posix_joinCwd (wk_cwd w) dir\<rparr>)"

function posix_dispatch :: "var_context \<Rightarrow> walker \<Rightarrow> simple_command \<Rightarrow> sh_span \<Rightarrow> walker" where
  "posix_dispatch vars w cmd span =
     (let name = SimpleCommand_Name cmd; base = Base name in
      if name = [] then w
      else case map_of posix_refusedBuiltins base of
        Some kind \<Rightarrow> posix_emit (unsupportedAt w kind span base) cmd
      | None \<Rightarrow>
          if IsElevationWrapper base \<and> \<not> s_elevated cmd then
            (let w = unsupportedAt w UnsupportedElevation span base;
                 cmd = cmd\<lparr>s_elevated := True\<rparr>;
                 inner = stripElevationOptions (drop 1 (s_argv cmd))
             in if (base = ''sudo'' \<or> base = ''doas'') \<and> inner \<noteq> []
                then posix_dispatch vars w (cmd\<lparr>s_argv := inner\<rparr>) span
                else posix_emit w cmd)
          else if IsStreamInterpreter base \<and> posix_hasInlineScriptFlag cmd then
            posix_emit (unsupportedAt w UnsupportedShellWrapper span base) cmd
          else if base = ''cd'' \<or> base = ''chdir'' then posix_changeDir vars w cmd span
          else posix_emit w cmd)"
  by pat_completeness auto
termination
  by (relation "measure (\<lambda>(vars, w, cmd, span). if s_elevated cmd then 0 else 1)") auto

declare posix_dispatch.simps [simp del]

section \<open>The walk\<close>

definition posix_call ::
    "var_context \<Rightarrow> string \<Rightarrow> walker \<Rightarrow> sh_assign list \<Rightarrow> sh_word list \<Rightarrow> sh_span \<Rightarrow> sh_redirect list \<Rightarrow> walker" where
  "posix_call vars src w assigns args span redirs =
     (let cwd = wk_cwd w; raw = node_text src span;
          (w, env) = posix_assigns vars src span w assigns
      in if args = [] then (if assigns \<noteq> [] then unsupportedAt w UnsupportedExport span raw else w)
         else let (w, argv) = posix_words vars src w args;
                  (w, rds) = posix_redirections vars src w redirs
              in posix_dispatch vars w
                   \<lparr>s_argv = argv, s_env = env, s_redirections = rds, s_cwd = cwd, s_raw_text = raw, s_operator = OpNone,
                    s_piped_into = False, s_piped_from = False, s_elevated = False, s_builtin = False\<rparr> span)"

fun binaryOperator :: "sh_binary_op \<Rightarrow> operator" where
  "binaryOperator AndStmt = OpAnd"
| "binaryOperator OrStmt = OpOr"
| "binaryOperator Pipe = OpPipe"
| "binaryOperator PipeAll = OpPipe"
| "binaryOperator OtherBinary = OpSequence"

definition isPipe :: "sh_binary_op \<Rightarrow> bool" where
  "isPipe op = (op = Pipe \<or> op = PipeAll)"

definition redirsUnsupported :: "string \<Rightarrow> walker \<Rightarrow> sh_span \<Rightarrow> sh_redirect list \<Rightarrow> walker" where
  "redirsUnsupported src w span redirs =
     (if redirs \<noteq> [] then unsupportedAt w UnsupportedRedirection span (node_text src span) else w)"

text \<open>The two commands around a pipe are marked.\<close>

definition posix_mark_pipe :: "sh_binary_op \<Rightarrow> nat \<Rightarrow> nat \<Rightarrow> walker \<Rightarrow> walker" where
  "posix_mark_pipe op before mid w =
     (let cs = pc_commands (wk_out w) in
      if isPipe op \<and> before < mid \<and> mid < length cs
      then w\<lparr>wk_out := (wk_out w)\<lparr>pc_commands :=
             (cs[mid - 1 := (cs ! (mid - 1))\<lparr>s_piped_into := True\<rparr>])[mid := (cs ! mid)\<lparr>s_piped_from := True\<rparr>]\<rparr>\<rparr>
      else w)"

fun declVariant :: "string option \<Rightarrow> string" where
  "declVariant None = ''declare''"
| "declVariant (Some v) = v"

fun posix_stmt :: "var_context \<Rightarrow> string \<Rightarrow> walker \<Rightarrow> sh_stmt \<Rightarrow> operator \<Rightarrow> walker"
  and posix_command :: "var_context \<Rightarrow> string \<Rightarrow> walker \<Rightarrow> sh_command \<Rightarrow> sh_span \<Rightarrow> sh_redirect list \<Rightarrow> operator \<Rightarrow> walker"
  and posix_stmts :: "var_context \<Rightarrow> string \<Rightarrow> walker \<Rightarrow> sh_stmt list \<Rightarrow> operator \<Rightarrow> walker" where
  "posix_stmt vars src w (Stmt span background redirs None) op = w"
| "posix_stmt vars src w (Stmt span background redirs (Some cmd)) op =
     posix_command vars src (if background then unsupportedAt w UnsupportedBackground span ''&'' else w) cmd span redirs op"
| "posix_command vars src w (CallExpr assigns args) span redirs op =
     posix_call vars src (w\<lparr>wk_pending := op\<rparr>) assigns args span redirs"
| "posix_command vars src w (BinaryCmd b x y) span redirs op =
     (let before = length (pc_commands (wk_out w));
          w = posix_stmt vars src w x op;
          mid = length (pc_commands (wk_out w));
          w = posix_stmt vars src w y (binaryOperator b)
      in posix_mark_pipe b before mid w)"
| "posix_command vars src w (Block body) span redirs op =
     posix_stmts vars src (redirsUnsupported src w span redirs) body op"
| "posix_command vars src w (Subshell body) span redirs op =
     posix_stmts vars src (redirsUnsupported src w span redirs) body op"
| "posix_command vars src w ControlClause span redirs op =
     unsupportedAt w UnsupportedControlFlow span (node_text src span)"
| "posix_command vars src w FuncDecl span redirs op = unsupportedAt w UnsupportedFunction span (node_text src span)"
| "posix_command vars src w (DeclClause v) span redirs op = unsupportedAt w UnsupportedExport span (declVariant v)"
| "posix_command vars src w ArithmClause span redirs op =
     unsupportedAt w UnsupportedArithmetic span (node_text src span)"
| "posix_command vars src w OtherCommand span redirs op = unsupportedAt w UnsupportedNode span (node_text src span)"
| "posix_stmts vars src w [] op = w"
| "posix_stmts vars src w (x # xs) op = posix_stmts vars src (posix_stmt vars src w x op) xs OpSequence"

definition parseFailure :: "sh_error \<Rightarrow> nat \<times> string" where
  "parseFailure e = (case e of ErrorAt position reason \<Rightarrow> (position, reason) | ErrorText t \<Rightarrow> (0, posix_truncate t))"

definition posix_Parse :: "sh_grammar \<Rightarrow> parse_input \<Rightarrow> string + parsed_command" where
  "posix_Parse grammar inp =
     (let out = \<lparr>pc_dialect = DialectPosix, pc_commands = [], pc_operators = [], pc_unsupported = [],
                 pc_final_cwd = pi_Cwd inp\<rparr>
      in if MaxCommandBytes < int (length (pi_Command inp)) then
           Inr (AddUnsupported out UnsupportedCommandTooLong 0
                 (Itoa (int (length (pi_Command inp))) @ '' bytes exceeds the '' @ Itoa MaxCommandBytes @ '' byte limit''))
         else case grammar (pi_Command inp) of
           Inl err \<Rightarrow> Inr (AddUnsupported out UnsupportedSyntaxError (fst (parseFailure err)) (snd (parseFailure err)))
         | Inr body \<Rightarrow>
             let w = posix_stmts (FromInput inp) (pi_Command inp)
                       \<lparr>wk_out = out, wk_cwd = pi_Cwd inp, wk_pending = OpNone, wk_truncated = False,
                        wk_hard_capped = False\<rparr> body OpNone
             in Inr ((wk_out w)\<lparr>pc_final_cwd := wk_cwd w\<rparr>))"

section \<open>What is refused stays refused\<close>

definition has_refusal :: "walker \<Rightarrow> bool" where
  "has_refusal w = (pc_unsupported (wk_out w) \<noteq> [])"

lemma refused_simps [simp]:
  "has_refusal (unsupported w k i t)" "has_refusal (unsupportedAt w k span t)"
  "has_refusal (w\<lparr>wk_pending := op\<rparr>) = has_refusal w" "has_refusal (w\<lparr>wk_cwd := d\<rparr>) = has_refusal w"
  "has_refusal (w\<lparr>wk_truncated := b\<rparr>) = has_refusal w" "has_refusal (w\<lparr>wk_hard_capped := b\<rparr>) = has_refusal w"
  by (simp_all add: has_refusal_def unsupportedAt_def unsupported_def)

lemma refused_posix_mark_pipe [simp]: "has_refusal (posix_mark_pipe b i j w) = has_refusal w"
  by (simp add: posix_mark_pipe_def Let_def has_refusal_def)

lemma refused_cap [simp]: "has_refusal w \<Longrightarrow> has_refusal (cap_commands w i)"
  by (simp add: cap_commands_def)

lemma refused_emit: "has_refusal w \<Longrightarrow> has_refusal (posix_emit w cmd)"
proof -
  assume "has_refusal w"
  then have "has_refusal (cap_commands w 0)" by simp
  then show ?thesis by (simp add: posix_emit_def Let_def) (simp add: has_refusal_def)
qed

lemma refused_changeDir: "has_refusal w \<Longrightarrow> has_refusal (posix_changeDir vars w cmd span)"
  by (simp add: posix_changeDir_def Let_def refused_emit split: list.split)

lemma refused_dispatch: "has_refusal w \<Longrightarrow> has_refusal (posix_dispatch vars w cmd span)"
proof (induction vars w cmd span rule: posix_dispatch.induct)
  case (1 vars w cmd span)
  then show ?case
    by (subst posix_dispatch.simps) (simp add: Let_def refused_emit refused_changeDir split: option.split)
qed

text \<open>What of a word is refused.\<close>

fun refused_in_part :: "sh_part \<Rightarrow> bool" where
  "refused_in_part (CmdSubst span) = True"
| "refused_in_part (ArithmExp span) = True"
| "refused_in_part (ProcSubst span) = True"
| "refused_in_part (OtherPart span) = True"
| "refused_in_part (DblQuoted parts) = list_ex refused_in_part parts"
| "refused_in_part _ = False"

lemma wordParts_refused:
  "has_refusal (fst (wordPart vars src quoted p s)) \<longleftrightarrow> has_refusal (fst s) \<or> refused_in_part p"
  "has_refusal (fst (wordParts vars src quoted ps s)) \<longleftrightarrow> has_refusal (fst s) \<or> list_ex refused_in_part ps"
  by (induction vars src quoted p s and vars src quoted ps s rule: wordPart_wordParts.induct)
    (auto simp: refused_part_def case_prod_unfold Let_def)

lemma posix_word_refused:
  "has_refusal (fst (posix_word vars src w x)) \<longleftrightarrow> has_refusal w \<or> list_ex refused_in_part x"
  using wordParts_refused(2) [of vars src False x "(w, zero_word)"]
  by (simp add: posix_word_def case_prod_unfold Let_def)

lemma posix_words_refused:
  "has_refusal (fst (posix_words vars src w xs)) \<longleftrightarrow> has_refusal w \<or> (\<exists>x \<in> set xs. list_ex refused_in_part x)"
  by (induction xs arbitrary: w) (auto simp: case_prod_unfold Let_def posix_word_refused)

definition refused_in_redirect :: "sh_redirect \<Rightarrow> bool" where
  "refused_in_redirect r =
     (fileRedirection (sr_op r) \<and> (case sr_word r of None \<Rightarrow> False | Some x \<Rightarrow> list_ex refused_in_part x))"

lemma posix_redirections_refused:
  "has_refusal (fst (posix_redirections vars src w rs)) \<longleftrightarrow> has_refusal w \<or> (\<exists>r \<in> set rs. refused_in_redirect r)"
  by (induction rs arbitrary: w)
    (auto simp: case_prod_unfold Let_def posix_word_refused refused_in_redirect_def split: option.split)

definition refused_in_assign :: "sh_assign \<Rightarrow> bool" where
  "refused_in_assign a =
     (as_name a = None \<or> as_array a \<or> as_index a \<or>
      (case as_value a of None \<Rightarrow> False | Some x \<Rightarrow> list_ex refused_in_part x))"

lemma posix_assigns_refused:
  "has_refusal (fst (posix_assigns vars src span w as)) \<longleftrightarrow> has_refusal w \<or> (\<exists>a \<in> set as. refused_in_assign a)"
  by (induction as arbitrary: w)
    (auto simp: case_prod_unfold Let_def posix_word_refused refused_in_assign_def split: option.splits)

lemma posix_call_refused:
  "has_refusal w \<or> (\<exists>a \<in> set assigns. refused_in_assign a) \<or>
   (if args = [] then assigns \<noteq> []
    else (\<exists>x \<in> set args. list_ex refused_in_part x) \<or> (\<exists>r \<in> set redirs. refused_in_redirect r)) \<Longrightarrow>
   has_refusal (posix_call vars src w assigns args span redirs)"
  using posix_assigns_refused [of vars src span w assigns]
  by (auto simp: posix_call_def Let_def case_prod_unfold posix_words_refused posix_redirections_refused
      intro!: refused_dispatch split: if_splits)

text \<open>What of a statement is refused: a background statement, an assignment without a command, a compound command,
  a redirection of a group, and code in a word.\<close>

fun refused_in_stmt :: "sh_stmt \<Rightarrow> bool" and refused_in_command :: "sh_command \<Rightarrow> sh_redirect list \<Rightarrow> bool"
  and refused_in_stmts :: "sh_stmt list \<Rightarrow> bool" where
  "refused_in_stmt (Stmt span background redirs None) = False"
| "refused_in_stmt (Stmt span background redirs (Some cmd)) = (background \<or> refused_in_command cmd redirs)"
| "refused_in_command (CallExpr assigns args) redirs =
     ((\<exists>a \<in> set assigns. refused_in_assign a) \<or>
      (if args = [] then assigns \<noteq> []
       else (\<exists>x \<in> set args. list_ex refused_in_part x) \<or> (\<exists>r \<in> set redirs. refused_in_redirect r)))"
| "refused_in_command (BinaryCmd b x y) redirs = (refused_in_stmt x \<or> refused_in_stmt y)"
| "refused_in_command (Block body) redirs = (redirs \<noteq> [] \<or> refused_in_stmts body)"
| "refused_in_command (Subshell body) redirs = (redirs \<noteq> [] \<or> refused_in_stmts body)"
| "refused_in_command _ redirs = True"
| "refused_in_stmts [] = False"
| "refused_in_stmts (x # xs) = (refused_in_stmt x \<or> refused_in_stmts xs)"

lemma walk_refused:
  "has_refusal w \<or> refused_in_stmt x \<Longrightarrow> has_refusal (posix_stmt vars src w x op)"
  "has_refusal w \<or> refused_in_command c redirs \<Longrightarrow> has_refusal (posix_command vars src w c span redirs op)"
  "has_refusal w \<or> refused_in_stmts xs \<Longrightarrow> has_refusal (posix_stmts vars src w xs op)"
proof (induction vars src w x op and vars src w c span redirs op and vars src w xs op
    rule: posix_stmt_posix_command_posix_stmts.induct)
  case (3 vars src w assigns args span redirs op)
  then show ?case by (simp add: posix_call_refused split: if_splits)
qed (auto simp: Let_def redirsUnsupported_def)

lemma posix_Parse_total: "\<exists>p. posix_Parse grammar inp = Inr p"
  by (simp add: posix_Parse_def Let_def split: sum.split)

lemma posix_Parse_refused:
  assumes "case grammar (pi_Command inp) of Inl _ \<Rightarrow> True | Inr body \<Rightarrow> refused_in_stmts body"
  shows "\<not> Parsed_OK (projr (posix_Parse grammar inp))"
proof (cases "MaxCommandBytes < int (length (pi_Command inp))")
  case False
  show ?thesis
  proof (cases "grammar (pi_Command inp)")
    case (Inr body)
    then have "refused_in_stmts body" using assms by simp
    with False Inr show ?thesis
      using walk_refused(3) by (simp add: posix_Parse_def Let_def Parsed_OK_def has_refusal_def)
  qed (use False in \<open>simp add: posix_Parse_def Let_def\<close>)
qed (simp add: posix_Parse_def Let_def)

section \<open>Every command is seen\<close>

text \<open>The text a word stands for, and the source of the commands of a tree, in order: every call with a name.\<close>

definition posix_text :: "var_context \<Rightarrow> string \<Rightarrow> sh_word \<Rightarrow> string" where
  "posix_text vars src x =
     w_text (snd (posix_word vars src
       \<lparr>wk_out = \<lparr>pc_dialect = DialectPosix, pc_commands = [], pc_operators = [], pc_unsupported = [], pc_final_cwd = []\<rparr>,
        wk_cwd = [], wk_pending = OpNone, wk_truncated = False, wk_hard_capped = False\<rparr> x))"

fun calls_of_stmt :: "var_context \<Rightarrow> string \<Rightarrow> sh_stmt \<Rightarrow> string list"
  and calls_of_command :: "var_context \<Rightarrow> string \<Rightarrow> sh_command \<Rightarrow> sh_span \<Rightarrow> string list"
  and calls_of_stmts :: "var_context \<Rightarrow> string \<Rightarrow> sh_stmt list \<Rightarrow> string list" where
  "calls_of_stmt vars src (Stmt span background redirs None) = []"
| "calls_of_stmt vars src (Stmt span background redirs (Some cmd)) = calls_of_command vars src cmd span"
| "calls_of_command vars src (CallExpr assigns args) span =
     (if args = [] \<or> posix_text vars src (hd args) = [] then [] else [node_text src span])"
| "calls_of_command vars src (BinaryCmd b x y) span = calls_of_stmt vars src x @ calls_of_stmt vars src y"
| "calls_of_command vars src (Block body) span = calls_of_stmts vars src body"
| "calls_of_command vars src (Subshell body) span = calls_of_stmts vars src body"
| "calls_of_command vars src _ span = []"
| "calls_of_stmts vars src [] = []"
| "calls_of_stmts vars src (x # xs) = calls_of_stmt vars src x @ calls_of_stmts vars src xs"

abbreviation raw_texts :: "walker \<Rightarrow> string list" where
  "raw_texts w \<equiv> map s_raw_text (pc_commands (wk_out w))"

text \<open>A step that is refused or emits commands with the given sources.\<close>

definition emits :: "walker \<Rightarrow> string list \<Rightarrow> walker \<Rightarrow> bool" where
  "emits w ts w' \<longleftrightarrow> has_refusal w' \<or> (\<not> wk_hard_capped w \<longrightarrow> \<not> wk_hard_capped w' \<and> raw_texts w' = raw_texts w @ ts)"

lemma emits_refused [intro]: "has_refusal w' \<Longrightarrow> emits w ts w'"
  by (simp add: emits_def)

lemma emits_trans: "emits w ts w' \<Longrightarrow> emits w' us w'' \<Longrightarrow> (has_refusal w' \<Longrightarrow> has_refusal w'') \<Longrightarrow> emits w (ts @ us) w''"
  unfolding emits_def by auto

lemma unsupportedAt_sels [simp]:
  "pc_commands (wk_out (unsupportedAt w k span t)) = pc_commands (wk_out w)"
  "wk_hard_capped (unsupportedAt w k span t) = wk_hard_capped w" "wk_cwd (unsupportedAt w k span t) = wk_cwd w"
  by (simp_all add: unsupportedAt_def unsupported_def)

lemma emits_emit: "emits w [s_raw_text cmd] (posix_emit w cmd)"
  by (auto simp: emits_def posix_emit_def cap_commands_def Let_def unsupported_def has_refusal_def)

lemma emits_cwd [simp]: "emits w ts (w'\<lparr>wk_cwd := d\<rparr>) = emits w ts w'"
  by (simp add: emits_def)

lemma emits_after_refusal [simp]:
  "emits w ts (posix_emit (unsupportedAt w' k span t) cmd)"
  "emits w ts (posix_dispatch vars (unsupportedAt w' k span t) cmd span')"
  by (intro emits_refused refused_emit refused_dispatch refused_simps)+

lemma emits_changeDir: "emits w [s_raw_text cmd] (posix_changeDir vars w cmd span)"
  using emits_emit [of w "cmd\<lparr>s_builtin := True\<rparr>"]
  by (simp add: posix_changeDir_def Let_def split: list.split)

lemma emits_dispatch:
  "SimpleCommand_Name cmd \<noteq> [] \<Longrightarrow> emits w [s_raw_text cmd] (posix_dispatch vars w cmd span)"
  by (subst posix_dispatch.simps)
    (simp add: Let_def emits_emit emits_changeDir split: option.split)

lemma dispatch_unnamed: "SimpleCommand_Name cmd = [] \<Longrightarrow> posix_dispatch vars w cmd span = w"
  by (subst posix_dispatch.simps) simp

text \<open>Words emit nothing, and their text does not depend on the walker.\<close>

definition quiet :: "walker \<Rightarrow> walker \<Rightarrow> bool" where
  "quiet w w' \<longleftrightarrow> pc_commands (wk_out w') = pc_commands (wk_out w) \<and> wk_hard_capped w' = wk_hard_capped w"

lemma quiet_simps [simp]: "quiet w w" "quiet w (unsupportedAt w k span t)" "quiet w (w\<lparr>wk_pending := op\<rparr>)"
  by (simp_all add: quiet_def)

lemma quiet_trans: "quiet w w' \<Longrightarrow> quiet w' w'' \<Longrightarrow> quiet w w''"
  by (simp add: quiet_def)

lemma emits_quiet: "quiet w w' \<Longrightarrow> emits w [] w'"
  by (simp add: quiet_def emits_def)

lemma wordParts_quiet:
  "quiet (fst s) (fst (wordPart vars src quoted p s))" "quiet (fst s) (fst (wordParts vars src quoted ps s))"
  by (induction vars src quoted p s and vars src quoted ps s rule: wordPart_wordParts.induct)
    (auto simp: refused_part_def case_prod_unfold Let_def intro: quiet_trans)

lemma wordParts_independent:
  "snd (wordPart vars src quoted p s) = snd (wordPart vars src quoted p (w, snd s))"
  "snd (wordParts vars src quoted ps s) = snd (wordParts vars src quoted ps (w, snd s))"
proof (induction vars src quoted p s and vars src quoted ps s arbitrary: w and w rule: wordPart_wordParts.induct)
  case (11 vars src quoted p ps s)
  then show ?case by (metis surjective_pairing snd_conv wordParts.simps(2))
qed (simp_all add: refused_part_def case_prod_unfold Let_def)

lemma posix_word_text: "w_text (snd (posix_word vars src w x)) = posix_text vars src x"
proof -
  have "snd (wordParts vars src False x (w, zero_word)) = snd (wordParts vars src False x (w', zero_word))" for w'
    using wordParts_independent(2) [of vars src False x "(w, zero_word)" w'] by simp
  then have "snd (posix_word vars src w x) = snd (posix_word vars src w' x)" for w'
    unfolding posix_word_def Let_def case_prod_unfold snd_conv by metis
  then show ?thesis unfolding posix_text_def by metis
qed

lemma posix_word_quiet: "quiet w (fst (posix_word vars src w x))"
  using wordParts_quiet(2) [of "(w, zero_word)" vars src False x] by (simp add: posix_word_def case_prod_unfold Let_def)

lemma posix_words_quiet: "quiet w (fst (posix_words vars src w xs))"
  by (induction xs arbitrary: w) (auto simp: case_prod_unfold Let_def intro: quiet_trans posix_word_quiet)

lemma posix_words_texts: "map w_text (snd (posix_words vars src w xs)) = map (posix_text vars src) xs"
  by (induction xs arbitrary: w) (auto simp: case_prod_unfold Let_def posix_word_text)

lemma posix_redirections_quiet: "quiet w (fst (posix_redirections vars src w rs))"
  by (induction rs arbitrary: w)
    (auto simp: case_prod_unfold Let_def intro: quiet_trans posix_word_quiet split: option.split)

lemma posix_assigns_quiet: "quiet w (fst (posix_assigns vars src span w as))"
proof (induction as arbitrary: w)
  case (Cons a as)
  have "quiet w (fst (case as_value a of None \<Rightarrow> (w, zero_word) | Some x \<Rightarrow> posix_word vars src w x))"
    using posix_word_quiet by (simp split: option.split)
  then show ?case
    using Cons.IH quiet_trans [OF _ Cons.IH] by (auto simp: case_prod_unfold Let_def split: option.split)
qed simp

lemma emits_call:
  "emits w (if args = [] \<or> posix_text vars src (hd args) = [] then [] else [node_text src span])
     (posix_call vars src w assigns args span redirs)"
proof -
  define a where "a = posix_assigns vars src span w assigns"
  define b where "b = posix_words vars src (fst a) args"
  define c where "c = posix_redirections vars src (fst b) redirs"
  have q: "quiet w (fst a)" unfolding a_def by (rule posix_assigns_quiet)
  have "quiet (fst a) (fst b)" "quiet (fst b) (fst c)"
    unfolding b_def c_def by (rule posix_words_quiet, rule posix_redirections_quiet)
  with q have r: "quiet w (fst c)" by (blast intro: quiet_trans)
  show ?thesis
  proof (cases "args = []")
    case True
    then show ?thesis using q by (auto simp: posix_call_def Let_def case_prod_unfold a_def emits_quiet)
  next
    case False
    let ?cmd = "\<lparr>s_argv = snd b, s_env = snd a, s_redirections = snd c, s_cwd = wk_cwd w, s_raw_text = node_text src span,
        s_operator = OpNone, s_piped_into = False, s_piped_from = False, s_elevated = False, s_builtin = False\<rparr>"
    have call: "posix_call vars src w assigns args span redirs = posix_dispatch vars (fst c) ?cmd span"
      using False by (simp add: posix_call_def Let_def case_prod_unfold a_def b_def c_def)
    have "map w_text (snd b) = map (posix_text vars src) args" by (simp add: b_def posix_words_texts)
    then have name: "SimpleCommand_Name ?cmd = posix_text vars src (hd args)"
      using False by (cases args; cases "snd b") (auto simp: SimpleCommand_Name_def)
    show ?thesis
    proof (cases "posix_text vars src (hd args) = []")
      case True
      then show ?thesis using r name by (simp add: call dispatch_unnamed emits_quiet)
    next
      case named: False
      then have "emits (fst c) [node_text src span] (posix_dispatch vars (fst c) ?cmd span)"
        using emits_dispatch [of ?cmd] name by simp
      from emits_trans [OF emits_quiet [OF r] this refused_dispatch] show ?thesis
        using named False by (simp add: call)
    qed
  qed
qed

lemma map_update_same: "i < length xs \<Longrightarrow> (map f xs)[i := f (xs ! i)] = map f xs"
  by (metis list_update_id nth_map)

lemma posix_mark_pipe_sels [simp]: "raw_texts (posix_mark_pipe b i j w) = raw_texts w" "wk_hard_capped (posix_mark_pipe b i j w) = wk_hard_capped w"
  by (simp_all add: posix_mark_pipe_def Let_def map_update map_update_same less_imp_diff_less)

lemma emits_posix_mark_pipe: "emits w ts w' \<Longrightarrow> emits w ts (posix_mark_pipe b i j w')"
  by (simp add: emits_def)

lemma emits_walk:
  "emits w (calls_of_stmt vars src x) (posix_stmt vars src w x op)"
  "emits w (calls_of_command vars src c span) (posix_command vars src w c span redirs op)"
  "emits w (calls_of_stmts vars src xs) (posix_stmts vars src w xs op)"
proof (induction vars src w x op and vars src w c span redirs op and vars src w xs op
    rule: posix_stmt_posix_command_posix_stmts.induct)
  case (2 vars src w span background redirs cmd op)
  then show ?case using walk_refused(2) by (cases background) (auto simp: emits_def)
next
  case (3 vars src w assigns args span redirs op)
  show ?case using emits_call [of "w\<lparr>wk_pending := op\<rparr>" args vars src span assigns redirs] by (simp add: emits_def)
next
  case (4 vars src w b x y span redirs op)
  show ?case
    using emits_trans [OF 4(1) 4(2) [OF refl refl refl]] walk_refused(1) by (simp add: Let_def emits_posix_mark_pipe)
next
  case (5 vars src w body span redirs op)
  then show ?case using walk_refused(3) by (cases "redirs = []") (auto simp: emits_def redirsUnsupported_def)
next
  case (6 vars src w body span redirs op)
  then show ?case using walk_refused(3) by (cases "redirs = []") (auto simp: emits_def redirsUnsupported_def)
next
  case (13 vars src w x xs op)
  then show ?case using emits_trans [OF 13] walk_refused(3) by simp
qed (auto simp: emits_def)

lemma posix_Parse_commands:
  assumes "posix_Parse grammar inp = Inr p" and "Parsed_OK p"
  shows "\<exists>body. grammar (pi_Command inp) = Inr body \<and>
    map s_raw_text (pc_commands p) = calls_of_stmts (FromInput inp) (pi_Command inp) body"
proof -
  obtain body where body: "grammar (pi_Command inp) = Inr body" "int (length (pi_Command inp)) \<le> MaxCommandBytes"
    using assms by (auto simp: posix_Parse_def Let_def split: if_splits sum.splits)
  let ?w = "\<lparr>wk_out = \<lparr>pc_dialect = DialectPosix, pc_commands = [], pc_operators = [], pc_unsupported = [],
      pc_final_cwd = pi_Cwd inp\<rparr>, wk_cwd = pi_Cwd inp, wk_pending = OpNone, wk_truncated = False, wk_hard_capped = False\<rparr>"
  have p: "p = (wk_out (posix_stmts (FromInput inp) (pi_Command inp) ?w body OpNone))
      \<lparr>pc_final_cwd := wk_cwd (posix_stmts (FromInput inp) (pi_Command inp) ?w body OpNone)\<rparr>"
    using assms(1) body by (simp add: posix_Parse_def Let_def)
  have "\<not> has_refusal (posix_stmts (FromInput inp) (pi_Command inp) ?w body OpNone)"
    using assms(2) by (simp add: p Parsed_OK_def has_refusal_def)
  with emits_walk(3) [of ?w "FromInput inp" "pi_Command inp" body OpNone]
  have "map s_raw_text (pc_commands p) = calls_of_stmts (FromInput inp) (pi_Command inp) body"
    by (simp add: emits_def p)
  with body(1) show ?thesis by blast
qed

end
