(* ===== verification/Posix_Properties.thy ===== *)
theory Posix_Properties
  imports Resolver_Properties Parser_Posix
begin

text \<open>
  The properties of the POSIX dialect through the whole pipeline, for every grammar: what the walk refuses is never
  allowed, what is allowed was seen command by command, and what the walk does not visit.
\<close>

abbreviation posix_input :: "request_context \<Rightarrow> action_request \<Rightarrow> parse_input" where
  "posix_input actx request \<equiv>
     \<lparr>pi_Command = rq_raw_command request, pi_Cwd = rq_cwd request, pi_Home = cx_home_dir actx,
      pi_TempDir = cx_temp_dir actx, pi_Env = Map.empty\<rparr>"

text \<open>A request that reaches the POSIX parser: its dialect is POSIX or left out.\<close>

definition posix_routed :: "resolver \<Rightarrow> action_request \<Rightarrow> sh_grammar \<Rightarrow> bool" where
  "posix_routed rs request grammar \<longleftrightarrow>
     DialectFor (rq_dialect request) DialectPosix = DialectPosix \<and>
     Parsers_Get (rv_parsers rs) DialectPosix = Inr (posix_Parse grammar)"

lemma posix_parsed_as:
  assumes "rx_action ctx = Some actx" and "posix_routed rs request grammar"
    and "posix_Parse grammar (posix_input actx request) = Inr p"
  shows "parsed_as rs request ctx p"
  using assms by (simp add: parsed_as_def run_parse_def posix_routed_def)

lemma posix_parsed:
  assumes "rx_action ctx = Some actx" and "posix_routed rs request grammar"
  obtains p where "posix_Parse grammar (posix_input actx request) = Inr p" "parsed_as rs request ctx p"
  using posix_parsed_as [OF assms] posix_Parse_total by blast

definition posix_resolver :: "sh_grammar \<Rightarrow> resolver" where
  "posix_resolver grammar =
     resolver_New (Parsers_Register [] DialectPosix (posix_Parse grammar)) [] (\<lambda>_. False) (\<lambda>_ _ _. None) 1"

definition posix_request :: "string \<Rightarrow> action_request" where
  "posix_request line = (cmd_request line)\<lparr>rq_dialect := DialectPosix\<rparr>"

definition posix_action :: "sh_grammar \<Rightarrow> string \<Rightarrow> resolved_action" where
  "posix_action grammar line =
     ResolveInContext (posix_resolver grammar) (posix_request line) (Some sample_resolver_context)"

lemma posix_sample [simp]:
  "posix_routed (posix_resolver grammar) (posix_request line) grammar"
  "pi_action (sample_input (posix_action grammar line)) =
     Some (ResolveInContext (posix_resolver grammar) (posix_request line) (Some sample_resolver_context))"
  "rx_action sample_resolver_context = Some sample_context" "rq_raw_command (posix_request line) = line"
  "rq_cwd (posix_request line) = ''/w''" "cx_home_dir sample_context = ''/home/u''" "cx_temp_dir sample_context = ''/tmp''"
  by (simp_all add: posix_routed_def posix_resolver_def resolver_New_def Parsers_Get_Register posix_request_def
      DialectFor_def sample_input_def posix_action_def sample_resolver_context_def cmd_request_def sample_context_def)

text \<open>The tree of a line whose arguments are plain literals, and the one of \<^verbatim>\<open>echo $(git push)\<close>.\<close>

definition plain_call :: "sh_span \<Rightarrow> string list \<Rightarrow> sh_redirect list \<Rightarrow> sh_stmt" where
  "plain_call span argv redirs = Stmt span False redirs (Some (CallExpr [] (map (\<lambda>t. [Lit t]) argv)))"

definition substituted_tree :: "sh_stmt list" where
  "substituted_tree =
     [Stmt (True, 0, 16) False [] (Some (CallExpr [] [[Lit ''echo''], [CmdSubst (True, 5, 16)]]))]"

text \<open>C18. A POSIX line is never allowed that the grammar rejects or whose tree holds a construct the walk refuses:
  a command, process or arithmetic substitution in a word, a background statement, a compound command, a function or
  declaration, a redirected group, an assignment without a command. This is for every grammar, every other part of the
  line, every set of recognizers and every store.\<close>

theorem posix_code_never_allowed:
  assumes "pi_action inp = Some (ResolveInContext rs request (Some ctx))" and "rx_action ctx = Some actx"
    and "posix_routed rs request grammar"
    and "case grammar (rq_raw_command request) of Inl _ \<Rightarrow> True | Inr body \<Rightarrow> refused_in_stmts body"
  shows "d_outcome (fst (Evaluate e inp consent s)) \<noteq> OutcomeAllow"
proof -
  obtain p where p: "posix_Parse grammar (posix_input actx request) = Inr p" "parsed_as rs request ctx p"
    using posix_parsed [OF assms(2,3)] .
  have "\<not> Parsed_OK (projr (posix_Parse grammar (posix_input actx request)))"
    by (rule posix_Parse_refused) (simp add: assms(4))
  then have "\<not> Parsed_OK p" by (simp add: p(1))
  with p(2) show ?thesis by (rule unsupported_refused [OF assms(1)])
qed

theorem posix_code_never_allowed_witness:
  "d_outcome (fst (Evaluate (stored_engine 1 5)
     (sample_input (posix_action (\<lambda>_. Inr substituted_tree) ''echo $(git push)'')) None sample_store)) \<noteq> OutcomeAllow"
  by (rule posix_code_never_allowed [OF posix_sample(2,3,1)]) (simp add: substituted_tree_def)

section \<open>Lines the model allows\<close>

lemma echo_x_noop:
  "noop_Recognize (command_request rs ctx d j (echo_command [''x''] raw)) =
     resolved (command_request rs ctx d j (echo_command [''x''] raw)) OpNoop"
  by (simp add: noop_Recognize_def Let_def Scan_permissive noopGrammar_def empty_grammar_def command_request_def
      echo_command_def simple_def SimpleCommand_Args_def SimpleCommand_Name_def grammar_isOption_def HasPrefix_def)

lemma posix_echo_allowed:
  assumes "posix_Parse grammar (cmd_input line) = Inr p" and "pc_commands p = [echo_command [''x''] raw]" and "Parsed_OK p"
  shows "d_outcome (fst (Evaluate e (sample_input (posix_action grammar line)) consent s)) = OutcomeAllow"
proof (rule one_line_allowed [OF _ assms(2,3) posix_resolver_def sample_context_OK refl echo_noop(3)])
  show "parsed_as (posix_resolver grammar) (posix_request line) sample_resolver_context p"
    using posix_parsed_as [OF posix_sample(3,1)] assms(1) by simp
qed (simp_all add: echo_x_noop echo_noop reads_only_noop, simp_all add: sample_input_def Default_def Context_OK_def sample_context_def)

text \<open>C19. An allowed POSIX line was seen whole: the grammar accepted it, its tree holds nothing the walk refuses, and
  the commands that were judged are, in order and with their source text, the calls of the tree that have a name.\<close>

theorem posix_sees_every_command:
  assumes "pi_action inp = Some (ResolveInContext rs request (Some ctx))" and "rx_action ctx = Some actx"
    and "posix_routed rs request grammar" and "d_outcome (fst (Evaluate e inp consent s)) = OutcomeAllow"
  shows "\<exists>p body. parsed_as rs request ctx p \<and> grammar (rq_raw_command request) = Inr body \<and>
    \<not> refused_in_stmts body \<and>
    map s_raw_text (pc_commands p) =
      calls_of_stmts (FromInput (posix_input actx request)) (rq_raw_command request) body"
proof -
  obtain p where p: "posix_Parse grammar (posix_input actx request) = Inr p" "parsed_as rs request ctx p"
    using posix_parsed [OF assms(2,3)] .
  then have ok: "Parsed_OK p" using unsupported_refused [OF assms(1) p(2), of e consent s] assms(4) by auto
  obtain body where "grammar (rq_raw_command request) = Inr body"
      "map s_raw_text (pc_commands p) =
        calls_of_stmts (FromInput (posix_input actx request)) (rq_raw_command request) body"
    using posix_Parse_commands [OF p(1) ok] by auto
  moreover have "\<not> refused_in_stmts body"
    using posix_Parse_refused [of grammar "posix_input actx request"] ok calculation(1) by (auto simp: p(1))
  ultimately show ?thesis using p(2) by blast
qed

definition echo_tree :: "sh_stmt list" where
  "echo_tree = [plain_call (True, 0, 6) [''echo'', ''x''] []]"

definition here_string_tree :: "sh_stmt list" where
  "here_string_tree = [plain_call (True, 0, 24) [''echo'', ''x'']
     [\<lparr>sr_op = OtherRedir ''<<<'', sr_number = None, sr_word = Some [DblQuoted [CmdSubst (True, 12, 23)]]\<rparr>]]"

definition emptying_tree :: "sh_stmt list" where
  "emptying_tree = [plain_call (True, 0, 7) [''echo'', ''x''] [],
     Stmt (True, 8, 19) False [\<lparr>sr_op = RdrOut, sr_number = None, sr_word = Some [Lit ''~/.bashrc'']\<rparr>] None]"

definition here_string_line :: string where
  "here_string_line = ''echo x <<< '' @ [CHR 0x22] @ ''$(git push)'' @ [CHR 0x22]"

definition judged_as_echo :: "sh_stmt list \<Rightarrow> string \<Rightarrow> string \<Rightarrow> bool" where
  "judged_as_echo tree line raw \<longleftrightarrow>
     (case posix_Parse (\<lambda>_. Inr tree) (cmd_input line) of
        Inl _ \<Rightarrow> False
      | Inr p \<Rightarrow> pc_commands p = [echo_command [''x''] raw] \<and> pc_unsupported p = [])"

lemma judged_as_echo_allowed:
  assumes "judged_as_echo tree line raw"
  shows "d_outcome (fst (Evaluate e (sample_input (posix_action (\<lambda>_. Inr tree) line)) consent s)) = OutcomeAllow"
proof -
  obtain p where "posix_Parse (\<lambda>_. Inr tree) (cmd_input line) = Inr p" "pc_commands p = [echo_command [''x''] raw]"
      "pc_unsupported p = []"
    using assms by (auto simp: judged_as_echo_def split: sum.splits)
  then show ?thesis using posix_echo_allowed [of "\<lambda>_. Inr tree" line p raw] by (simp add: Parsed_OK_def)
qed

lemma echoes_judged:
  "judged_as_echo echo_tree ''echo x'' ''x''"
  "judged_as_echo here_string_tree here_string_line (''x <<< '' @ [CHR 0x22] @ ''$(git push)'' @ [CHR 0x22])"
  "judged_as_echo emptying_tree ''echo x; > ~/.bashrc'' ''x;''"
  by code_simp+

theorem posix_sees_every_command_witness:
  "\<exists>p. parsed_as (posix_resolver (\<lambda>_. Inr echo_tree)) (posix_request ''echo x'') sample_resolver_context p \<and>
     map s_raw_text (pc_commands p) = [''echo x'']"
proof -
  have "calls_of_stmts (FromInput (posix_input sample_context (posix_request ''echo x''))) ''echo x'' echo_tree = [''echo x'']"
    by code_simp
  then show ?thesis
    using posix_sees_every_command [OF posix_sample(2,3,1) judged_as_echo_allowed [OF echoes_judged(1)]]
    by auto
qed

text \<open>The walk misses code the shell runs. The word of a here-string is not visited, so the substitution in
  \<^verbatim>\<open>echo x <<< "$(git push)"\<close> is unseen; and a redirection without a command is skipped, so in
  \<^verbatim>\<open>echo x; > ~/.bashrc\<close> nothing records that the file is emptied. Both lines are allowed as an \<^verbatim>\<open>echo\<close>.\<close>

theorem posix_redirection_hidden:
  "d_outcome (fst (Evaluate (stored_engine 1 5)
     (sample_input (posix_action (\<lambda>_. Inr here_string_tree) here_string_line)) None sample_store)) = OutcomeAllow \<and>
   d_outcome (fst (Evaluate (stored_engine 1 5)
     (sample_input (posix_action (\<lambda>_. Inr emptying_tree) ''echo x; > ~/.bashrc'')) None sample_store)) = OutcomeAllow"
  by (rule conjI [OF judged_as_echo_allowed [OF echoes_judged(2)] judged_as_echo_allowed [OF echoes_judged(3)]])

end
