(* ===== verification/Parser_PowerShell.thy ===== *)
theory Parser_PowerShell
  imports Parser_Cmd
begin

text \<open>
  \<^verbatim>\<open>internal/parser/powershell/parser.go\<close>: the parser of the PowerShell dialect. Its walker, its segments and the
  code that emits commands, marks pipelines and joins directories are those of the cmd.exe parser, word
  for word, so the definitions of \<open>Parser_Cmd\<close> are used for them. The index loops are recursions over the rest
  of the text; a quote is the character that closes it. The lemmas show that a line this parser accepts has no
  script block and no substitution outside quotes, and that the limits on commands are enforced.
\<close>

section \<open>Tables\<close>

definition ps_aliases :: "(string \<times> string) list" where
  "ps_aliases =
     [(''ri'', ''Remove-Item''), (''rm'', ''Remove-Item''), (''del'', ''Remove-Item''),
      (''erase'', ''Remove-Item''), (''rd'', ''Remove-Item''), (''rmdir'', ''Remove-Item''),
      (''cpi'', ''Copy-Item''), (''cp'', ''Copy-Item''), (''copy'', ''Copy-Item''),
      (''mi'', ''Move-Item''), (''mv'', ''Move-Item''), (''move'', ''Move-Item''),
      (''ni'', ''New-Item''), (''md'', ''New-Item''), (''mkdir'', ''New-Item''),
      (''gc'', ''Get-Content''), (''cat'', ''Get-Content''), (''type'', ''Get-Content''),
      (''gci'', ''Get-ChildItem''), (''ls'', ''Get-ChildItem''), (''dir'', ''Get-ChildItem''),
      (''sls'', ''Select-String''),
      (''sl'', ''Set-Location''), (''cd'', ''Set-Location''), (''chdir'', ''Set-Location''),
      (''gl'', ''Get-Location''), (''pwd'', ''Get-Location''),
      (''echo'', ''Write-Output''), (''write'', ''Write-Output''),
      (''sc'', ''Set-Content''), (''ac'', ''Add-Content''),
      (''gcm'', ''Get-Command''), (''gm'', ''Get-Member'')]"

definition ps_refusedCommands :: "(string \<times> unsupported_kind) list" where
  "ps_refusedCommands =
     [(''invoke-expression'', UnsupportedInvokeExpression), (''iex'', UnsupportedInvokeExpression),
      (''start-process'', UnsupportedStartProcess), (''saps'', UnsupportedStartProcess),
      (''start'', UnsupportedStartProcess), (''invoke-command'', UnsupportedInvokeExpression),
      (''icm'', UnsupportedInvokeExpression), (''set-alias'', UnsupportedAlias), (''new-alias'', UnsupportedAlias),
      (''sal'', UnsupportedAlias), (''set-variable'', UnsupportedExport), (''set-item'', UnsupportedExport),
      (''push-location'', UnsupportedDirStack), (''pushd'', UnsupportedDirStack),
      (''pop-location'', UnsupportedDirStack), (''popd'', UnsupportedDirStack), (''trap'', UnsupportedTrap),
      (''invoke-item'', UnsupportedStartProcess), (''ii'', UnsupportedStartProcess)]"

section \<open>Segments\<close>

text \<open>What ends the parse: the construct that is refused and where it stands.\<close>

type_synonym refusal = "unsupported_kind \<times> nat \<times> string"

abbreviation ps_quote :: "char \<Rightarrow> bool" where
  "ps_quote c \<equiv> c = CHR 0x27 \<or> c = CHR 0x22"

abbreviation next_is :: "string \<Rightarrow> char \<Rightarrow> bool" where
  "next_is cs d \<equiv> cs \<noteq> [] \<and> hd cs = d"

fun ps_split_from ::
    "nat \<Rightarrow> string \<Rightarrow> string \<Rightarrow> operator \<Rightarrow> nat \<Rightarrow> char option \<Rightarrow> int \<Rightarrow> segment list \<Rightarrow> refusal + segment list" where
  "ps_split_from i [] current op start quote depth segments =
     (if quote \<noteq> None then Inl (UnsupportedSyntaxError, i, ''unterminated quote'')
      else Inr (segments @ [flush_segment current op start False]))"
| "ps_split_from i (c # cs) current op start quote depth segments =
     (if quote \<noteq> None then
        ps_split_from (i + 1) cs (current @ [c]) op start (if quote = Some c then None else quote) depth segments
      else if ps_quote c then ps_split_from (i + 1) cs (current @ [c]) op start (Some c) depth segments
      else if c = CHR ''{'' then Inl (UnsupportedScriptBlock, i, ''{'')
      else if c = CHR ''('' then ps_split_from (i + 1) cs (current @ [c]) op start None (depth + 1) segments
      else if c = CHR '')'' then ps_split_from (i + 1) cs (current @ [c]) op start None (depth - 1) segments
      else if c = CHR ''$'' \<and> next_is cs (CHR ''('') then Inl (UnsupportedCommandSubstitution, i, ''$('')
      else if c = CHR ''@'' \<and> next_is cs (CHR ''('') then Inl (UnsupportedCommandSubstitution, i, ''@('')
      else if 0 < depth then ps_split_from (i + 1) cs (current @ [c]) op start None depth segments
      else if c = CHR '';'' then
        ps_split_from (i + 1) cs [] OpSequence (i + 1) None depth (segments @ [flush_segment current op start False])
      else if c = CHR ''&'' \<and> next_is cs (CHR ''&'') then
        ps_split_from (i + 2) (tl cs) [] OpAnd (i + 2) None depth (segments @ [flush_segment current op start False])
      else if c = CHR ''|'' \<and> next_is cs (CHR ''|'') then
        ps_split_from (i + 2) (tl cs) [] OpOr (i + 2) None depth (segments @ [flush_segment current op start False])
      else if c = CHR ''|'' then
        ps_split_from (i + 1) cs [] OpPipe (i + 1) None depth (segments @ [flush_segment current op start True])
      else ps_split_from (i + 1) cs (current @ [c]) op start None depth segments)"

definition ps_background :: "segment list \<Rightarrow> parsed_command \<Rightarrow> parsed_command" where
  "ps_background segments out =
     foldl (\<lambda>out item. if HasSuffix (TrimSpace (sg_text item)) ''&''
                       then AddUnsupported out UnsupportedBackground (sg_position item) ''&'' else out) out segments"

definition ps_splitSegments :: "string \<Rightarrow> parsed_command \<Rightarrow> segment list option \<times> parsed_command" where
  "ps_splitSegments line out =
     (case ps_split_from 0 line [] OpNone 0 None 0 [] of
        Inl (kind, position, t) \<Rightarrow> (None, AddUnsupported out kind position t)
      | Inr segments \<Rightarrow> (Some segments, ps_background segments out))"

section \<open>Tokens\<close>

record ps_token =
  pt_text :: string
  pt_quoted :: bool
  pt_unexpanded :: bool
  pt_expandable :: string

definition isRedirectHandlePrefix :: "string \<Rightarrow> bool" where
  "isRedirectHandlePrefix s = (s = ''*'' \<or> isDigits s)"

definition ps_flush ::
    "var_context \<Rightarrow> string \<Rightarrow> string \<Rightarrow> bool \<Rightarrow> bool \<Rightarrow> ps_token list \<Rightarrow> ps_token list" where
  "ps_flush vars literal expandable quoted started tokens =
     (if \<not> started then tokens
      else let (expanded, unexpanded) = ExpandPowerShell expandable vars in
           tokens @ [\<lparr>pt_text = literal @ expanded, pt_quoted = quoted, pt_unexpanded = unexpanded,
                      pt_expandable = expandable\<rparr>])"

definition keepLiteral :: "var_context \<Rightarrow> string \<Rightarrow> string \<Rightarrow> string \<Rightarrow> string" where
  "keepLiteral vars literal expandable v =
     (let (expanded, unexpanded) = ExpandPowerShell expandable vars in
      literal @ (if unexpanded then expandable else expanded) @ v)"

text \<open>The operator that begins with the metacharacter \<open>c\<close>, and the text after it.\<close>

definition operator_token :: "char \<Rightarrow> string \<Rightarrow> string \<times> string" where
  "operator_token c cs =
     (if c = CHR ''>'' \<and> next_is cs (CHR ''>'') then (''>>'', tl cs)
      else if next_is cs (CHR ''&'')
        then (c # CHR ''&'' # takeWhile is_digit (tl cs), dropWhile is_digit (tl cs))
      else ([c], cs))"

abbreviation handle_token :: "string \<Rightarrow> ps_token" where
  "handle_token t \<equiv> \<lparr>pt_text = t, pt_quoted = False, pt_unexpanded = False, pt_expandable = []\<rparr>"

lemma operator_token_length: "length (snd (operator_token c cs)) \<le> length cs"
  by (cases cs) (auto simp: operator_token_def split: if_splits intro: le_SucI length_dropWhile_le)

function ps_split_tokens ::
    "var_context \<Rightarrow> string \<Rightarrow> string \<Rightarrow> string \<Rightarrow> char option \<Rightarrow> bool \<Rightarrow> bool \<Rightarrow> ps_token list \<Rightarrow> ps_token list" where
  "ps_split_tokens vars [] literal expandable quote quoted started tokens =
     ps_flush vars literal expandable quoted started tokens"
| "ps_split_tokens vars (c # cs) literal expandable quote quoted started tokens =
     (case quote of
        Some q \<Rightarrow>
          if c = q then ps_split_tokens vars cs literal expandable None quoted started tokens
          else if q = CHR 0x27
            then ps_split_tokens vars cs (keepLiteral vars literal expandable [c]) [] quote quoted True tokens
          else ps_split_tokens vars cs literal (expandable @ [c]) quote quoted True tokens
      | None \<Rightarrow>
          if (c = CHR ''<'' \<or> c = CHR ''>'') \<and> literal = [] \<and> isRedirectHandlePrefix expandable then
            ps_split_tokens vars (snd (operator_token c cs)) literal [] None quoted False
              (tokens @ [handle_token (expandable @ fst (operator_token c cs))])
          else if c = CHR ''<'' \<or> c = CHR ''>'' then
            ps_split_tokens vars (snd (operator_token c cs)) (if started then [] else literal)
              (if started then [] else expandable) None (if started then False else quoted) False
              (ps_flush vars literal expandable quoted started tokens @ [handle_token (fst (operator_token c cs))])
          else if c = CHR 0x60 then
            (if cs \<noteq> [] then
               ps_split_tokens vars (tl cs) (keepLiteral vars literal expandable [hd cs]) [] None quoted True tokens
             else ps_split_tokens vars cs literal expandable None quoted started tokens)
          else if ps_quote c then ps_split_tokens vars cs literal expandable (Some c) True True tokens
          else if c = CHR '' '' \<or> c = CHR 0x09 \<or> c = CHR 0x0A \<or> c = CHR 0x0D then
            ps_split_tokens vars cs (if started then [] else literal) (if started then [] else expandable) None
              (if started then False else quoted) False (ps_flush vars literal expandable quoted started tokens)
          else ps_split_tokens vars cs literal (expandable @ [c]) None quoted True tokens)"
  by pat_completeness auto
termination
  by (relation "measure (\<lambda>(_, s, _). length s)")
    (auto simp: less_Suc_eq_le operator_token_length)

definition ps_splitTokens :: "var_context \<Rightarrow> string \<Rightarrow> ps_token list" where
  "ps_splitTokens vars t = ps_split_tokens vars t [] [] None False False []"

text \<open>The operator, empty when the redirection is to be ignored.\<close>

definition ps_redirectionOperator :: "string \<Rightarrow> string option" where
  "ps_redirectionOperator t =
     (if t \<in> {''>'', ''>>'', ''<'', ''1>'', ''1>>'', ''2>'', ''2>>'', ''3>'', ''4>'', ''5>'', ''6>'', ''*>'', ''*>>''}
      then Some t
      else if t \<in> {''2>&1'', ''1>&2'', ''*>&1''} then Some []
      else None)"

definition ps_word :: "ps_token \<Rightarrow> word" where
  "ps_word item =
     \<lparr>w_text = pt_text item, w_quoted = pt_quoted item,
      w_glob = (if pt_quoted item then False else ContainsGlob (pt_expandable item)),
      w_unexpanded = pt_unexpanded item\<rparr>"

fun ps_tokenize_from ::
    "ps_token list \<Rightarrow> word list \<Rightarrow> redirection list \<Rightarrow> string \<Rightarrow> (word list \<times> redirection list) option" where
  "ps_tokenize_from [] ws rds pending = (if pending \<noteq> [] then None else Some (ws, rds))"
| "ps_tokenize_from (item # items) ws rds pending =
     (case ps_redirectionOperator (pt_text item) of
        Some op \<Rightarrow> ps_tokenize_from items ws rds (if op = [] then pending else op)
      | None \<Rightarrow>
          let word = ps_word item in
          if pending \<noteq> []
          then ps_tokenize_from items ws
                 (if IsIgnoredRedirectionTarget (w_text word) then rds
                  else rds @ [\<lparr>rd_op = pending, rd_target = word\<rparr>]) []
          else ps_tokenize_from items (ws @ [word]) rds [])"

section \<open>The walker\<close>

definition ps_tokenize ::
    "var_context \<Rightarrow> walker \<Rightarrow> string \<Rightarrow> nat \<Rightarrow> (word list \<times> redirection list) option \<times> walker" where
  "ps_tokenize vars w t position =
     (case ps_tokenize_from (ps_splitTokens vars t) [] [] [] of
        None \<Rightarrow> (None, unsupported w UnsupportedSyntaxError position ''redirection without a target'')
      | Some r \<Rightarrow> (Some r, w))"

fun strip_from :: "string \<Rightarrow> char option \<Rightarrow> string" where
  "strip_from [] quote = []"
| "strip_from (c # cs) quote =
     (if quote \<noteq> None then c # strip_from cs (if quote = Some c then None else quote)
      else if ps_quote c then c # strip_from cs (Some c)
      else if c = CHR ''#'' then []
      else c # strip_from cs None)"

definition ps_stripComment :: "string \<Rightarrow> string" where
  "ps_stripComment t = strip_from t None"

definition ps_hasInlineScriptFlag :: "simple_command \<Rightarrow> bool" where
  "ps_hasInlineScriptFlag cmd =
     (\<exists>a \<in> set (SimpleCommand_Args cmd).
        ToLower (w_text a) \<in> {''-command'', ''-c'', ''-encodedcommand'', ''-e'', ''-enc''})"

definition ps_changeDir :: "var_context \<Rightarrow> walker \<Rightarrow> simple_command \<Rightarrow> segment \<Rightarrow> walker \<times> segment" where
  "ps_changeDir vars w cmd item =
     (let cmd = cmd\<lparr>s_builtin := True\<rparr>;
          args = filter (\<lambda>t. \<not> HasPrefix t ''-'') (ArgTexts cmd)
      in case args of
           [] \<Rightarrow>
             let (w, item) = emit w cmd item
             in (if vc_Home vars \<noteq> [] then w\<lparr>wk_cwd := vc_Home vars\<rparr> else w, item)
         | dir # _ \<Rightarrow>
             if dir = ''-'' then emit (unsupported w UnsupportedCdDash (sg_position item) ''Set-Location -'') cmd item
             else let (w, item) = emit w cmd item in (w\<lparr>wk_cwd := cmd_joinCwd (wk_cwd w) dir\<rparr>, item))"

text \<open>The name the alias table gives, and the rules that depend on the name.\<close>

definition resolve_alias :: "string \<Rightarrow> simple_command \<Rightarrow> simple_command" where
  "resolve_alias name cmd =
     (case map_of ps_aliases name of
        None \<Rightarrow> cmd
      | Some cmdlet \<Rightarrow> cmd\<lparr>s_argv := (s_argv cmd)[0 := (s_argv cmd ! 0)\<lparr>w_text := cmdlet\<rparr>]\<rparr>)"

definition ps_named :: "var_context \<Rightarrow> walker \<Rightarrow> simple_command \<Rightarrow> segment \<Rightarrow> walker \<times> segment" where
  "ps_named vars w cmd item =
     (let name = ToLower (SimpleCommand_Name cmd) in
      case map_of ps_refusedCommands name of
        Some kind \<Rightarrow> emit (unsupported w kind (sg_position item) (SimpleCommand_Name cmd)) cmd item
      | None \<Rightarrow>
          if IsStreamInterpreter name \<and> ps_hasInlineScriptFlag cmd then
            emit (unsupported w UnsupportedShellWrapper (sg_position item) (SimpleCommand_Name cmd)) cmd item
          else if IsElevationWrapper name then
            emit (unsupported w UnsupportedElevation (sg_position item) (SimpleCommand_Name cmd))
              (cmd\<lparr>s_elevated := True\<rparr>) item
          else let cmd = resolve_alias name cmd in
               if EqualFold (SimpleCommand_Name cmd) ''Set-Location'' then ps_changeDir vars w cmd item
               else emit w cmd item)"

definition ps_dispatch :: "var_context \<Rightarrow> walker \<Rightarrow> simple_command \<Rightarrow> segment \<Rightarrow> walker \<times> segment" where
  "ps_dispatch vars w cmd item =
     (let name = ToLower (SimpleCommand_Name cmd) in
      if name = ''&'' \<or> name = ''.'' then
        (if length (s_argv cmd) < 2 \<or> w_text (s_argv cmd ! 1) = []
         then (unsupported w UnsupportedSyntaxError (sg_position item) ''the call operator names nothing to run'', item)
         else ps_named vars w (cmd\<lparr>s_argv := drop 1 (s_argv cmd)\<rparr>) item)
      else ps_named vars w cmd item)"

definition ps_command :: "var_context \<Rightarrow> walker \<Rightarrow> segment \<Rightarrow> walker \<times> segment" where
  "ps_command vars w item =
     (let t = ps_stripComment (sg_text item) in
      if TrimSpace t = [] then (w, item)
      else case ps_tokenize vars w t (sg_position item) of
             (None, w) \<Rightarrow> (w, item)
           | (Some (ws, rds), w) \<Rightarrow>
               (case ws of
                  [] \<Rightarrow> (w, item)
                | first # _ \<Rightarrow>
                    if w_text first = [] then
                      (unsupported w UnsupportedSyntaxError (sg_position item) ''empty command name'', item)
                    else ps_dispatch vars w
                           \<lparr>s_argv = ws, s_env = [], s_redirections = rds, s_cwd = wk_cwd w,
                            s_raw_text = TrimSpace (sg_text item), s_operator = OpNone, s_piped_into = False,
                            s_piped_from = False, s_elevated = False, s_builtin = False\<rparr> item))"

fun ps_walk :: "var_context \<Rightarrow> bool \<Rightarrow> walker \<Rightarrow> segment list \<Rightarrow> walker \<times> segment list" where
  "ps_walk vars first w [] = (w, [])"
| "ps_walk vars first w (item # items) =
     (let w = (if first then w else w\<lparr>wk_pending := sg_operator item\<rparr>);
          (w, item) = ps_command vars w item;
          (w, items) = ps_walk vars False w items
      in (w, item # items))"

definition ps_walker_parse :: "var_context \<Rightarrow> walker \<Rightarrow> string \<Rightarrow> walker" where
  "ps_walker_parse vars w line =
     (case ps_splitSegments line (wk_out w) of
        (None, out) \<Rightarrow> w\<lparr>wk_out := out\<rparr>
      | (Some segments, out) \<Rightarrow>
          let (w, segments) = ps_walk vars True (w\<lparr>wk_out := out\<rparr>) segments
          in w\<lparr>wk_out := (wk_out w)\<lparr>pc_commands := markPipelines (pc_commands (wk_out w)) segments\<rparr>\<rparr>)"

definition ps_Parse :: "parse_input \<Rightarrow> string + parsed_command" where
  "ps_Parse inp =
     (let out = \<lparr>pc_dialect = DialectPowerShell, pc_commands = [], pc_operators = [], pc_unsupported = [],
                 pc_final_cwd = pi_Cwd inp\<rparr>
      in if MaxCommandBytes < int (length (pi_Command inp)) then
           Inr (AddUnsupported out UnsupportedCommandTooLong 0
                 (Itoa (int (length (pi_Command inp))) @ '' bytes exceeds the '' @ Itoa MaxCommandBytes @ '' byte limit''))
         else
           let w = ps_walker_parse (FromInput inp)
                     \<lparr>wk_out = out, wk_cwd = pi_Cwd inp, wk_pending = OpNone, wk_truncated = False,
                      wk_hard_capped = False\<rparr> (pi_Command inp)
           in Inr ((wk_out w)\<lparr>pc_final_cwd := wk_cwd w\<rparr>))"

section \<open>Code outside quotes is refused\<close>

text \<open>The quote that is open after a text, as the parser reads quotes.\<close>

definition quote_step :: "char option \<Rightarrow> char \<Rightarrow> char option" where
  "quote_step q c = (if q \<noteq> None then (if q = Some c then None else q) else if ps_quote c then Some c else None)"

definition open_quote :: "string \<Rightarrow> char option" where
  "open_quote s = foldl quote_step None s"

definition starts_code :: "char \<Rightarrow> string \<Rightarrow> bool" where
  "starts_code c rest = (c = CHR ''{'' \<or> (c = CHR ''$'' \<or> c = CHR ''@'') \<and> next_is rest (CHR ''(''))"

definition unquoted_code :: "string \<Rightarrow> bool" where
  "unquoted_code line = (\<exists>a c b. line = a @ c # b \<and> open_quote a = None \<and> starts_code c b)"

text \<open>One step of the loop: the line is refused, a character is kept in the current segment, or a segment
  ends at a separator of one or two characters.\<close>

lemma ps_split_step:
  obtains (refuse) r where "ps_split_from i (c # cs) current op start q d segments = Inl r"
      "fst r \<noteq> UnsupportedTruncated"
  | (keep) d' where "q = None \<longrightarrow> \<not> starts_code c cs"
      "ps_split_from i (c # cs) current op start q d segments =
         ps_split_from (i + 1) cs (current @ [c]) op start (quote_step q c) d' segments"
  | (cut) n op' piped where "q = None" "c \<in> {CHR '';'', CHR ''&'', CHR ''|''}" "n = 0 \<or> n = 1 \<and> next_is cs c"
      "ps_split_from i (c # cs) current op start q d segments =
         ps_split_from (i + 1 + n) (drop n cs) [] op' (i + 1 + n) None d (segments @ [flush_segment current op start piped])"
proof -
  consider (1) "q \<noteq> None" | (2) "q = None" "ps_quote c" | (3) "q = None" "starts_code c cs"
    | (4) "q = None" "c = CHR ''(''" | (5) "q = None" "c = CHR '')''"
    | (6) "q = None" "\<not> ps_quote c" "\<not> starts_code c cs" "c \<notin> {CHR ''('', CHR '')''}" "0 < d"
    | (7) "q = None" "c = CHR '';''" "\<not> 0 < d" | (8) "q = None" "c = CHR ''&''" "next_is cs c" "\<not> 0 < d"
    | (9) "q = None" "c = CHR ''|''" "next_is cs c" "\<not> 0 < d" | (10) "q = None" "c = CHR ''|''" "\<not> next_is cs c" "\<not> 0 < d"
    | (11) "q = None" "\<not> ps_quote c" "\<not> starts_code c cs" "c \<notin> {CHR ''('', CHR '')'', CHR '';'', CHR ''|''}"
        "\<not> (c = CHR ''&'' \<and> next_is cs (CHR ''&''))" "\<not> 0 < d"
    unfolding insert_iff empty_iff by argo
  then show thesis
  proof cases
    case 1
    show ?thesis by (rule keep [of d]) (use 1 in blast, use 1 in \<open>simp add: quote_step_def\<close>)
  next
    case 2
    show ?thesis by (rule keep [of d]) (use 2 in \<open>force simp: starts_code_def\<close>, use 2 in \<open>simp add: quote_step_def\<close>)
  next
    case 3
    show ?thesis
    proof (cases "c = CHR ''{''")
      case True
      show ?thesis by (rule refuse) (use 3 True in simp, simp)
    next
      case False
      then have "c = CHR ''$'' \<or> c = CHR ''@''" "next_is cs (CHR ''('')" using 3 by (auto simp: starts_code_def)
      then have "ps_split_from i (c # cs) current op start q d segments = Inl (UnsupportedCommandSubstitution, i, [c, CHR ''(''])"
        by (elim disjE) (use 3(1) in simp_all)
      then show ?thesis by (rule refuse) simp
    qed
  next
    case 4
    show ?thesis by (rule keep [of "d + 1"]) (use 4 in \<open>simp_all add: quote_step_def starts_code_def\<close>)
  next
    case 5
    show ?thesis by (rule keep [of "d - 1"]) (use 5 in \<open>simp_all add: quote_step_def starts_code_def\<close>)
  next
    case 6
    have no: "\<not> (c = CHR ''{'')" "\<not> (c = CHR ''$'' \<and> next_is cs (CHR ''(''))" "\<not> (c = CHR ''@'' \<and> next_is cs (CHR ''(''))"
      "c \<noteq> CHR ''(''" "c \<noteq> CHR '')''"
      using 6(3,4) by (auto simp: starts_code_def)
    show ?thesis
      by (rule keep [of d]) (use 6 in blast, simp only: ps_split_from.simps no 6 if_False quote_step_def if_True simp_thms)
  next
    case 7
    show ?thesis by (rule cut [of 0]) (use 7 in simp_all)
  next
    case 8
    show ?thesis by (rule cut [of 1]) (use 8 in \<open>simp_all add: drop_Suc\<close>)
  next
    case 9
    show ?thesis by (rule cut [of 1]) (use 9 in \<open>simp_all add: drop_Suc\<close>)
  next
    case 10
    then have "ps_split_from i (c # cs) current op start q d segments =
        ps_split_from (i + 1) cs [] OpPipe (i + 1) None d (segments @ [flush_segment current op start True])"
      by auto
    then show ?thesis by (intro cut [of 0 OpPipe True]) (use 10 in simp_all)
  next
    case 11
    have no: "\<not> (c = CHR ''{'')" "\<not> (c = CHR ''$'' \<and> next_is cs (CHR ''(''))" "\<not> (c = CHR ''@'' \<and> next_is cs (CHR ''(''))"
      "c \<noteq> CHR ''(''" "c \<noteq> CHR '')''" "c \<noteq> CHR '';''" "c \<noteq> CHR ''|''"
      using 11(3,4) by (auto simp: starts_code_def)
    show ?thesis
      by (rule keep [of d]) (use 11 in blast, simp only: ps_split_from.simps no 11 if_False quote_step_def if_True simp_thms)
  qed
qed

lemma ps_split_induct [consumes 1, case_names finish keep cut]:
  assumes "ps_split_from i s current op start q d segments = Inr out"
    and "\<And>i current op start d segments. P i [] current op start None d segments (segments @ [flush_segment current op start False])"
    and "\<And>i c cs current op start q d d' segments out. P (i + 1) cs (current @ [c]) op start (quote_step q c) d' segments out \<Longrightarrow>
           (q = None \<longrightarrow> \<not> starts_code c cs) \<Longrightarrow> P i (c # cs) current op start q d segments out"
    and "\<And>i c cs n op' current op start d segments piped out.
           P (i + 1 + n) (drop n cs) [] op' (i + 1 + n) None d (segments @ [flush_segment current op start piped]) out \<Longrightarrow>
           c \<in> {CHR '';'', CHR ''&'', CHR ''|''} \<Longrightarrow> n = 0 \<or> n = 1 \<and> next_is cs c \<Longrightarrow>
           P i (c # cs) current op start None d segments out"
  shows "P i s current op start q d segments out"
  using assms(1)
proof (induction "length s" arbitrary: i s current op start q d segments rule: less_induct)
  case less
  show ?case
  proof (cases s)
    case Nil
    with less.prems assms(2) show ?thesis by (auto split: if_splits)
  next
    case (Cons c cs)
    show ?thesis
    proof (cases rule: ps_split_step [of i c cs current op start q d segments])
      case (refuse r)
      then show ?thesis using less.prems Cons by simp
    next
      case (keep d')
      have "P (i + 1) cs (current @ [c]) op start (quote_step q c) d' segments out"
        using less.prems unfolding Cons keep(2) by (rule less.hyps [rotated]) (simp add: Cons)
      with keep(1) show ?thesis unfolding Cons by (rule assms(3) [rotated])
    next
      case (cut n op' piped)
      have "P (i + 1 + n) (drop n cs) [] op' (i + 1 + n) None d (segments @ [flush_segment current op start piped]) out"
        using less.prems unfolding Cons cut(4) by (rule less.hyps [rotated]) (simp add: Cons)
      then show ?thesis unfolding Cons cut(1) using cut(2,3) by (rule assms(4))
    qed
  qed
qed

lemma ps_split_from_refusal:
  "ps_split_from i s current op start q d segments = Inl r \<Longrightarrow> fst r \<noteq> UnsupportedTruncated"
proof (induction "length s" arbitrary: i s current op start q d segments rule: less_induct)
  case less
  show ?case
  proof (cases s)
    case Nil
    with less.prems show ?thesis by (auto split: if_splits)
  next
    case (Cons c cs)
    show ?thesis
    proof (cases rule: ps_split_step [of i c cs current op start q d segments])
      case (refuse r')
      then show ?thesis using less.prems Cons by simp
    next
      case (keep d')
      from less.prems [unfolded Cons keep(2)] show ?thesis by (rule less.hyps [rotated]) (simp add: Cons)
    next
      case (cut n op' piped)
      from less.prems [unfolded Cons cut(4)] show ?thesis by (rule less.hyps [rotated]) (simp add: Cons)
    qed
  qed
qed

lemma ps_split_from_code:
  assumes "ps_split_from i s current op start q d segments = Inr out"
  shows "\<forall>a c b. s = a @ c # b \<and> foldl quote_step q a = None \<longrightarrow> \<not> starts_code c b"
  using assms
proof (induction rule: ps_split_induct)
  case (keep i c cs current op start q d d' segments out)
  show ?case
  proof (intro allI impI)
    fix a x b
    assume *: "c # cs = a @ x # b \<and> foldl quote_step q a = None"
    then show "\<not> starts_code x b" using keep by (cases a) auto
  qed
next
  case (cut i c cs n op' current op start d segments piped out)
  have c: "\<not> starts_code c r" for r using cut(2) by (auto simp: starts_code_def)
  have q: "quote_step None c = None" using cut(2) by (auto simp: quote_step_def)
  show ?case
  proof (intro allI impI)
    fix a x b
    assume *: "c # cs = a @ x # b \<and> foldl quote_step None a = None"
    show "\<not> starts_code x b"
    proof (cases a)
      case Nil
      with * c show ?thesis by simp
    next
      case (Cons y a')
      show ?thesis
      proof (cases "n = 0")
        case True
        with cut(1) * Cons q show ?thesis by auto
      next
        case False
        then have n: "n = 1" "cs = c # tl cs" using cut(3) by (auto intro: hd_Cons_tl [symmetric])
        show ?thesis
        proof (cases a')
          case Nil
          with * Cons n(2) c show ?thesis by auto
        next
          case (Cons z a'')
          then have "tl cs = a'' @ x # b" "z = c" "foldl quote_step None a'' = None"
            using * \<open>a = y # a'\<close> n(2) q by (auto simp: quote_step_def)
          with cut(1) n(1) show ?thesis by (simp add: drop_Suc)
        qed
      qed
    qed
  qed
qed simp

lemma ps_background_walks [simp]:
  "pc_commands (ps_background segments out) = pc_commands out"
  "(\<forall>u \<in> set (pc_unsupported (ps_background segments out)). uc_kind u \<noteq> UnsupportedTruncated) \<longleftrightarrow>
     (\<forall>u \<in> set (pc_unsupported out). uc_kind u \<noteq> UnsupportedTruncated)"
  "pc_unsupported out \<noteq> [] \<Longrightarrow> pc_unsupported (ps_background segments out) \<noteq> []"
  by (induction segments arbitrary: out) (auto simp: ps_background_def)

section \<open>Limits\<close>

lemma ps_changeDir_walks: "walks w 1 (fst (ps_changeDir vars w cmd item))"
proof -
  have "walks w 1 (w'\<lparr>wk_cwd := d\<rparr>) \<longleftrightarrow> walks w 1 w'" for w' d by (simp add: walks_def)
  then show ?thesis
    using emit_walks walks_unsupported [OF emit_walks]
    by (simp add: ps_changeDir_def Let_def case_prod_unfold split: list.split)
qed

lemma ps_refusedCommands_kinds: "map_of ps_refusedCommands name = Some kind \<Longrightarrow> kind \<noteq> UnsupportedTruncated"
proof -
  have "list_all (\<lambda>x. snd x \<noteq> UnsupportedTruncated) ps_refusedCommands" by code_simp
  then show "map_of ps_refusedCommands name = Some kind \<Longrightarrow> kind \<noteq> UnsupportedTruncated"
    by (fastforce simp: list_all_iff dest: map_of_SomeD)
qed

lemma ps_named_walks: "walks w 1 (fst (ps_named vars w cmd item))"
  unfolding ps_named_def Let_def
  using walks_unsupported [OF emit_walks] ps_refusedCommands_kinds emit_walks ps_changeDir_walks
  by (auto split: option.split)

lemma ps_dispatch_walks: "walks w 1 (fst (ps_dispatch vars w cmd item))"
proof -
  have "walks w 1 (unsupported w UnsupportedSyntaxError i t)" for i t by (simp add: walks_def)
  then show ?thesis using ps_named_walks by (simp add: ps_dispatch_def Let_def)
qed

lemma ps_command_walks: "walks w (if sg_text item = [] then 0 else 1) (fst (ps_command vars w item))"
proof (cases "sg_text item = []")
  case True
  then show ?thesis
    by (simp add: ps_command_def ps_stripComment_def Let_def TrimSpace_def TrimLeft_by_def TrimRight_by_def walks_def)
next
  case False
  have "walks w 1 w" "k \<noteq> UnsupportedTruncated \<Longrightarrow> walks w 1 (unsupported w k i t)" for k i t
    by (simp_all add: walks_def)
  with False ps_dispatch_walks show ?thesis
    by (auto simp: ps_command_def Let_def ps_tokenize_def split: option.split list.split prod.split)
qed

lemma ps_walk_walks:
  "walks w (length (filter (\<lambda>x. \<not> blank x) segments)) (fst (ps_walk vars first w segments))"
proof (induction segments arbitrary: w first)
  case Nil
  then show ?case by (simp add: walks_def)
next
  case (Cons item items)
  define w1 where "w1 = (if first then w else w\<lparr>wk_pending := sg_operator item\<rparr>)"
  have "walks w (if blank item then 0 else 1) (fst (ps_command vars w1 item))"
    using ps_command_walks [of w1 item vars] by (simp add: w1_def blank_def split: if_splits)
  from walks_trans [OF this Cons.IH [of "fst (ps_command vars w1 item)" False]]
  show ?case by (cases first; cases "blank item") (simp_all add: case_prod_unfold Let_def w1_def)
qed

lemma ps_split_from_size:
  assumes "ps_split_from i s current op start q d segments = Inr out"
  shows "(\<Sum>x\<leftarrow>out. length (sg_text x) + 1) \<le> (\<Sum>x\<leftarrow>segments. length (sg_text x) + 1) + length current + 1 + length s"
  using assms
proof (induction rule: ps_split_induct)
  case (cut i c cs n op' current op start d segments piped out)
  from cut(1) show ?case by (simp add: flush_segment_def)
qed (simp_all add: flush_segment_def)

lemma ps_Parse_untruncated: "\<not> Truncated (projr (ps_Parse inp))"
proof (cases "MaxCommandBytes < int (length (pi_Command inp))")
  case True
  then show ?thesis by (simp add: ps_Parse_def Let_def Truncated_def)
next
  case False
  define w where "w = \<lparr>wk_out = \<lparr>pc_dialect = DialectPowerShell, pc_commands = [], pc_operators = [],
      pc_unsupported = [], pc_final_cwd = pi_Cwd inp\<rparr>, wk_cwd = pi_Cwd inp, wk_pending = OpNone, wk_truncated = False,
      wk_hard_capped = False\<rparr>"
  have "untruncated (ps_walker_parse (FromInput inp) w (pi_Command inp))"
  proof (cases "ps_split_from 0 (pi_Command inp) [] OpNone 0 None 0 []")
    case (Inl r)
    moreover have "fst r \<noteq> UnsupportedTruncated" by (rule ps_split_from_refusal [OF Inl])
    ultimately show ?thesis
      by (auto simp: ps_walker_parse_def ps_splitSegments_def untruncated_def w_def split: prod.splits)
  next
    case (Inr segments)
    let ?w = "w\<lparr>wk_out := ps_background segments (wk_out w)\<rparr>"
    have "int (2 * length (filter (\<lambda>x. \<not> blank x) segments)) \<le> MaxCommandBytes + 1"
      using ps_split_from_size [OF Inr] count_not_blank [of segments] False by simp
    then have "int (emitted ?w + length (filter (\<lambda>x. \<not> blank x) segments)) \<le> MaxParsedCommands"
      by (simp add: w_def MaxCommandBytes_def MaxParsedCommands_def)
    moreover have "untruncated ?w" by (simp add: untruncated_def w_def)
    ultimately have "untruncated (fst (ps_walk (FromInput inp) True ?w segments))"
      using ps_walk_walks [of ?w segments "FromInput inp" True] by (simp add: walks_def)
    then show ?thesis
      by (simp add: ps_walker_parse_def ps_splitSegments_def Inr case_prod_unfold Let_def untruncated_def)
  qed
  with False show ?thesis
    by (simp add: ps_Parse_def Let_def w_def [symmetric] Truncated_def untruncated_def)
qed

lemma ps_Parse_code:
  assumes "unquoted_code (pi_Command inp)"
  shows "\<not> Parsed_OK (projr (ps_Parse inp))"
proof -
  obtain a c b where line: "pi_Command inp = a @ c # b" "open_quote a = None" "starts_code c b"
    using assms by (auto simp: unquoted_code_def)
  then have "ps_split_from 0 (pi_Command inp) [] OpNone 0 None 0 [] \<noteq> Inr out" for out
    using ps_split_from_code by (metis open_quote_def)
  then obtain k i t where r: "ps_split_from 0 (pi_Command inp) [] OpNone 0 None 0 [] = Inl (k, i, t)"
    by (metis prod_cases3 sum.exhaust)
  then show ?thesis
    by (simp add: ps_Parse_def Let_def ps_walker_parse_def ps_splitSegments_def Parsed_OK_def)
qed

end
