(* ===== verification/PowerShell_Properties.thy ===== *)
theory PowerShell_Properties
  imports Resolver_Properties Parser_PowerShell
begin


















end
