(* ===== verification/Request_Properties.thy ===== *)
theory Request_Properties
  imports Tools_Properties
begin

text \<open>
  What surrounds a request: the workspace the daemon finds for it, and the chain of scripts a command of a script
  stands in.
\<close>

section \<open>The workspace\<close>

text \<open>In a context that could not be established nothing is allowed.\<close>

lemma bad_context_refused:
  assumes "pi_action inp = Some (ResolveInContext rs request (Some ctx))" and "rx_action ctx = Some actx"
    and "cx_status actx \<noteq> ContextOK"
  shows "d_outcome (fst (Evaluate e inp consent s)) \<noteq> OutcomeAllow"
proof
  assume allow: "d_outcome (fst (Evaluate e inp consent s)) = OutcomeAllow"
  have "unmodelled (ra_status (examined p (a\<lparr>ra_status := StatusContextFailed, ra_status_reason := r\<rparr>)))" for p a r
    by (simp add: examined_def Let_def MarkIncomplete_def unmodelled_WeakerStatus)
  then have "unmodelled (ra_status (ResolveInContext rs request (Some ctx)))"
    using assms(2,3)
    by (simp add: ResolveInContext_def Let_def aggregate_sels resolve_commands_sels unmodelled_WeakerStatus
        split: option.split)
  with allow_passes(2) [OF allow assms(1)] show False by simp
qed

text \<open>C21. Whatever is allowed is allowed in a narrow workspace: when the context of a request was built by a
  builder whose cache is consistent, and the engine allows the action, then the workspace is neither a root nor
  a system location nor the home directory nor a directory around it, and the paths of the action were classified
  by rules made for this workspace, not by those of an earlier one.\<close>

theorem allowed_in_narrow_workspace:
  assumes "scopes_ok d b" and "ctx = fst (context_Build d pj sha b cwd hint)" and "p = cb_platform b"
    and "pi_action inp = Some (ResolveInContext rs request (Some ctx))"
    and "d_outcome (fst (Evaluate e inp consent s)) = OutcomeAllow"
  shows "\<exists>workspace actx. rx_action ctx = Some actx \<and> cx_workspace_root actx = workspace \<and> workspace \<noteq> [] \<and>
     \<not> IsRoot workspace \<and> \<not> IsSystem (pf_rules p) workspace \<and>
     (pf_home p = [] \<or> \<not> Under (pf_rules p) (pf_home p) workspace \<and> \<not> EqualPath (pf_rules p) workspace (pf_home p)) \<and>
     rx_scope ctx = Some (dk_fs d, fresh_scope d b workspace)"
proof (cases "findWorkspace d (pf_rules p) (canonicalize_disk d cwd) (canonicalize_disk d hint) (pf_home p)")
  case (Inl reason)
  then have a: "rx_action ctx = Some (undefined_context p reason)"
    using assms(2,3) by (simp add: context_Build_def Let_def case_prod_unfold)
  have "cx_status (undefined_context p reason) \<noteq> ContextOK" by (simp add: undefined_context_def)
  from notE [OF bad_context_refused [OF assms(4) a this] assms(5)] show ?thesis .
next
  case (Inr workspace)
  have "rx_action ctx = Some (workspace_context d pj sha p (fresh_scope d b workspace) workspace)"
      "rx_scope ctx = Some (dk_fs d, fresh_scope d b workspace)"
    using assms(2,3) Inr scopeContext_ok(1) [OF assms(1)] by (simp_all add: context_Build_def Let_def case_prod_unfold)
  with findWorkspace_valid [OF Inr] show ?thesis by (auto simp: workspace_context_def)
qed

definition sample_platform :: platform_info where
  "sample_platform =
     \<lparr>pf_home = ''/home/u'', pf_temp = ''/tmp'', pf_data_dir = ''/home/u/.intenter'', pf_config_dir = ''/home/u/.config'',
      pf_runtime_dir = ''/tmp'', pf_os = ''linux'', pf_rules = sample_rules\<rparr>"

abbreviation sample_builder :: contextBuilder where
  "sample_builder \<equiv> NewContextBuilder sample_platform Default"

definition built_context :: resolver_context where
  "built_context = fst (context_Build tool_disk tool_package sample_sha sample_builder ''/w'' [])"

lemma built_context_action:
  "rx_action built_context = Some (workspace_context tool_disk tool_package sample_sha sample_platform
     (fresh_scope tool_disk sample_builder ''/w'') ''/w'')"
proof -
  have "findWorkspace tool_disk sample_rules (canonicalize_disk tool_disk ''/w'') (canonicalize_disk tool_disk [])
      ''/home/u'' = Inr ''/w''" by code_simp
  then show ?thesis
    using scopeContext_ok(1) [OF scopes_ok_New, of tool_disk sample_platform Default "''/w''"]
    by (simp add: built_context_def context_Build_def Let_def case_prod_unfold NewContextBuilder_def sample_platform_def)
qed

theorem allowed_in_narrow_workspace_witness:
  "\<exists>workspace actx. rx_action built_context = Some actx \<and> cx_workspace_root actx = workspace \<and> workspace \<noteq> [] \<and>
     \<not> IsRoot workspace \<and> \<not> IsSystem (pf_rules sample_platform) workspace \<and>
     (pf_home sample_platform = [] \<or> \<not> Under (pf_rules sample_platform) (pf_home sample_platform) workspace \<and>
        \<not> EqualPath (pf_rules sample_platform) workspace (pf_home sample_platform)) \<and>
     rx_scope built_context = Some (dk_fs tool_disk, fresh_scope tool_disk sample_builder workspace)"
proof (rule allowed_in_narrow_workspace [OF scopes_ok_New built_context_def])
  let ?a = "ResolveInContext sample_resolver (cmd_request ''echo a'') (Some built_context)"
  show "sample_platform = cb_platform sample_builder" by (simp add: NewContextBuilder_def)
  show "pi_action (sample_input ?a) = Some ?a" by (simp add: sample_input_def)
  have "cmd_Parse (cmd_input ''echo a'') = Inr (one_command (echo_command [''a''] ''a''))" by code_simp
  then have p: "parsed_as sample_resolver (cmd_request ''echo a'') built_context (one_command (echo_command [''a''] ''a''))"
    by (simp add: parsed_as_def built_context_action cmd_request_def DialectFor_def run_parse_def sample_resolver_def
        resolver_New_def Parsers_Get_Register workspace_context_def sample_platform_def)
  show "d_outcome (fst (Evaluate (stored_engine 1 5) (sample_input ?a) None sample_store)) = OutcomeAllow"
  proof (rule one_reader_allowed [OF p sample_resolver_def _ refl echo_noop(3)])
    show "Context_OK (rx_action built_context)"
      by (simp add: built_context_action workspace_context_def Context_OK_def)
  qed (simp_all add: echo_noop reads_only_noop noop_Recognize_def Let_def Scan_permissive noopGrammar_def empty_grammar_def command_request_def
      echo_command_def simple_def SimpleCommand_Args_def grammar_isOption_def HasPrefix_def)
qed

section \<open>Scripts that run themselves\<close>











end
