(* ===== verification/Config_Load.thy ===== *)
theory Config_Load
  imports Config Workspace_Files
begin

text \<open>
  The loading of \<^verbatim>\<open>internal/config/config.go\<close>: reading the file, decoding it over the defaults, warnings about
  unknown keys, validation and the environment. The TOML decoder, \<open>time.ParseDuration\<close>, the file and the
  environment are arguments. The lemmas show that whatever is loaded is well formed.
\<close>

text \<open>A duration in nanoseconds, when the text is one.\<close>

type_synonym duration_parser = "string \<Rightarrow> int option"

text \<open>The decoder overwrites what the file sets and names the keys it did not know.\<close>

type_synonym toml_decoder = "string \<Rightarrow> config \<Rightarrow> string + config \<times> string list"

datatype config_file = Missing | Unreadable string | Content string

definition EnvNoUpdateCheck :: string where
  "EnvNoUpdateCheck = ''INTENTER_NO_UPDATE_CHECK''"

definition EnvUpdateChannel :: string where
  "EnvUpdateChannel = ''INTENTER_UPDATE_CHANNEL''"

section \<open>Durations\<close>

abbreviation hours :: "int \<Rightarrow> int" where
  "hours n \<equiv> n * 3600 * 1000000000"

abbreviation seconds :: "int \<Rightarrow> int" where
  "seconds n \<equiv> n * 1000000000"

definition parseDurationOr :: "duration_parser \<Rightarrow> string \<Rightarrow> int \<Rightarrow> int" where
  "parseDurationOr parse v fallback =
     (case parse (TrimSpace v) of None \<Rightarrow> fallback | Some parsed \<Rightarrow> if parsed \<le> 0 then fallback else parsed)"

definition CheckEvery :: "duration_parser \<Rightarrow> updates_config \<Rightarrow> int" where
  "CheckEvery parse u = parseDurationOr parse (CheckInterval u) (hours 24)"

definition RemindEvery :: "duration_parser \<Rightarrow> updates_config \<Rightarrow> int" where
  "RemindEvery parse u = parseDurationOr parse (RemindInterval u) (hours 24)"

definition PromptWait :: "duration_parser \<Rightarrow> updates_config \<Rightarrow> int" where
  "PromptWait parse u = parseDurationOr parse (PromptTimeout u) (seconds 30)"

definition follows_prerelease :: "updates_config \<Rightarrow> bool" where
  "follows_prerelease u = (Channel u = ChannelPrerelease)"

section \<open>Validation\<close>

text \<open>One duration field: the value to keep, or the error.\<close>

definition validate_duration :: "duration_parser \<Rightarrow> string \<Rightarrow> string \<Rightarrow> string \<Rightarrow> string + string" where
  "validate_duration parse key v fallback =
     (if TrimSpace v = [] then Inr fallback
      else case parse (TrimSpace v) of
             None \<Rightarrow> Inl (''config: '' @ key @ '' '' @ go_quote v @ '' is not a duration (e.g. '' @ go_quote ''24h'' @ '', '' @
                        go_quote ''30s'' @ '')'')
           | Some parsed \<Rightarrow>
               if parsed \<le> 0 then Inl (''config: '' @ key @ '' must be positive, got '' @ go_quote v) else Inr v)"

definition updates_validate :: "duration_parser \<Rightarrow> updates_config \<Rightarrow> string + updates_config" where
  "updates_validate parse u =
     (case validate_duration parse ''updates.check_interval'' (CheckInterval u) ''24h'' of
        Inl err \<Rightarrow> Inl err
      | Inr check \<Rightarrow>
     (case validate_duration parse ''updates.remind_interval'' (RemindInterval u) ''24h'' of
        Inl err \<Rightarrow> Inl err
      | Inr remind \<Rightarrow>
     (case validate_duration parse ''updates.prompt_timeout'' (PromptTimeout u) ''30s'' of
        Inl err \<Rightarrow> Inl err
      | Inr prompt \<Rightarrow>
          let u = u\<lparr>CheckInterval := check, RemindInterval := remind, PromptTimeout := prompt\<rparr>;
              channel = ToLower (TrimSpace (Channel u))
          in if channel = ChannelStable \<or> channel = ChannelPrerelease then Inr (u\<lparr>Channel := channel\<rparr>)
             else if channel = [] then Inr (u\<lparr>Channel := ChannelStable\<rparr>)
             else Inl (''config: updates.channel '' @ go_quote (Channel u) @ '' must be '' @ go_quote ChannelStable @
                       '' or '' @ go_quote ChannelPrerelease))))"

definition log_levels :: "string list" where
  "log_levels = [''debug'', ''info'', ''warn'', ''error'']"

definition config_Validate :: "duration_parser \<Rightarrow> config \<Rightarrow> string + config" where
  "config_Validate parse c =
     (let level = ToLower (TrimSpace (LogLevel c)) in
      if level \<notin> set log_levels \<and> level \<noteq> []
      then Inl (''config: log.level '' @ go_quote (LogLevel c) @ '' must be one of debug, info, warn, error'')
      else let c = (if level = [] then c\<lparr>LogLevel := ''info''\<rparr> else c) in
      if RequestTimeoutMS (Daemon c) \<le> 0
      then Inl (''config: daemon.request_timeout_ms must be positive, got '' @ Itoa (RequestTimeoutMS (Daemon c)))
      else if HookTimeoutSeconds (Claude c) \<le> 0
      then Inl (''config: claude.hook_timeout_seconds must be positive, got '' @ Itoa (HookTimeoutSeconds (Claude c)))
      else case updates_validate parse (Updates c) of Inl err \<Rightarrow> Inl err | Inr u \<Rightarrow> Inr (c\<lparr>Updates := u\<rparr>))"

section \<open>Loading\<close>

text \<open>A key that is the parent of another unknown key is not reported; the keys are sorted.\<close>

fun leaf_keys :: "string list \<Rightarrow> string list" where
  "leaf_keys [] = []"
| "leaf_keys (key # rest) =
     (if \<exists>other \<in> set rest. HasPrefix other (key @ ''.'') then leaf_keys rest else key # leaf_keys rest)"

definition unknownKeys :: "string list \<Rightarrow> string list" where
  "unknownKeys undecoded = leaf_keys (sort undecoded)"

definition applyEnv :: "(string \<Rightarrow> string) \<Rightarrow> config \<Rightarrow> config" where
  "applyEnv env c =
     (let c = (if TrimSpace (env EnvNoUpdateCheck) = ''1'' then c\<lparr>Updates := (Updates c)\<lparr>Check := False\<rparr>\<rparr> else c);
          channel = ToLower (TrimSpace (env EnvUpdateChannel))
      in if channel = [] then c
         else if channel = ChannelStable \<or> channel = ChannelPrerelease
         then c\<lparr>Updates := (Updates c)\<lparr>Channel := channel\<rparr>\<rparr>
         else c\<lparr>Warnings := Warnings c @ [EnvUpdateChannel @ ''='' @ go_quote channel @ '' must be '' @
                  go_quote ChannelStable @ '' or '' @ go_quote ChannelPrerelease @ '' (ignored)'']\<rparr>)"

definition key_warning :: "string \<Rightarrow> string \<Rightarrow> string" where
  "key_warning path key = ''unknown configuration key '' @ go_quote key @ '' in '' @ path @ '' (ignored)''"

text \<open>The configuration and the error, if there was one.\<close>

definition config_Load ::
    "duration_parser \<Rightarrow> toml_decoder \<Rightarrow> (string \<Rightarrow> string) \<Rightarrow> (string \<Rightarrow> config_file) \<Rightarrow> string \<Rightarrow>
     config \<times> string option" where
  "config_Load parse decode env read path =
     (if TrimSpace path = [] then (applyEnv env Default, None)
      else case read path of
             Missing \<Rightarrow> (applyEnv env Default, None)
           | Unreadable err \<Rightarrow> (Default\<lparr>Path := path\<rparr>, Some (''config: read '' @ path @ '': '' @ err))
           | Content t \<Rightarrow>
               (case decode t (Default\<lparr>Path := path\<rparr>) of
                  Inl err \<Rightarrow> (Default, Some (''config: parse '' @ path @ '': '' @ err))
                | Inr (c, undecoded) \<Rightarrow>
                    let c = c\<lparr>Warnings := Warnings c @ map (key_warning path) (unknownKeys undecoded)\<rparr> in
                    (case config_Validate parse c of
                       Inl err \<Rightarrow> (Default, Some err)
                     | Inr c \<Rightarrow> (applyEnv env c, None))))"

section \<open>Whatever is loaded is well formed\<close>

definition duration_ok :: "duration_parser \<Rightarrow> string \<Rightarrow> bool" where
  "duration_ok parse v = (case parse (TrimSpace v) of None \<Rightarrow> False | Some d \<Rightarrow> 0 < d)"

definition config_ok :: "duration_parser \<Rightarrow> config \<Rightarrow> bool" where
  "config_ok parse c =
     (ToLower (TrimSpace (LogLevel c)) \<in> set log_levels \<and>
      0 < RequestTimeoutMS (Daemon c) \<and> 0 < HookTimeoutSeconds (Claude c) \<and>
      duration_ok parse (CheckInterval (Updates c)) \<and> duration_ok parse (RemindInterval (Updates c)) \<and>
      duration_ok parse (PromptTimeout (Updates c)) \<and> Channel (Updates c) \<in> {ChannelStable, ChannelPrerelease})"

lemma duration_ok_fallback: "duration_ok parse v \<Longrightarrow> parseDurationOr parse v d = the (parse (TrimSpace v))"
  by (auto simp: duration_ok_def parseDurationOr_def split: option.splits)

lemma validate_duration_ok:
  "validate_duration parse key v fallback = Inr w \<Longrightarrow> duration_ok parse fallback \<Longrightarrow> duration_ok parse w"
  by (auto simp: validate_duration_def duration_ok_def split: if_splits option.splits)

lemma updates_validate_ok:
  assumes "updates_validate parse u = Inr w" and "duration_ok parse ''24h''" and "duration_ok parse ''30s''"
  shows "duration_ok parse (CheckInterval w)" and "duration_ok parse (RemindInterval w)"
    and "duration_ok parse (PromptTimeout w)" and "Channel w \<in> {ChannelStable, ChannelPrerelease}"
  using assms by (auto simp: updates_validate_def Let_def validate_duration_ok split: sum.splits if_splits)

lemma applyEnv_ok: "config_ok parse c \<Longrightarrow> config_ok parse (applyEnv env c)"
  by (auto simp: applyEnv_def config_ok_def Let_def)

lemma config_Validate_ok:
  assumes "config_Validate parse c = Inr c'" and "duration_ok parse ''24h''" and "duration_ok parse ''30s''"
  shows "config_ok parse c'"
proof -
  let ?c = "if ToLower (TrimSpace (LogLevel c)) = [] then c\<lparr>LogLevel := ''info''\<rparr> else c"
  have info: "ToLower (TrimSpace ''info'') \<in> set log_levels" by code_simp
  obtain u where u: "updates_validate parse (Updates c) = Inr u" "c' = ?c\<lparr>Updates := u\<rparr>"
      "0 < RequestTimeoutMS (Daemon c)" "0 < HookTimeoutSeconds (Claude c)"
      "ToLower (TrimSpace (LogLevel c)) \<in> set log_levels \<or> ToLower (TrimSpace (LogLevel c)) = []"
    using assms(1) by (auto simp: config_Validate_def Let_def split: if_splits sum.splits)
  then show ?thesis
    using updates_validate_ok [OF u(1) assms(2,3)] info by (auto simp: config_ok_def)
qed

lemma Default_ok:
  assumes "duration_ok parse ''24h''" and "duration_ok parse ''30s''"
  shows "config_ok parse Default"
proof -
  have "ToLower (TrimSpace ''info'') \<in> set log_levels" by code_simp
  then show ?thesis using assms by (simp add: config_ok_def Default_def)
qed

lemma config_ok_Path [simp]: "config_ok parse (c\<lparr>Path := p\<rparr>) = config_ok parse c"
  by (simp add: config_ok_def)

lemma config_Load_ok:
  assumes "duration_ok parse ''24h''" and "duration_ok parse ''30s''"
  shows "config_ok parse (fst (config_Load parse decode env read path))"
  using Default_ok [OF assms] config_Validate_ok [OF _ assms] applyEnv_ok
  by (auto simp: config_Load_def Let_def split: config_file.split sum.split)

end
