(* ===== verification/Version_Order.thy ===== *)
theory Version_Order
  imports Intenter_Prelude "HOL-Library.Product_Lexorder"
begin

text \<open>
  \<^verbatim>\<open>internal/version/compare.go\<close> and \<^verbatim>\<open>internal/updater/semver.go\<close>: which of two releases is the newer one. A
  version that cannot be read compares with nothing. The specification maps a version to a key in a linear
  order; the comparison of the code decides the order of the keys.
\<close>

section \<open>Reading a version\<close>

text \<open>\<open>strings.IndexByte\<close> cuts: the text before and after the first occurrence.\<close>

definition cut_at :: "char \<Rightarrow> string \<Rightarrow> string \<times> string option" where
  "cut_at c v = (if c \<in> set v then (takeWhile (\<lambda>x. x \<noteq> c) v, Some (tl (dropWhile (\<lambda>x. x \<noteq> c) v))) else (v, None))"

fun split_char :: "char \<Rightarrow> string \<Rightarrow> string list" where
  "split_char c [] = [[]]"
| "split_char c (x # xs) =
     (if x = c then [] # split_char c xs
      else case split_char c xs of [] \<Rightarrow> [[x]] | f # fs \<Rightarrow> (x # f) # fs)"

fun read_core :: "string list \<Rightarrow> int list option" where
  "read_core [] = Some []"
| "read_core (part # parts) =
     (case Atoi part of
        None \<Rightarrow> None
      | Some number \<Rightarrow> if number < 0 then None else map_option (Cons number) (read_core parts))"

definition splitSemver :: "string \<Rightarrow> (int list \<times> string) option" where
  "splitSemver v =
     (let v = TrimPrefix (TrimSpace v) ''v'' in
      if v = [] then None
      else let v = fst (cut_at (CHR ''+'') v);
               (v, pre) = cut_at (CHR ''-'') v;
               prerelease = (case pre of None \<Rightarrow> [] | Some p \<Rightarrow> p);
               parts = split_char (CHR ''.'') v
           in if length parts \<noteq> 3 then None
              else map_option (\<lambda>core. (core, prerelease)) (read_core parts))"

section \<open>Comparing\<close>

definition compareInt :: "int \<Rightarrow> int \<Rightarrow> int" where
  "compareInt a b = (if a < b then - 1 else if a > b then 1 else 0)"

definition strings_Compare :: "string \<Rightarrow> string \<Rightarrow> int" where
  "strings_Compare a b = (if a < b then - 1 else if a > b then 1 else 0)"

definition comparePrereleaseField :: "string \<Rightarrow> string \<Rightarrow> int" where
  "comparePrereleaseField a b =
     (case (Atoi a, Atoi b) of
        (Some m, Some n) \<Rightarrow> compareInt m n
      | (Some _, None) \<Rightarrow> - 1
      | (None, Some _) \<Rightarrow> 1
      | (None, None) \<Rightarrow> strings_Compare a b)"

fun compare_fields :: "string list \<Rightarrow> string list \<Rightarrow> int option" where
  "compare_fields (a # as) (b # bs) =
     (let result = comparePrereleaseField a b in if result \<noteq> 0 then Some result else compare_fields as bs)"
| "compare_fields _ _ = None"

definition comparePrerelease :: "string \<Rightarrow> string \<Rightarrow> int" where
  "comparePrerelease a b =
     (let aFields = split_char (CHR ''.'') a; bFields = split_char (CHR ''.'') b in
      case compare_fields aFields bFields of
        Some result \<Rightarrow> result
      | None \<Rightarrow> compareInt (int (length aFields)) (int (length bFields)))"

fun compare_core :: "int list \<Rightarrow> int list \<Rightarrow> int option" where
  "compare_core (a # as) (b # bs) = (if a \<noteq> b then Some (compareInt a b) else compare_core as bs)"
| "compare_core _ _ = None"

definition compareSemver :: "string \<Rightarrow> string \<Rightarrow> int option" where
  "compareSemver a b =
     (case (splitSemver a, splitSemver b) of
        (Some (aCore, aPre), Some (bCore, bPre)) \<Rightarrow>
          (case compare_core aCore bCore of
             Some result \<Rightarrow> Some result
           | None \<Rightarrow>
               if aPre = [] \<and> bPre = [] then Some 0
               else if aPre = [] then Some 1
               else if bPre = [] then Some (- 1)
               else Some (comparePrerelease aPre bPre))
      | _ \<Rightarrow> None)"

definition IsNewer :: "string \<Rightarrow> string \<Rightarrow> bool" where
  "IsNewer candidate current = (case compareSemver candidate current of None \<Rightarrow> False | Some newer \<Rightarrow> 0 < newer)"

definition version_Compare :: "string \<Rightarrow> string \<Rightarrow> int option" where
  "version_Compare a b = compareSemver a b"

definition IsPrerelease :: "string \<Rightarrow> bool" where
  "IsPrerelease v = (case splitSemver v of None \<Rightarrow> False | Some (_, prerelease) \<Rightarrow> prerelease \<noteq> [])"

section \<open>The updater's names for it\<close>

definition updater_Normalize :: "string \<Rightarrow> string" where
  "updater_Normalize v = TrimPrefix (TrimSpace v) ''v''"

text \<open>\<open>None\<close> is the error that the text is not a version.\<close>

definition ParseVersion :: "string \<Rightarrow> string option" where
  "ParseVersion v =
     (let normalized = updater_Normalize v in
      case version_Compare normalized ''0.0.0'' of None \<Rightarrow> None | Some _ \<Rightarrow> Some normalized)"

definition Newer :: "string \<Rightarrow> string \<Rightarrow> bool" where
  "Newer candidate current = IsNewer candidate current"

definition Older :: "string \<Rightarrow> string \<Rightarrow> bool" where
  "Older candidate current = (case version_Compare candidate current of None \<Rightarrow> False | Some order \<Rightarrow> order < 0)"

definition Same :: "string \<Rightarrow> string \<Rightarrow> bool" where
  "Same a b = (case version_Compare a b of None \<Rightarrow> False | Some order \<Rightarrow> order = 0)"

definition updater_Prerelease :: "string \<Rightarrow> bool" where
  "updater_Prerelease v = IsPrerelease v"

section \<open>The order it decides\<close>

text \<open>A field of a pre-release: numbers by value and below everything else, other fields by their text.\<close>

datatype pre_field = Num int | Text string

instantiation pre_field :: linorder
begin

definition less_eq_pre_field :: "pre_field \<Rightarrow> pre_field \<Rightarrow> bool" where
  "less_eq_pre_field a b =
     (case (a, b) of (Num m, Num n) \<Rightarrow> m \<le> n | (Num _, Text _) \<Rightarrow> True | (Text _, Num _) \<Rightarrow> False | (Text s, Text t) \<Rightarrow> s \<le> t)"

definition less_pre_field :: "pre_field \<Rightarrow> pre_field \<Rightarrow> bool" where
  "less_pre_field a b =
     (case (a, b) of (Num m, Num n) \<Rightarrow> m < n | (Num _, Text _) \<Rightarrow> True | (Text _, Num _) \<Rightarrow> False | (Text s, Text t) \<Rightarrow> s < t)"

instance
  by standard (auto simp: less_eq_pre_field_def less_pre_field_def split: pre_field.splits)

end

definition field_key :: "string \<Rightarrow> pre_field" where
  "field_key s = (case Atoi s of Some n \<Rightarrow> Num n | None \<Rightarrow> Text s)"

text \<open>The key of a version: its core, then releases above pre-releases, then the fields of the pre-release.\<close>

definition version_key :: "int list \<times> string \<Rightarrow> int list \<times> bool \<times> pre_field list" where
  "version_key v =
     (fst v, snd v = [], if snd v = [] then [] else map field_key (split_char (CHR ''.'') (snd v)))"

definition sign_of :: "'a :: linorder \<Rightarrow> 'a \<Rightarrow> int" where
  "sign_of x y = (if x < y then - 1 else if x = y then 0 else 1)"

lemma sign_of_int: "compareInt a b = sign_of a b" "strings_Compare s t = sign_of s t"
  by (auto simp: compareInt_def strings_Compare_def sign_of_def)

lemma field_compare: "comparePrereleaseField a b = sign_of (field_key a) (field_key b)"
  by (auto simp: comparePrereleaseField_def sign_of_int field_key_def sign_of_def less_pre_field_def split: option.split)

lemma sign_of_Cons: "sign_of (x # xs) (y # ys) = (if sign_of x y \<noteq> 0 then sign_of x y else sign_of xs ys)"
  by (auto simp: sign_of_def)

lemma sign_of_Pair: "sign_of (a, b) (c, d) = (if sign_of a c \<noteq> 0 then sign_of a c else sign_of b d)"
  by (auto simp: sign_of_def)

lemma sign_of_Nil: "sign_of [] [] = 0" "sign_of [] (y # ys) = - 1" "sign_of (x # xs) [] = 1"
  by (auto simp: sign_of_def)

lemma fields_compare:
  "(case compare_fields as bs of Some r \<Rightarrow> r | None \<Rightarrow> compareInt (int (length as)) (int (length bs))) =
   sign_of (map field_key as) (map field_key bs)"
proof (induction as arbitrary: bs)
  case Nil
  then show ?case by (cases bs) (simp_all add: compareInt_def sign_of_Nil)
next
  case (Cons a as)
  then show ?case
  proof (cases bs)
    case [simp]: (Cons b bs')
    show ?thesis
      using Cons.IH [of bs']
      by (cases "compare_fields as bs'")
        (auto simp: Let_def field_compare sign_of_Cons compareInt_def split: if_splits)
  qed (simp add: compareInt_def sign_of_Nil)
qed

lemma core_compare:
  "length as = length bs \<Longrightarrow> (case compare_core as bs of Some r \<Rightarrow> r | None \<Rightarrow> 0) = sign_of as bs"
  "length as = length bs \<Longrightarrow> compare_core as bs = None \<longleftrightarrow> as = bs"
proof -
  show "length as = length bs \<Longrightarrow> (case compare_core as bs of Some r \<Rightarrow> r | None \<Rightarrow> 0) = sign_of as bs"
    by (induction as bs rule: compare_core.induct) (auto simp: sign_of_Nil sign_of_Cons sign_of_int sign_of_def)
  show "length as = length bs \<Longrightarrow> compare_core as bs = None \<longleftrightarrow> as = bs"
    by (induction as bs rule: compare_core.induct) auto
qed

lemma read_core_length: "read_core ps = Some c \<Longrightarrow> length c = length ps"
  by (induction ps arbitrary: c) (auto split: option.splits if_splits)

lemma splitSemver_length: "splitSemver v = Some (core, pre) \<Longrightarrow> length core = 3"
  by (auto simp: splitSemver_def Let_def read_core_length split: if_splits prod.splits)

text \<open>The comparison of the code is the comparison of the keys.\<close>

lemma compareSemver_keys:
  "compareSemver a b =
     (case (splitSemver a, splitSemver b) of
        (Some x, Some y) \<Rightarrow> Some (sign_of (version_key x) (version_key y))
      | _ \<Rightarrow> None)"
proof (cases "splitSemver a = None \<or> splitSemver b = None")
  case True
  then show ?thesis by (auto simp: compareSemver_def split: option.split)
next
  case False
  then obtain ca pa cb pb where ab: "splitSemver a = Some (ca, pa)" "splitSemver b = Some (cb, pb)" by auto
  then have len: "length ca = length cb" by (simp add: splitSemver_length)
  have pre: "comparePrerelease pa pb = sign_of (map field_key (split_char (CHR ''.'') pa)) (map field_key (split_char (CHR ''.'') pb))"
    using fields_compare by (simp add: comparePrerelease_def Let_def)
  have key: "sign_of (version_key (ca, pa)) (version_key (cb, pb)) =
      (if sign_of ca cb \<noteq> 0 then sign_of ca cb
       else if pa = [] \<and> pb = [] then 0 else if pa = [] then 1 else if pb = [] then - 1 else comparePrerelease pa pb)"
    by (auto simp: version_key_def sign_of_Pair pre) (auto simp: sign_of_def)
  show ?thesis
  proof (cases "compare_core ca cb")
    case None
    then have "sign_of ca cb = 0" using core_compare(1) [OF len] by simp
    with None show ?thesis by (simp add: compareSemver_def ab key)
  next
    case (Some r)
    then have "sign_of ca cb = r" "ca \<noteq> cb" using core_compare [OF len] by auto
    moreover from this have "r \<noteq> 0" by (auto simp: sign_of_def split: if_splits)
    ultimately show ?thesis using Some by (simp add: compareSemver_def ab key)
  qed
qed

lemma Newer_key: "Newer a b \<longleftrightarrow> (\<exists>x y. splitSemver a = Some x \<and> splitSemver b = Some y \<and> version_key y < version_key x)"
  by (auto simp: Newer_def IsNewer_def compareSemver_keys sign_of_def split: option.splits if_splits)

lemma Same_key: "Same a b \<longleftrightarrow> (\<exists>x y. splitSemver a = Some x \<and> splitSemver b = Some y \<and> version_key x = version_key y)"
  by (auto simp: Same_def version_Compare_def compareSemver_keys sign_of_def split: option.splits if_splits)

lemma Newer_trans: "Newer a b \<Longrightarrow> Newer b c \<Longrightarrow> Newer a c"
  by (force simp: Newer_key)

lemma Newer_Same: "Newer a b \<Longrightarrow> \<not> Same a b" "Newer a b \<Longrightarrow> \<not> Newer b a"
  by (auto simp: Newer_key Same_key)

end
