(* ===== verification/Updater_State.thy ===== *)
theory Updater_State
  imports Config_Load Version_Order
begin

text \<open>
  \<^verbatim>\<open>internal/updater/state.go\<close>, \<^verbatim>\<open>history.go\<close> and \<^verbatim>\<open>check.go\<close>: what the updater remembers between checks, when a
  check is due, when an update may be offered, and how a check finds the newest release. Times and durations are
  nanoseconds; a time of zero is Go's zero time. The state file holds a state, or is missing, or cannot be read or
  decoded. Responses of the release host, the URL parser and the feed decoder are arguments.
\<close>

section \<open>The state\<close>

record latest_known =
  lk_version :: string
  lk_notes_url :: string
  lk_found_at :: go_time

record in_progress =
  ip_pid :: int
  ip_started_at :: go_time
  ip_target_version :: string

record last_update =
  lu_from :: string
  lu_to :: string
  lu_at :: go_time
  lu_result :: string
  lu_error :: string

record startup_hook_state =
  sh_installed_files :: "string list"
  sh_installed_at :: "go_time option"
  sh_blocked_by_policy :: bool

record update_state =
  us_schema :: int
  us_installed_version :: string
  us_install_channel :: string
  us_channel :: string
  us_latest_known :: "latest_known option"
  us_last_check_at :: "go_time option"
  us_last_check_ok :: bool
  us_last_check_error :: string
  us_check_failures :: int
  us_next_check_after :: "go_time option"
  us_skipped_version :: string
  us_deferred_until :: "go_time option"
  us_last_prompt_at :: "go_time option"
  us_in_progress :: "in_progress option"
  us_last_update :: "last_update option"
  us_startup_hook :: startup_hook_state

definition StateSchema :: int where
  "StateSchema = 1"

definition inProgressStale :: int where
  "inProgressStale = 30 * 60 * 1000000000"

definition backoffSchedule :: "int list" where
  "backoffSchedule = [hours 1, hours 6, hours 24]"

text \<open>The zero value of the state with the schema set.\<close>

definition zero_state :: update_state where
  "zero_state =
     \<lparr>us_schema = StateSchema, us_installed_version = [], us_install_channel = [], us_channel = [],
      us_latest_known = None, us_last_check_at = None, us_last_check_ok = False, us_last_check_error = [],
      us_check_failures = 0, us_next_check_after = None, us_skipped_version = [], us_deferred_until = None,
      us_last_prompt_at = None, us_in_progress = None, us_last_update = None,
      us_startup_hook = \<lparr>sh_installed_files = [], sh_installed_at = None, sh_blocked_by_policy = False\<rparr>\<rparr>"

section \<open>The state file\<close>

datatype state_file = NoState | StateUnreadable string | StateCorrupt string | StateStored update_state

definition Store_Load :: "string \<Rightarrow> state_file \<Rightarrow> update_state \<times> string option" where
  "Store_Load path file =
     (case file of
        NoState \<Rightarrow> (zero_state, None)
      | StateUnreadable err \<Rightarrow> (zero_state, Some (''updater: read '' @ path @ '': '' @ err))
      | StateCorrupt err \<Rightarrow> (zero_state, Some (''updater: parse '' @ path @ '': '' @ err))
      | StateStored st \<Rightarrow> (if us_schema st = 0 then st\<lparr>us_schema := StateSchema\<rparr> else st, None))"

definition LoadOrZero :: "string \<Rightarrow> state_file \<Rightarrow> update_state" where
  "LoadOrZero path file = (case Store_Load path file of (st, None) \<Rightarrow> st | (_, Some _) \<Rightarrow> zero_state)"

text \<open>What can go wrong while the file is replaced: the directory, the lock, or one of the writes, each with its
  error. The new content is renamed into place, so a failed write leaves the old file.\<close>

record store_io =
  io_dir :: "string option"
  io_lock :: "string option"
  io_write :: "string option"

definition Store_Save :: "store_io \<Rightarrow> update_state \<Rightarrow> state_file \<Rightarrow> string option \<times> state_file" where
  "Store_Save io st file =
     (case io_dir io of
        Some err \<Rightarrow> (Some err, file)
      | None \<Rightarrow>
          (case io_write io of
             Some err \<Rightarrow> (Some err, file)
           | None \<Rightarrow> (None, StateStored (st\<lparr>us_schema := StateSchema\<rparr>))))"

definition empty_state :: update_state where
  "empty_state = zero_state\<lparr>us_schema := 0\<rparr>"

definition Store_Mutate ::
    "string \<Rightarrow> store_io \<Rightarrow> (update_state \<Rightarrow> update_state) \<Rightarrow> state_file \<Rightarrow> (update_state \<times> string option) \<times> state_file" where
  "Store_Mutate path io change file =
     (case io_dir io of
        Some err \<Rightarrow> ((empty_state, Some err), file)
      | None \<Rightarrow>
          (case io_lock io of
             Some err \<Rightarrow> ((empty_state, Some err), file)
           | None \<Rightarrow>
               (let st = change (LoadOrZero path file);
                    (err, file') = Store_Save io st file
                in ((st, err), file'))))"

section \<open>Checks and offers\<close>

definition CheckDue :: "update_state \<Rightarrow> go_time \<Rightarrow> updates_config \<Rightarrow> bool" where
  "CheckDue s now cfg =
     (Check cfg \<and> (case us_next_check_after s of None \<Rightarrow> True | Some after \<Rightarrow> \<not> now < after))"

definition UpdateRunning :: "update_state \<Rightarrow> go_time \<Rightarrow> bool" where
  "UpdateRunning s now =
     (case us_in_progress s of None \<Rightarrow> False | Some p \<Rightarrow> now - ip_started_at p < inProgressStale)"

definition Eligible :: "duration_parser \<Rightarrow> update_state \<Rightarrow> go_time \<Rightarrow> string \<Rightarrow> updates_config \<Rightarrow> bool" where
  "Eligible parse s now installed cfg =
     (case us_latest_known s of
        None \<Rightarrow> False
      | Some known \<Rightarrow>
          let latest = lk_version known in
          if \<not> Check cfg then False
          else if \<not> Newer latest installed then False
          else if updater_Prerelease latest \<and> \<not> follows_prerelease cfg \<and> \<not> updater_Prerelease installed then False
          else if us_skipped_version s \<noteq> [] \<and> Same latest (us_skipped_version s) then False
          else if (case us_deferred_until s of None \<Rightarrow> False | Some t \<Rightarrow> now < t) then False
          else if (case us_last_prompt_at s of None \<Rightarrow> False | Some t \<Rightarrow> now - t < RemindEvery parse cfg) then False
          else \<not> UpdateRunning s now)"

definition backoffFor :: "duration_parser \<Rightarrow> int \<Rightarrow> updates_config \<Rightarrow> int" where
  "backoffFor parse failures cfg =
     (let failures = (if failures < 1 then 1 else failures);
          index = failures - 1;
          index = (if int (length backoffSchedule) \<le> index then int (length backoffSchedule) - 1 else index);
          wait = backoffSchedule ! nat index;
          interval = CheckEvery parse cfg
      in if wait < interval then interval else wait)"

definition channelName :: "updates_config \<Rightarrow> string" where
  "channelName cfg = (if follows_prerelease cfg then ChannelPrerelease else ChannelStable)"

definition RecordCheckOK ::
    "duration_parser \<Rightarrow> go_time \<Rightarrow> latest_known \<Rightarrow> updates_config \<Rightarrow> update_state \<Rightarrow> update_state" where
  "RecordCheckOK parse now latest cfg s =
     (let s = s\<lparr>us_last_check_at := Some now, us_last_check_ok := True, us_last_check_error := [],
               us_check_failures := 0, us_next_check_after := Some (now + CheckEvery parse cfg),
               us_channel := channelName cfg\<rparr>
      in if lk_version latest = [] then s
         else let latest = (if lk_found_at latest = 0 then latest\<lparr>lk_found_at := now\<rparr> else latest);
                  s = s\<lparr>us_latest_known := Some latest\<rparr>
              in if us_skipped_version s \<noteq> [] \<and> Newer (lk_version latest) (us_skipped_version s)
                 then s\<lparr>us_skipped_version := []\<rparr> else s)"

definition RecordCheckFailure ::
    "duration_parser \<Rightarrow> go_time \<Rightarrow> string \<Rightarrow> updates_config \<Rightarrow> update_state \<Rightarrow> update_state" where
  "RecordCheckFailure parse now reason cfg s =
     s\<lparr>us_last_check_at := Some now, us_last_check_ok := False, us_last_check_error := reason,
       us_check_failures := us_check_failures s + 1,
       us_next_check_after := Some (now + backoffFor parse (us_check_failures s + 1) cfg),
       us_channel := channelName cfg\<rparr>"

section \<open>The history\<close>

record update_decision =
  ud_at :: go_time
  ud_event :: string
  ud_installed_version :: string
  ud_target_version :: string
  ud_channel :: string
  ud_detail :: string

definition historyLimit :: nat where
  "historyLimit = 500"

text \<open>The lines of the file; \<open>None\<close> is a line that does not decode. The file is cut to its last lines after an
  entry is appended.\<close>

type_synonym history = "update_decision option list"

definition trimHistory :: "history \<Rightarrow> history" where
  "trimHistory ls = (if length ls \<le> historyLimit then ls else drop (length ls - historyLimit) ls)"

definition Store_Append :: "go_time \<Rightarrow> update_decision \<Rightarrow> history \<Rightarrow> history" where
  "Store_Append clock d ls = trimHistory (ls @ [Some (d\<lparr>ud_at := (if ud_at d = 0 then clock else ud_at d)\<rparr>)])"

definition Store_Tail :: "int \<Rightarrow> history \<Rightarrow> update_decision list" where
  "Store_Tail n ls =
     (if n \<le> 0 then []
      else let out = map the (filter (\<lambda>l. l \<noteq> None) ls) in
           if n < int (length out) then drop (length out - nat n) out else out)"

section \<open>Finding the newest release\<close>

record release_url =
  ru_scheme :: string
  ru_path :: string
  ru_text :: string

record http_response =
  hr_status_code :: int
  hr_status :: string
  hr_location :: string
  hr_body :: string
  hr_read_error :: "string option"

record feed_entry =
  fe_id :: string
  fe_title :: string
  fe_hrefs :: "string list"

text \<open>The world outside: parsing a URL, resolving a redirect against the address that was asked, the exchange
  itself (with or without following redirects), and decoding the feed.\<close>

record release_host =
  rh_parse :: "string \<Rightarrow> string + release_url"
  rh_resolve :: "string \<Rightarrow> string \<Rightarrow> string + release_url"
  rh_do :: "bool \<Rightarrow> string \<Rightarrow> string + http_response"
  rh_decode :: "string \<Rightarrow> string + feed_entry list"

record release_sources =
  so_repo :: string
  so_latest_url :: string
  so_atom_url :: string
  so_download_base :: string
  so_overridden :: bool

definition atomLimit :: nat where
  "atomLimit = 1048576"

text \<open>The sources of this machine: the environment is looked at in test mode only.\<close>

definition DefaultRepo :: string where
  "DefaultRepo = ''Vadym903/Intenter''"

definition EnvRepo :: string where
  "EnvRepo = ''INTENTER_REPO''"

definition EnvLatestURL :: string where
  "EnvLatestURL = ''INTENTER_LATEST_URL''"

definition EnvAtomURL :: string where
  "EnvAtomURL = ''INTENTER_RELEASES_ATOM_URL''"

definition EnvDownloadBase :: string where
  "EnvDownloadBase = ''INTENTER_DOWNLOAD_BASE''"

definition envOr :: "(string \<Rightarrow> string) \<Rightarrow> string \<Rightarrow> string \<Rightarrow> string" where
  "envOr env key fallback = (if TrimSpace (env key) \<noteq> [] then TrimSpace (env key) else fallback)"

definition source_override :: "(string \<Rightarrow> string) \<Rightarrow> string \<Rightarrow> string \<Rightarrow> string \<times> bool" where
  "source_override env key current =
     (let v = TrimSpace (env key) in
      if v \<noteq> [] then (TrimRight_by (\<lambda>c. c = CHR ''/'') v, True) else (current, False))"

definition SourcesFromEnv :: "bool \<Rightarrow> (string \<Rightarrow> string) \<Rightarrow> release_sources" where
  "SourcesFromEnv test_mode env =
     (let repo = (if test_mode then envOr env EnvRepo DefaultRepo else DefaultRepo);
          base = ''https://github.com/'' @ repo;
          sources = \<lparr>so_repo = repo, so_latest_url = base @ ''/releases/latest'', so_atom_url = base @ ''/releases.atom'',
                     so_download_base = base @ ''/releases/download'', so_overridden = False\<rparr>
      in if \<not> test_mode then sources
         else let (latest, a) = source_override env EnvLatestURL (so_latest_url sources);
                  (atom, b) = source_override env EnvAtomURL (so_atom_url sources);
                  (download, c) = source_override env EnvDownloadBase (so_download_base sources)
              in sources\<lparr>so_latest_url := latest, so_atom_url := atom, so_download_base := download,
                   so_overridden := a \<or> b \<or> c \<or> env EnvRepo \<noteq> []\<rparr>)"

record release =
  re_version :: string
  re_notes_url :: string

definition NotesURL :: "release_sources \<Rightarrow> string \<Rightarrow> string" where
  "NotesURL s v =
     (let base = (if so_overridden s then TrimSuffix (so_latest_url s) ''/releases/latest''
                  else ''https://github.com/'' @ so_repo s)
      in base @ ''/releases/tag/v'' @ updater_Normalize v)"

text \<open>\<open>None\<close> is permission, otherwise the error.\<close>

definition allowScheme :: "release_sources \<Rightarrow> release_url \<Rightarrow> string option" where
  "allowScheme s u =
     (if ru_scheme u = ''https'' then None
      else if so_overridden s then None
      else Some (''updater: refusing '' @ ru_scheme u @ '': release downloads must use https''))"

definition release_get :: "release_host \<Rightarrow> release_sources \<Rightarrow> bool \<Rightarrow> string \<Rightarrow> string + http_response" where
  "release_get h s follow rawURL =
     (case rh_parse h rawURL of
        Inl err \<Rightarrow> Inl (''updater: unreadable release URL '' @ go_quote rawURL @ '': '' @ err)
      | Inr parsed \<Rightarrow>
          (case allowScheme s parsed of
             Some err \<Rightarrow> Inl err
           | None \<Rightarrow> (case rh_do h follow rawURL of Inl err \<Rightarrow> Inl (''updater: '' @ err) | Inr r \<Rightarrow> Inr r)))"

definition release_notesURL :: "release_sources \<Rightarrow> string \<Rightarrow> release_url option \<Rightarrow> string" where
  "release_notesURL s tag target =
     (case target of
        Some u \<Rightarrow> if so_overridden s \<and> ru_scheme u \<noteq> [] then ru_text u else NotesURL s tag
      | None \<Rightarrow> NotesURL s tag)"

definition latestFromRedirect :: "release_host \<Rightarrow> release_sources \<Rightarrow> string + release" where
  "latestFromRedirect h s =
     (case release_get h s False (so_latest_url s) of
        Inl err \<Rightarrow> Inl err
      | Inr response \<Rightarrow>
          if hr_location response = [] then
            (if 300 \<le> hr_status_code response
             then Inl (''updater: '' @ so_latest_url s @ '' answered '' @ hr_status response)
             else Inl (''updater: '' @ so_latest_url s @ '' did not redirect to a release''))
          else case rh_resolve h (so_latest_url s) (hr_location response) of
                 Inl err \<Rightarrow> Inl (''updater: unreadable redirect '' @ go_quote (hr_location response) @ '': '' @ err)
               | Inr target \<Rightarrow>
                   (case ParseVersion (Base (ru_path target)) of
                      None \<Rightarrow> Inl (''updater: '' @ so_latest_url s @ '' redirected to '' @ ru_text target @
                                 '', which names no version'')
                    | Some tag \<Rightarrow> Inr \<lparr>re_version = tag, re_notes_url = release_notesURL s tag (Some target)\<rparr>))"

definition feed_candidates :: "release_host \<Rightarrow> feed_entry \<Rightarrow> string list" where
  "feed_candidates h entry =
     concat (map (\<lambda>href. if href = [] then []
                         else case rh_parse h href of Inl _ \<Rightarrow> [] | Inr u \<Rightarrow> [Base (ru_path u)]) (fe_hrefs entry)) @
     (if fe_id entry = [] then [] else [rev (takeWhile (\<lambda>c. c \<noteq> CHR ''/'') (rev (fe_id entry)))]) @
     [TrimSpace (fe_title entry)]"

definition firstFeedTag :: "release_host \<Rightarrow> string \<Rightarrow> string + string" where
  "firstFeedTag h body =
     (case rh_decode h body of
        Inl err \<Rightarrow> Inl (''updater: unreadable release feed: '' @ err)
      | Inr [] \<Rightarrow> Inl ''updater: the release feed lists no releases''
      | Inr (entry # _) \<Rightarrow>
          (case find (\<lambda>candidate. ParseVersion candidate \<noteq> None) (feed_candidates h entry) of
             None \<Rightarrow> Inl ''updater: the newest release feed entry names no version''
           | Some candidate \<Rightarrow> Inr (the (ParseVersion candidate))))"

definition latestFromFeed :: "release_host \<Rightarrow> release_sources \<Rightarrow> string + release" where
  "latestFromFeed h s =
     (case release_get h s True (so_atom_url s) of
        Inl err \<Rightarrow> Inl err
      | Inr response \<Rightarrow>
          if hr_status_code response \<noteq> 200
          then Inl (''updater: '' @ so_atom_url s @ '' answered '' @ hr_status response)
          else case hr_read_error response of
                 Some err \<Rightarrow> Inl (''updater: read '' @ so_atom_url s @ '': '' @ err)
               | None \<Rightarrow>
                   (case firstFeedTag h (take atomLimit (hr_body response)) of
                      Inl err \<Rightarrow> Inl err
                    | Inr tag \<Rightarrow>
                        Inr \<lparr>re_version = tag,
                             re_notes_url = release_notesURL s tag
                               (case rh_parse h (NotesURL s tag) of Inl _ \<Rightarrow> None | Inr u \<Rightarrow> Some u)\<rparr>))"

definition discover :: "release_host \<Rightarrow> release_sources \<Rightarrow> updates_config \<Rightarrow> string + release" where
  "discover h s cfg = (if follows_prerelease cfg then latestFromFeed h s else latestFromRedirect h s)"

definition shortReason :: "string \<Rightarrow> string" where
  "shortReason message =
     (let lower = ToLower message in
      if strings_Contains lower ''timeout'' \<or> strings_Contains lower ''timed out'' \<or>
         strings_Contains lower ''deadline exceeded'' then ''timed out''
      else if strings_Contains lower ''no such host'' then ''cannot resolve the release host (DNS)''
      else if strings_Contains lower ''proxyconnect'' then ''cannot reach the proxy''
      else TrimPrefix message ''updater: '')"

section \<open>One check\<close>

record checker =
  ck_updates :: updates_config
  ck_sources :: release_sources
  ck_installed :: string
  ck_install_channel :: string

definition checker_stamp :: "checker \<Rightarrow> update_state \<Rightarrow> update_state" where
  "checker_stamp c s =
     (let s = (if ck_installed c \<noteq> [] then s\<lparr>us_installed_version := ck_installed c\<rparr> else s)
      in if ck_install_channel c \<noteq> [] then s\<lparr>us_install_channel := ck_install_channel c\<rparr> else s)"

text \<open>The answer of a check with the file and the history it leaves.\<close>

definition Checker_Check ::
    "duration_parser \<Rightarrow> string \<Rightarrow> store_io \<Rightarrow> checker \<Rightarrow> release_host \<Rightarrow> go_time \<Rightarrow> state_file \<Rightarrow> history \<Rightarrow>
     (update_state \<times> string option) \<times> state_file \<times> history" where
  "Checker_Check parse path io c h now file ls =
     (case discover h (ck_sources c) (ck_updates c) of
        Inl err \<Rightarrow>
          (let reason = shortReason err;
               ((st, saveErr), file') = Store_Mutate path io
                 (\<lambda>s. RecordCheckFailure parse now reason (ck_updates c) (checker_stamp c s)) file;
               ls = Store_Append now
                 \<lparr>ud_at = now, ud_event = ''check_failed'', ud_installed_version = ck_installed c,
                  ud_target_version = [], ud_channel = ck_install_channel c, ud_detail = reason\<rparr> ls
           in ((st, if saveErr \<noteq> None then saveErr else Some err), file', ls))
      | Inr found \<Rightarrow>
          (let ((st, saveErr), file') = Store_Mutate path io
                 (\<lambda>s. RecordCheckOK parse now
                    \<lparr>lk_version = re_version found, lk_notes_url = re_notes_url found, lk_found_at = now\<rparr>
                    (ck_updates c) (checker_stamp c s)) file;
               ls = Store_Append now
                 \<lparr>ud_at = now, ud_event = ''check_ok'', ud_installed_version = ck_installed c,
                  ud_target_version = re_version found, ud_channel = ck_install_channel c, ud_detail = []\<rparr> ls
           in ((st, saveErr), file', ls)))"

section \<open>The prompt\<close>

datatype update_choice = ChoiceUpdate | ChoiceNotNow | ChoiceSkip | ChoiceTimeout

definition choice_Deferred :: "update_choice \<Rightarrow> bool" where
  "choice_Deferred c = (c = ChoiceNotNow \<or> c = ChoiceTimeout)"

fun choice_event :: "update_choice \<Rightarrow> string" where
  "choice_event ChoiceUpdate = ''choice_update''"
| "choice_event ChoiceSkip = ''choice_skip''"
| "choice_event ChoiceTimeout = ''choice_timeout''"
| "choice_event ChoiceNotNow = ''choice_not_now''"

text \<open>The line that arrived before the time was up; at the end of input it is empty.\<close>

definition Prompter_read :: "string option \<Rightarrow> update_choice" where
  "Prompter_read answer =
     (case answer of
        None \<Rightarrow> ChoiceTimeout
      | Some line \<Rightarrow>
          (let a = ToLower (TrimSpace line) in
           if a = ''y'' \<or> a = ''yes'' then ChoiceUpdate
           else if a = ''s'' \<or> a = ''skip'' then ChoiceSkip
           else ChoiceNotNow))"

definition choice_change ::
    "duration_parser \<Rightarrow> go_time \<Rightarrow> update_choice \<Rightarrow> latest_known \<Rightarrow> updates_config \<Rightarrow> update_state \<Rightarrow> update_state" where
  "choice_change parse now choice latest cfg s =
     (let s = s\<lparr>us_last_prompt_at := Some now\<rparr> in
      if choice = ChoiceSkip then s\<lparr>us_skipped_version := lk_version latest, us_deferred_until := None\<rparr>
      else if choice_Deferred choice then s\<lparr>us_deferred_until := Some (now + RemindEvery parse cfg)\<rparr>
      else s)"

record prompter =
  pr_updates :: updates_config
  pr_installed :: string
  pr_install_channel :: string

definition prompt_record :: "prompter \<Rightarrow> go_time \<Rightarrow> string \<Rightarrow> string \<Rightarrow> history \<Rightarrow> history" where
  "prompt_record p now event target ls = Store_Append now
     \<lparr>ud_at = now, ud_event = event, ud_installed_version = pr_installed p, ud_target_version = target,
      ud_channel = pr_install_channel p, ud_detail = []\<rparr> ls"

definition Prompter_Ask ::
    "duration_parser \<Rightarrow> string \<Rightarrow> store_io \<Rightarrow> prompter \<Rightarrow> go_time \<Rightarrow> string option \<Rightarrow> latest_known \<Rightarrow> state_file \<Rightarrow>
     history \<Rightarrow> (update_choice \<times> string option) \<times> state_file \<times> history" where
  "Prompter_Ask parse path io p now answer latest file ls =
     (let ls = prompt_record p now ''prompt_shown'' (lk_version latest) ls;
          choice = Prompter_read answer;
          ((_, err), file') = Store_Mutate path io (choice_change parse now choice latest (pr_updates p)) file
      in if err \<noteq> None then ((choice, err), file', ls)
         else ((choice, None), file', prompt_record p now (choice_event choice) (lk_version latest) ls))"

text \<open>What \<^verbatim>\<open>intenter update --skip\<close> and \<^verbatim>\<open>--unskip\<close> write.\<close>

definition runSkip :: "string \<Rightarrow> store_io \<Rightarrow> bool \<Rightarrow> string \<Rightarrow> state_file \<Rightarrow> string option \<times> state_file" where
  "runSkip path io unskip skip file =
     (if unskip
      then (let ((_, err), file) = Store_Mutate path io (\<lambda>s. s\<lparr>us_skipped_version := []\<rparr>) file in (err, file))
      else case ParseVersion skip of
             None \<Rightarrow> (Some (''updater: '' @ go_quote (TrimSpace skip) @ '' is not a version''), file)
           | Some target \<Rightarrow>
               (let ((_, err), file) = Store_Mutate path io (\<lambda>s. s\<lparr>us_skipped_version := target\<rparr>) file in (err, file)))"

section \<open>The marks of an update\<close>

definition mark_change :: "int \<Rightarrow> go_time \<Rightarrow> string \<Rightarrow> update_state \<Rightarrow> update_state" where
  "mark_change pid now target s =
     s\<lparr>us_in_progress := Some \<lparr>ip_pid = pid, ip_started_at = now, ip_target_version = target\<rparr>\<rparr>"

definition finish_change :: "string \<Rightarrow> string \<Rightarrow> go_time \<Rightarrow> string option \<Rightarrow> update_state \<Rightarrow> update_state" where
  "finish_change installed target now err s =
     (let s = s\<lparr>us_in_progress := None,
               us_last_update := Some \<lparr>lu_from = installed, lu_to = target, lu_at = now,
                 lu_result = (if err = None then ''ok'' else ''failed''),
                 lu_error = (case err of None \<Rightarrow> [] | Some e \<Rightarrow> e)\<rparr>\<rparr>
      in if err = None then s\<lparr>us_installed_version := target, us_deferred_until := None\<rparr> else s)"

end
