(* ===== verification/Updater_Fetch.thy ===== *)
theory Updater_Fetch
  imports Updater_State
begin

text \<open>
  \<^verbatim>\<open>internal/updater/download.go\<close>, \<^verbatim>\<open>signature.go\<close> and \<^verbatim>\<open>replace.go\<close>: a release build is downloaded, its
  checksums verified against the signing key, the archive against the checksums, the binary extracted, tried, and
  renamed over the installed copy. The files are a map from paths to contents. Cryptography, archives, the release
  host, running the binary and the failures of the disk are arguments; a failure carries the exit code.
\<close>

section \<open>The world outside\<close>

type_synonym file_map = "string \<rightharpoonup> string"

type_synonym failure = "int \<times> string"

record tar_entry =
  te_regular :: bool
  te_name :: string
  te_content :: string
  te_read_error :: "string option"

record zip_entry =
  ze_dir :: bool
  ze_name :: string
  ze_open :: "string + string \<times> string option"

text \<open>What can go wrong on the disk, by path: reading, opening for writing, copying (after some bytes), changing
  the mode, making a directory and renaming.\<close>

record disk_faults =
  df_read :: "string \<Rightarrow> string option"
  df_create :: "string \<Rightarrow> string option"
  df_copy :: "string \<Rightarrow> (nat \<times> string) option"
  df_chmod :: "string \<Rightarrow> string option"
  df_mkdir :: "string \<Rightarrow> string option"
  df_rename :: "string \<Rightarrow> string option"

text \<open>A tar archive is the entries that can be read and the error that ends the stream, if it does not end well;
  running a binary gives its error and its output.\<close>

record update_world =
  uw_host :: release_host
  uw_arch :: string
  uw_sha256 :: "string \<Rightarrow> string"
  uw_base64 :: "string \<Rightarrow> string + string"
  uw_verify :: "string \<Rightarrow> string \<Rightarrow> string \<Rightarrow> bool"
  uw_pem :: "string \<Rightarrow> string option"
  uw_pkix :: "string \<Rightarrow> string + bool \<times> string"
  uw_embedded_key :: string
  uw_tar :: "string \<Rightarrow> string + tar_entry list \<times> string option"
  uw_zip :: "string \<Rightarrow> string + zip_entry list"
  uw_run :: "string \<Rightarrow> string option \<times> string"
  uw_faults :: disk_faults

definition ExitUsage :: int where "ExitUsage = 1"
definition ExitDownload :: int where "ExitDownload = 2"
definition ExitChecksum :: int where "ExitChecksum = 3"
definition ExitNotWritable :: int where "ExitNotWritable = 4"
definition ExitDelegation :: int where "ExitDelegation = 5"
definition ExitPostUpdate :: int where "ExitPostUpdate = 6"
definition ExitInProgress :: int where "ExitInProgress = 7"
definition ExitSignature :: int where "ExitSignature = 8"

definition downloadLimit :: nat where
  "downloadLimit = 268435456"

definition checksumsLimit :: nat where
  "checksumsLimit = 1048576"

definition signatureLimit :: nat where
  "signatureLimit = 4096"

definition read_file :: "update_world \<Rightarrow> file_map \<Rightarrow> string \<Rightarrow> string + string" where
  "read_file w files path =
     (case df_read (uw_faults w) path of
        Some err \<Rightarrow> Inl err
      | None \<Rightarrow> (case files path of None \<Rightarrow> Inl ''no such file or directory'' | Some c \<Rightarrow> Inr c))"

text \<open>\<open>io.Copy\<close> to a file that was opened and emptied.\<close>

definition copy_to :: "update_world \<Rightarrow> string \<Rightarrow> string \<Rightarrow> string option \<Rightarrow> file_map \<Rightarrow> file_map \<times> string option" where
  "copy_to w path content read_error files =
     (case df_copy (uw_faults w) path of
        Some (n, err) \<Rightarrow> (files(path \<mapsto> take n content), Some err)
      | None \<Rightarrow> (files(path \<mapsto> content), read_error))"

section \<open>Downloading\<close>

definition ExecutableName :: string where
  "ExecutableName = ''intenter''"

definition AssetName :: "update_world \<Rightarrow> string \<Rightarrow> string" where
  "AssetName w v = ''intenter_'' @ updater_Normalize v @ ''_linux_'' @ uw_arch w @ ''.tar.gz''"

definition fetch_download ::
    "update_world \<Rightarrow> release_sources \<Rightarrow> string \<Rightarrow> string \<Rightarrow> nat \<Rightarrow> file_map \<Rightarrow> file_map \<times> failure option" where
  "fetch_download w s rawURL target limit files =
     (case rh_parse (uw_host w) rawURL of
        Inl err \<Rightarrow> (files, Some (ExitDownload, ''updater: '' @ err))
      | Inr u \<Rightarrow>
     (case allowScheme s u of
        Some err \<Rightarrow> (files, Some (ExitDownload, err))
      | None \<Rightarrow>
     (case rh_do (uw_host w) True rawURL of
        Inl err \<Rightarrow> (files, Some (ExitDownload, ''updater: download '' @ rawURL @ '': '' @ shortReason err))
      | Inr response \<Rightarrow>
          if hr_status_code response \<noteq> 200
          then (files, Some (ExitDownload, ''updater: download '' @ rawURL @ '': '' @ hr_status response))
          else case df_create (uw_faults w) target of
                 Some err \<Rightarrow> (files, Some (ExitDownload, ''updater: create '' @ target @ '': '' @ err))
               | None \<Rightarrow>
                   let body = take (limit + 1) (hr_body response);
                       (files, err) = copy_to w target body
                         (if limit < length (hr_body response) then None else hr_read_error response) files
                   in case err of
                        Some err \<Rightarrow> (files, Some (ExitDownload, ''updater: download '' @ rawURL @ '': '' @ err))
                      | None \<Rightarrow>
                          if limit < length body
                          then (files, Some (ExitDownload, ''updater: '' @ rawURL @ '' is larger than '' @
                                  Itoa (int limit) @ '' bytes''))
                          else (files, None))))"

definition downloadSignature ::
    "update_world \<Rightarrow> release_sources \<Rightarrow> string \<Rightarrow> string \<Rightarrow> file_map \<Rightarrow> file_map \<times> failure option" where
  "downloadSignature w s rawURL target files =
     (let (files, err) = fetch_download w s rawURL target signatureLimit files in
      (files, map_option (\<lambda>(_, message). (ExitSignature, message)) err))"

section \<open>The signature\<close>

definition parsePublicKey :: "update_world \<Rightarrow> string \<Rightarrow> failure + string" where
  "parsePublicKey w pem =
     (case uw_pem w pem of
        None \<Rightarrow> Inl (ExitSignature, ''updater: the signing key is not valid PEM'')
      | Some block \<Rightarrow>
          (case uw_pkix w block of
             Inl err \<Rightarrow> Inl (ExitSignature, ''updater: unreadable signing key: '' @ err)
           | Inr (ecdsa, key) \<Rightarrow>
               if ecdsa then Inr key else Inl (ExitSignature, ''updater: the signing key is not ECDSA'')))"

definition EnvSigningKeyFile :: string where
  "EnvSigningKeyFile = ''INTENTER_SIGNING_KEY_FILE''"

definition verifyingKey ::
    "update_world \<Rightarrow> bool \<Rightarrow> (string \<Rightarrow> string) \<Rightarrow> file_map \<Rightarrow> string option \<Rightarrow> failure + string" where
  "verifyingKey w test_mode env files override =
     (case override of
        Some key \<Rightarrow> Inr key
      | None \<Rightarrow>
          (let path = TrimSpace (env EnvSigningKeyFile) in
           if test_mode \<and> path \<noteq> []
           then case read_file w files path of
                  Inl err \<Rightarrow> Inl (ExitSignature, ''updater: read '' @ path @ '': '' @ err)
                | Inr pem \<Rightarrow> parsePublicKey w pem
           else parsePublicKey w (uw_embedded_key w)))"

definition verifySignature :: "update_world \<Rightarrow> file_map \<Rightarrow> string \<Rightarrow> string \<Rightarrow> string \<Rightarrow> failure option" where
  "verifySignature w files checksumsPath sigPath key =
     (case read_file w files checksumsPath of
        Inl err \<Rightarrow> Some (ExitSignature, ''updater: read '' @ checksumsPath @ '': '' @ err)
      | Inr checksums \<Rightarrow>
     (case read_file w files sigPath of
        Inl err \<Rightarrow> Some (ExitSignature, ''updater: read '' @ Base sigPath @ '': '' @ err)
      | Inr encoded \<Rightarrow>
     (case uw_base64 w (TrimSpace encoded) of
        Inl err \<Rightarrow> Some (ExitSignature, ''updater: '' @ Base sigPath @ '' is not valid base64: '' @ err)
      | Inr signature \<Rightarrow>
          if \<not> uw_verify w key (uw_sha256 w checksums) signature
          then Some (ExitSignature, ''updater: signature verification failed for '' @ Base checksumsPath @ [CHR 0x0A] @
                 ''nothing was installed; the release may have been tampered with'')
          else None)))"

section \<open>The checksum\<close>

definition hex_encode :: "string \<Rightarrow> string" where
  "hex_encode s = concat (map (\<lambda>c. let n = (of_char c :: nat) in [hex_digit (n div 16), hex_digit (n mod 16)]) s)"

fun checksum_line :: "string \<Rightarrow> string list \<Rightarrow> string option" where
  "checksum_line asset [] = None"
| "checksum_line asset (line # ls) =
     (case strings_Fields (TrimSpace line) of
        [digest, name] \<Rightarrow> if TrimPrefix name ''*'' = asset then Some (ToLower digest) else checksum_line asset ls
      | _ \<Rightarrow> checksum_line asset ls)"

definition checksumFor :: "update_world \<Rightarrow> file_map \<Rightarrow> string \<Rightarrow> string \<Rightarrow> failure + string" where
  "checksumFor w files path asset =
     (case read_file w files path of
        Inl err \<Rightarrow> Inl (ExitDownload, ''updater: read '' @ path @ '': '' @ err)
      | Inr t \<Rightarrow>
          (case checksum_line asset (strings_Split t [CHR 0x0A]) of
             Some digest \<Rightarrow> Inr digest
           | None \<Rightarrow> Inl (ExitChecksum, ''updater: '' @ asset @ '' is not listed in checksums.txt'')))"

definition verifyChecksum :: "update_world \<Rightarrow> file_map \<Rightarrow> string \<Rightarrow> string \<Rightarrow> string \<Rightarrow> failure option" where
  "verifyChecksum w files archivePath checksumsPath asset =
     (case checksumFor w files checksumsPath asset of
        Inl err \<Rightarrow> Some err
      | Inr published \<Rightarrow>
          (case read_file w files archivePath of
             Inl err \<Rightarrow> Some (ExitDownload, ''updater: read '' @ archivePath @ '': '' @ err)
           | Inr archive \<Rightarrow>
               let actual = hex_encode (uw_sha256 w archive) in
               if \<not> EqualFold actual published
               then Some (ExitChecksum, ''updater: checksum verification failed for '' @ asset @ [CHR 0x0A] @
                      ''  published '' @ published @ [CHR 0x0A] @ ''  downloaded '' @ actual @ [CHR 0x0A] @
                      ''nothing was installed; the download may have been corrupted or tampered with'')
               else None))"

section \<open>Extracting\<close>

definition writeExtracted ::
    "update_world \<Rightarrow> string \<Rightarrow> string \<Rightarrow> string option \<Rightarrow> file_map \<Rightarrow> file_map \<times> failure option" where
  "writeExtracted w target content broken files =
     (case df_create (uw_faults w) target of
        Some err \<Rightarrow> (files, Some (ExitDownload, ''updater: create '' @ target @ '': '' @ err))
      | None \<Rightarrow>
          (let (files, err) = copy_to w target (take downloadLimit content)
                 (if downloadLimit \<le> length content then None else broken) files in
           case err of
             Some err \<Rightarrow> (files, Some (ExitDownload, ''updater: extract to '' @ target @ '': '' @ err))
           | None \<Rightarrow>
               (case df_chmod (uw_faults w) target of
                  Some err \<Rightarrow> (files, Some (ExitDownload, ''updater: make '' @ target @ '' executable: '' @ err))
                | None \<Rightarrow> (files, None))))"

fun tar_find :: "tar_entry list \<Rightarrow> tar_entry option" where
  "tar_find [] = None"
| "tar_find (entry # rest) =
     (if \<not> te_regular entry \<or> Base (te_name entry) \<noteq> ExecutableName then tar_find rest else Some entry)"

definition extractFromTarGz :: "update_world \<Rightarrow> string \<Rightarrow> string \<Rightarrow> file_map \<Rightarrow> file_map \<times> failure option" where
  "extractFromTarGz w archivePath target files =
     (case read_file w files archivePath of
        Inl err \<Rightarrow> (files, Some (ExitDownload, ''updater: open '' @ archivePath @ '': '' @ err))
      | Inr archive \<Rightarrow>
     (case uw_tar w archive of
        Inl err \<Rightarrow> (files, Some (ExitDownload, ''updater: '' @ Base archivePath @ '' is not a gzip archive: '' @ err))
      | Inr (entries, broken) \<Rightarrow>
          (case tar_find entries of
             Some entry \<Rightarrow> writeExtracted w target (te_content entry) (te_read_error entry) files
           | None \<Rightarrow>
               (case broken of
                  Some err \<Rightarrow> (files, Some (ExitDownload, ''updater: read '' @ Base archivePath @ '': '' @ err))
                | None \<Rightarrow> (files, Some (ExitDownload, ''updater: '' @ Base archivePath @ '' contains no '' @ ExecutableName))))))"

definition extractFromZip :: "update_world \<Rightarrow> string \<Rightarrow> string \<Rightarrow> file_map \<Rightarrow> file_map \<times> failure option" where
  "extractFromZip w archivePath target files =
     (case read_file w files archivePath of
        Inl err \<Rightarrow> (files, Some (ExitDownload, ''updater: open '' @ Base archivePath @ '': '' @ err))
      | Inr archive \<Rightarrow>
     (case uw_zip w archive of
        Inl err \<Rightarrow> (files, Some (ExitDownload, ''updater: open '' @ Base archivePath @ '': '' @ err))
      | Inr entries \<Rightarrow>
          (case find (\<lambda>e. \<not> (ze_dir e \<or> Base (ze_name e) \<noteq> ExecutableName)) entries of
             None \<Rightarrow> (files, Some (ExitDownload, ''updater: '' @ Base archivePath @ '' contains no '' @ ExecutableName))
           | Some entry \<Rightarrow>
               (case ze_open entry of
                  Inl err \<Rightarrow> (files, Some (ExitDownload, ''updater: read '' @ ze_name entry @ '': '' @ err))
                | Inr (content, broken) \<Rightarrow> writeExtracted w target content broken files))))"

definition extractBinary :: "update_world \<Rightarrow> string \<Rightarrow> string \<Rightarrow> file_map \<Rightarrow> file_map \<times> failure option" where
  "extractBinary w archivePath target files =
     (if HasSuffix archivePath ''.zip'' then extractFromZip w archivePath target files
      else extractFromTarGz w archivePath target files)"

definition updater_firstLine :: "string \<Rightarrow> string" where
  "updater_firstLine s = (case cut_at (CHR 0x0A) s of (a, Some _) \<Rightarrow> TrimSpace a | (a, None) \<Rightarrow> a)"

definition runVersionCheck :: "update_world \<Rightarrow> file_map \<Rightarrow> string \<Rightarrow> string \<Rightarrow> failure option" where
  "runVersionCheck w files path want =
     (case uw_run w (case files path of None \<Rightarrow> [] | Some c \<Rightarrow> c) of
        (Some err, output) \<Rightarrow>
          Some (ExitDownload, ''updater: the downloaded build did not run: '' @ err @ [CHR 0x0A] @ TrimSpace output)
      | (None, output) \<Rightarrow>
          (let printed = TrimSpace output in
           if \<not> strings_Contains (updater_firstLine printed) want
           then Some (ExitDownload, ''updater: the downloaded build reports '' @ go_quote (updater_firstLine printed) @
                  '', not '' @ want @ ''; nothing was installed'')
           else None))"

end
