(* ===== verification/Updater_Apply.thy ===== *)
theory Updater_Apply
  imports Updater_Fetch
begin

text \<open>
  \<^verbatim>\<open>internal/updater/apply.go\<close>, \<^verbatim>\<open>channel.go\<close> and the rest of \<^verbatim>\<open>download.go\<close> and \<^verbatim>\<open>replace.go\<close>: who may replace the
  executable, the plan of an update, and the update itself with its marks in the state file.
\<close>

section \<open>Fetching a verified build\<close>

text \<open>Steps that change the files until one of them fails.\<close>

definition and_then ::
    "file_map \<times> failure option \<Rightarrow> (file_map \<Rightarrow> file_map \<times> failure option) \<Rightarrow> file_map \<times> failure option" where
  "and_then r next = (case r of (files, None) \<Rightarrow> next files | (files, Some err) \<Rightarrow> (files, Some err))"

record fetcher =
  ft_sources :: release_sources
  ft_test_mode :: bool
  ft_env :: "string \<Rightarrow> string"
  ft_public_key :: "string option"

definition verify_downloads ::
    "update_world \<Rightarrow> fetcher \<Rightarrow> string \<Rightarrow> string \<Rightarrow> string \<Rightarrow> string \<Rightarrow> file_map \<Rightarrow> failure option" where
  "verify_downloads w f archivePath checksumsPath sigPath asset files =
     (case verifyingKey w (ft_test_mode f) (ft_env f) files (ft_public_key f) of
        Inl err \<Rightarrow> Some err
      | Inr key \<Rightarrow>
          (case verifySignature w files checksumsPath sigPath key of
             Some err \<Rightarrow> Some err
           | None \<Rightarrow> verifyChecksum w files archivePath checksumsPath asset))"

text \<open>The binary is at \<open>filepath_Join [dir, ExecutableName]\<close> when no failure is returned.\<close>

definition Fetch :: "update_world \<Rightarrow> fetcher \<Rightarrow> string \<Rightarrow> string \<Rightarrow> file_map \<Rightarrow> file_map \<times> failure option" where
  "Fetch w f v dir files =
     (let v = updater_Normalize v in
      case df_mkdir (uw_faults w) dir of
        Some err \<Rightarrow> (files, Some (ExitDownload, ''updater: create '' @ dir @ '': '' @ err))
      | None \<Rightarrow>
          (let asset = AssetName w v;
               base = so_download_base (ft_sources f) @ ''/v'' @ v;
               archivePath = filepath_Join [dir, asset];
               checksumsPath = filepath_Join [dir, ''checksums.txt''];
               sigPath = filepath_Join [dir, ''checksums.txt.sig''];
               binary = filepath_Join [dir, ExecutableName]
           in and_then (fetch_download w (ft_sources f) (base @ ''/'' @ asset) archivePath downloadLimit files)
                (\<lambda>files. and_then
                   (fetch_download w (ft_sources f) (base @ ''/checksums.txt'') checksumsPath checksumsLimit files)
                   (\<lambda>files. and_then
                      (downloadSignature w (ft_sources f) (base @ ''/checksums.txt.sig'') sigPath files)
                      (\<lambda>files. case verify_downloads w f archivePath checksumsPath sigPath asset files of
                                 Some err \<Rightarrow> (files, Some err)
                               | None \<Rightarrow> and_then (extractBinary w archivePath binary files)
                                   (\<lambda>files. (files, runVersionCheck w files binary v)))))))"

section \<open>Replacing the executable\<close>

definition staged_path :: "string \<Rightarrow> string" where
  "staged_path target = filepath_Join [Dir target, ''.'' @ Base target @ ''.new'']"

definition copyExecutable :: "update_world \<Rightarrow> string \<Rightarrow> string \<Rightarrow> file_map \<Rightarrow> file_map \<times> failure option" where
  "copyExecutable w source staged files =
     (case read_file w files source of
        Inl err \<Rightarrow> (files, Some (ExitDownload, ''updater: read '' @ source @ '': '' @ err))
      | Inr content \<Rightarrow>
     (case df_create (uw_faults w) staged of
        Some err \<Rightarrow> (files, Some (ExitNotWritable, ''updater: cannot write to '' @ Dir staged @ '': '' @ err))
      | None \<Rightarrow>
          (let (files, err) = copy_to w staged content None files in
           case err of
             Some err \<Rightarrow> (files, Some (ExitNotWritable, ''updater: write '' @ staged @ '': '' @ err))
           | None \<Rightarrow>
               (case df_chmod (uw_faults w) staged of
                  Some err \<Rightarrow> (files, Some (ExitNotWritable, ''updater: make '' @ staged @ '' executable: '' @ err))
                | None \<Rightarrow> (files, None)))))"

definition updater_swap :: "update_world \<Rightarrow> string \<Rightarrow> string \<Rightarrow> file_map \<Rightarrow> file_map \<times> failure option" where
  "updater_swap w staged target files =
     (case df_rename (uw_faults w) target of
        Some err \<Rightarrow> (files, Some (ExitNotWritable, ''updater: cannot replace '' @ target @ '': '' @ err))
      | None \<Rightarrow> ((files(target := files staged))(staged := None), None))"

definition updater_Replace :: "update_world \<Rightarrow> string \<Rightarrow> string \<Rightarrow> file_map \<Rightarrow> file_map \<times> failure option" where
  "updater_Replace w newBinary target files =
     (let staged = staged_path target in
      case copyExecutable w newBinary staged files of
        (files, Some err) \<Rightarrow> (files(staged := None), Some err)
      | (files, None) \<Rightarrow>
          (case updater_swap w staged target files of
             (files, Some err) \<Rightarrow> (files(staged := None), Some err)
           | (files, None) \<Rightarrow> (files, None)))"

section \<open>The channel of an installation\<close>

definition ChannelHomebrew :: string where "ChannelHomebrew = ''homebrew''"
definition ChannelWinget :: string where "ChannelWinget = ''winget''"
definition ChannelScript :: string where "ChannelScript = ''script''"
definition ChannelManual :: string where "ChannelManual = ''manual''"
definition ChannelUnknown :: string where "ChannelUnknown = ''unknown''"

fun fields_at :: "(char \<Rightarrow> bool) \<Rightarrow> string \<Rightarrow> string \<Rightarrow> string list" where
  "fields_at sep cur [] = (if cur = [] then [] else [rev cur])"
| "fields_at sep cur (c # cs) =
     (if sep c then (if cur = [] then [] else [rev cur]) @ fields_at sep [] cs else fields_at sep (c # cur) cs)"

definition pathElements :: "string \<Rightarrow> string list" where
  "pathElements path = fields_at (\<lambda>c. c = CHR ''/'' \<or> c = CHR 0x5C) [] path"

definition sameElements :: "string list \<Rightarrow> string list \<Rightarrow> bool" where
  "sameElements got want = list_all2 EqualFold got want"

definition underElements :: "string \<Rightarrow> string list \<Rightarrow> bool" where
  "underElements path wanted =
     (if path = [] \<or> wanted = [] then False
      else let elements = pathElements path in
           \<exists>start \<in> set [0..<Suc (length elements)].
             start + length wanted \<le> length elements \<and> sameElements (take (length wanted) (drop start elements)) wanted)"

definition scriptInstallDirs :: "string list list" where
  "scriptInstallDirs = [[''.local'', ''bin''], [''AppData'', ''Local'', ''Intenter'', ''bin'']]"

definition isScriptInstallDir :: "string \<Rightarrow> string \<Rightarrow> bool" where
  "isScriptInstallDir exe_path homeDir =
     (let elements = pathElements exe_path; home = pathElements homeDir in
      elements \<noteq> [] \<and> home \<noteq> [] \<and> list_ex (\<lambda>suffix. sameElements (butlast elements) (home @ suffix)) scriptInstallDirs)"

definition classifyChannel :: "string \<Rightarrow> string \<Rightarrow> string \<Rightarrow> string \<Rightarrow> string" where
  "classifyChannel exe_path resolved homeDir hint =
     (if underElements resolved [''Cellar''] \<or> underElements exe_path [''Cellar''] then ChannelHomebrew
      else if underElements resolved [''Microsoft'', ''WinGet'', ''Packages''] \<or>
              underElements exe_path [''Microsoft'', ''WinGet'', ''Links''] \<or>
              underElements exe_path [''Microsoft'', ''WinGet'', ''Packages''] then ChannelWinget
      else if hint = ChannelScript \<and> exe_path \<noteq> [] then ChannelScript
      else if isScriptInstallDir exe_path homeDir then ChannelScript
      else ChannelManual)"

record install =
  in_channel :: string
  in_path :: string
  in_resolved :: string
  in_writable :: bool

definition readChannelHint :: "update_world \<Rightarrow> file_map \<Rightarrow> string \<Rightarrow> string" where
  "readChannelHint w files dataDir =
     (if TrimSpace dataDir = [] then []
      else case read_file w files (filepath_Join [dataDir, ''install-channel'']) of
             Inl _ \<Rightarrow> []
           | Inr t \<Rightarrow> ToLower (TrimSpace t))"

text \<open>Following links and trying to create a file in the directory are given.\<close>

definition DetectInstall ::
    "update_world \<Rightarrow> (string \<Rightarrow> string option) \<Rightarrow> (string \<Rightarrow> bool) \<Rightarrow> file_map \<Rightarrow> string \<Rightarrow> string \<Rightarrow> string \<Rightarrow> install" where
  "DetectInstall w follow probe files stablePath homeDir dataDir =
     (let install = \<lparr>in_channel = ChannelUnknown, in_path = stablePath, in_resolved = [], in_writable = False\<rparr> in
      if TrimSpace stablePath = [] then install
      else let resolved = (case follow stablePath of None \<Rightarrow> stablePath | Some p \<Rightarrow> p)
           in install\<lparr>in_resolved := resolved,
                in_channel := classifyChannel stablePath resolved homeDir (readChannelHint w files dataDir),
                in_writable := (if TrimSpace (Dir stablePath) = [] then False else probe (Dir stablePath))\<rparr>)"

definition SelfManaged :: "install \<Rightarrow> bool" where
  "SelfManaged i = (in_channel i = ChannelScript \<or> in_channel i = ChannelManual)"

definition PackageManaged :: "install \<Rightarrow> bool" where
  "PackageManaged i = (in_channel i = ChannelHomebrew \<or> in_channel i = ChannelWinget)"

section \<open>The plan\<close>

record update_plan =
  pl_installed :: string
  pl_target :: string
  pl_channel :: string
  pl_path :: string
  pl_notes_url :: string
  pl_asset :: string
  pl_delegate :: "string list"
  pl_downgrade :: bool
  pl_shadowing :: string
  pl_actions :: "string list"

record applier =
  ap_fetcher :: fetcher
  ap_install :: install
  ap_installed :: string
  ap_lock_held :: bool
  ap_pid :: int

definition delegateCommand :: "string \<Rightarrow> string list" where
  "delegateCommand channel =
     (if channel = ChannelHomebrew then [''brew'', ''upgrade'', ''Vadym903/tap/intenter'']
      else if channel = ChannelWinget then [''winget'', ''upgrade'', ''--id'', ''Intenter.Intenter'', ''--exact'']
      else [])"

text \<open>The copy that a lookup on \<^verbatim>\<open>PATH\<close> finds first is given.\<close>

definition BuildPlan ::
    "update_world \<Rightarrow> applier \<Rightarrow> update_state \<Rightarrow> (string \<Rightarrow> string) \<Rightarrow> string \<Rightarrow> failure + update_plan" where
  "BuildPlan w a st shadowing target =
     (case (if TrimSpace target = [] then map_option lk_version (us_latest_known st) else Some target) of
        None \<Rightarrow> Inl (ExitUsage, ''updater: no release information yet '' @ [CHR 0xE2, CHR 0x80, CHR 0x94] @ '' run `intenter update --check` first'')
      | Some target \<Rightarrow>
     (case ParseVersion target of
        None \<Rightarrow> Inl (ExitUsage, ''updater: '' @ go_quote (TrimSpace target) @ '' is not a version'')
      | Some v \<Rightarrow>
          (let i = ap_install a;
               plan = \<lparr>pl_installed = ap_installed a, pl_target = v, pl_channel = in_channel i, pl_path = in_path i,
                 pl_notes_url = NotesURL (ft_sources (ap_fetcher a)) v, pl_asset = [], pl_delegate = [],
                 pl_downgrade = Older v (ap_installed a), pl_shadowing = shadowing (in_path i), pl_actions = []\<rparr>
           in Inr (if in_channel i = ChannelHomebrew \<or> in_channel i = ChannelWinget
                   then let delegate = delegateCommand (in_channel i)
                        in plan\<lparr>pl_delegate := delegate,
                             pl_actions := [''run '' @ go_quote (strings_Join delegate '' '') @ '' ('' @ in_channel i @
                                 '' owns '' @ in_path i @ '')'',
                               ''restart the Intenter daemon'', ''verify the integration'']\<rparr>
                   else plan\<lparr>pl_asset := AssetName w v,
                          pl_actions := [''download '' @ AssetName w v @ '' and verify it against the published checksums'',
                            ''replace '' @ in_path i, ''restart the Intenter daemon'', ''verify the integration'']\<rparr>))))"

section \<open>The update\<close>

text \<open>What happens around an update: the prompt lock, the directory the download is staged in (the second attempt
  follows the creation of its parent), the package manager, the restart and the daemon's answers, the times.\<close>

datatype ping_answer = Answered string | NoAnswer string | Cancelled string

datatype lock_error = LockHeld string | LockFailed string

record update_run =
  ur_lock :: "lock_error option"
  ur_staging :: "string + string"
  ur_temp_path :: string
  ur_temp_dir :: "string option"
  ur_staging_again :: "string + string"
  ur_delegate :: "(string list \<Rightarrow> string option) option"
  ur_restart :: "string option option"
  ur_pings :: "ping_answer list"
  ur_wait :: string
  ur_start :: go_time
  ur_end :: go_time

text \<open>A directory and everything below it is removed.\<close>

definition RemoveAll :: "string \<Rightarrow> file_map \<Rightarrow> file_map" where
  "RemoveAll dir files = (\<lambda>p. if p = dir \<or> HasPrefix p (dir @ ''/'') then None else files p)"

definition staging_dir :: "update_run \<Rightarrow> failure + string" where
  "staging_dir r =
     (case ur_staging r of
        Inr dir \<Rightarrow> Inr dir
      | Inl _ \<Rightarrow>
          (case ur_temp_dir r of
             Some err \<Rightarrow> Inl (ExitDownload, ''updater: create '' @ ur_temp_path r @ '': '' @ err)
           | None \<Rightarrow>
               (case ur_staging_again r of
                  Inr dir \<Rightarrow> Inr dir
                | Inl err \<Rightarrow> Inl (ExitDownload, ''updater: stage the download: '' @ err))))"

definition replaceSelf ::
    "update_world \<Rightarrow> applier \<Rightarrow> update_run \<Rightarrow> update_plan \<Rightarrow> file_map \<Rightarrow> file_map \<times> failure option" where
  "replaceSelf w a r plan files =
     (if pl_path plan = []
      then (files, Some (ExitNotWritable, ''updater: cannot tell where Intenter is installed''))
      else if \<not> in_writable (ap_install a)
      then (files, Some (ExitNotWritable, ''updater: '' @ Dir (pl_path plan) @ '' is not writable'' @ [CHR 0x0A] @
              ''install the new version another way, or re-run the installer with a writable location''))
      else case staging_dir r of
             Inl err \<Rightarrow> (files, Some err)
           | Inr staging \<Rightarrow>
               (let (files, err) = and_then (Fetch w (ap_fetcher a) (pl_target plan) staging files)
                      (updater_Replace w (filepath_Join [staging, ExecutableName]) (pl_path plan))
                in (RemoveAll staging files, err)))"

definition applier_delegate :: "update_run \<Rightarrow> update_plan \<Rightarrow> failure option" where
  "applier_delegate r plan =
     (case ur_delegate r of
        None \<Rightarrow> Some (ExitDelegation, ''updater: '' @ pl_channel plan @ '' installed Intenter; update it with:'' @
                  [CHR 0x0A] @ ''  '' @ strings_Join (pl_delegate plan) '' '')
      | Some run \<Rightarrow>
          map_option (\<lambda>err. (ExitDelegation, ''updater: '' @ strings_Join (pl_delegate plan) '' '' @ '' failed: '' @ err @
              [CHR 0x0A] @ ''run it yourself to see why'')) (run (pl_delegate plan)))"

text \<open>The answers that come before the wait is over.\<close>

fun wait_loop :: "string \<Rightarrow> string \<Rightarrow> string option \<Rightarrow> ping_answer list \<Rightarrow> string + string" where
  "wait_loop wait want lastErr [] = Inl (case lastErr of None \<Rightarrow> ''no answer within '' @ wait | Some err \<Rightarrow> err)"
| "wait_loop wait want lastErr (Cancelled err # rest) = Inl err"
| "wait_loop wait want lastErr (NoAnswer err # rest) = wait_loop wait want (Some err) rest"
| "wait_loop wait want lastErr (Answered v # rest) =
     (if Same v want then Inr v else wait_loop wait want (Some (''the daemon still reports '' @ v)) rest)"

definition finish_yourself :: string where
  "finish_yourself = [CHR 0x0A] @ ''finish with: intenter daemon restart && intenter doctor''"

definition applier_verify :: "update_run \<Rightarrow> update_plan \<Rightarrow> failure option" where
  "applier_verify r plan =
     (case wait_loop (ur_wait r) (pl_target plan) None (ur_pings r) of
        Inl err \<Rightarrow> Some (ExitPostUpdate, ''updater: Intenter '' @ pl_target plan @
                     '' is installed, but the daemon did not come back: '' @ err @ finish_yourself)
      | Inr v \<Rightarrow>
          if \<not> Same v (pl_target plan)
          then Some (ExitPostUpdate, ''updater: Intenter '' @ pl_target plan @ '' is installed, but the daemon reports '' @ v @
                 finish_yourself)
          else None)"

definition afterReplacement :: "update_run \<Rightarrow> update_plan \<Rightarrow> failure option" where
  "afterReplacement r plan =
     (case ur_restart r of
        None \<Rightarrow> None
      | Some (Some err) \<Rightarrow> Some (ExitPostUpdate, ''updater: Intenter '' @ pl_target plan @
              '' is installed, but the daemon did not restart: '' @ err @ finish_yourself)
      | Some None \<Rightarrow> applier_verify r plan)"

definition applier_record :: "applier \<Rightarrow> go_time \<Rightarrow> string \<Rightarrow> string \<Rightarrow> string \<Rightarrow> history \<Rightarrow> history" where
  "applier_record a now event target detail ls = Store_Append now
     \<lparr>ud_at = now, ud_event = event, ud_installed_version = ap_installed a, ud_target_version = target,
      ud_channel = in_channel (ap_install a), ud_detail = detail\<rparr> ls"

text \<open>The machine: the files, the state file and the history.\<close>

type_synonym machine = "file_map \<times> state_file \<times> history"

definition apply_steps ::
    "update_world \<Rightarrow> applier \<Rightarrow> update_run \<Rightarrow> update_plan \<Rightarrow> file_map \<Rightarrow> file_map \<times> failure option" where
  "apply_steps w a r plan files =
     and_then (if pl_delegate plan \<noteq> [] then (files, applier_delegate r plan) else replaceSelf w a r plan files)
       (\<lambda>files. (files, afterReplacement r plan))"

definition applier_Apply ::
    "update_world \<Rightarrow> string \<Rightarrow> store_io \<Rightarrow> applier \<Rightarrow> update_run \<Rightarrow> update_plan \<Rightarrow> machine \<Rightarrow> machine \<times> failure option" where
  "applier_Apply w path io a r plan m =
     (case (if ap_lock_held a then None else ur_lock r) of
        Some (LockHeld holder) \<Rightarrow> (m, Some (ExitInProgress, holder))
      | Some (LockFailed err) \<Rightarrow> (m, Some (ExitUsage, err))
      | None \<Rightarrow>
          (case m of (files, file, ls) \<Rightarrow>
             (case Store_Mutate path io (mark_change (ap_pid a) (ur_start r) (pl_target plan)) file of
                ((_, Some err), file) \<Rightarrow> ((files, file, ls), Some (ExitUsage, err))
              | ((_, None), file) \<Rightarrow>
                  (let ls = applier_record a (ur_start r) ''update_started'' (pl_target plan) [] ls;
                       (files, err) = apply_steps w a r plan files;
                       (_, file) = Store_Mutate path io
                         (finish_change (pl_installed plan) (pl_target plan) (ur_end r) (map_option snd err)) file;
                       ls = applier_record a (ur_end r) (if err = None then ''update_ok'' else ''update_failed'')
                              (pl_target plan) (case err of None \<Rightarrow> [] | Some (_, detail) \<Rightarrow> detail) ls
                   in ((files, file, ls), err)))))"

section \<open>What a failed step leaves\<close>

lemma and_then_fails: "snd (and_then r f) = None \<Longrightarrow> snd r = None \<and> and_then r f = f (fst r)"
  by (cases r) (auto simp: and_then_def split: option.splits)

lemma and_then_None: "and_then (x, None) f = f x"
  by (simp add: and_then_def)

lemma copy_to_other: "p \<noteq> path \<Longrightarrow> fst (copy_to w path c e files) p = files p"
  by (auto simp: copy_to_def split: option.split)

lemma copy_to_ok: "copy_to w path c e files = (files', None) \<Longrightarrow> files' = files(path \<mapsto> c) \<and> e = None"
  by (auto simp: copy_to_def split: option.splits)

lemma fetch_download_other: "p \<noteq> target \<Longrightarrow> fst (fetch_download w s u target n files) p = files p"
  by (auto simp: fetch_download_def Let_def copy_to_other case_prod_unfold split: sum.split option.split)

lemma downloadSignature_other: "p \<noteq> target \<Longrightarrow> fst (downloadSignature w s u target files) p = files p"
  by (simp add: downloadSignature_def Let_def case_prod_unfold fetch_download_other)

lemma writeExtracted_other: "p \<noteq> target \<Longrightarrow> fst (writeExtracted w target c e files) p = files p"
  by (auto simp: writeExtracted_def Let_def copy_to_other case_prod_unfold split: option.split)

lemma extractBinary_other: "p \<noteq> target \<Longrightarrow> fst (extractBinary w a target files) p = files p"
  by (auto simp: extractBinary_def extractFromZip_def extractFromTarGz_def writeExtracted_other
      split: sum.split option.split)

lemma and_then_other:
  "fst r p = files p \<Longrightarrow> (\<And>g. fst (f g) p = g p) \<Longrightarrow> fst (and_then r f) p = files p"
  by (cases r) (auto simp: and_then_def split: option.split)

text \<open>Nothing but the four files in the staging directory is touched by fetching.\<close>

lemma Fetch_other:
  assumes "p \<noteq> filepath_Join [dir, AssetName w (updater_Normalize v)]" and "p \<noteq> filepath_Join [dir, ''checksums.txt'']"
    and "p \<noteq> filepath_Join [dir, ''checksums.txt.sig'']" and "p \<noteq> filepath_Join [dir, ExecutableName]"
  shows "fst (Fetch w f v dir files) p = files p"
  unfolding Fetch_def Let_def
  using assms
  by (auto intro!: and_then_other simp: fetch_download_other downloadSignature_other extractBinary_other split: option.split)

lemma copyExecutable_other: "p \<noteq> staged \<Longrightarrow> fst (copyExecutable w b staged files) p = files p"
  by (auto simp: copyExecutable_def Let_def copy_to_other case_prod_unfold split: sum.split option.split)

lemma updater_Replace_target:
  assumes "staged_path target \<noteq> target" and "updater_Replace w b target files = (files', err)"
  shows "err \<noteq> None \<Longrightarrow> files' target = files target"
    and "err = None \<Longrightarrow> \<exists>content. read_file w files b = Inr content \<and> files' target = Some content"
proof -
  obtain g e where c: "copyExecutable w b (staged_path target) files = (g, e)" by force
  have other: "g target = files target"
    using copyExecutable_other [of target "staged_path target" w b files] assms(1) by (simp add: c)
  show "err \<noteq> None \<Longrightarrow> files' target = files target"
    using assms other by (auto simp: updater_Replace_def Let_def c updater_swap_def split: option.splits)
  assume "err = None"
  then have e: "e = None" "files' target = g (staged_path target)"
    using assms by (auto simp: updater_Replace_def Let_def c updater_swap_def split: option.splits)
  then have "\<exists>content. read_file w files b = Inr content \<and> g (staged_path target) = Some content"
    using c by (auto simp: copyExecutable_def split: sum.splits option.splits prod.splits dest: copy_to_ok)
  with e(2) show "\<exists>content. read_file w files b = Inr content \<and> files' target = Some content" by simp
qed

end
