(* ===== verification/Updater_Lemmas.thy ===== *)
theory Updater_Lemmas
  imports Updater_Apply
begin

text \<open>
  What an update installs: the paths it stages in, the checks a build has passed when it is installed, and what the
  exit code of a failed update says.
\<close>

section \<open>Paths\<close>

definition plain_name :: "string \<Rightarrow> bool" where
  "plain_name s \<longleftrightarrow> plain_comp s \<and> s \<noteq> ''..''"

text \<open>A cleaned absolute path that is not the root.\<close>

definition file_path :: "string \<Rightarrow> bool" where
  "file_path p \<longleftrightarrow> IsAbs p \<and> Clean p = p \<and> Clean_comps p \<noteq> []"

lemma file_path_comps:
  assumes "file_path p"
  obtains ds b where "p = path_of (ds @ [b])" and "\<forall>c \<in> set (ds @ [b]). plain_comp c \<and> c \<noteq> ''..''"
proof -
  obtain ds b where db: "Clean_comps p = ds @ [b]" using assms by (metis file_path_def rev_exhaust)
  have "p = path_of (Clean_comps p)" using assms Clean_abs by (metis file_path_def)
  moreover have "\<forall>c \<in> set (Clean_comps p). plain_comp c \<and> c \<noteq> ''..''"
    using assms Clean_comps_rooted by (auto simp: file_path_def)
  ultimately show thesis using that db by metis
qed

lemma path_of_inj:
  "\<forall>c \<in> set cs. plain_comp c \<and> c \<noteq> ''..'' \<Longrightarrow> \<forall>c \<in> set ds. plain_comp c \<and> c \<noteq> ''..'' \<Longrightarrow>
   path_of cs = path_of ds \<Longrightarrow> cs = ds"
  by (metis Clean_comps_of_comps)

lemma join_path_of:
  assumes cs: "\<forall>c \<in> set cs. plain_comp c \<and> c \<noteq> ''..''" and n: "plain_name n"
  shows "filepath_Join [path_of cs, n] = path_of (cs @ [n])"
proof (cases "cs = []")
  case True
  have "split_slash n = [n]" using n by (simp add: plain_name_def plain_comp_def split_slash_single)
  then have "Clean_comps (CHR ''/'' # CHR ''/'' # n) = [n]"
    using n by (simp add: Clean_comps_Cons_slash plain_name_def plain_comp_def)
  then show ?thesis using True n by (simp add: filepath_Join_def Clean_abs plain_name_def plain_comp_def)
next
  case False
  have "path_of cs @ ''/'' @ n = path_of (cs @ [n])" using False by (simp add: strings_Join_snoc)
  moreover have "Clean (path_of (cs @ [n])) = path_of (cs @ [n])"
    by (rule Clean_path_of) (use cs n in \<open>auto simp: plain_name_def\<close>)
  ultimately show ?thesis by (simp add: filepath_Join_def)
qed

lemma join_below:
  assumes "file_path dir" and "plain_name n"
  shows "filepath_Join [dir, n] = dir @ ''/'' @ n"
proof -
  obtain ds b where p: "dir = path_of (ds @ [b])" "\<forall>c \<in> set (ds @ [b]). plain_comp c \<and> c \<noteq> ''..''"
    using assms(1) by (rule file_path_comps)
  have "filepath_Join [path_of (ds @ [b]), n] = path_of ((ds @ [b]) @ [n])"
    by (rule join_path_of [OF p(2) assms(2)])
  also have "\<dots> = path_of (ds @ [b]) @ ''/'' @ n" by (subst strings_Join_snoc) simp_all
  finally show ?thesis using p(1) by simp
qed

lemma plain_names:
  "plain_name ''checksums.txt''" "plain_name ''checksums.txt.sig''" "plain_name ExecutableName"
  by (simp_all add: plain_name_def plain_comp_def ExecutableName_def)

lemma set_updater_Normalize: "set (updater_Normalize v) \<subseteq> set v"
proof -
  have "set (TrimSpace v) \<subseteq> set v"
    by (auto simp: TrimSpace_def TrimLeft_by_def TrimRight_by_def dest!: set_dropWhileD)
  then show ?thesis by (auto simp: updater_Normalize_def TrimPrefix_def dest: in_set_dropD)
qed

lemma plain_asset: "CHR ''/'' \<notin> set v \<Longrightarrow> CHR ''/'' \<notin> set (uw_arch w) \<Longrightarrow> plain_name (AssetName w v)"
  using set_updater_Normalize [of v] by (auto simp: plain_name_def plain_comp_def AssetName_def)

lemma Base_snoc: "b \<noteq> [] \<Longrightarrow> CHR ''/'' \<notin> set b \<Longrightarrow> Base (s @ CHR ''/'' # b) = b"
proof -
  assume b: "b \<noteq> []" "CHR ''/'' \<notin> set b"
  then obtain c cs where c: "rev b = c # cs" "c \<noteq> CHR ''/''" by (metis list.set_intros(1) neq_Nil_conv rev_is_Nil_conv set_rev)
  have "TrimRight_by (\<lambda>c. c = CHR ''/'') (s @ CHR ''/'' # b) = s @ CHR ''/'' # b"
    using c by (simp add: TrimRight_by_def)
  moreover have "takeWhile (\<lambda>c. c \<noteq> CHR ''/'') (rev b @ CHR ''/'' # rev s) = rev b"
    using b(2) by (subst takeWhile_append2) auto
  then have "after_last_slash (s @ CHR ''/'' # b) = b" by (simp add: after_last_slash_def)
  ultimately show ?thesis by (simp add: Base_def)
qed

lemma staged_differs: "file_path target \<Longrightarrow> staged_path target \<noteq> target"
proof -
  assume "file_path target"
  then obtain ds b where p: "target = path_of (ds @ [b])" "\<forall>c \<in> set (ds @ [b]). plain_comp c \<and> c \<noteq> ''..''"
    by (rule file_path_comps)
  let ?n = "''.'' @ b @ ''.new''"
  have b: "b \<noteq> []" "CHR ''/'' \<notin> set b" using p(2) by (auto simp: plain_comp_def)
  have dir: "Dir target = path_of ds" using Dir_path_of [OF p(2)] by (simp add: p(1))
  have "target = (if ds = [] then [] else CHR ''/'' # strings_Join ds ''/'') @ CHR ''/'' # b"
    by (simp add: p(1) strings_Join_snoc)
  then have base: "Base target = b" using Base_snoc [OF b] by metis
  have n: "plain_name ?n" using b by (auto simp: plain_name_def plain_comp_def)
  have "staged_path target = path_of (ds @ [?n])"
    using join_path_of [of ds ?n] n p(2) by (simp add: staged_path_def dir base)
  moreover have "\<forall>c \<in> set (ds @ [?n]). plain_comp c \<and> c \<noteq> ''..''" using n p(2) by (simp add: plain_name_def)
  ultimately show ?thesis using path_of_inj [of "ds @ [?n]" "ds @ [b]"] p by auto
qed

section \<open>What is installed\<close>

text \<open>A build is released when the archive it is the executable of has a checksum published in a file that the
  pinned key signed, and when it runs and names its version.\<close>

definition released_build :: "update_world \<Rightarrow> string \<Rightarrow> string \<Rightarrow> bool" where
  "released_build w v binary \<longleftrightarrow>
     (\<exists>key checksums signature archive digest entries broken entry out.
        parsePublicKey w (uw_embedded_key w) = Inr key \<and> uw_verify w key (uw_sha256 w checksums) signature \<and>
        checksum_line (AssetName w v) (strings_Split checksums [CHR 0x0A]) = Some digest \<and>
        EqualFold (hex_encode (uw_sha256 w archive)) digest \<and>
        uw_tar w archive = Inr (entries, broken) \<and> tar_find entries = Some entry \<and>
        binary = take downloadLimit (te_content entry) \<and>
        uw_run w binary = (None, out) \<and> strings_Contains (updater_firstLine (TrimSpace out)) v)"

abbreviation real_fetcher :: "fetcher \<Rightarrow> bool" where
  "real_fetcher f \<equiv> \<not> ft_test_mode f \<and> ft_public_key f = None"

lemma verify_downloads_None:
  assumes "verify_downloads w f archivePath checksumsPath sigPath asset files = None" and "real_fetcher f"
  shows "\<exists>key checksums signature archive digest. parsePublicKey w (uw_embedded_key w) = Inr key \<and>
     uw_verify w key (uw_sha256 w checksums) signature \<and>
     checksum_line asset (strings_Split checksums [CHR 0x0A]) = Some digest \<and>
     read_file w files archivePath = Inr archive \<and> EqualFold (hex_encode (uw_sha256 w archive)) digest"
  using assms
  by (auto simp: verify_downloads_def verifyingKey_def Let_def verifySignature_def verifyChecksum_def checksumFor_def
      split: sum.splits option.splits if_splits)

lemma writeExtracted_ok:
  "writeExtracted w target c e files = (files', None) \<Longrightarrow> files' target = Some (take downloadLimit c)"
  by (auto simp: writeExtracted_def Let_def split: option.splits prod.splits dest: copy_to_ok)

lemma extractBinary_ok:
  assumes "extractBinary w archivePath target files = (files', None)" and "\<not> HasSuffix archivePath ''.zip''"
    and "read_file w files archivePath = Inr archive"
  shows "\<exists>entries broken entry. uw_tar w archive = Inr (entries, broken) \<and> tar_find entries = Some entry \<and>
     files' target = Some (take downloadLimit (te_content entry))"
  using assms
  by (auto simp: extractBinary_def extractFromTarGz_def split: sum.splits prod.splits option.splits dest: writeExtracted_ok)

lemma Fetch_ok:
  assumes "Fetch w f v dir files = (files', None)" and "real_fetcher f"
    and "\<not> HasSuffix (filepath_Join [dir, AssetName w (updater_Normalize v)]) ''.zip''"
  shows "\<exists>content. files' (filepath_Join [dir, ExecutableName]) = Some content \<and>
     released_build w (updater_Normalize v) content"
proof -
  let ?a = "filepath_Join [dir, AssetName w (updater_Normalize v)]" and ?b = "filepath_Join [dir, ExecutableName]"
  obtain g where g: "verify_downloads w f ?a (filepath_Join [dir, ''checksums.txt''])
        (filepath_Join [dir, ''checksums.txt.sig'']) (AssetName w (updater_Normalize v)) g = None"
      "extractBinary w ?a ?b g = (files', None)" "runVersionCheck w files' ?b (updater_Normalize v) = None"
    using assms(1) by (auto simp: Fetch_def Let_def and_then_def split: option.splits prod.splits)
  from verify_downloads_None [OF g(1) assms(2)] obtain key checksums signature archive digest
    where v: "parsePublicKey w (uw_embedded_key w) = Inr key" "uw_verify w key (uw_sha256 w checksums) signature"
      "checksum_line (AssetName w (updater_Normalize v)) (strings_Split checksums [CHR 0x0A]) = Some digest"
      "read_file w g ?a = Inr archive" "EqualFold (hex_encode (uw_sha256 w archive)) digest" by blast
  from extractBinary_ok [OF g(2) assms(3) v(4)] obtain entries broken entry
    where e: "uw_tar w archive = Inr (entries, broken)" "tar_find entries = Some entry"
      "files' ?b = Some (take downloadLimit (te_content entry))" by blast
  obtain out where "uw_run w (take downloadLimit (te_content entry)) = (None, out)"
      "strings_Contains (updater_firstLine (TrimSpace out)) (updater_Normalize v)"
    using g(3) e(3) by (auto simp: runVersionCheck_def Let_def split: prod.splits option.splits if_splits)
  with v e show ?thesis unfolding released_build_def by blast
qed

section \<open>The staging directory\<close>

definition fresh_dir :: "string \<Rightarrow> file_map \<Rightarrow> bool" where
  "fresh_dir dir files \<longleftrightarrow> file_path dir \<and> (\<forall>p. p = dir \<or> HasPrefix p (dir @ ''/'') \<longrightarrow> files p = None)"

lemma not_zip:
  assumes "file_path dir" and "CHR ''/'' \<notin> set v" and "CHR ''/'' \<notin> set (uw_arch w)"
  shows "\<not> HasSuffix (filepath_Join [dir, AssetName w (updater_Normalize v)]) ''.zip''"
proof -
  have "\<exists>u. filepath_Join [dir, AssetName w (updater_Normalize v)] = u @ ''.tar.gz''"
    using join_below [OF assms(1)] plain_asset [of "updater_Normalize v" w] assms(2,3) set_updater_Normalize
    by (fastforce simp: AssetName_def)
  then show ?thesis by (auto simp: HasSuffix_def suffix_def)
qed

text \<open>The self-replacement either fails and leaves the installed copy as it was, or installs a released build.\<close>

lemma replaceSelf_installs:
  assumes r: "replaceSelf w a r plan files = (files', err)"
    and fresh: "\<And>dir. staging_dir r = Inr dir \<Longrightarrow> fresh_dir dir files"
    and target: "file_path (pl_path plan)" "files (pl_path plan) \<noteq> None"
    and names: "CHR ''/'' \<notin> set (pl_target plan)" "CHR ''/'' \<notin> set (uw_arch w)" and f: "real_fetcher (ap_fetcher a)"
  shows "err \<noteq> None \<Longrightarrow> files' (pl_path plan) = files (pl_path plan)"
    and "err = None \<Longrightarrow> \<exists>content. files' (pl_path plan) = Some content \<and>
      released_build w (updater_Normalize (pl_target plan)) content"
proof -
  let ?t = "pl_path plan" and ?v = "pl_target plan"
  have "(err \<noteq> None \<longrightarrow> files' ?t = files ?t) \<and>
      (err = None \<longrightarrow> (\<exists>content. files' ?t = Some content \<and> released_build w (updater_Normalize ?v) content))"
  proof (cases "files' = files \<and> err \<noteq> None")
    case True
    then show ?thesis by auto
  next
    case False
    then obtain dir g where d: "staging_dir r = Inr dir" "files' = RemoveAll dir g"
        "and_then (Fetch w (ap_fetcher a) ?v dir files) (updater_Replace w (filepath_Join [dir, ExecutableName]) ?t) = (g, err)"
      using r by (auto simp: replaceSelf_def split: if_splits sum.splits prod.splits)
    note dir = fresh [OF d(1), unfolded fresh_dir_def]
    have below: "?t \<noteq> filepath_Join [dir, n]" if "plain_name n" for n
      using dir target(2) join_below [OF _ that] by (auto simp: HasPrefix_def prefix_def)
    have kept: "files' ?t = g ?t" using dir target(2) by (auto simp: d(2) RemoveAll_def)
    have asset: "plain_name (AssetName w (updater_Normalize ?v))"
      using plain_asset [of "updater_Normalize ?v" w] names set_updater_Normalize by blast
    obtain h e where h: "Fetch w (ap_fetcher a) ?v dir files = (h, e)" by force
    have same: "h ?t = files ?t"
      using Fetch_other [of ?t dir w ?v "ap_fetcher a" files] below asset plain_names by (simp add: h)
    show ?thesis
    proof (cases e)
      case (Some x)
      then show ?thesis using d(3) same kept by (auto simp: h and_then_def)
    next
      case None
      then have R: "updater_Replace w (filepath_Join [dir, ExecutableName]) ?t h = (g, err)"
        using d(3) by (simp add: h and_then_None)
      have "\<exists>content. h (filepath_Join [dir, ExecutableName]) = Some content \<and> released_build w (updater_Normalize ?v) content"
        using Fetch_ok [OF _ f not_zip] h None dir names by blast
      then show ?thesis
        using updater_Replace_target [OF staged_differs [OF target(1)] R] same kept
        by (auto simp: read_file_def split: option.splits)
    qed
  qed
  then show "err \<noteq> None \<Longrightarrow> files' ?t = files ?t"
    and "err = None \<Longrightarrow> \<exists>content. files' ?t = Some content \<and> released_build w (updater_Normalize ?v) content"
    by simp_all
qed

section \<open>Exit codes\<close>

abbreviation early_code :: "int \<Rightarrow> bool" where
  "early_code c \<equiv> c \<in> {ExitDownload, ExitChecksum, ExitNotWritable, ExitSignature}"

definition early :: "failure option \<Rightarrow> bool" where
  "early err = (case err of None \<Rightarrow> True | Some (c, _) \<Rightarrow> early_code c)"

lemma early_simps [simp]: "early None" "early (Some (c, m)) = early_code c"
  by (simp_all add: early_def)

lemma early_and_then: "early (snd r) \<Longrightarrow> (\<And>g. early (snd (f g))) \<Longrightarrow> early (snd (and_then r f))"
  by (cases r) (auto simp: and_then_def split: option.splits)

lemma early_fetch_download: "early (snd (fetch_download w s u t n files))"
  by (auto simp: fetch_download_def Let_def case_prod_unfold split: sum.split option.split)

lemma early_downloadSignature: "early (snd (downloadSignature w s u t files))"
  by (auto simp: downloadSignature_def Let_def case_prod_unfold early_def split: option.split)

lemma early_verify_downloads: "early (verify_downloads w f a c s asset files)"
  by (auto simp: verify_downloads_def verifyingKey_def parsePublicKey_def verifySignature_def verifyChecksum_def
      checksumFor_def Let_def early_def split: sum.splits option.splits if_splits)

lemma early_writeExtracted: "early (snd (writeExtracted w t c e files))"
  by (auto simp: writeExtracted_def Let_def case_prod_unfold split: option.split)

lemma early_extractBinary: "early (snd (extractBinary w a t files))"
  by (auto simp: extractBinary_def extractFromZip_def extractFromTarGz_def early_writeExtracted split: sum.split option.split)

lemma early_runVersionCheck: "early (runVersionCheck w files p v)"
  by (auto simp: runVersionCheck_def Let_def early_def split: prod.splits option.splits if_splits)

lemma early_case: "early e \<Longrightarrow> early (snd r) \<Longrightarrow> early (snd (case e of Some err \<Rightarrow> (files, Some err) | None \<Rightarrow> r))"
  by (cases e) simp_all

lemma early_Fetch: "early (snd (Fetch w f v dir files))"
  unfolding Fetch_def Let_def
  by (cases "df_mkdir (uw_faults w) dir")
    (simp_all add: early_and_then early_case early_fetch_download early_downloadSignature early_extractBinary
      early_runVersionCheck early_verify_downloads)

lemma early_copyExecutable: "early (snd (copyExecutable w b t files))"
  by (auto simp: copyExecutable_def Let_def case_prod_unfold split: sum.split option.split)

lemma early_updater_swap: "early (snd (updater_swap w b t files))"
  by (auto simp: updater_swap_def split: option.split)

lemma early_updater_Replace: "early (snd (updater_Replace w b t files))"
proof -
  obtain g e where c: "copyExecutable w b (staged_path t) files = (g, e)" by force
  obtain h x where s: "updater_swap w (staged_path t) t g = (h, x)" by force
  show ?thesis
    using early_copyExecutable [of w b "staged_path t" files] early_updater_swap [of w "staged_path t" t g]
    by (cases e; cases x) (simp_all add: updater_Replace_def Let_def c s)
qed

lemma early_replaceSelf: "early (snd (replaceSelf w a r plan files))"
  using early_and_then [OF early_Fetch early_updater_Replace]
  by (auto simp: replaceSelf_def staging_dir_def Let_def case_prod_unfold split: sum.splits option.splits)

lemma afterReplacement_code: "afterReplacement r plan = Some (c, m) \<Longrightarrow> c = ExitPostUpdate"
  by (auto simp: afterReplacement_def applier_verify_def split: option.splits sum.splits if_splits)

end
