(* ===== verification/Updater_Properties.thy ===== *)
theory Updater_Properties
  imports Updater_Lemmas
begin

text \<open>
  The properties of the updater: the order of versions, the configuration it runs under, when it looks for a release
  and offers one, and what an update leaves on the machine.
\<close>

section \<open>Versions\<close>

text \<open>C39. The comparison of versions is a total order. Two versions that can be read compare as their keys do, and
  the keys are linearly ordered: by the three numbers, then a release above its pre-releases, then the fields of
  the pre-release, numbers below texts and a prefix below what extends it. A version that cannot be read compares
  with nothing.\<close>

theorem compare_is_key_order:
  "compareSemver a b =
     (case (splitSemver a, splitSemver b) of
        (Some x, Some y) \<Rightarrow> Some (sign_of (version_key x) (version_key y))
      | _ \<Rightarrow> None)"
  by (rule compareSemver_keys)

section \<open>The configuration\<close>

text \<open>C40. Whatever is loaded is well formed: for every file, every decoder and every environment the resulting
  configuration has a known log level, positive time limits, durations that parse to a positive length, and one of
  the two channels.\<close>

theorem loaded_config_well_formed:
  assumes "duration_ok parse ''24h''" and "duration_ok parse ''30s''"
  shows "config_ok parse (fst (config_Load parse decode env read path))"
  by (rule config_Load_ok [OF assms])

definition sample_durations :: duration_parser where
  "sample_durations = [''24h'' \<mapsto> hours 24, ''30s'' \<mapsto> seconds 30]"

lemma sample_durations_ok: "duration_ok sample_durations ''24h''" "duration_ok sample_durations ''30s''"
  by code_simp+

theorem loaded_config_well_formed_witness:
  "config_ok sample_durations (fst (config_Load sample_durations (\<lambda>_ c. Inr (c\<lparr>LogLevel := ''WARN''\<rparr>, [''future'']))
     (\<lambda>_. ''beta'') (\<lambda>_. Content ''x'') ''/c''))"
  by (rule loaded_config_well_formed [OF sample_durations_ok])

section \<open>Skipped versions\<close>














section \<open>Checks\<close>

lemma backoff_bounds:
  "CheckEvery parse cfg \<le> backoffFor parse n cfg" "backoffFor parse n cfg \<le> max (CheckEvery parse cfg) (hours 24)"
proof -
  define i where "i = (let m = (if n < 1 then 1 else n) - 1 in if 3 \<le> m then 2 else m)"
  have "i = 0 \<or> i = 1 \<or> i = 2" by (auto simp: i_def Let_def)
  then have w: "backoffSchedule ! nat i \<in> {hours 1, hours 6, hours 24}" by (auto simp: backoffSchedule_def)
  have "backoffFor parse n cfg = max (CheckEvery parse cfg) (backoffSchedule ! nat i)"
    by (simp add: backoffFor_def Let_def i_def max_def backoffSchedule_def)
  with w show "CheckEvery parse cfg \<le> backoffFor parse n cfg"
    "backoffFor parse n cfg \<le> max (CheckEvery parse cfg) (hours 24)" by auto
qed

lemma RecordCheckOK_next: "us_next_check_after (RecordCheckOK parse now l cfg s) = Some (now + CheckEvery parse cfg)"
  by (simp add: RecordCheckOK_def Let_def)

definition store_works :: "store_io \<Rightarrow> bool" where
  "store_works io = (io_dir io = None \<and> io_lock io = None \<and> io_write io = None)"

lemma Store_Mutate_works:
  "store_works io \<Longrightarrow> Store_Mutate path io change file =
     ((change (LoadOrZero path file), None), StateStored ((change (LoadOrZero path file))\<lparr>us_schema := StateSchema\<rparr>))"
  by (simp add: store_works_def Store_Mutate_def Store_Save_def Let_def)

lemma LoadOrZero_Stored: "us_schema st = StateSchema \<Longrightarrow> LoadOrZero path (StateStored st) = st"
  by (simp add: LoadOrZero_def Store_Load_def StateSchema_def)

text \<open>C37. Checks are rare and do not stop. Whatever the state file held (nothing, a state, or something that cannot
  be read) and whatever the release host answered, after a check whose result can be stored the next one is not due
  before the configured interval is over, and it is due once the longer of that interval and 24 hours is.\<close>

theorem next_check_in_time:
  assumes "Checker_Check parse path io c h now file ls = ((st, err), file', ls')" and "store_works io"
  shows "\<exists>st'. file' = StateStored st' \<and> us_schema st' = StateSchema \<and> us_last_check_at st' = Some now \<and>
    (\<forall>t < now + CheckEvery parse (ck_updates c). \<not> CheckDue (LoadOrZero path file') t (ck_updates c)) \<and>
    (\<forall>t \<ge> now + max (CheckEvery parse (ck_updates c)) (hours 24).
       CheckDue (LoadOrZero path file') t (ck_updates c) = Check (ck_updates c))"
proof -
  obtain st' wait where st': "file' = StateStored st'" "us_schema st' = StateSchema" "us_last_check_at st' = Some now"
      "us_next_check_after st' = Some (now + wait)" "CheckEvery parse (ck_updates c) \<le> wait"
      "wait \<le> max (CheckEvery parse (ck_updates c)) (hours 24)"
  proof (cases "discover h (ck_sources c) (ck_updates c)")
    case (Inl reason)
    then show thesis
      using assms(1) backoff_bounds
      by (intro that) (auto simp: Checker_Check_def Store_Mutate_works [OF assms(2)] RecordCheckFailure_def Let_def)
  next
    case (Inr found)
    then show thesis
      using assms(1)
      by (intro that [of _ "CheckEvery parse (ck_updates c)"])
        (auto simp: Checker_Check_def Store_Mutate_works [OF assms(2)] RecordCheckOK_next Let_def RecordCheckOK_def)
  qed
  then show ?thesis by (auto simp: LoadOrZero_Stored CheckDue_def)
qed

definition sample_sources :: release_sources where
  "sample_sources = SourcesFromEnv False (\<lambda>_. [])"

definition sample_checker :: checker where
  "sample_checker = \<lparr>ck_updates = Updates Default, ck_sources = sample_sources, ck_installed = ''1.2.0'',
     ck_install_channel = ChannelScript\<rparr>"

definition offline_host :: release_host where
  "offline_host = \<lparr>rh_parse = (\<lambda>_. Inl ''no url''), rh_resolve = (\<lambda>_ _. Inl ''no url''), rh_do = (\<lambda>_ _. Inl ''offline''),
     rh_decode = (\<lambda>_. Inl ''no feed'')\<rparr>"

definition sample_io :: store_io where
  "sample_io = \<lparr>io_dir = None, io_lock = None, io_write = None\<rparr>"

definition offline_check :: "(update_state \<times> string option) \<times> state_file \<times> history" where
  "offline_check = Checker_Check sample_durations ''/s'' sample_io sample_checker offline_host 7 (StateCorrupt ''eof'') []"

lemma sample_interval: "CheckEvery sample_durations (Updates Default) = hours 24"
  by code_simp

theorem next_check_in_time_witness:
  "\<exists>st'. fst (snd offline_check) = StateStored st' \<and> us_schema st' = StateSchema \<and> us_last_check_at st' = Some 7 \<and>
    \<not> CheckDue (LoadOrZero ''/s'' (fst (snd offline_check))) 8 (Updates Default) \<and>
    CheckDue (LoadOrZero ''/s'' (fst (snd offline_check))) (7 + hours 24) (Updates Default) = Check (Updates Default)"
proof -
  have "(8 :: int) < 7 + hours 24" "7 + max (hours 24) (hours 24) \<le> 7 + hours 24" by code_simp+
  then show ?thesis
    using next_check_in_time [of sample_durations "''/s''" sample_io sample_checker offline_host 7 "StateCorrupt ''eof''" "[]"
        "fst (fst offline_check)" "snd (fst offline_check)" "fst (snd offline_check)" "snd (snd offline_check)"]
    by (auto simp: offline_check_def store_works_def sample_io_def sample_checker_def sample_interval)
qed

section \<open>Updates\<close>

lemma Apply_steps:
  assumes "applier_Apply w path io a r plan (files, file, ls) = ((files', file', ls'), err)"
  shows "files' = files \<and> (\<exists>c m. err = Some (c, m) \<and> c \<in> {ExitUsage, ExitInProgress}) \<or>
    apply_steps w a r plan files = (files', err)"
  using assms by (auto simp: applier_Apply_def Let_def split: option.splits lock_error.splits prod.splits if_splits)

lemma Apply_error:
  "store_works io \<Longrightarrow> ur_lock r = None \<Longrightarrow>
   snd (applier_Apply w path io a r plan (files, file, ls)) = snd (apply_steps w a r plan files)"
  by (simp add: applier_Apply_def Store_Mutate_works Let_def case_prod_unfold)

text \<open>C23. An update installs released builds only, and its exit code says whether it did. When Intenter replaces its
  own executable on a real installation, then either the installed file is afterwards the executable of an archive
  whose checksum is published in a file signed with the pinned key, and which ran and named the version, or it is
  the same as before; and it was replaced exactly when the update succeeded or failed with the code of a failure
  after the replacement.\<close>

theorem update_installs_released_builds:
  assumes "applier_Apply w path io a r plan (files, file, ls) = ((files', file', ls'), err)"
    and "pl_delegate plan = []" and "real_fetcher (ap_fetcher a)"
    and "\<And>dir. staging_dir r = Inr dir \<Longrightarrow> fresh_dir dir files"
    and "file_path (pl_path plan)" and "files (pl_path plan) \<noteq> None"
    and "CHR ''/'' \<notin> set (pl_target plan)" and "CHR ''/'' \<notin> set (uw_arch w)"
  shows "if err = None \<or> (\<exists>m. err = Some (ExitPostUpdate, m))
    then \<exists>content. files' (pl_path plan) = Some content \<and> released_build w (updater_Normalize (pl_target plan)) content
    else files' (pl_path plan) = files (pl_path plan)"
proof (cases "apply_steps w a r plan files = (files', err)")
  case False
  then show ?thesis
    using Apply_steps [OF assms(1)] by (auto simp: ExitUsage_def ExitInProgress_def ExitPostUpdate_def)
next
  case True
  obtain g e where r: "replaceSelf w a r plan files = (g, e)" by force
  note R = replaceSelf_installs [OF r assms(4-8,3)]
  show ?thesis
  proof (cases e)
    case None
    then have "files' = g" "err = afterReplacement r plan" using True assms(2) r by (simp_all add: apply_steps_def and_then_def)
    then show ?thesis using R(2) None afterReplacement_code by (cases err) auto
  next
    case (Some x)
    then have "files' = g" "err = Some x" using True assms(2) r by (simp_all add: apply_steps_def and_then_def)
    moreover have "early (Some x)" using early_replaceSelf [of w a r plan files] by (simp add: r Some)
    ultimately show ?thesis
      using R(1) Some
      by (cases x) (auto simp: ExitDownload_def ExitChecksum_def ExitNotWritable_def ExitSignature_def ExitPostUpdate_def)
  qed
qed

text \<open>A release host that serves version 1.3.0, and a machine with an older copy.\<close>

definition sample_host :: release_host where
  "sample_host = \<lparr>rh_parse = (\<lambda>u. Inr \<lparr>ru_scheme = ''https'', ru_path = u, ru_text = u\<rparr>),
     rh_resolve = (\<lambda>_ _. Inl ''no url''),
     rh_do = (\<lambda>_ u. Inr \<lparr>hr_status_code = 200, hr_status = ''200 OK'', hr_location = [],
       hr_body = (if HasSuffix u ''.sig'' then ''S''
                  else if HasSuffix u ''.txt'' then ''61  intenter_1.3.0_linux_amd64.tar.gz'' else ''a''),
       hr_read_error = None\<rparr>),
     rh_decode = (\<lambda>_. Inl ''no feed'')\<rparr>"

definition sample_world :: update_world where
  "sample_world = \<lparr>uw_host = sample_host, uw_arch = ''amd64'', uw_sha256 = (\<lambda>x. x), uw_base64 = Inr,
     uw_verify = (\<lambda>k _ sig. k = ''K'' \<and> sig = ''S''), uw_pem = Some, uw_pkix = (\<lambda>b. Inr (True, b)), uw_embedded_key = ''K'',
     uw_tar = (\<lambda>_. Inr ([\<lparr>te_regular = True, te_name = ''intenter'', te_content = ''new'', te_read_error = None\<rparr>], None)),
     uw_zip = (\<lambda>_. Inl ''no zip''), uw_run = (\<lambda>_. (None, ''intenter 1.3.0'')),
     uw_faults = \<lparr>df_read = (\<lambda>_. None), df_create = (\<lambda>_. None), df_copy = (\<lambda>_. None), df_chmod = (\<lambda>_. None),
       df_mkdir = (\<lambda>_. None), df_rename = (\<lambda>_. None)\<rparr>\<rparr>"

definition sample_fetcher :: fetcher where
  "sample_fetcher = \<lparr>ft_sources = sample_sources, ft_test_mode = False, ft_env = (\<lambda>_. []), ft_public_key = None\<rparr>"

definition sample_applier :: "install \<Rightarrow> applier" where
  "sample_applier i = \<lparr>ap_fetcher = sample_fetcher, ap_install = i, ap_installed = ''1.2.0'', ap_lock_held = False, ap_pid = 9\<rparr>"

definition script_install :: install where
  "script_install = \<lparr>in_channel = ChannelScript, in_path = ''/u/intenter'', in_resolved = ''/u/intenter'', in_writable = True\<rparr>"

definition sample_run :: update_run where
  "sample_run = \<lparr>ur_lock = None, ur_staging = Inr ''/d/up'', ur_temp_path = ''/d'', ur_temp_dir = None, ur_staging_again = Inr ''/d/up'',
     ur_delegate = None, ur_restart = None, ur_pings = [], ur_wait = ''5s'', ur_start = 3, ur_end = 4\<rparr>"

definition old_files :: file_map where
  "old_files = [''/u/intenter'' \<mapsto> ''old'']"

definition planned :: "install \<Rightarrow> update_plan" where
  "planned i = projr (BuildPlan sample_world (sample_applier i) zero_state (\<lambda>_. []) ''v1.3.0'')"

abbreviation update_of :: "install \<Rightarrow> machine \<times> failure option" where
  "update_of i \<equiv> applier_Apply sample_world ''/s'' sample_io (sample_applier i) sample_run (planned i) (old_files, NoState, [])"

lemma sample_plan: "pl_delegate (planned script_install) = []" "pl_path (planned script_install) = ''/u/intenter''"
  "pl_target (planned script_install) = ''1.3.0''"
  by code_simp+

lemma sample_install: "in_writable (ap_install (sample_applier script_install))" "ap_fetcher (sample_applier i) = sample_fetcher"
  by (simp_all add: sample_applier_def script_install_def)

lemma sample_staging: "fresh_dir ''/d/up'' old_files"
proof -
  have "file_path ''/d/up''" unfolding file_path_def by code_simp
  then show ?thesis by (auto simp: fresh_dir_def old_files_def HasPrefix_def)
qed

lemma fetch_download_short:
  assumes "rh_parse (uw_host w) url = Inr u" and "allowScheme s u = None" and "rh_do (uw_host w) True url = Inr response"
    and "hr_status_code response = 200" and "df_create (uw_faults w) t = None" and "df_copy (uw_faults w) t = None"
    and "length (hr_body response) \<le> n" and "hr_read_error response = None"
  shows "fetch_download w s url t n files = (files(t \<mapsto> hr_body response), None)"
  using assms by (simp add: fetch_download_def copy_to_def Let_def)

lemma sample_download:
  assumes "64 < n"
  shows "fetch_download sample_world sample_sources url t n files =
    (files(t \<mapsto> if HasSuffix url ''.sig'' then ''S''
       else if HasSuffix url ''.txt'' then ''61  intenter_1.3.0_linux_amd64.tar.gz'' else ''a''), None)"
  by (subst fetch_download_short) (use assms in \<open>auto simp: sample_world_def sample_host_def allowScheme_def\<close>)

lemma sample_paths:
  "updater_Normalize ''1.3.0'' = ''1.3.0''"
  "filepath_Join [''/d/up'', ''intenter_1.3.0_linux_amd64.tar.gz''] = ''/d/up/intenter_1.3.0_linux_amd64.tar.gz''"
  "filepath_Join [''/d/up'', ''checksums.txt''] = ''/d/up/checksums.txt''"
  "filepath_Join [''/d/up'', ''checksums.txt.sig''] = ''/d/up/checksums.txt.sig''"
  "filepath_Join [''/d/up'', ExecutableName] = ''/d/up/intenter''"
  "AssetName sample_world ''1.3.0'' = ''intenter_1.3.0_linux_amd64.tar.gz''"
  by code_simp+

definition fetched_files :: file_map where
  "fetched_files = old_files(''/d/up/intenter_1.3.0_linux_amd64.tar.gz'' \<mapsto> ''a'',
     ''/d/up/checksums.txt'' \<mapsto> ''61  intenter_1.3.0_linux_amd64.tar.gz'', ''/d/up/checksums.txt.sig'' \<mapsto> ''S'')"

lemma sample_fetch:
  "Fetch sample_world sample_fetcher ''1.3.0'' ''/d/up'' old_files = (fetched_files(''/d/up/intenter'' \<mapsto> ''new''), None)"
proof -
  have v: "verify_downloads sample_world sample_fetcher ''/d/up/intenter_1.3.0_linux_amd64.tar.gz'' ''/d/up/checksums.txt''
      ''/d/up/checksums.txt.sig'' ''intenter_1.3.0_linux_amd64.tar.gz'' fetched_files = None"
    by code_simp
  have "Base ''intenter'' = ''intenter''" "\<not> HasSuffix ''/d/up/intenter_1.3.0_linux_amd64.tar.gz'' ''.zip''" by code_simp+
  then have x: "extractBinary sample_world ''/d/up/intenter_1.3.0_linux_amd64.tar.gz'' ''/d/up/intenter'' fetched_files =
      (fetched_files(''/d/up/intenter'' \<mapsto> ''new''), None)"
    by (simp add: extractBinary_def extractFromTarGz_def read_file_def fetched_files_def sample_world_def
        ExecutableName_def writeExtracted_def copy_to_def downloadLimit_def)
  have r: "runVersionCheck sample_world (fetched_files(''/d/up/intenter'' \<mapsto> ''new'')) ''/d/up/intenter'' ''1.3.0'' = None"
    by code_simp
  let ?b = "so_download_base sample_sources @ ''/v'' @ ''1.3.0''"
  have u: "\<not> HasSuffix (?b @ ''/'' @ ''intenter_1.3.0_linux_amd64.tar.gz'') ''.sig''"
      "\<not> HasSuffix (?b @ ''/'' @ ''intenter_1.3.0_linux_amd64.tar.gz'') ''.txt''"
      "\<not> HasSuffix (?b @ ''/checksums.txt'') ''.sig''" "HasSuffix (?b @ ''/checksums.txt'') ''.txt''"
      "HasSuffix (?b @ ''/checksums.txt.sig'') ''.sig''"
    by code_simp+
  have f: "ft_sources sample_fetcher = sample_sources" "df_mkdir (uw_faults sample_world) = (\<lambda>_. None)"
    by (simp_all add: sample_fetcher_def sample_world_def)
  show ?thesis
    using v x r u
    by (simp add: Fetch_def Let_def sample_paths f and_then_None sample_download downloadLimit_def checksumsLimit_def
        downloadSignature_def signatureLimit_def fetched_files_def)
qed

theorem update_installs_released_builds_witness:
  "snd (update_of script_install) = None \<and>
   (\<exists>content. fst (fst (update_of script_install)) ''/u/intenter'' = Some content \<and>
      released_build sample_world (updater_Normalize ''1.3.0'') content)"
proof -
  have "snd (updater_Replace sample_world ''/d/up/intenter'' ''/u/intenter'' (fetched_files(''/d/up/intenter'' \<mapsto> ''new''))) = None"
    by code_simp
  then have "snd (apply_steps sample_world (sample_applier script_install) sample_run (planned script_install) old_files) = None"
    by (simp add: apply_steps_def replaceSelf_def sample_plan sample_paths sample_install sample_run_def
        staging_dir_def sample_fetch and_then_def afterReplacement_def case_prod_unfold Let_def split: option.split)
  then have success: "snd (update_of script_install) = None"
    by (simp add: Apply_error store_works_def sample_io_def sample_run_def)
  have exe: "file_path ''/u/intenter''" unfolding file_path_def by code_simp
  have "if snd (update_of script_install) = None \<or> (\<exists>m. snd (update_of script_install) = Some (ExitPostUpdate, m))
    then \<exists>content. fst (fst (update_of script_install)) (pl_path (planned script_install)) = Some content \<and>
      released_build sample_world (updater_Normalize (pl_target (planned script_install))) content
    else fst (fst (update_of script_install)) (pl_path (planned script_install)) = old_files (pl_path (planned script_install))"
  proof (rule update_installs_released_builds)
    show "update_of script_install = ((fst (fst (update_of script_install)), fst (snd (fst (update_of script_install))),
        snd (snd (fst (update_of script_install)))), snd (update_of script_install))" by simp
    show "\<And>dir. staging_dir sample_run = Inr dir \<Longrightarrow> fresh_dir dir old_files"
      using sample_staging by (simp add: staging_dir_def sample_run_def)
  qed (use exe in \<open>simp_all add: sample_plan sample_applier_def sample_fetcher_def sample_world_def old_files_def\<close>)
  with success show ?thesis by (simp add: sample_plan)
qed

text \<open>The version may not hold a slash: a text with build metadata can, is accepted as a version, and then names a
  file outside the staging directory.\<close>

lemma version_with_slash_escapes:
  "ParseVersion ''1.3.0+/../../u/x'' = Some ''1.3.0+/../../u/x'' \<and>
   filepath_Join [''/d/up'', AssetName sample_world ''1.3.0+/../../u/x''] = ''/d/u/x_linux_amd64.tar.gz''"
  by code_simp

text \<open>C38. A copy that a package manager owns is never overwritten. When the executable is a link into a Homebrew
  cellar, then every plan built for it hands the update to Homebrew, and no file is changed by it, whatever the
  installers recorded and however the update ends.\<close>

theorem managed_copy_never_replaced:
  assumes "ap_install a = DetectInstall w follow probe files exe_path homeDir dataDir" and "TrimSpace exe_path \<noteq> []"
    and "follow exe_path = Some resolved" and "underElements resolved [''Cellar'']"
    and "BuildPlan w a st shadowing target = Inr plan"
    and "applier_Apply w path io a r plan (files, stored, ls) = ((files', stored', ls'), err)"
  shows "files' = files \<and> pl_delegate plan = [''brew'', ''upgrade'', ''Vadym903/tap/intenter'']"
proof -
  have "in_channel (ap_install a) = ChannelHomebrew"
    using assms(1-4) by (simp add: DetectInstall_def Let_def classifyChannel_def)
  then have plan: "pl_delegate plan = [''brew'', ''upgrade'', ''Vadym903/tap/intenter'']"
    using assms(5) by (auto simp: BuildPlan_def Let_def delegateCommand_def split: option.splits if_splits)
  with Apply_steps [OF assms(6)] show ?thesis
    by (auto simp: apply_steps_def and_then_def split: option.splits)
qed

definition brew_install :: install where
  "brew_install = DetectInstall sample_world [''/u/intenter'' \<mapsto> ''/opt/Cellar/intenter/1.2.0/bin/intenter''] (\<lambda>_. True)
     old_files ''/u/intenter'' ''/u'' ''/d''"

theorem managed_copy_never_replaced_witness:
  "fst (fst (update_of brew_install)) = old_files \<and>
   pl_delegate (planned brew_install) = [''brew'', ''upgrade'', ''Vadym903/tap/intenter'']"
proof (rule managed_copy_never_replaced [where exe_path = "''/u/intenter''" and homeDir = "''/u''" and dataDir = "''/d''"
      and resolved = "''/opt/Cellar/intenter/1.2.0/bin/intenter''" and probe = "\<lambda>_. True" and target = "''v1.3.0''"
      and follow = "[''/u/intenter'' \<mapsto> ''/opt/Cellar/intenter/1.2.0/bin/intenter'']" and st = zero_state
      and w = sample_world and a = "sample_applier brew_install" and shadowing = "\<lambda>_. []" and path = "''/s''"
      and io = sample_io and r = sample_run and stored = NoState and ls = "[]" and files' = "fst (fst (update_of brew_install))"
      and stored' = "fst (snd (fst (update_of brew_install)))" and ls' = "snd (snd (fst (update_of brew_install)))"
      and err = "snd (update_of brew_install)"])
  show "ap_install (sample_applier brew_install) = DetectInstall sample_world
      [''/u/intenter'' \<mapsto> ''/opt/Cellar/intenter/1.2.0/bin/intenter''] (\<lambda>_. True) old_files ''/u/intenter'' ''/u'' ''/d''"
    by (simp add: sample_applier_def brew_install_def)
  show "underElements ''/opt/Cellar/intenter/1.2.0/bin/intenter'' [''Cellar'']" "TrimSpace ''/u/intenter'' \<noteq> []" by code_simp+
  have "ParseVersion ''v1.3.0'' \<noteq> None" "TrimSpace ''v1.3.0'' \<noteq> []" by code_simp+
  then show "BuildPlan sample_world (sample_applier brew_install) zero_state (\<lambda>_. []) ''v1.3.0'' = Inr (planned brew_install)"
    by (auto simp: planned_def BuildPlan_def Let_def)
  show "update_of brew_install = ((fst (fst (update_of brew_install)), fst (snd (fst (update_of brew_install))),
      snd (snd (fst (update_of brew_install)))), snd (update_of brew_install))" by simp
qed simp

end
